(* ===== verification/Prelude.thy ===== *)
theory Prelude
  imports Main "HOL-Library.Word" "HOL-Library.Char_ord" "HOL-Library.List_Lexorder"
    "HOL-Library.Product_Lexorder"
begin

text \<open>
  What every component of the development shares: Go's 64-bit integers as
  mathematical integers with the wrap-around written out, instants and
  durations, error values with Go's wrapping and matching, and the generic
  lemmas about lists and filters that the component proofs use.
\<close>

named_theorems go_int "range facts for 64-bit wrap-around"
named_theorems go_err "evaluation of error matching"
named_theorems wp_simps "weakest preconditions of the state-and-error operations"

section \<open>Machine integers\<close>

text \<open>
  An \<open>int64\<close> expression is computed over the integers and brought back into
  range by \<open>i64\<close> after every operation that can overflow; an unsigned one by
  the corresponding modulus.
\<close>

definition i64 :: "int \<Rightarrow> int" where
  "i64 x = (x + 2 ^ 63) mod 2 ^ 64 - 2 ^ 63"

definition in_i64 :: "int \<Rightarrow> bool" where
  "in_i64 x \<longleftrightarrow> - (2 ^ 63) \<le> x \<and> x < 2 ^ 63"

definition u64 :: "int \<Rightarrow> int" where
  "u64 x = x mod 2 ^ 64"

abbreviation maxInt64 :: int where
  "maxInt64 \<equiv> 9223372036854775807"

lemma i64_in_range [go_int, simp]: "in_i64 (i64 x)"
proof -
  have "0 \<le> (x + 2 ^ 63) mod 2 ^ 64" "(x + 2 ^ 63) mod 2 ^ 64 < (2 ^ 64 :: int)"
    by simp_all
  then show ?thesis
    by (simp add: in_i64_def i64_def)
qed

lemma i64_id [go_int]: "in_i64 x \<Longrightarrow> i64 x = x"
  by (simp add: in_i64_def i64_def)

lemma i64_idem [simp]: "i64 (i64 x) = i64 x"
  by (simp add: i64_id)

lemma in_i64_bounds: "in_i64 x \<longleftrightarrow> - 9223372036854775808 \<le> x \<and> x \<le> maxInt64"
  by (auto simp: in_i64_def)

lemma in_i64_nonneg: "0 \<le> x \<Longrightarrow> x \<le> maxInt64 \<Longrightarrow> in_i64 x"
  by (simp add: in_i64_bounds)

lemma u64_id [go_int]: "0 \<le> x \<Longrightarrow> x < 2 ^ 64 \<Longrightarrow> u64 x = x"
  by (simp add: u64_def)

section \<open>Time\<close>

text \<open>
  An instant is the number of nanoseconds since Go's zero \<open>time.Time\<close>, so that
  \<open>IsZero\<close> is equality with 0 and \<open>Before\<close>, \<open>After\<close> and \<open>Add\<close> are the integer
  order and addition. A duration is an \<open>int64\<close> of nanoseconds.
\<close>

type_synonym time = int
type_synonym duration = int

definition seconds :: "int \<Rightarrow> duration" where
  "seconds n = i64 (n * 1000000000)"

lemma seconds_exact [go_int]:
  "0 \<le> n \<Longrightarrow> n \<le> 9223372036 \<Longrightarrow> seconds n = n * 1000000000"
  unfolding seconds_def by (rule i64_id) (simp add: in_i64_def)

section \<open>Errors\<close>

text \<open>
  A Go error is a sentinel of the component, a wrapping of one error
  (\<open>fmt.Errorf\<close> with a \<open>%w\<close> verb), a join of several (\<open>errors.Join\<close>), or an
  error that matches no sentinel. The message text is not kept.
\<close>

datatype 'e go_error = Sentinel 'e | Wrapped "'e go_error" | Joined "'e go_error list" | Opaque

fun errors_Is :: "'e \<Rightarrow> 'e go_error \<Rightarrow> bool" where
  "errors_Is t (Sentinel e) = (e = t)"
| "errors_Is t (Wrapped e) = errors_Is t e"
| "errors_Is t (Joined es) = list_ex (errors_Is t) es"
| "errors_Is t Opaque = False"

text \<open>\<open>errors.As\<close> returns the first match of a depth-first walk.\<close>

fun errors_As :: "('e \<Rightarrow> 'b option) \<Rightarrow> 'e go_error \<Rightarrow> 'b option"
and errors_As_list :: "('e \<Rightarrow> 'b option) \<Rightarrow> 'e go_error list \<Rightarrow> 'b option" where
  "errors_As f (Sentinel e) = f e"
| "errors_As f (Wrapped e) = errors_As f e"
| "errors_As f (Joined es) = errors_As_list f es"
| "errors_As f Opaque = None"
| "errors_As_list f [] = None"
| "errors_As_list f (e # es) = (case errors_As f e of Some b \<Rightarrow> Some b | None \<Rightarrow> errors_As_list f es)"

type_synonym ('e, 'a) result = "'e go_error + 'a"

text \<open>\<open>errors.Join\<close> drops nil errors and returns nil when none is left.\<close>

definition errors_Join :: "'e go_error option list \<Rightarrow> 'e go_error option" where
  "errors_Join es = (let xs = List.map_filter id es in if xs = [] then None else Some (Joined xs))"

lemma errors_Join_None [go_err]: "errors_Join es = None \<longleftrightarrow> (\<forall>e \<in> set es. e = None)"
  by (induction es) (auto simp: errors_Join_def Let_def List.map_filter_simps split: option.splits if_splits)

lemma errors_Is_Join [go_err]:
  "errors_Join es = Some e \<Longrightarrow> errors_Is t e \<longleftrightarrow> (\<exists>x. Some x \<in> set es \<and> errors_Is t x)"
proof -
  assume "errors_Join es = Some e"
  then have e: "e = Joined (List.map_filter id es)"
    by (simp add: errors_Join_def Let_def split: if_splits)
  have "set (List.map_filter id es) = {x. Some x \<in> set es}"
    by (induction es) (auto split: option.splits)
  then show ?thesis
    by (auto simp: e list_ex_iff)
qed

section \<open>Stateful operations that can fail\<close>

text \<open>
  An operation on a state returns a value or an error, and the state it leaves
  behind in both cases. \<open>wp\<close> is its weakest precondition for a postcondition on
  success and one on failure; the rules in \<open>wp_simps\<close> compute it by the
  structure of the operation.
\<close>

type_synonym ('s, 'e, 'a) st = "'s \<Rightarrow> ('e, 'a) result \<times> 's"

definition st_return :: "'a \<Rightarrow> ('s, 'e, 'a) st" where
  "st_return a s = (Inr a, s)"

definition st_fail :: "'e go_error \<Rightarrow> ('s, 'e, 'a) st" where
  "st_fail e s = (Inl e, s)"

definition st_bind :: "('s, 'e, 'a) st \<Rightarrow> ('a \<Rightarrow> ('s, 'e, 'b) st) \<Rightarrow> ('s, 'e, 'b) st" where
  "st_bind m f s = (case m s of (Inl e, s') \<Rightarrow> (Inl e, s') | (Inr a, s') \<Rightarrow> f a s')"

definition st_get :: "('s \<Rightarrow> 'a) \<Rightarrow> ('s, 'e, 'a) st" where
  "st_get f s = (Inr (f s), s)"

definition st_modify :: "('s \<Rightarrow> 's) \<Rightarrow> ('s, 'e, unit) st" where
  "st_modify f s = (Inr (), f s)"

text \<open>\<open>st_guard\<close> is the early return of an error; \<open>st_catch\<close> continues from the result.\<close>

definition st_guard :: "bool \<Rightarrow> 'e go_error \<Rightarrow> ('s, 'e, unit) st" where
  "st_guard b e = (if b then st_return () else st_fail e)"

definition st_catch :: "('s, 'e, 'a) st \<Rightarrow> (('e, 'a) result \<Rightarrow> ('s, 'f, 'b) st) \<Rightarrow> ('s, 'f, 'b) st" where
  "st_catch m f s = (case m s of (r, s') \<Rightarrow> f r s')"

definition wp :: "('s, 'e, 'a) st \<Rightarrow> ('a \<Rightarrow> 's \<Rightarrow> bool) \<Rightarrow> ('e go_error \<Rightarrow> 's \<Rightarrow> bool) \<Rightarrow> 's \<Rightarrow> bool" where
  "wp m Q E s = (case m s of (Inr a, s') \<Rightarrow> Q a s' | (Inl e, s') \<Rightarrow> E e s')"

lemma wp_return [wp_simps]: "wp (st_return a) Q E s = Q a s"
  by (simp add: wp_def st_return_def)

lemma wp_return_fun: "wp (st_return a) Q E = Q a"
  by (simp add: fun_eq_iff wp_return)

lemma wp_fail [wp_simps]: "wp (st_fail e) Q E s = E e s"
  by (simp add: wp_def st_fail_def)

lemma wp_fail_fun: "wp (st_fail e) Q E = E e"
  by (simp add: fun_eq_iff wp_fail)

lemma wp_bind [wp_simps]: "wp (st_bind m f) Q E s = wp m (\<lambda>a. wp (f a) Q E) E s"
  by (simp add: wp_def st_bind_def split: prod.splits sum.splits)

lemma wp_bind_fun: "wp (st_bind m f) Q E = wp m (\<lambda>a. wp (f a) Q E) E"
  by (simp add: fun_eq_iff wp_bind)

lemma wp_get [wp_simps]: "wp (st_get f) Q E s = Q (f s) s"
  by (simp add: wp_def st_get_def)

lemma wp_modify [wp_simps]: "wp (st_modify f) Q E s = Q () (f s)"
  by (simp add: wp_def st_modify_def)

lemma wp_guard [wp_simps]: "wp (st_guard b e) Q E s = (if b then Q () s else E e s)"
  by (simp add: st_guard_def wp_simps)

lemma wp_catch [wp_simps]:
  "wp (st_catch m f) Q E s = wp m (\<lambda>a. wp (f (Inr a)) Q E) (\<lambda>e. wp (f (Inl e)) Q E) s"
  by (simp add: wp_def st_catch_def split: prod.splits sum.splits)

lemma wp_if [wp_simps]: "wp (if b then m else n) Q E s = (if b then wp m Q E s else wp n Q E s)"
  by simp

lemma wp_let [wp_simps]: "wp (let x = a in m x) Q E s = wp (m a) Q E s"
  by simp

lemma wp_option [wp_simps]:
  "wp (case x of None \<Rightarrow> m | Some y \<Rightarrow> f y) Q E s =
     (case x of None \<Rightarrow> wp m Q E s | Some y \<Rightarrow> wp (f y) Q E s)"
  by (simp split: option.splits)

lemma wp_mono:
  "wp m Q E s \<Longrightarrow> (\<And>a s'. Q a s' \<Longrightarrow> Q' a s') \<Longrightarrow> (\<And>e s'. E e s' \<Longrightarrow> E' e s') \<Longrightarrow> wp m Q' E' s"
  by (simp add: wp_def split: prod.splits sum.splits)

lemma wp_snd: "wp m (\<lambda>_. P) (\<lambda>_. P) s \<longleftrightarrow> P (snd (m s))"
  by (simp add: wp_def split: prod.splits sum.splits)

lemma wp_run: "wp m Q E s \<longleftrightarrow> (\<forall>r s'. m s = (r, s') \<longrightarrow> (case r of Inr a \<Rightarrow> Q a s' | Inl e \<Rightarrow> E e s'))"
  by (simp add: wp_def split: prod.splits sum.splits)

lemma wp_conj: "wp m (\<lambda>a s. Q a s \<and> Q' a s) (\<lambda>e s. E e s \<and> E' e s) s \<longleftrightarrow> wp m Q E s \<and> wp m Q' E' s"
  by (simp add: wp_def split: prod.splits sum.splits)

text \<open>Sequencing, the result of an operation as a value, wrapping its error, and a loop.\<close>

definition st_seq :: "('s, 'e, unit) st \<Rightarrow> ('s, 'e, 'b) st \<Rightarrow> ('s, 'e, 'b) st" where
  "st_seq m n = st_bind m (\<lambda>_. n)"

definition st_try :: "('s, 'e, 'a) st \<Rightarrow> ('s, 'f, ('e, 'a) result) st" where
  "st_try m = st_catch m st_return"

definition wrapping :: "('s, 'e, 'a) st \<Rightarrow> ('s, 'e, 'a) st" where
  "wrapping m = st_catch m (\<lambda>r. case r of Inl e \<Rightarrow> st_fail (Wrapped e) | Inr a \<Rightarrow> st_return a)"

primrec for_each :: "('a \<Rightarrow> ('s, 'e, unit) st) \<Rightarrow> 'a list \<Rightarrow> ('s, 'e, unit) st" where
  "for_each f [] = st_return ()"
| "for_each f (x # xs) = st_seq (f x) (for_each f xs)"

primrec map_each :: "('a \<Rightarrow> ('s, 'e, 'b) st) \<Rightarrow> 'a list \<Rightarrow> ('s, 'e, 'b list) st" where
  "map_each f [] = st_return []"
| "map_each f (x # xs) = st_bind (f x) (\<lambda>y. st_bind (map_each f xs) (\<lambda>ys. st_return (y # ys)))"

lemma wp_seq [wp_simps]: "wp (st_seq m n) Q E s = wp m (\<lambda>_. wp n Q E) E s"
  by (simp add: st_seq_def wp_bind)

lemma wp_try [wp_simps]: "wp (st_try m) Q E s = wp m (\<lambda>a. Q (Inr a)) (\<lambda>e. Q (Inl e)) s"
  by (simp add: st_try_def wp_catch wp_return_fun)

lemma wp_wrapping [wp_simps]: "wp (wrapping m) Q E s = wp m Q (\<lambda>e. E (Wrapped e)) s"
  by (simp add: wrapping_def wp_def st_catch_def st_fail_def st_return_def split: prod.splits sum.splits)

lemma wp_sum [wp_simps]:
  "wp (case x of Inl a \<Rightarrow> f a | Inr b \<Rightarrow> g b) Q E s = (case x of Inl a \<Rightarrow> wp (f a) Q E s | Inr b \<Rightarrow> wp (g b) Q E s)"
  by (simp split: sum.splits)

lemma wp_prod [wp_simps]: "wp (case x of (a, b) \<Rightarrow> f a b) Q E s = (case x of (a, b) \<Rightarrow> wp (f a b) Q E s)"
  by (simp split: prod.splits)

section \<open>Relations that every step keeps\<close>

text \<open>
  What an operation does to the state whether it succeeds or fails: a reflexive
  and transitive relation between the state before and after. An operation
  built from steps that keep the relation keeps it.
\<close>

definition keeps :: "('s \<Rightarrow> 's \<Rightarrow> bool) \<Rightarrow> ('s, 'e, 'a) st \<Rightarrow> bool" where
  "keeps R m \<longleftrightarrow> (\<forall>s. R s (snd (m s)))"

lemma keepsD: "keeps R m \<Longrightarrow> m s = (r, s') \<Longrightarrow> R s s'"
  unfolding keeps_def by (metis snd_conv)

lemma keeps_wp: "keeps R m \<Longrightarrow> wp m (\<lambda>_. R s) (\<lambda>_. R s) s"
  unfolding keeps_def wp_def by (metis (no_types, lifting) case_prod_beta sum.case_eq_if)

lemma wp_rel:
  assumes "keeps R m" "\<And>a d'. R d d' \<Longrightarrow> Q a d'" "\<And>e d'. R d d' \<Longrightarrow> E e d'"
  shows "wp m Q E d"
  by (rule wp_mono [OF keeps_wp [OF assms(1)]]) (use assms(2,3) in auto)

lemma keeps_if: "(b \<Longrightarrow> keeps R m) \<Longrightarrow> (\<not> b \<Longrightarrow> keeps R n) \<Longrightarrow> keeps R (if b then m else n)"
  by simp

lemma keeps_option:
  "(x = None \<Longrightarrow> keeps R m) \<Longrightarrow> (\<And>y. x = Some y \<Longrightarrow> keeps R (f y)) \<Longrightarrow>
     keeps R (case x of None \<Rightarrow> m | Some y \<Rightarrow> f y)"
  by (simp split: option.splits)

lemma keeps_sum:
  "(\<And>a. x = Inl a \<Longrightarrow> keeps R (f a)) \<Longrightarrow> (\<And>b. x = Inr b \<Longrightarrow> keeps R (g b)) \<Longrightarrow>
     keeps R (case x of Inl a \<Rightarrow> f a | Inr b \<Rightarrow> g b)"
  by (simp split: sum.splits)

lemma keeps_prod: "(\<And>a b. x = (a, b) \<Longrightarrow> keeps R (f a b)) \<Longrightarrow> keeps R (case x of (a, b) \<Rightarrow> f a b)"
  by (simp split: prod.splits)

lemma keeps_let: "keeps R (m a) \<Longrightarrow> keeps R (let x = a in m x)"
  by simp

lemmas keeps_cases = keeps_if keeps_option keeps_sum keeps_prod keeps_let

locale kept_relation =
  fixes R :: "'s \<Rightarrow> 's \<Rightarrow> bool"
  assumes refl: "R s s" and trans: "R s s' \<Longrightarrow> R s' s'' \<Longrightarrow> R s s''"
begin

lemma keeps_return: "keeps R (st_return a)"
  by (simp add: keeps_def st_return_def refl)

lemma keeps_fail: "keeps R (st_fail e)"
  by (simp add: keeps_def st_fail_def refl)

lemma keeps_get: "keeps R (st_get f)"
  by (simp add: keeps_def st_get_def refl)

lemma keeps_catch: "keeps R m \<Longrightarrow> (\<And>r. keeps R (f r)) \<Longrightarrow> keeps R (st_catch m f)"
  unfolding keeps_def st_catch_def by (metis (no_types, lifting) case_prod_beta trans)

lemma keeps_bind: "keeps R m \<Longrightarrow> (\<And>a. keeps R (f a)) \<Longrightarrow> keeps R (st_bind m f)"
  unfolding keeps_def st_bind_def by (auto split: prod.splits sum.splits intro: trans) (metis snd_conv trans)+

lemma keeps_seq: "keeps R m \<Longrightarrow> keeps R n \<Longrightarrow> keeps R (st_seq m n)"
  by (simp add: st_seq_def keeps_bind)

lemma keeps_try: "keeps R m \<Longrightarrow> keeps R (st_try m)"
  unfolding st_try_def by (intro keeps_catch keeps_return)

lemma keeps_wrapping: "keeps R m \<Longrightarrow> keeps R (wrapping m)"
  unfolding wrapping_def by (intro keeps_catch) (auto simp: keeps_fail keeps_return split: sum.splits)

lemma keeps_for_each: "(\<And>x. x \<in> set xs \<Longrightarrow> keeps R (f x)) \<Longrightarrow> keeps R (for_each f xs)"
  by (induction xs) (auto simp: keeps_return intro: keeps_seq)

lemma keeps_map_each: "(\<And>x. x \<in> set xs \<Longrightarrow> keeps R (f x)) \<Longrightarrow> keeps R (map_each f xs)"
  by (induction xs) (auto intro!: keeps_return keeps_bind)

lemma keeps_guard: "keeps R (st_guard b e)"
  by (simp add: st_guard_def keeps_return keeps_fail)

end

section \<open>Results\<close>

text \<open>Computations without a state that return early on the first error.\<close>

definition res_bind :: "'e + 'a \<Rightarrow> ('a \<Rightarrow> 'e + 'b) \<Rightarrow> 'e + 'b" where
  "res_bind r f = (case r of Inl e \<Rightarrow> Inl e | Inr a \<Rightarrow> f a)"

primrec res_map :: "('a \<Rightarrow> 'e + 'b) \<Rightarrow> 'a list \<Rightarrow> 'e + 'b list" where
  "res_map f [] = Inr []"
| "res_map f (x # xs) = res_bind (f x) (\<lambda>y. res_bind (res_map f xs) (\<lambda>ys. Inr (y # ys)))"

lemma res_bind_Inr: "res_bind r f = Inr b \<longleftrightarrow> (\<exists>a. r = Inr a \<and> f a = Inr b)"
  by (simp add: res_bind_def split: sum.splits)

lemma res_map_Inr: "res_map f xs = Inr ys \<longleftrightarrow> list_all2 (\<lambda>x y. f x = Inr y) xs ys"
  by (induction xs arbitrary: ys) (auto simp: res_bind_Inr list_all2_Cons1)

lemma res_map_mem: "res_map f xs = Inr ys \<Longrightarrow> y \<in> set ys \<Longrightarrow> \<exists>x \<in> set xs. f x = Inr y"
  by (induction xs arbitrary: ys) (auto simp: res_bind_Inr)

lemma res_map_image: "res_map f xs = Inr ys \<Longrightarrow> x \<in> set xs \<Longrightarrow> \<exists>y \<in> set ys. f x = Inr y"
  by (induction xs arbitrary: ys) (auto simp: res_bind_Inr)

section \<open>Lists\<close>

lemma find_mem: "List.find P xs = Some x \<Longrightarrow> x \<in> set xs \<and> P x"
  by (auto simp: find_Some_iff)

lemma filter_nonempty_iff: "filter P xs \<noteq> [] \<longleftrightarrow> (\<exists>x \<in> set xs. P x)"
  by (auto simp: filter_empty_conv)

end
