(* ===== verification/Contracts.thy ===== *)
theory Contracts
  imports Prelude
begin

text \<open>
  The domain vocabulary of \<open>pkg/contracts/contracts.go\<close> that the modelled
  components share. The states are strings in the code (they are read from
  PostgreSQL columns), so they are strings here, and a decision function has to
  say what it does with a string outside the vocabulary.
\<close>

section \<open>Sandbox states\<close>

abbreviation SandboxStateCreating :: string where "SandboxStateCreating \<equiv> ''creating''"
abbreviation SandboxStateStopped :: string where "SandboxStateStopped \<equiv> ''stopped''"
abbreviation SandboxStateStarting :: string where "SandboxStateStarting \<equiv> ''starting''"
abbreviation SandboxStateReady :: string where "SandboxStateReady \<equiv> ''ready''"
abbreviation SandboxStateDraining :: string where "SandboxStateDraining \<equiv> ''draining''"
abbreviation SandboxStateStopping :: string where "SandboxStateStopping \<equiv> ''stopping''"
abbreviation SandboxStateFailed :: string where "SandboxStateFailed \<equiv> ''failed''"
abbreviation SandboxStateDeleting :: string where "SandboxStateDeleting \<equiv> ''deleting''"
abbreviation SandboxStateDeleted :: string where "SandboxStateDeleted \<equiv> ''deleted''"

abbreviation SandboxDesiredStateRunning :: string where "SandboxDesiredStateRunning \<equiv> ''running''"
abbreviation SandboxDesiredStateStopped :: string where "SandboxDesiredStateStopped \<equiv> ''stopped''"
abbreviation SandboxDesiredStateDeleted :: string where "SandboxDesiredStateDeleted \<equiv> ''deleted''"

definition sandbox_states :: "string list" where
  "sandbox_states =
     [SandboxStateCreating, SandboxStateStopped, SandboxStateStarting, SandboxStateReady,
      SandboxStateDraining, SandboxStateStopping, SandboxStateFailed, SandboxStateDeleting,
      SandboxStateDeleted]"

definition desired_states :: "string list" where
  "desired_states =
     [SandboxDesiredStateRunning, SandboxDesiredStateStopped, SandboxDesiredStateDeleted]"

section \<open>Guest liveness and termination reasons\<close>

abbreviation GuestLivenessUnknown :: string where "GuestLivenessUnknown \<equiv> ''unknown''"
abbreviation GuestLivenessStarting :: string where "GuestLivenessStarting \<equiv> ''starting''"
abbreviation GuestLivenessReady :: string where "GuestLivenessReady \<equiv> ''ready''"
abbreviation GuestLivenessLost :: string where "GuestLivenessLost \<equiv> ''lost''"
abbreviation GuestLivenessStopped :: string where "GuestLivenessStopped \<equiv> ''stopped''"

abbreviation TerminationReasonRequestedDrain :: string where
  "TerminationReasonRequestedDrain \<equiv> ''requested_drain''"
abbreviation TerminationReasonRequestedStop :: string where
  "TerminationReasonRequestedStop \<equiv> ''requested_stop''"
abbreviation TerminationReasonIdleTimeout :: string where
  "TerminationReasonIdleTimeout \<equiv> ''idle_timeout''"
abbreviation TerminationReasonMaximumDuration :: string where
  "TerminationReasonMaximumDuration \<equiv> ''maximum_duration''"
abbreviation TerminationReasonGuestShutdown :: string where
  "TerminationReasonGuestShutdown \<equiv> ''guest_shutdown''"
abbreviation TerminationReasonResourceExhaustion :: string where
  "TerminationReasonResourceExhaustion \<equiv> ''resource_exhaustion''"
abbreviation TerminationReasonGuestAgentLost :: string where
  "TerminationReasonGuestAgentLost \<equiv> ''guest_agent_lost''"
abbreviation TerminationReasonRunnerLost :: string where
  "TerminationReasonRunnerLost \<equiv> ''runner_lost''"
abbreviation TerminationReasonStartupFailed :: string where
  "TerminationReasonStartupFailed \<equiv> ''startup_failed''"
abbreviation TerminationReasonFenced :: string where
  "TerminationReasonFenced \<equiv> ''fenced''"
abbreviation TerminationReasonInternalFailure :: string where
  "TerminationReasonInternalFailure \<equiv> ''internal_failure''"

section \<open>Operations and leases\<close>

abbreviation OperationStatePending :: string where "OperationStatePending \<equiv> ''pending''"
abbreviation OperationStateRunning :: string where "OperationStateRunning \<equiv> ''running''"
abbreviation OperationStateSucceeded :: string where "OperationStateSucceeded \<equiv> ''succeeded''"
abbreviation OperationStateFailed :: string where "OperationStateFailed \<equiv> ''failed''"
abbreviation OperationStateCancelled :: string where "OperationStateCancelled \<equiv> ''cancelled''"

abbreviation LeaseStateActive :: string where "LeaseStateActive \<equiv> ''active''"
abbreviation LeaseStateReleased :: string where "LeaseStateReleased \<equiv> ''released''"
abbreviation LeaseStateExpired :: string where "LeaseStateExpired \<equiv> ''expired''"
abbreviation LeaseStateFenced :: string where "LeaseStateFenced \<equiv> ''fenced''"

abbreviation StartupModeColdBoot :: string where "StartupModeColdBoot \<equiv> ''cold_boot''"
abbreviation StartupModeSnapshotResume :: string where "StartupModeSnapshotResume \<equiv> ''snapshot_resume''"
abbreviation RunnerCapabilitySnapshotResume :: string where
  "RunnerCapabilitySnapshotResume \<equiv> ''snapshot-resume''"

section \<open>Egress context names\<close>

text \<open>
  The pattern of \<open>pkg/contracts/egress_context.go\<close>: one to 63 lowercase
  letters, digits or hyphens, with no hyphen at either end.
\<close>

definition is_lower_alnum :: "char \<Rightarrow> bool" where
  "is_lower_alnum c \<longleftrightarrow> (CHR ''a'' \<le> c \<and> c \<le> CHR ''z'') \<or> (CHR ''0'' \<le> c \<and> c \<le> CHR ''9'')"

definition ValidateEgressContextName :: "string \<Rightarrow> bool" where
  "ValidateEgressContextName name \<longleftrightarrow>
     name \<noteq> [] \<and> length name \<le> 63 \<and>
     list_all (\<lambda>c. is_lower_alnum c \<or> c = CHR ''-'') name \<and>
     is_lower_alnum (hd name) \<and> is_lower_alnum (last name)"

lemma sandbox_states_distinct: "distinct sandbox_states"
  by (simp add: sandbox_states_def)

lemma desired_states_distinct: "distinct desired_states"
  by (simp add: desired_states_def)

end
