(* ===== verification/Lifecycle_Reconciler.thy ===== *)
theory Lifecycle_Reconciler
  imports Contracts
begin

text \<open>
  The lifecycle reconciler of the control plane: the decision table of
  \<open>internal/lifecycle/reconciler.go\<close> and the scheduling rules of
  \<open>internal/lifecycle/worker.go\<close> that say when a Sandbox is looked at again.
  The lemmas characterise when each action is decided, and show that the
  schedule neither misses a policy deadline, nor spins, nor parks a Sandbox
  whose decision could still change with the clock.
\<close>

section \<open>Views and decisions\<close>

datatype Action =
    ActionWait | ActionStartInstance | ActionMarkReady | ActionDrain
  | ActionStopInstance | ActionFinishStop | ActionDelete | ActionFail

primrec Action_string :: "Action \<Rightarrow> string" where
  "Action_string ActionWait = ''wait''"
| "Action_string ActionStartInstance = ''start_instance''"
| "Action_string ActionMarkReady = ''mark_ready''"
| "Action_string ActionDrain = ''drain''"
| "Action_string ActionStopInstance = ''stop_instance''"
| "Action_string ActionFinishStop = ''finish_stop''"
| "Action_string ActionDelete = ''delete''"
| "Action_string ActionFail = ''fail''"

record View =
  Observed :: string
  Desired :: string
  StopEffectState :: string
  GuestLiveness :: string
  InstanceTerminationReason :: string
  IntentTerminationReason :: string
  HasInstance :: bool
  ActiveSessions :: int
  ReadyAt :: time
  LastUsefulActivityAt :: time
  DrainStartedAt :: time
  DrainGrace :: duration
  IdleTimeout :: duration
  MaximumDuration :: duration
  AssignmentDeadline :: time

record Decision =
  DecisionAction :: Action
  TerminationReason :: string

abbreviation decide_only :: "Action \<Rightarrow> Decision" where
  "decide_only a \<equiv> \<lparr>DecisionAction = a, TerminationReason = []\<rparr>"

section \<open>The decision table\<close>

definition ValidTerminationReason :: "string \<Rightarrow> bool" where
  "ValidTerminationReason reason \<longleftrightarrow> reason \<in> set
     [TerminationReasonRequestedDrain, TerminationReasonRequestedStop,
      TerminationReasonIdleTimeout, TerminationReasonMaximumDuration,
      TerminationReasonGuestShutdown, TerminationReasonResourceExhaustion,
      TerminationReasonGuestAgentLost, TerminationReasonRunnerLost,
      TerminationReasonStartupFailed, TerminationReasonFenced,
      TerminationReasonInternalFailure]"

definition requestedTerminationReason :: "View \<Rightarrow> string" where
  "requestedTerminationReason view =
     (if ValidTerminationReason (IntentTerminationReason view)
      then IntentTerminationReason view
      else TerminationReasonRequestedStop)"

definition drainBarrierActive :: "View \<Rightarrow> time \<Rightarrow> bool" where
  "drainBarrierActive view now =
     (if ActiveSessions view = 0 then False
      else DrainStartedAt view = 0 \<or> DrainGrace view \<le> 0 \<or>
           now < DrainStartedAt view + DrainGrace view)"

definition IdleSince :: "View \<Rightarrow> time" where
  "IdleSince view =
     (if ReadyAt view > LastUsefulActivityAt view then ReadyAt view
      else LastUsefulActivityAt view)"

definition decideStopping :: "View \<Rightarrow> Decision" where
  "decideStopping view =
     (if StopEffectState view = ''runner_failed'' then
        \<lparr>DecisionAction = ActionFail, TerminationReason = TerminationReasonInternalFailure\<rparr>
      else if StopEffectState view = ''queued'' then decide_only ActionStopInstance
      else
        let computeIsTerminal =
              \<not> HasInstance view \<or> GuestLiveness view = GuestLivenessStopped \<or>
              GuestLiveness view = GuestLivenessLost
        in if \<not> computeIsTerminal then decide_only ActionStopInstance
           else if StopEffectState view = ''runner_succeeded'' then decide_only ActionFinishStop
           else decide_only ActionWait)"

text \<open>A \<open>switch\<close> that matches no case falls through to the next desired state.\<close>

definition decideDeleted :: "View \<Rightarrow> time \<Rightarrow> Decision option" where
  "decideDeleted view now =
     (let observed = Observed view;
          drain = Some \<lparr>DecisionAction = ActionDrain, TerminationReason = requestedTerminationReason view\<rparr>
      in if observed = SandboxStateDeleted then Some (decide_only ActionWait)
         else if observed = SandboxStateStopped \<or> observed = SandboxStateFailed
         then Some (decide_only ActionDelete)
         else if observed = SandboxStateDeleting then Some (decide_only ActionDelete)
         else if observed = SandboxStateCreating
         then (if \<not> HasInstance view then Some (decide_only ActionDelete) else drain)
         else if observed = SandboxStateReady \<or> observed = SandboxStateStarting then drain
         else if observed = SandboxStateDraining
         then (if drainBarrierActive view now then Some (decide_only ActionWait)
               else Some (decide_only ActionStopInstance))
         else if observed = SandboxStateStopping then Some (decideStopping view)
         else None)"

definition decideStopped :: "View \<Rightarrow> time \<Rightarrow> Decision option" where
  "decideStopped view now =
     (let observed = Observed view
      in if observed = SandboxStateStopped \<or> observed = SandboxStateFailed
         then Some (decide_only ActionWait)
         else if observed = SandboxStateCreating then Some (decide_only ActionWait)
         else if observed = SandboxStateReady \<or> observed = SandboxStateStarting
         then Some \<lparr>DecisionAction = ActionDrain, TerminationReason = requestedTerminationReason view\<rparr>
         else if observed = SandboxStateDraining
         then (if drainBarrierActive view now then Some (decide_only ActionWait)
               else Some (decide_only ActionStopInstance))
         else if observed = SandboxStateStopping then Some (decideStopping view)
         else None)"

definition decideReady :: "View \<Rightarrow> time \<Rightarrow> Decision" where
  "decideReady view now =
     (if GuestLiveness view = GuestLivenessStopped then
        \<lparr>DecisionAction = ActionDrain,
         TerminationReason =
           (if ValidTerminationReason (InstanceTerminationReason view)
            then InstanceTerminationReason view
            else TerminationReasonInternalFailure)\<rparr>
      else if GuestLiveness view = GuestLivenessLost then
        \<lparr>DecisionAction = ActionDrain, TerminationReason = TerminationReasonGuestAgentLost\<rparr>
      else if MaximumDuration view > 0 \<and> ReadyAt view \<noteq> 0 \<and>
              \<not> now < ReadyAt view + MaximumDuration view then
        \<lparr>DecisionAction = ActionDrain, TerminationReason = TerminationReasonMaximumDuration\<rparr>
      else if ActiveSessions view = 0 \<and> IdleTimeout view > 0 \<and> IdleSince view \<noteq> 0 \<and>
              \<not> now < IdleSince view + IdleTimeout view then
        \<lparr>DecisionAction = ActionDrain, TerminationReason = TerminationReasonIdleTimeout\<rparr>
      else decide_only ActionWait)"

definition decideRunning :: "View \<Rightarrow> time \<Rightarrow> Decision option" where
  "decideRunning view now =
     (let observed = Observed view
      in if observed = SandboxStateCreating then Some (decide_only ActionWait)
         else if observed = SandboxStateStopped then Some (decide_only ActionStartInstance)
         else if observed = SandboxStateStarting
         then (if GuestLiveness view = GuestLivenessReady then Some (decide_only ActionMarkReady)
               else if HasInstance view then Some (decide_only ActionWait)
               else Some (decide_only ActionStartInstance))
         else if observed = SandboxStateReady then Some (decideReady view now)
         else if observed = SandboxStateDraining
         then (if drainBarrierActive view now then Some (decide_only ActionWait)
               else Some (decide_only ActionStopInstance))
         else if observed = SandboxStateStopping then Some (decideStopping view)
         else if observed = SandboxStateFailed then Some (decide_only ActionStartInstance)
         else None)"

definition orElse :: "'a option \<Rightarrow> 'a \<Rightarrow> 'a" where
  "orElse x d = (case x of Some y \<Rightarrow> y | None \<Rightarrow> d)"

definition Decide :: "View \<Rightarrow> time \<Rightarrow> Decision" where
  "Decide view now =
     (if Observed view = SandboxStateFailed \<and> HasInstance view \<and>
         (Desired view = SandboxDesiredStateRunning \<or> Desired view = SandboxDesiredStateStopped \<or>
          Desired view = SandboxDesiredStateDeleted)
      then \<lparr>DecisionAction = ActionStopInstance, TerminationReason = requestedTerminationReason view\<rparr>
      else orElse
        (if Desired view = SandboxDesiredStateDeleted then decideDeleted view now
         else if Desired view = SandboxDesiredStateStopped then decideStopped view now
         else if Desired view = SandboxDesiredStateRunning then decideRunning view now
         else None)
        \<lparr>DecisionAction = ActionFail, TerminationReason = TerminationReasonInternalFailure\<rparr>)"

section \<open>When a Sandbox is reconciled again\<close>

definition earlierFutureDeadline :: "time \<Rightarrow> time \<Rightarrow> time \<Rightarrow> time" where
  "earlierFutureDeadline left right now =
     (let left = (if \<not> left > now then 0 else left);
          right = (if \<not> right > now then 0 else right)
      in if left = 0 \<or> (right \<noteq> 0 \<and> right < left) then right else left)"

primrec actionRequiresEffect :: "Action \<Rightarrow> bool" where
  "actionRequiresEffect ActionWait = False"
| "actionRequiresEffect ActionStartInstance = True"
| "actionRequiresEffect ActionMarkReady = False"
| "actionRequiresEffect ActionDrain = False"
| "actionRequiresEffect ActionStopInstance = True"
| "actionRequiresEffect ActionFinishStop = False"
| "actionRequiresEffect ActionDelete = True"
| "actionRequiresEffect ActionFail = False"

definition stateIsAtRest :: "string \<Rightarrow> string \<Rightarrow> bool" where
  "stateIsAtRest desired observed =
     (if desired = SandboxDesiredStateStopped
      then observed = SandboxStateStopped \<or> observed = SandboxStateFailed
      else if desired = SandboxDesiredStateDeleted then observed = SandboxStateDeleted
      else False)"

definition committedStateIsAtRest :: "View \<Rightarrow> Decision \<Rightarrow> bool" where
  "committedStateIsAtRest view decision =
     (case DecisionAction decision of
        ActionWait \<Rightarrow> stateIsAtRest (Desired view) (Observed view)
      | ActionFinishStop \<Rightarrow> stateIsAtRest (Desired view) SandboxStateStopped
      | _ \<Rightarrow> False)"

definition successorIsImmediatelyAvailable :: "View \<Rightarrow> Decision \<Rightarrow> bool" where
  "successorIsImmediatelyAvailable view decision =
     (case DecisionAction decision of
        ActionDrain \<Rightarrow> ActiveSessions view = 0
      | ActionFinishStop \<Rightarrow> Desired view \<noteq> SandboxDesiredStateStopped
      | _ \<Rightarrow> False)"

definition startingInstanceAwaitsRunner :: "View \<Rightarrow> Decision \<Rightarrow> bool" where
  "startingInstanceAwaitsRunner view decision \<longleftrightarrow>
     DecisionAction decision = ActionWait \<and> Observed view = SandboxStateStarting \<and>
     Desired view = SandboxDesiredStateRunning \<and> HasInstance view \<and>
     GuestLiveness view \<noteq> GuestLivenessReady"

definition nextLifecycleReconcileAt :: "View \<Rightarrow> Decision \<Rightarrow> time \<Rightarrow> duration \<Rightarrow> time" where
  "nextLifecycleReconcileAt view decision now pollInterval =
     (let fallback = now + pollInterval in
      if successorIsImmediatelyAvailable view decision then now
      else if committedStateIsAtRest view decision then 0
      else if startingInstanceAwaitsRunner view decision then
        (let deadline = earlierFutureDeadline (AssignmentDeadline view) 0 now
         in if deadline \<noteq> 0 then deadline else fallback)
      else if DecisionAction decision \<noteq> ActionWait \<or> Observed view \<noteq> SandboxStateReady \<or>
              Desired view \<noteq> SandboxDesiredStateRunning \<or> GuestLiveness view \<noteq> GuestLivenessReady
      then fallback
      else
        (let maximumDeadline =
               (if MaximumDuration view > 0 \<and> ReadyAt view \<noteq> 0
                then ReadyAt view + MaximumDuration view else 0)
         in if ActiveSessions view > 0 then earlierFutureDeadline fallback maximumDeadline now
            else
              (let idleDeadline =
                     (if IdleTimeout view > 0 \<and> IdleSince view \<noteq> 0
                      then IdleSince view + IdleTimeout view else 0);
                   deadline = earlierFutureDeadline idleDeadline maximumDeadline now
               in if deadline = 0 then fallback else deadline)))"

section \<open>What a commit leaves behind\<close>

text \<open>
  The fields of the next view that committing a decision determines: the
  observed state, the desired state after a policy drain, the drain clock, the
  recorded reason, and the Instance that finish-stop clears
  (\<open>ApplyLifecycleAction\<close> in \<open>internal/store/postgres_lifecycle.go\<close>).
\<close>

definition committed_state :: "string \<Rightarrow> Action \<Rightarrow> string" where
  "committed_state observed action =
     (case action of
        ActionFinishStop \<Rightarrow> SandboxStateStopped
      | ActionStartInstance \<Rightarrow> SandboxStateStarting
      | ActionMarkReady \<Rightarrow> SandboxStateReady
      | ActionDrain \<Rightarrow> SandboxStateDraining
      | ActionStopInstance \<Rightarrow> SandboxStateStopping
      | ActionFail \<Rightarrow> SandboxStateFailed
      | _ \<Rightarrow> observed)"

definition committed_view :: "View \<Rightarrow> Decision \<Rightarrow> time \<Rightarrow> View" where
  "committed_view view decision now =
     (let action = DecisionAction decision; reason = TerminationReason decision;
          state = committed_state (Observed view) action
      in view
        \<lparr>Observed := state,
         Desired :=
           (if action = ActionDrain \<and>
               (reason = TerminationReasonIdleTimeout \<or> reason = TerminationReasonMaximumDuration)
            then SandboxDesiredStateStopped else Desired view),
         IntentTerminationReason := (if reason = [] then IntentTerminationReason view else reason),
         HasInstance := (HasInstance view \<and> action \<noteq> ActionFinishStop),
         DrainStartedAt :=
           (if action = ActionDrain
            then (if DrainStartedAt view = 0 then now else DrainStartedAt view)
            else if state \<noteq> SandboxStateDraining then 0 else DrainStartedAt view)\<rparr>)"

section \<open>When each action is decided\<close>

lemmas decide_defs =
  Decide_def decideDeleted_def decideStopped_def decideRunning_def decideReady_def
  decideStopping_def orElse_def Let_def

lemmas schedule_defs =
  nextLifecycleReconcileAt_def successorIsImmediatelyAvailable_def committedStateIsAtRest_def
  startingInstanceAwaitsRunner_def stateIsAtRest_def earlierFutureDeadline_def Let_def

lemma Decide_start_iff:
  "DecisionAction (Decide v t) = ActionStartInstance \<longleftrightarrow>
     Desired v = SandboxDesiredStateRunning \<and>
     (Observed v = SandboxStateStopped \<or>
      Observed v = SandboxStateStarting \<and> GuestLiveness v \<noteq> GuestLivenessReady \<and> \<not> HasInstance v \<or>
      Observed v = SandboxStateFailed \<and> \<not> HasInstance v)"
  by (auto simp: decide_defs split: if_splits)

lemma Decide_delete_iff:
  "DecisionAction (Decide v t) = ActionDelete \<longleftrightarrow>
     Desired v = SandboxDesiredStateDeleted \<and>
     (Observed v = SandboxStateStopped \<or> Observed v = SandboxStateDeleting \<or>
      (Observed v = SandboxStateFailed \<or> Observed v = SandboxStateCreating) \<and> \<not> HasInstance v)"
  by (auto simp: decide_defs split: if_splits)

lemma Decide_finish_stop_iff:
  "DecisionAction (Decide v t) = ActionFinishStop \<longleftrightarrow>
     Observed v = SandboxStateStopping \<and> Desired v \<in> set desired_states \<and>
     StopEffectState v = ''runner_succeeded'' \<and>
     (\<not> HasInstance v \<or> GuestLiveness v = GuestLivenessStopped \<or> GuestLiveness v = GuestLivenessLost)"
  by (auto simp: decide_defs desired_states_def split: if_splits)

lemma Decide_drain_desired:
  "DecisionAction (Decide v t) = ActionDrain \<Longrightarrow> Desired v \<in> set desired_states"
  by (auto simp: decide_defs desired_states_def split: if_splits)

lemma Decide_ready:
  "Observed v = SandboxStateReady \<Longrightarrow> Desired v = SandboxDesiredStateRunning \<Longrightarrow>
   Decide v t = decideReady v t"
  by (simp add: Decide_def decideRunning_def orElse_def)

lemma Decide_draining:
  "Observed v = SandboxStateDraining \<Longrightarrow> Desired v \<in> set desired_states \<Longrightarrow>
   Decide v t = decide_only (if drainBarrierActive v t then ActionWait else ActionStopInstance)"
  by (auto simp: decide_defs desired_states_def)

lemma Decide_stopped:
  "Observed v = SandboxStateStopped \<Longrightarrow> Desired v \<in> set desired_states \<Longrightarrow>
   Decide v t = decide_only
     (if Desired v = SandboxDesiredStateRunning then ActionStartInstance
      else if Desired v = SandboxDesiredStateDeleted then ActionDelete else ActionWait)"
  by (auto simp: decide_defs desired_states_def)

lemma Decide_at_rest:
  "stateIsAtRest (Desired v) (Observed v) \<Longrightarrow> \<not> (Observed v = SandboxStateFailed \<and> HasInstance v) \<Longrightarrow>
   Decide v t = decide_only ActionWait"
  by (auto simp: Decide_def decideDeleted_def decideStopped_def orElse_def stateIsAtRest_def
      split: if_splits)

lemma committed_view_fields:
  "Observed (committed_view v d now) = committed_state (Observed v) (DecisionAction d)"
  "HasInstance (committed_view v d now) \<longleftrightarrow> HasInstance v \<and> DecisionAction d \<noteq> ActionFinishStop"
  "ActiveSessions (committed_view v d now) = ActiveSessions v"
  "DecisionAction d \<noteq> ActionDrain \<Longrightarrow> Desired (committed_view v d now) = Desired v"
  "Desired v \<in> set desired_states \<Longrightarrow> Desired (committed_view v d now) \<in> set desired_states"
  "committed_state s ActionWait = s" "committed_state s ActionDrain = SandboxStateDraining"
  "committed_state s ActionFinishStop = SandboxStateStopped"
  by (auto simp: committed_view_def committed_state_def Let_def desired_states_def)

lemma drainBarrier_no_sessions [simp]: "ActiveSessions v = 0 \<Longrightarrow> \<not> drainBarrierActive v t"
  by (simp add: drainBarrierActive_def)

lemma requested_reason_valid [simp]: "ValidTerminationReason (requestedTerminationReason v)"
  by (simp add: requestedTerminationReason_def ValidTerminationReason_def)

text \<open>Decisions that carry no reason outside the vocabulary, and always one for a drain or a failure.\<close>

definition reason_ok :: "Decision \<Rightarrow> bool" where
  "reason_ok d \<longleftrightarrow>
     ValidTerminationReason (TerminationReason d) \<or>
     TerminationReason d = [] \<and> DecisionAction d \<noteq> ActionDrain \<and> DecisionAction d \<noteq> ActionFail"

lemma no_empty_reason [simp]: "\<not> ValidTerminationReason []"
  by (simp add: ValidTerminationReason_def)

lemma reason_ok_only [simp]:
  "reason_ok (decide_only a) \<longleftrightarrow> a \<noteq> ActionDrain \<and> a \<noteq> ActionFail"
  by (simp add: reason_ok_def)

lemma reason_ok_with [simp]:
  "ValidTerminationReason r \<Longrightarrow> reason_ok \<lparr>DecisionAction = a, TerminationReason = r\<rparr>"
  by (simp add: reason_ok_def)

lemma policy_reasons_valid [simp]:
  "ValidTerminationReason TerminationReasonInternalFailure"
  "ValidTerminationReason TerminationReasonGuestAgentLost"
  "ValidTerminationReason TerminationReasonMaximumDuration"
  "ValidTerminationReason TerminationReasonIdleTimeout"
  by (simp_all add: ValidTerminationReason_def)

lemma reason_ok_stopping [simp]: "reason_ok (decideStopping v)"
  by (simp add: decideStopping_def Let_def)

lemma reason_ok_ready [simp]: "reason_ok (decideReady v t)"
  by (simp add: decideReady_def)

lemma Decide_reason_ok: "reason_ok (Decide v t)"
  by (simp add: Decide_def decideDeleted_def decideStopped_def decideRunning_def orElse_def Let_def)

text \<open>The decision of a ready Sandbox, by its two policy deadlines.\<close>

definition maximum_deadline :: "View \<Rightarrow> time option" where
  "maximum_deadline v =
     (if MaximumDuration v > 0 \<and> ReadyAt v \<noteq> 0 then Some (ReadyAt v + MaximumDuration v) else None)"

definition idle_deadline :: "View \<Rightarrow> time option" where
  "idle_deadline v =
     (if IdleTimeout v > 0 \<and> IdleSince v \<noteq> 0 then Some (IdleSince v + IdleTimeout v) else None)"

definition expired :: "time option \<Rightarrow> time \<Rightarrow> bool" where
  "expired deadline t = (case deadline of Some d \<Rightarrow> d \<le> t | None \<Rightarrow> False)"

lemma decideReady_live:
  assumes "GuestLiveness v = GuestLivenessReady"
  shows "decideReady v t =
    (if expired (maximum_deadline v) t
     then \<lparr>DecisionAction = ActionDrain, TerminationReason = TerminationReasonMaximumDuration\<rparr>
     else if ActiveSessions v = 0 \<and> expired (idle_deadline v) t
     then \<lparr>DecisionAction = ActionDrain, TerminationReason = TerminationReasonIdleTimeout\<rparr>
     else decide_only ActionWait)"
  using assms
  by (auto simp: decideReady_def expired_def maximum_deadline_def idle_deadline_def)

lemma earlierFutureDeadline_spec:
  assumes "0 \<le> now"
  shows "earlierFutureDeadline l r now =
    (if now < l \<and> now < r then min l r else if now < l then l else if now < r then r else 0)"
  using assms by (auto simp: earlierFutureDeadline_def Let_def)

lemma next_ready_idle:
  assumes "Observed v = SandboxStateReady" "Desired v = SandboxDesiredStateRunning"
    and "GuestLiveness v = GuestLivenessReady" "ActiveSessions v = 0"
    and "DecisionAction d = ActionWait"
  shows "nextLifecycleReconcileAt v d now poll =
    (let deadline = earlierFutureDeadline
           (case idle_deadline v of Some x \<Rightarrow> x | None \<Rightarrow> 0)
           (case maximum_deadline v of Some x \<Rightarrow> x | None \<Rightarrow> 0) now
     in if deadline = 0 then now + poll else deadline)"
  using assms
  by (simp add: nextLifecycleReconcileAt_def successorIsImmediatelyAvailable_def
      committedStateIsAtRest_def stateIsAtRest_def startingInstanceAwaitsRunner_def
      idle_deadline_def maximum_deadline_def Let_def)

text \<open>A healthy ready Sandbox, from which the witnesses below start.\<close>

definition sample_view :: View where
  "sample_view =
     \<lparr>Observed = ''ready'', Desired = ''running'', StopEffectState = [], GuestLiveness = ''ready'',
      InstanceTerminationReason = [], IntentTerminationReason = [], HasInstance = True,
      ActiveSessions = 0, ReadyAt = 100, LastUsefulActivityAt = 40, DrainStartedAt = 0,
      DrainGrace = 0, IdleTimeout = 50, MaximumDuration = 70, AssignmentDeadline = 0\<rparr>"

lemmas evaluate_view = sample_view_def decide_defs schedule_defs IdleSince_def
  committed_view_def committed_state_def

lemma Decide_sample:
  "Decide sample_view 200 =
     \<lparr>DecisionAction = ActionDrain, TerminationReason = TerminationReasonMaximumDuration\<rparr>"
  by (simp add: evaluate_view)

section \<open>Properties\<close>

text \<open>
  A start or a delete is never decided while an Instance still owns the
  Sandbox's generation, in any state other than \<open>stopped\<close> and \<open>deleting\<close>: a
  failed or starting Sandbox with an Instance is stopped, drained or left to
  its Runner first.
\<close>

lemma Decide_never_reuses_live_generation:
  assumes "DecisionAction (Decide v now) = ActionStartInstance \<or>
           DecisionAction (Decide v now) = ActionDelete"
  shows "\<not> HasInstance v \<or> Observed v = SandboxStateStopped \<or> Observed v = SandboxStateDeleting"
  using assms by (auto simp: Decide_start_iff Decide_delete_iff)

lemma Decide_never_reuses_live_generation_witness:
  "DecisionAction (Decide (sample_view\<lparr>Observed := ''failed'', HasInstance := False\<rparr>) 1) =
     ActionStartInstance \<and>
   \<not> HasInstance (sample_view\<lparr>Observed := ''failed'', HasInstance := False\<rparr>)"
  using Decide_never_reuses_live_generation
    [of "sample_view\<lparr>Observed := ''failed'', HasInstance := False\<rparr>" 1]
  by (simp add: evaluate_view)

text \<open>
  C6: the schedule of an idle ready Sandbox is exact. The worker sleeps to an
  instant strictly in the future; at every instant before it the decision is
  still to wait, and at that instant the decision is to drain for the idle
  timeout or the maximum duration.
\<close>

theorem ready_wakeup_exact:
  assumes "Observed v = SandboxStateReady" "Desired v = SandboxDesiredStateRunning"
    and "GuestLiveness v = GuestLivenessReady" "ActiveSessions v = 0"
    and "DecisionAction (Decide v now) = ActionWait" "0 \<le> now"
    and "0 < MaximumDuration v \<and> ReadyAt v \<noteq> 0 \<or> 0 < IdleTimeout v \<and> IdleSince v \<noteq> 0"
  shows "now < nextLifecycleReconcileAt v (Decide v now) now poll \<and>
    (\<forall>t < nextLifecycleReconcileAt v (Decide v now) now poll. DecisionAction (Decide v t) = ActionWait) \<and>
    DecisionAction (Decide v (nextLifecycleReconcileAt v (Decide v now) now poll)) = ActionDrain \<and>
    TerminationReason (Decide v (nextLifecycleReconcileAt v (Decide v now) now poll)) \<in>
      {TerminationReasonIdleTimeout, TerminationReasonMaximumDuration}"
proof -
  have dec: "Decide v t = decideReady v t" for t
    using assms by (simp add: Decide_ready)
  have wait: "\<not> expired (maximum_deadline v) now" "\<not> expired (idle_deadline v) now"
    using assms by (auto simp: dec decideReady_live split: if_splits)
  have some: "maximum_deadline v \<noteq> None \<or> idle_deadline v \<noteq> None"
    using assms(7) by (auto simp: maximum_deadline_def idle_deadline_def)
  show ?thesis
    using assms wait some
    by (cases "maximum_deadline v"; cases "idle_deadline v")
      (auto simp: dec next_ready_idle decideReady_live expired_def Let_def
        earlierFutureDeadline_spec min_def)
qed

theorem ready_wakeup_exact_witness:
  "nextLifecycleReconcileAt sample_view (decide_only ActionWait) 120 5 = 150 \<and>
   DecisionAction (Decide sample_view 149) = ActionWait \<and>
   DecisionAction (Decide sample_view 150) = ActionDrain"
  using ready_wakeup_exact [where now = 120 and poll = 5 and v = sample_view]
  by (simp add: evaluate_view)

text \<open>
  C7: a Sandbox that is left without a deadline stays where it is. When the
  worker commits the parked schedule (the zero time), the decision for the
  committed state is to wait at every later clock.
\<close>

theorem parked_only_at_rest:
  assumes "nextLifecycleReconcileAt v (Decide v now) now poll = 0" "0 < now" "0 < poll"
  shows "DecisionAction (Decide (committed_view v (Decide v now) now) t) = ActionWait"
proof (cases "committedStateIsAtRest v (Decide v now)")
  case True
  then consider
      (wait) "DecisionAction (Decide v now) = ActionWait" "stateIsAtRest (Desired v) (Observed v)"
    | (stop) "DecisionAction (Decide v now) = ActionFinishStop" "Desired v = SandboxDesiredStateStopped"
    by (auto simp: committedStateIsAtRest_def stateIsAtRest_def split: Action.splits if_splits)
  then show ?thesis
  proof cases
    case wait
    then have "\<not> (Observed v = SandboxStateFailed \<and> HasInstance v)"
      by (auto simp: Decide_def stateIsAtRest_def split: if_splits)
    with wait show ?thesis
      by (simp add: Decide_at_rest committed_view_fields)
  next
    case stop
    then show ?thesis
      by (simp add: Decide_stopped committed_view_fields desired_states_def)
  qed
next
  case False
  then show ?thesis
    using assms
    by (auto simp: nextLifecycleReconcileAt_def Let_def earlierFutureDeadline_spec min_def
        split: if_splits)
qed

theorem parked_only_at_rest_witness:
  "nextLifecycleReconcileAt (sample_view\<lparr>Observed := ''stopping'', Desired := ''stopped'',
       HasInstance := False, StopEffectState := ''runner_succeeded''\<rparr>)
     (decide_only ActionFinishStop) 120 5 = 0 \<and>
   DecisionAction (Decide (committed_view (sample_view\<lparr>Observed := ''stopping'',
       Desired := ''stopped'', HasInstance := False, StopEffectState := ''runner_succeeded''\<rparr>)
     (decide_only ActionFinishStop) 120) 9000) = ActionWait"
  using parked_only_at_rest [where now = 120 and poll = 5 and t = 9000 and
      v = "sample_view\<lparr>Observed := ''stopping'', Desired := ''stopped'', HasInstance := False,
             StopEffectState := ''runner_succeeded''\<rparr>"]
  by (simp add: evaluate_view)

text \<open>
  C8: the worker does not spin. After a transition that is rescheduled at once,
  the next decision needs a Runner effect, is not itself rescheduled at once,
  and is followed by the bounded poll interval.
\<close>

theorem immediate_successor_does_not_spin:
  assumes "successorIsImmediatelyAvailable v (Decide v now)"
  defines "v' \<equiv> committed_view v (Decide v now) now"
  shows "actionRequiresEffect (DecisionAction (Decide v' t)) \<and>
    \<not> successorIsImmediatelyAvailable v' (Decide v' t) \<and>
    nextLifecycleReconcileAt v' (Decide v' t) t poll = t + poll"
proof -
  consider
      (drain) "DecisionAction (Decide v now) = ActionDrain" "ActiveSessions v = 0"
    | (stop) "DecisionAction (Decide v now) = ActionFinishStop" "Desired v \<noteq> SandboxDesiredStateStopped"
    using assms(1) by (auto simp: successorIsImmediatelyAvailable_def split: Action.splits)
  then have "Decide v' t = decide_only ActionStopInstance \<or>
    Decide v' t = decide_only ActionStartInstance \<or> Decide v' t = decide_only ActionDelete"
  proof cases
    case drain
    then have "Desired v' \<in> set desired_states" "Observed v' = SandboxStateDraining"
      "ActiveSessions v' = 0"
      by (simp_all add: v'_def committed_view_fields Decide_drain_desired)
    then show ?thesis
      by (simp add: Decide_draining)
  next
    case stop
    moreover from this have "Desired v \<in> set desired_states"
      by (simp add: Decide_finish_stop_iff)
    ultimately have "Observed v' = SandboxStateStopped" "Desired v' \<in> set desired_states"
      "Desired v' \<noteq> SandboxDesiredStateStopped"
      by (simp_all add: v'_def committed_view_fields)
    then show ?thesis
      by (auto simp: Decide_stopped desired_states_def)
  qed
  then show ?thesis
    by (auto simp: schedule_defs)
qed

theorem immediate_successor_does_not_spin_witness:
  "successorIsImmediatelyAvailable sample_view (Decide sample_view 200) \<and>
   actionRequiresEffect (DecisionAction
     (Decide (committed_view sample_view (Decide sample_view 200) 200) 200))"
proof -
  have "successorIsImmediatelyAvailable sample_view (Decide sample_view 200)"
    unfolding Decide_sample by (simp add: successorIsImmediatelyAvailable_def sample_view_def)
  with immediate_successor_does_not_spin [where v = sample_view and now = 200 and t = 200]
  show ?thesis by blast
qed

text \<open>
  Within the vocabulary of observed and desired states, the reconciler
  fails a Sandbox exactly when its stop effect failed on the Runner, or when
  a Sandbox that is being or has been deleted is wanted running or stopped.
\<close>

lemma Decide_fail_iff:
  "Observed v \<in> set sandbox_states \<and> Desired v \<in> set desired_states \<and>
   DecisionAction (Decide v now) = ActionFail \<longleftrightarrow>
     Desired v \<in> set desired_states \<and>
     (Observed v = SandboxStateStopping \<and> StopEffectState v = ''runner_failed'' \<or>
      (Observed v = SandboxStateDeleting \<or> Observed v = SandboxStateDeleted) \<and>
      Desired v \<noteq> SandboxDesiredStateDeleted)"
  by (auto simp: decide_defs sandbox_states_def desired_states_def split: if_splits)

text \<open>
  Every drain and every failure carries a reason of the stable vocabulary,
  and no decision carries a reason outside it.
\<close>

lemma Decide_reason_valid:
  "(TerminationReason (Decide v now) = [] \<or> ValidTerminationReason (TerminationReason (Decide v now))) \<and>
   (TerminationReason (Decide v now) = [] \<longrightarrow>
     DecisionAction (Decide v now) \<noteq> ActionDrain \<and> DecisionAction (Decide v now) \<noteq> ActionFail)"
  using Decide_reason_ok [of v now] by (auto simp: reason_ok_def)

end
