(* ===== verification/Lifecycle_Worker.thy ===== *)
theory Lifecycle_Worker
  imports Lifecycle_Reconciler
begin

text \<open>
  The lifecycle worker of \<open>internal/lifecycle/worker.go\<close>: one claim is turned
  into a view, decided, and either executed as a Runner effect or committed
  through the store; a batch runs its claims and splits their errors into fatal
  and retryable ones. The store and the effect executor are the Go interfaces
  \<open>ReconcileStore\<close> and \<open>EffectExecutor\<close>, so they are fields of the reconciler
  here too, over an arbitrary state type. The locale \<open>reconcile_store\<close> states
  what the worker relies on; the PostgreSQL store interprets it.
\<close>

section \<open>Errors\<close>

text \<open>
  The sentinels of \<open>internal/ports/ports.go\<close> that the lifecycle path produces
  or tests, with PostgreSQL errors by their SQLSTATE.
\<close>

datatype ports_error =
    ErrRevisionConflict | ErrGenerationFenced | ErrWorkspaceMutation | ErrSerializationContention
  | ErrSandboxNotFound | ErrQuotaExceeded | ErrHomeRunnerUnavailable | ErrManagementNotFound
  | ErrResourceExpired | ErrInvalidLifecycleTransition | ErrIdempotencyConflict
  | ErrTenantSuspended | ErrComputeQuotaExceeded
  | ErrNoRows | ErrQuotaLedgerRequired | PgError string

type_synonym perr = "ports_error go_error"

definition pg_code :: "ports_error \<Rightarrow> string option" where
  "pg_code e = (case e of PgError code \<Rightarrow> Some code | _ \<Rightarrow> None)"

definition IsRetryableReconcileError :: "perr \<Rightarrow> bool" where
  "IsRetryableReconcileError err \<longleftrightarrow>
     (if errors_Is ErrRevisionConflict err \<or> errors_Is ErrGenerationFenced err \<or>
         errors_Is ErrWorkspaceMutation err \<or> errors_Is ErrSerializationContention err
      then True
      else case errors_As pg_code err of
             Some code \<Rightarrow> code = ''40001'' \<or> code = ''40P01''
           | None \<Rightarrow> False)"

section \<open>Claims\<close>

record LifecycleReconcileClaim =
  SandboxID :: string
  WorkerID :: string
  Revision :: int
  ObservedState :: string
  DesiredState :: string
  IntentKind :: string
  claimIntentTerminationReason :: string
  claimStopEffectState :: string
  claimGuestLiveness :: string
  claimInstanceTerminationReason :: string
  claimHasInstance :: bool
  claimActiveSessions :: int
  claimDrainStartedAt :: "time option"
  claimReadyAt :: "time option"
  claimLastActivityAt :: "time option"
  DrainGraceSeconds :: int
  IdleSeconds :: int
  MaximumDurationSeconds :: int
  claimAssignmentDeadline :: "time option"

definition time_or_zero :: "time option \<Rightarrow> time" where
  "time_or_zero t = (case t of Some x \<Rightarrow> x | None \<Rightarrow> 0)"

definition viewOfClaim :: "LifecycleReconcileClaim \<Rightarrow> View" where
  "viewOfClaim claim =
     \<lparr>Observed = ObservedState claim, Desired = DesiredState claim,
      StopEffectState = claimStopEffectState claim,
      GuestLiveness = claimGuestLiveness claim,
      InstanceTerminationReason = claimInstanceTerminationReason claim,
      IntentTerminationReason = claimIntentTerminationReason claim,
      HasInstance = claimHasInstance claim,
      ActiveSessions = claimActiveSessions claim,
      ReadyAt = time_or_zero (claimReadyAt claim),
      LastUsefulActivityAt = time_or_zero (claimLastActivityAt claim),
      DrainStartedAt = time_or_zero (claimDrainStartedAt claim),
      DrainGrace = seconds (DrainGraceSeconds claim),
      IdleTimeout = seconds (IdleSeconds claim),
      MaximumDuration = seconds (MaximumDurationSeconds claim),
      AssignmentDeadline = time_or_zero (claimAssignmentDeadline claim)\<rparr>"

section \<open>The reconciler\<close>

type_synonym 's apply_action =
  "LifecycleReconcileClaim \<Rightarrow> string \<Rightarrow> string \<Rightarrow> time \<Rightarrow> time \<Rightarrow> 's \<Rightarrow> perr option \<times> 's"

type_synonym 's claim_batch =
  "string \<Rightarrow> time \<Rightarrow> duration \<Rightarrow> nat \<Rightarrow> string \<Rightarrow> 's \<Rightarrow> (ports_error, LifecycleReconcileClaim list) result \<times> 's"

record 's ReconcileStore =
  ClaimOne :: "string \<Rightarrow> time \<Rightarrow> duration \<Rightarrow> string \<Rightarrow> 's \<Rightarrow>
    (ports_error, LifecycleReconcileClaim option) result \<times> 's"
  ApplyAction :: "'s apply_action"
  BatchClaim :: "'s claim_batch option"

record 's Reconciler =
  PrepareImages :: "(time \<Rightarrow> 's \<Rightarrow> (ports_error, bool) result \<times> 's) option"
  Store :: "'s ReconcileStore option"
  Effects :: "(LifecycleReconcileClaim \<Rightarrow> Decision \<Rightarrow> time \<Rightarrow> time \<Rightarrow> 's \<Rightarrow> perr option \<times> 's) option"
  ReconcilerWorkerID :: string
  ClaimDuration :: duration
  PollInterval :: duration
  BatchSize :: int

text \<open>
  \<open>reconcileClaim\<close> returns the decision (\<open>None\<close> for the zero \<open>Decision\<close>) and
  the error that the deferred function wraps with the Sandbox's identity.
\<close>

definition reconcileClaim ::
  "'s Reconciler \<Rightarrow> 's ReconcileStore \<Rightarrow> LifecycleReconcileClaim \<Rightarrow> time \<Rightarrow> 's \<Rightarrow>
   (Decision option \<times> perr option) \<times> 's" where
  "reconcileClaim reconciler store claim now s =
     (let view = viewOfClaim claim;
          decision = Decide view now;
          nextReconcileAt = nextLifecycleReconcileAt view decision now (PollInterval reconciler)
      in if actionRequiresEffect (DecisionAction decision) then
           (case Effects reconciler of
              None \<Rightarrow> ((None, Some (Wrapped Opaque)), s)
            | Some execute \<Rightarrow>
                (case execute claim decision now (now + PollInterval reconciler) s of
                   (None, s') \<Rightarrow> ((Some decision, None), s')
                 | (Some err, s') \<Rightarrow>
                     if IsRetryableReconcileError err then
                       (case ApplyAction store claim (Action_string ActionWait) [] now
                               (now + PollInterval reconciler) s' of
                          (Some waitErr, s'') \<Rightarrow> ((None, Some (Wrapped (Wrapped waitErr))), s'')
                        | (None, s'') \<Rightarrow> ((Some decision, None), s''))
                     else ((None, Some (Wrapped (Wrapped err))), s')))
         else
           (case ApplyAction store claim (Action_string (DecisionAction decision))
                   (TerminationReason decision) now nextReconcileAt s of
              (Some err, s') \<Rightarrow> ((None, Some (Wrapped (Wrapped err))), s')
            | (None, s') \<Rightarrow> ((Some decision, None), s')))"

definition RunOnce ::
  "'s Reconciler \<Rightarrow> time \<Rightarrow> string \<Rightarrow> 's \<Rightarrow> (Decision option \<times> bool \<times> perr option) \<times> 's" where
  "RunOnce reconciler now wakeTrigger s =
     (case Store reconciler of
        None \<Rightarrow> ((None, False, Some Opaque), s)
      | Some store \<Rightarrow>
          if ReconcilerWorkerID reconciler = [] \<or> ClaimDuration reconciler \<le> 0 \<or>
             PollInterval reconciler \<le> 0
          then ((None, False, Some Opaque), s)
          else
            (case ClaimOne store (ReconcilerWorkerID reconciler) now (ClaimDuration reconciler)
                    wakeTrigger s of
               (Inl err, s') \<Rightarrow> ((None, False, Some err), s')
             | (Inr None, s') \<Rightarrow> ((None, False, None), s')
             | (Inr (Some claim), s') \<Rightarrow>
                 (case reconcileClaim reconciler store claim now s' of
                    ((decision, err), s'') \<Rightarrow> ((decision, True, err), s''))))"

text \<open>
  The goroutines of a batch each run one claim; every store transaction is
  atomic, and the model runs the claims one after the other, each with its own
  reading of the clock.
\<close>

datatype clock_reading = AtPrepare | AtClaim | AtRun nat

fun runClaims ::
  "'s Reconciler \<Rightarrow> 's ReconcileStore \<Rightarrow> (clock_reading \<Rightarrow> time) \<Rightarrow> nat \<Rightarrow>
   LifecycleReconcileClaim list \<Rightarrow> 's \<Rightarrow> perr option list \<times> 's" where
  "runClaims reconciler store clock i [] s = ([], s)"
| "runClaims reconciler store clock i (claim # claims) s =
     (case reconcileClaim reconciler store claim (clock (AtRun i)) s of
        ((_, err), s') \<Rightarrow>
          (case runClaims reconciler store clock (Suc i) claims s' of
             (errs, s'') \<Rightarrow> (err # errs, s'')))"

definition joinClaimErrors :: "bool \<Rightarrow> perr option list \<Rightarrow> perr option" where
  "joinClaimErrors ctxDone claimErrors =
     (let errs = List.map_filter id claimErrors;
          isFatal = (\<lambda>err. ctxDone \<or> \<not> IsRetryableReconcileError err);
          fatalErrors = filter isFatal errs;
          retryErrors = filter (\<lambda>err. \<not> isFatal err) errs
      in if fatalErrors \<noteq> [] then errors_Join (map Some fatalErrors)
         else errors_Join (map Some retryErrors))"

definition RunBatch ::
  "'s Reconciler \<Rightarrow> bool \<Rightarrow> (clock_reading \<Rightarrow> time) option \<Rightarrow> string \<Rightarrow> 's \<Rightarrow>
   (bool \<times> perr option) \<times> 's" where
  "RunBatch reconciler ctxDone clock wakeTrigger s =
     (case (Store reconciler, clock) of
        (Some store, Some clock) \<Rightarrow>
          if ReconcilerWorkerID reconciler = [] \<or> ClaimDuration reconciler \<le> 0 \<or>
             PollInterval reconciler \<le> 0 \<or> BatchSize reconciler \<le> 0
          then ((False, Some Opaque), s)
          else
            (case (case PrepareImages reconciler of
                     None \<Rightarrow> (Inr False, s)
                   | Some prepare \<Rightarrow> prepare (clock AtPrepare) s) of
               (Inl err, s1) \<Rightarrow> ((False, Some err), s1)
             | (Inr preparationChanged, s1) \<Rightarrow>
                 if BatchSize reconciler = 1 then
                   (case RunOnce reconciler (clock AtClaim) wakeTrigger s1 of
                      ((_, found, err), s2) \<Rightarrow> ((found \<or> preparationChanged, err), s2))
                 else
                   (case BatchClaim store of
                      None \<Rightarrow> ((False, Some Opaque), s1)
                    | Some claimBatch \<Rightarrow>
                        (case claimBatch (ReconcilerWorkerID reconciler) (clock AtClaim)
                                (ClaimDuration reconciler) (nat (BatchSize reconciler)) wakeTrigger s1 of
                           (Inl err, s2) \<Rightarrow> ((preparationChanged, Some err), s2)
                         | (Inr claims, s2) \<Rightarrow>
                             if claims = [] then ((preparationChanged, None), s2)
                             else if int (length claims) > BatchSize reconciler
                             then ((False, Some Opaque), s2)
                             else
                               (case runClaims reconciler store clock 0 claims s2 of
                                  (claimErrors, s3) \<Rightarrow>
                                    ((True, joinClaimErrors ctxDone claimErrors), s3)))))
      | _ \<Rightarrow> ((False, Some Opaque), s))"

section \<open>What the worker relies on\<close>

text \<open>
  The events of a store: commits of claimed transitions, in any order and by
  any worker, and claims, which change no revision.
\<close>

datatype 'ev store_event =
    CommitEvent LifecycleReconcileClaim string string time time
  | OtherEvent 'ev

fun do_event :: "'s apply_action \<Rightarrow> ('ev \<Rightarrow> 's \<Rightarrow> 's) \<Rightarrow> 'ev store_event \<Rightarrow> 's \<Rightarrow> 's" where
  "do_event app oth (CommitEvent c a r now due) s = snd (app c a r now due s)"
| "do_event app oth (OtherEvent ev) s = oth ev s"

definition store_events :: "'s apply_action \<Rightarrow> ('ev \<Rightarrow> 's \<Rightarrow> 's) \<Rightarrow> 'ev store_event list \<Rightarrow> 's \<Rightarrow> 's" where
  "store_events app oth = fold (do_event app oth)"

locale reconcile_store =
  fixes app :: "'s apply_action"
    and oth :: "'ev \<Rightarrow> 's \<Rightarrow> 's"
    and revision_of :: "'s \<Rightarrow> string \<Rightarrow> int option"
    and owner_of :: "'s \<Rightarrow> string \<Rightarrow> string option"
    and valid :: "'s \<Rightarrow> bool"
  assumes rollback: "app c a r now due s = (Some e, s') \<Longrightarrow> s' = s"
    and fenced: "valid s \<Longrightarrow> app c a r now due s = (None, s') \<Longrightarrow>
      revision_of s (SandboxID c) = Some (Revision c) \<and> owner_of s (SandboxID c) = Some (WorkerID c)"
    and released: "valid s \<Longrightarrow> app c a r now due s = (None, s') \<Longrightarrow>
      valid s' \<and> owner_of s' (SandboxID c) = Some []"
    and advanced: "valid s \<Longrightarrow> app c a r now due s = (None, s') \<Longrightarrow>
      revision_of s' (SandboxID c) = Some (if a = ''wait'' then Revision c else Revision c + 1)"
    and framed: "valid s \<Longrightarrow> app c a r now due s = (None, s') \<Longrightarrow> i \<noteq> SandboxID c \<Longrightarrow>
      revision_of s' i = revision_of s i"
    and other_valid: "valid s \<Longrightarrow> valid (oth ev s) \<and> revision_of (oth ev s) i = revision_of s i"
begin

lemma claim_released_once:
  assumes "valid s" "WorkerID c \<noteq> []" "app c a r now due s = (None, s')"
  shows "fst (app c a' r' now' due' s') \<noteq> None"
proof
  assume "fst (app c a' r' now' due' s') = None"
  then obtain s'' where commit: "app c a' r' now' due' s' = (None, s'')"
    by (metis prod.collapse)
  have "valid s'" "owner_of s' (SandboxID c) = Some []"
    using released [OF assms(1,3)] by simp_all
  then show False
    using fenced [OF _ commit] assms(2) by simp
qed

lemma event_monotone:
  assumes "valid s" "revision_of s i = Some n"
  shows "valid (do_event app oth ev s) \<and> (\<exists>m \<ge> n. revision_of (do_event app oth ev s) i = Some m)"
proof (cases ev)
  case (CommitEvent c a r now due)
  obtain res s' where app: "app c a r now due s = (res, s')" by force
  show ?thesis
  proof (cases res)
    case None
    note ok = app [unfolded None]
    show ?thesis
      using fenced [OF assms(1) ok] released [OF assms(1) ok] advanced [OF assms(1) ok]
        framed [OF assms(1) ok, of i] assms(2) ok
      by (cases "i = SandboxID c") (simp_all add: CommitEvent)
  next
    case (Some e)
    show ?thesis
      using rollback [OF app [unfolded Some]] app assms by (simp add: CommitEvent)
  qed
next
  case (OtherEvent ev)
  then show ?thesis
    using assms other_valid by simp
qed

lemma events_monotone:
  assumes "valid s" "revision_of s i = Some n"
  shows "valid (store_events app oth evs s) \<and> (\<exists>m \<ge> n. revision_of (store_events app oth evs s) i = Some m)"
  using assms
proof (induction evs arbitrary: s n)
  case Nil
  then show ?case by (simp add: store_events_def)
next
  case (Cons ev evs)
  obtain m where m: "m \<ge> n" "valid (do_event app oth ev s)" "revision_of (do_event app oth ev s) i = Some m"
    using event_monotone [OF Cons.prems] by blast
  then show ?case
    using Cons.IH [OF m(2,3)] by (auto simp: store_events_def)
qed

lemma changed_claim_is_spent:
  assumes "valid s" "app c a r now due s = (None, s')" "a \<noteq> ''wait''"
  shows "fst (app c a' r' now' due' (store_events app oth evs s')) \<noteq> None"
proof
  assume "fst (app c a' r' now' due' (store_events app oth evs s')) = None"
  then obtain s'' where commit: "app c a' r' now' due' (store_events app oth evs s') = (None, s'')"
    by (metis prod.collapse)
  obtain m where "m \<ge> Revision c + 1" "valid (store_events app oth evs s')"
      "revision_of (store_events app oth evs s') (SandboxID c) = Some m"
    using events_monotone [of s' "SandboxID c" "Revision c + 1" evs]
      released [OF assms(1,2)] advanced [OF assms(1,2)] assms(3) by auto
  then show False
    using fenced [OF _ commit] by simp
qed

lemma wait_holds_revisions:
  assumes "valid s" "ApplyAction store = app"
    and "DecisionAction (Decide (viewOfClaim c) now) = ActionWait"
    and "reconcileClaim reconciler store c now s = (res, s')"
  shows "revision_of s' i = revision_of s i"
proof -
  obtain err s'' where app: "app c ''wait'' (TerminationReason (Decide (viewOfClaim c) now)) now
      (nextLifecycleReconcileAt (viewOfClaim c) (Decide (viewOfClaim c) now) now (PollInterval reconciler)) s =
      (err, s'')"
    by force
  then have s'': "s' = s''"
    using assms by (auto simp: reconcileClaim_def Let_def split: option.splits)
  show ?thesis
  proof (cases err)
    case None
    note ok = app [unfolded None]
    show ?thesis
      using fenced [OF assms(1) ok] advanced [OF assms(1) ok] framed [OF assms(1) ok, of i]
      by (cases "i = SandboxID c") (simp_all add: s'')
  next
    case (Some e)
    show ?thesis
      using rollback [OF app [unfolded Some]] by (simp add: s'')
  qed
qed

end

end
