(* ===== verification/Quota_Limits.thy ===== *)
theory Quota_Limits
  imports Contracts
begin

text \<open>
  Quota ceilings (\<open>pkg/contracts/policy_limit.go\<close>) and the admission predicates
  over them (the end of \<open>internal/store/postgres_store.go\<close>). A ceiling is an
  \<open>int64\<close> whose value \<open>-1\<close> means that there is none; in PostgreSQL that is NULL.
\<close>

section \<open>Ceilings\<close>

type_synonym PolicyLimit = int

definition Unlimited :: PolicyLimit where
  "Unlimited = -1"

definition MaximumPolicyLimit :: int where
  "MaximumPolicyLimit = 2 ^ 53 - 1"

definition IsUnlimited :: "PolicyLimit \<Rightarrow> bool" where
  "IsUnlimited limit \<longleftrightarrow> limit = Unlimited"

definition ValidLimit :: "int \<Rightarrow> PolicyLimit \<Rightarrow> bool" where
  "ValidLimit minimum limit \<longleftrightarrow> IsUnlimited limit \<or> (minimum \<le> limit \<and> limit \<le> MaximumPolicyLimit)"

definition Allows :: "PolicyLimit \<Rightarrow> int \<Rightarrow> bool" where
  "Allows limit v \<longleftrightarrow> IsUnlimited limit \<or> v \<le> limit"

definition Remaining :: "PolicyLimit \<Rightarrow> int \<Rightarrow> PolicyLimit" where
  "Remaining limit used = (if IsUnlimited limit then Unlimited else max 0 (i64 (limit - used)))"

definition Within :: "PolicyLimit \<Rightarrow> PolicyLimit \<Rightarrow> bool" where
  "Within limit parent \<longleftrightarrow> IsUnlimited parent \<or> (\<not> IsUnlimited limit \<and> limit \<le> parent)"

definition MinimumPolicyLimit :: "PolicyLimit \<Rightarrow> PolicyLimit \<Rightarrow> PolicyLimit" where
  "MinimumPolicyLimit left right =
     (if IsUnlimited left then right else if IsUnlimited right then left else min left right)"

text \<open>The value a ceiling is stored as, and how a column is read back; \<open>None\<close> on the outside is an error.\<close>

definition limit_Value :: "PolicyLimit \<Rightarrow> int option option" where
  "limit_Value limit =
     (if IsUnlimited limit then Some None else if limit < 0 then None else Some (Some limit))"

definition limit_Scan :: "int option \<Rightarrow> PolicyLimit option" where
  "limit_Scan column = (case column of None \<Rightarrow> Some Unlimited | Some n \<Rightarrow> if n < 0 then None else Some n)"

lemmas limit_defs = IsUnlimited_def Unlimited_def Allows_def Remaining_def Within_def MinimumPolicyLimit_def

lemma limit_stored: "limit_Value limit = Some column \<Longrightarrow> limit_Scan column = Some limit"
  by (auto simp: limit_Value_def limit_Scan_def limit_defs split: if_splits)

lemma limit_loaded: "limit_Scan column = Some limit \<Longrightarrow> limit_Value limit = Some column"
  by (auto simp: limit_Value_def limit_Scan_def limit_defs split: if_splits option.splits)

lemma limit_Scan_range: "limit_Scan column = Some limit \<Longrightarrow> limit = Unlimited \<or> 0 \<le> limit"
  by (auto simp: limit_Scan_def split: option.splits if_splits)

lemma Allows_mono: "Allows limit v \<Longrightarrow> w \<le> v \<Longrightarrow> Allows limit w"
  by (auto simp: limit_defs)

text \<open>Ceilings form a semilattice whose neutral element is the missing ceiling.\<close>

interpretation policy_limit: semilattice_neutr MinimumPolicyLimit Unlimited
  by unfold_locales (auto simp: limit_defs)

lemma Allows_Minimum:
  "0 \<le> v \<Longrightarrow> Allows (MinimumPolicyLimit left right) v \<longleftrightarrow> Allows left v \<and> Allows right v"
  by (auto simp: limit_defs)

lemma Within_iff_Minimum: "Within limit parent \<longleftrightarrow> MinimumPolicyLimit limit parent = limit"
  by (auto simp: limit_defs)

lemma Within_Allows: "Within limit parent \<Longrightarrow> Allows limit v \<Longrightarrow> Allows parent v"
  by (auto simp: limit_defs)

text \<open>What is left of a ceiling admits exactly what the ceiling admits on top of the usage.\<close>

lemma Allows_Remaining:
  assumes "in_i64 limit" "limit = Unlimited \<or> 0 \<le> limit" "0 \<le> used" "in_i64 used" "0 < n"
  shows "Allows (Remaining limit used) n \<longleftrightarrow> Allows limit (used + n)"
proof (cases "limit = Unlimited")
  case False
  then have "i64 (limit - used) = limit - used"
    using assms by (intro i64_id) (auto simp: in_i64_def)
  then show ?thesis
    using False assms by (auto simp: limit_defs)
qed (simp add: limit_defs)

section \<open>Quotas and usage\<close>

record QuotaLimits =
  MaxSandboxes :: PolicyLimit
  MaxActiveInstances :: PolicyLimit
  MaxVCPUCount :: PolicyLimit
  MaxMemoryBytes :: PolicyLimit
  MaxSnapshots :: PolicyLimit
  MaxPortSessions :: PolicyLimit
  MaxConcurrentOperations :: PolicyLimit

record TenantQuotaLimits = QuotaLimits +
  MaxActiveSubjects :: PolicyLimit
  MaxApplicationAuthorities :: PolicyLimit

record quotaUsage =
  use_sandboxes :: int
  use_activeInstances :: int
  use_vcpuCount :: int
  use_memoryBytes :: int
  use_snapshots :: int
  use_portSessions :: int
  use_concurrentOperations :: int

record TenantQuotaUsage = quotaUsage +
  use_activeSubjects :: int
  use_applicationAuthorities :: int

definition noUsage :: quotaUsage where
  "noUsage = \<lparr>use_sandboxes = 0, use_activeInstances = 0, use_vcpuCount = 0, use_memoryBytes = 0,
     use_snapshots = 0, use_portSessions = 0, use_concurrentOperations = 0\<rparr>"

definition subjectQuotaCoversUsage :: "'a QuotaLimits_scheme \<Rightarrow> 'b quotaUsage_scheme \<Rightarrow> bool" where
  "subjectQuotaCoversUsage quota usage \<longleftrightarrow>
     Allows (MaxSandboxes quota) (use_sandboxes usage) \<and>
     Allows (MaxActiveInstances quota) (use_activeInstances usage) \<and>
     Allows (MaxVCPUCount quota) (use_vcpuCount usage) \<and>
     Allows (MaxMemoryBytes quota) (use_memoryBytes usage) \<and>
     Allows (MaxSnapshots quota) (use_snapshots usage) \<and>
     Allows (MaxPortSessions quota) (use_portSessions usage) \<and>
     Allows (MaxConcurrentOperations quota) (use_concurrentOperations usage)"

definition tenantDataPlaneQuotaWouldExceed ::
  "TenantQuotaLimits \<Rightarrow> TenantQuotaUsage \<Rightarrow> quotaUsage \<Rightarrow> bool" where
  "tenantDataPlaneQuotaWouldExceed quota usage delta \<longleftrightarrow>
     \<not> Allows (MaxSandboxes quota) (i64 (use_sandboxes usage + use_sandboxes delta)) \<or>
     \<not> Allows (MaxActiveInstances quota) (i64 (use_activeInstances usage + use_activeInstances delta)) \<or>
     \<not> Allows (MaxVCPUCount quota) (i64 (use_vcpuCount usage + use_vcpuCount delta)) \<or>
     \<not> Allows (MaxMemoryBytes quota) (i64 (use_memoryBytes usage + use_memoryBytes delta)) \<or>
     \<not> Allows (MaxSnapshots quota) (i64 (use_snapshots usage + use_snapshots delta)) \<or>
     \<not> Allows (MaxPortSessions quota) (i64 (use_portSessions usage + use_portSessions delta)) \<or>
     \<not> Allows (MaxConcurrentOperations quota) (i64 (use_concurrentOperations usage + use_concurrentOperations delta))"

definition tenantDurableQuotaWouldExceed ::
  "TenantQuotaLimits \<Rightarrow> TenantQuotaUsage \<Rightarrow> quotaUsage \<Rightarrow> bool" where
  "tenantDurableQuotaWouldExceed quota usage delta \<longleftrightarrow>
     \<not> Allows (MaxSandboxes quota) (i64 (use_sandboxes usage + use_sandboxes delta)) \<or>
     \<not> Allows (MaxSnapshots quota) (i64 (use_snapshots usage + use_snapshots delta)) \<or>
     \<not> Allows (MaxPortSessions quota) (i64 (use_portSessions usage + use_portSessions delta))"

definition subjectDurableQuotaWouldExceed :: "QuotaLimits \<Rightarrow> quotaUsage \<Rightarrow> bool" where
  "subjectDurableQuotaWouldExceed quota usage \<longleftrightarrow>
     \<not> Allows (MaxSandboxes quota) (i64 (use_sandboxes usage + 1)) \<or>
     \<not> Allows (MaxSnapshots quota) (use_snapshots usage) \<or>
     \<not> Allows (MaxPortSessions quota) (use_portSessions usage)"

definition computeQuotaCanFit :: "QuotaLimits \<Rightarrow> TenantQuotaLimits \<Rightarrow> quotaUsage \<Rightarrow> bool" where
  "computeQuotaCanFit subject tenant delta \<longleftrightarrow>
     Allows (MaxActiveInstances subject) (use_activeInstances delta) \<and>
     Allows (MaxVCPUCount subject) (use_vcpuCount delta) \<and>
     Allows (MaxMemoryBytes subject) (use_memoryBytes delta) \<and>
     Allows (MaxConcurrentOperations subject) (use_concurrentOperations delta) \<and>
     Allows (MaxActiveInstances tenant) (use_activeInstances delta) \<and>
     Allows (MaxVCPUCount tenant) (use_vcpuCount delta) \<and>
     Allows (MaxMemoryBytes tenant) (use_memoryBytes delta) \<and>
     Allows (MaxConcurrentOperations tenant) (use_concurrentOperations delta)"

definition quotaWouldExceed :: "QuotaLimits \<Rightarrow> quotaUsage \<Rightarrow> int \<Rightarrow> int \<Rightarrow> int \<Rightarrow> bool" where
  "quotaWouldExceed quota usage requestedCPU requestedMemory requestedActiveInstances \<longleftrightarrow>
     \<not> Allows (MaxSandboxes quota) (i64 (use_sandboxes usage + 1)) \<or>
     \<not> Allows (MaxActiveInstances quota) (i64 (use_activeInstances usage + requestedActiveInstances)) \<or>
     \<not> Allows (MaxVCPUCount quota) (i64 (use_vcpuCount usage + requestedCPU)) \<or>
     \<not> Allows (MaxMemoryBytes quota) (i64 (use_memoryBytes usage + requestedMemory)) \<or>
     \<not> Allows (MaxSnapshots quota) (use_snapshots usage) \<or>
     \<not> Allows (MaxPortSessions quota) (use_portSessions usage) \<or>
     \<not> Allows (MaxConcurrentOperations quota) (use_concurrentOperations usage)"

section \<open>Headroom\<close>

text \<open>The capacity report of a Subject (\<open>internal/store/postgres_subject_capacity.go\<close>).\<close>

definition quotaHeadroomScope :: "PolicyLimit \<Rightarrow> PolicyLimit \<Rightarrow> string" where
  "quotaHeadroomScope subject tenant =
     (if IsUnlimited subject \<and> IsUnlimited tenant then ''none''
      else if subject = tenant then ''tenant_and_subject''
      else if IsUnlimited tenant \<or> (\<not> IsUnlimited subject \<and> subject < tenant) then ''subject''
      else ''tenant'')"

record QuotaConstrainingScopes =
  scope_sandboxes :: string
  scope_activeInstances :: string
  scope_vcpuCount :: string
  scope_memoryBytes :: string
  scope_snapshots :: string
  scope_portSessions :: string
  scope_concurrentOperations :: string

record QuotaHeadroom =
  room_sandboxes :: PolicyLimit
  room_activeInstances :: PolicyLimit
  room_vcpuCount :: PolicyLimit
  room_memoryBytes :: PolicyLimit
  room_snapshots :: PolicyLimit
  room_portSessions :: PolicyLimit
  room_concurrentOperations :: PolicyLimit

record SubjectCapacity =
  cap_SubjectRef :: string
  cap_Limits :: QuotaLimits
  cap_ConstrainingScopes :: QuotaConstrainingScopes
  cap_Usage :: quotaUsage
  cap_Available :: QuotaHeadroom
  cap_ObservedAt :: time

definition constraining_scopes ::
  "QuotaLimits \<Rightarrow> quotaUsage \<Rightarrow> TenantQuotaLimits \<Rightarrow> TenantQuotaUsage \<Rightarrow> QuotaConstrainingScopes" where
  "constraining_scopes limits usage tenantLimits tenantUsage =
     \<lparr>scope_sandboxes = quotaHeadroomScope (Remaining (MaxSandboxes limits) (use_sandboxes usage))
        (Remaining (MaxSandboxes tenantLimits) (use_sandboxes tenantUsage)),
      scope_activeInstances = quotaHeadroomScope (Remaining (MaxActiveInstances limits) (use_activeInstances usage))
        (Remaining (MaxActiveInstances tenantLimits) (use_activeInstances tenantUsage)),
      scope_vcpuCount = quotaHeadroomScope (Remaining (MaxVCPUCount limits) (use_vcpuCount usage))
        (Remaining (MaxVCPUCount tenantLimits) (use_vcpuCount tenantUsage)),
      scope_memoryBytes = quotaHeadroomScope (Remaining (MaxMemoryBytes limits) (use_memoryBytes usage))
        (Remaining (MaxMemoryBytes tenantLimits) (use_memoryBytes tenantUsage)),
      scope_snapshots = quotaHeadroomScope (Remaining (MaxSnapshots limits) (use_snapshots usage))
        (Remaining (MaxSnapshots tenantLimits) (use_snapshots tenantUsage)),
      scope_portSessions = quotaHeadroomScope (Remaining (MaxPortSessions limits) (use_portSessions usage))
        (Remaining (MaxPortSessions tenantLimits) (use_portSessions tenantUsage)),
      scope_concurrentOperations =
        quotaHeadroomScope (Remaining (MaxConcurrentOperations limits) (use_concurrentOperations usage))
        (Remaining (MaxConcurrentOperations tenantLimits) (use_concurrentOperations tenantUsage))\<rparr>"

definition available_headroom ::
  "QuotaLimits \<Rightarrow> quotaUsage \<Rightarrow> TenantQuotaLimits \<Rightarrow> TenantQuotaUsage \<Rightarrow> QuotaHeadroom" where
  "available_headroom limits usage tenantLimits tenantUsage =
     \<lparr>room_sandboxes = MinimumPolicyLimit (Remaining (MaxSandboxes limits) (use_sandboxes usage))
        (Remaining (MaxSandboxes tenantLimits) (use_sandboxes tenantUsage)),
      room_activeInstances = MinimumPolicyLimit (Remaining (MaxActiveInstances limits) (use_activeInstances usage))
        (Remaining (MaxActiveInstances tenantLimits) (use_activeInstances tenantUsage)),
      room_vcpuCount = MinimumPolicyLimit (Remaining (MaxVCPUCount limits) (use_vcpuCount usage))
        (Remaining (MaxVCPUCount tenantLimits) (use_vcpuCount tenantUsage)),
      room_memoryBytes = MinimumPolicyLimit (Remaining (MaxMemoryBytes limits) (use_memoryBytes usage))
        (Remaining (MaxMemoryBytes tenantLimits) (use_memoryBytes tenantUsage)),
      room_snapshots = MinimumPolicyLimit (Remaining (MaxSnapshots limits) (use_snapshots usage))
        (Remaining (MaxSnapshots tenantLimits) (use_snapshots tenantUsage)),
      room_portSessions = MinimumPolicyLimit (Remaining (MaxPortSessions limits) (use_portSessions usage))
        (Remaining (MaxPortSessions tenantLimits) (use_portSessions tenantUsage)),
      room_concurrentOperations =
        MinimumPolicyLimit (Remaining (MaxConcurrentOperations limits) (use_concurrentOperations usage))
        (Remaining (MaxConcurrentOperations tenantLimits) (use_concurrentOperations tenantUsage))\<rparr>"

text \<open>The headroom of one axis admits exactly what both ceilings admit.\<close>

definition ceiling_ok :: "PolicyLimit \<Rightarrow> int \<Rightarrow> bool" where
  "ceiling_ok limit used \<longleftrightarrow> in_i64 limit \<and> (limit = Unlimited \<or> 0 \<le> limit) \<and> 0 \<le> used \<and> in_i64 used"

lemma headroom_exact:
  assumes "ceiling_ok l u" "ceiling_ok t v" "0 < n"
  shows "Allows (MinimumPolicyLimit (Remaining l u) (Remaining t v)) n \<longleftrightarrow> Allows l (u + n) \<and> Allows t (v + n)"
  using assms by (simp add: Allows_Minimum Allows_Remaining ceiling_ok_def)

text \<open>The constraining scope names a ceiling that leaves exactly the headroom.\<close>

lemma headroom_scope:
  "quotaHeadroomScope l t = ''subject'' \<Longrightarrow> MinimumPolicyLimit l t = l"
  "quotaHeadroomScope l t = ''tenant'' \<Longrightarrow> MinimumPolicyLimit l t = t"
  "quotaHeadroomScope l t = ''none'' \<longleftrightarrow> MinimumPolicyLimit l t = Unlimited"
  by (auto simp: quotaHeadroomScope_def limit_defs split: if_splits)

end
