(* ===== verification/Database.thy ===== *)
theory Database
  imports Lifecycle_Worker Quota_Limits
begin

text \<open>
  The PostgreSQL tables that the lifecycle transactions read and write, one
  record per row, a table being the list of its rows, and the transaction state
  the row locks are taken in. A nullable column is an option; a column the code
  only reads through \<open>COALESCE(column,'')\<close> is a string. The pinned lifecycle
  policy and the resource columns are kept as the code reads them.
\<close>

section \<open>Tables\<close>

record SandboxRow =
  sb_id :: string
  sb_tenant_ref :: string
  sb_subject_ref :: string
  sb_workspace_id :: string
  sb_profile_revision_id :: string
  sb_egress_context :: "string option"
  sb_state :: string
  sb_desired_state :: string
  sb_generation :: int
  sb_revision :: int
  sb_current_instance_id :: string
  sb_reconcile_owner :: string
  sb_reconcile_claim_expires_at :: "time option"
  sb_next_reconcile_at :: "time option"
  sb_drain_started_at :: "time option"
  sb_last_activity_at :: "time option"
  sb_lifecycle_action :: string
  sb_lifecycle_intent_kind :: string
  sb_lifecycle_termination_reason :: string
  sb_lifecycle_failure_class :: string
  sb_lifecycle_failure_message :: string
  sb_updated_at :: time
  sb_vcpu_count :: int
  sb_memory_bytes :: int
  sb_workspace_bytes :: int
  sb_drain_grace_seconds :: int
  sb_idle_seconds :: int
  sb_maximum_duration_seconds :: int
  sb_execution_image_reference :: string
  sb_execution_image_digest :: string
  sb_lifecycle_request_metadata :: "(string \<times> string) list"

record WorkspaceRow =
  ws_id :: string
  ws_sandbox_id :: string
  ws_home_runner_id :: string
  ws_state :: string
  ws_logical_capacity_bytes :: int
  ws_generation :: int
  ws_mutation_kind :: string
  ws_mutation_id :: string
  ws_mutation_effect_id :: string
  ws_mutation_operation_id :: string
  ws_mutation_expected_generation :: "int option"
  ws_mutation_target_generation :: "int option"
  ws_mutation_state :: string
  ws_receipt_decodes :: bool
  ws_updated_at :: time

record SnapshotRow =
  sn_id :: string
  sn_tenant_ref :: string
  sn_subject_ref :: string
  sn_sandbox_id :: string
  sn_workspace_id :: string
  sn_home_runner_id :: string
  sn_state :: string

record SubjectRow =
  subj_tenant_ref :: string
  subj_ref :: string
  subj_state :: string
  subj_expires_at :: "time option"

record EffectRow =
  ef_id :: string
  ef_sandbox_id :: string
  ef_generation :: int
  ef_kind :: string
  ef_state :: string
  ef_created_at :: time

record LeaseRow =
  ls_id :: string
  ls_sandbox_id :: string
  ls_generation :: int
  ls_state :: string
  ls_revision :: int
  ls_expires_at :: time
  ls_updated_at :: time

record SessionRow =
  as_sandbox_id :: string
  as_tenant_ref :: string
  as_subject_ref :: string
  as_generation :: int
  as_lease_id :: string
  as_state :: string
  as_closed_at :: "time option"
  as_updated_at :: time

record InstanceRow =
  in_id :: string
  in_sandbox_id :: string
  in_generation :: int
  in_guest_liveness :: string
  in_termination_reason :: string
  in_ready_at :: "time option"
  in_updated_at :: time

record AssignmentRow =
  am_sandbox_id :: string
  am_generation :: int
  am_instance_id :: string
  am_operation_deadline :: "time option"

record OperationRow =
  op_id :: string
  op_sandbox_id :: string
  op_kind :: string
  op_state :: string
  op_error_code :: string
  op_error_message :: string
  op_retryable :: bool
  op_created_at :: time
  op_started_at :: "time option"
  op_completed_at :: "time option"
  op_updated_at :: time
  op_tenant_ref :: string
  op_subject_ref :: string
  op_snapshot_id :: string
  op_request_id :: string
  op_request_metadata :: "(string \<times> string) list"
  op_capacity_wait_deadline :: "time option"

record TimingRow =
  tm_operation_id :: string
  tm_sandbox_id :: string
  tm_stage :: string
  tm_observed_at :: time

record QuotaRow =
  qr_max_sandboxes :: "int option"
  qr_max_active_instances :: "int option"
  qr_max_vcpu_count :: "int option"
  qr_max_memory_bytes :: "int option"
  qr_max_snapshots :: "int option"
  qr_max_port_sessions :: "int option"
  qr_max_concurrent_operations :: "int option"

record SubjectQuotaRow = QuotaRow +
  sq_tenant_ref :: string
  sq_subject_ref :: string

record TenantQuotaRow = QuotaRow +
  tq_max_active_subjects :: "int option"
  tq_max_application_authorities :: "int option"
  tq_tenant_ref :: string

record TenantRow =
  tn_ref :: string
  tn_state :: string
  tn_expires_at :: "time option"

record PortSessionRow =
  ps_tenant_ref :: string
  ps_subject_ref :: string
  ps_state :: string
  ps_expires_at :: time

record DataPlaneSessionRow =
  dp_tenant_ref :: string
  dp_subject_ref :: string
  dp_state :: string

record AuthorityRow =
  aa_tenant_ref :: string
  aa_state :: string
  aa_expires_at :: "time option"

record RunnerRow =
  rn_id :: string
  rn_state :: string

record IdempotencyRow =
  id_tenant_ref :: string
  id_subject_ref :: string
  id_operation :: string
  id_target_id :: string
  id_idempotency_key :: string
  id_request_hash :: string
  id_response_resource_id :: string
  id_created_at :: time
  id_expires_at :: time

record AuditRow =
  au_id :: string
  au_tenant_ref :: string
  au_subject_ref :: string
  au_actor_kind :: string
  au_actor_id :: string
  au_action :: string
  au_resource_kind :: string
  au_resource_id :: string
  au_outcome :: string
  au_request_id :: string
  au_details :: "(string \<times> string) list"
  au_created_at :: time

record Database =
  tenant_quotas :: "TenantQuotaRow list"
  subject_quotas :: "SubjectQuotaRow list"
  subjects :: "SubjectRow list"
  sandboxes :: "SandboxRow list"
  workspaces :: "WorkspaceRow list"
  snapshots :: "SnapshotRow list"
  lifecycle_effects :: "EffectRow list"
  leases :: "LeaseRow list"
  activity_sessions :: "SessionRow list"
  instances :: "InstanceRow list"
  assignments :: "AssignmentRow list"
  operations :: "OperationRow list"
  stage_timings :: "TimingRow list"
  tenants :: "TenantRow list"
  port_sessions :: "PortSessionRow list"
  data_plane_sessions :: "DataPlaneSessionRow list"
  application_authorities :: "AuthorityRow list"
  runners :: "RunnerRow list"
  idempotency_records :: "IdempotencyRow list"
  audit_events :: "AuditRow list"

section \<open>Statements\<close>

text \<open>
  \<open>UPDATE ... SET f WHERE p\<close> rewrites the rows that match and reports how many
  did; \<open>INSERT ... ON CONFLICT DO NOTHING\<close> keeps the first row of each key.
\<close>

definition update_where :: "('r \<Rightarrow> bool) \<Rightarrow> ('r \<Rightarrow> 'r) \<Rightarrow> 'r list \<Rightarrow> 'r list" where
  "update_where p f rows = map (\<lambda>r. if p r then f r else r) rows"

definition rows_affected :: "('r \<Rightarrow> bool) \<Rightarrow> 'r list \<Rightarrow> nat" where
  "rows_affected p rows = length (filter p rows)"

definition insert_new :: "('r \<Rightarrow> 'k) \<Rightarrow> 'r list \<Rightarrow> 'r list \<Rightarrow> 'r list" where
  "insert_new key new rows =
     fold (\<lambda>r acc. if key r \<in> set (map key acc) then acc else acc @ [r]) new rows"

definition in_flight :: "OperationRow \<Rightarrow> bool" where
  "in_flight o1 \<longleftrightarrow> op_state o1 = OperationStatePending \<or> op_state o1 = OperationStateRunning"

abbreviation by_id :: "string \<Rightarrow> SandboxRow \<Rightarrow> bool" where
  "by_id sid r \<equiv> sb_id r = sid"

definition find_sandbox :: "Database \<Rightarrow> string \<Rightarrow> SandboxRow option" where
  "find_sandbox d sid = List.find (by_id sid) (sandboxes d)"

text \<open>Primary keys: the database admits one row per identifier.\<close>

definition keys_ok :: "Database \<Rightarrow> bool" where
  "keys_ok d \<longleftrightarrow> distinct (map sb_id (sandboxes d)) \<and> distinct (map ws_id (workspaces d)) \<and>
     distinct (map op_id (operations d)) \<and> distinct (map ef_id (lifecycle_effects d)) \<and>
     distinct (map ls_id (leases d)) \<and> distinct (map in_id (instances d))"

lemma update_where_keys [simp]:
  "(\<And>r. key (f r) = key r) \<Longrightarrow> map key (update_where p f rows) = map key rows"
  by (simp add: update_where_def)

lemma length_update_where [simp]: "length (update_where p f rows) = length rows"
  by (simp add: update_where_def)

lemma set_update_where: "set (update_where p f rows) = (\<lambda>r. if p r then f r else r) ` set rows"
  by (simp add: update_where_def)

lemma find_update_where:
  "(\<And>r. q (f r) = q r) \<Longrightarrow>
   List.find q (update_where p f rows) =
     map_option (\<lambda>r. if p r then f r else r) (List.find q rows)"
  by (induction rows) (auto simp: update_where_def)

lemma find_key_unique:
  "distinct (map key rows) \<Longrightarrow> r \<in> set rows \<Longrightarrow> List.find (\<lambda>x. key x = key r) rows = Some r"
  by (induction rows) force+

lemma rows_affected_key:
  "distinct (map key rows) \<Longrightarrow> rows_affected (\<lambda>r. key r = k \<and> p r) rows =
     (case List.find (\<lambda>r. key r = k) rows of Some r \<Rightarrow> if p r then 1 else 0 | None \<Rightarrow> 0)"
proof (induction rows)
  case (Cons a rows)
  then show ?case
    by (fastforce simp: rows_affected_def filter_empty_conv dest!: find_mem split: option.splits)
qed (simp add: rows_affected_def)

section \<open>Transactions\<close>

text \<open>
  A transaction carries the database it will commit, the row locks in the order
  it took them, and the Sandboxes it locked without their quota ledgers. A row
  lock that is already held is not taken again.
\<close>

datatype Lock =
    TenantLedger string
  | SubjectLedger string string
  | SubjectLock string string
  | SandboxLock string
  | WorkspaceLock string
  | SnapshotLock string
  | EffectLock string
  | TenantLock string
  | RunnerShare string

record Tx =
  tx_db :: Database
  tx_locks :: "Lock list"
  tx_ledgerless :: "string list"

type_synonym 'a tx = "(Tx, ports_error, 'a) st"

definition begin_tx :: "Database \<Rightarrow> Tx" where
  "begin_tx d = \<lparr>tx_db = d, tx_locks = [], tx_ledgerless = []\<rparr>"

definition locking :: "Lock \<Rightarrow> Tx \<Rightarrow> Tx" where
  "locking l tx = (if l \<in> set (tx_locks tx) then tx else tx\<lparr>tx_locks := tx_locks tx @ [l]\<rparr>)"

definition lock :: "Lock \<Rightarrow> unit tx" where
  "lock l = st_modify (locking l)"

text \<open>\<open>SELECT ... FOR UPDATE\<close>: the lock is taken on the row that is found.\<close>

definition select_for_update :: "(Database \<Rightarrow> 'r option) \<Rightarrow> ('r \<Rightarrow> Lock) \<Rightarrow> 'r tx" where
  "select_for_update q l =
     st_bind (st_get (\<lambda>tx. q (tx_db tx))) (\<lambda>r.
       case r of None \<Rightarrow> st_fail (Sentinel ErrNoRows)
               | Some row \<Rightarrow> st_bind (lock (l row)) (\<lambda>_. st_return row))"

text \<open>A deferred rollback drops every change unless the body committed.\<close>

definition run_tx :: "'a tx \<Rightarrow> Database \<Rightarrow> (ports_error, 'a) result \<times> Database" where
  "run_tx body d =
     (case body (begin_tx d) of (Inl e, _) \<Rightarrow> (Inl e, d) | (Inr a, tx) \<Rightarrow> (Inr a, tx_db tx))"

lemma wp_select_for_update [wp_simps]:
  "wp (select_for_update q l) Q E tx =
     (case q (tx_db tx) of
        None \<Rightarrow> E (Sentinel ErrNoRows) tx
      | Some row \<Rightarrow> Q row (locking (l row) tx))"
  by (simp add: select_for_update_def lock_def wp_simps split: option.splits)

lemma wp_lock [wp_simps]: "wp (lock l) Q E tx = Q () (locking l tx)"
  by (simp add: lock_def wp_simps)

lemma locking_db [simp]:
  "tx_db (locking l tx) = tx_db tx" "tx_ledgerless (locking l tx) = tx_ledgerless tx"
  by (simp_all add: locking_def)

lemma locking_locks: "set (tx_locks (locking l tx)) = insert l (set (tx_locks tx))"
  by (auto simp: locking_def)

lemma run_tx_wp:
  "wp body (\<lambda>a tx. Q (Inr a) (tx_db tx)) (\<lambda>e tx. Q (Inl e) d) (begin_tx d) \<longleftrightarrow>
   (case run_tx body d of (r, d') \<Rightarrow> Q r d')"
  by (simp add: wp_def run_tx_def split: prod.splits sum.splits)

end
