(* ===== verification/Row_Locks.thy ===== *)
theory Row_Locks
  imports Database
begin

text \<open>
  The row-lock discipline of \<open>internal/store/rowlock\<close>: which rows a mutation
  locks, in which order, and when it needs the quota ledgers. Every operation
  is modelled as the transaction prefix it is; the lock trace it leaves is what
  the lemmas speak about.
\<close>

section \<open>Quota usage\<close>

definition NonIncreasingTransition :: "string \<Rightarrow> string \<Rightarrow> bool" where
  "NonIncreasingTransition state desiredState = False"

definition AlwaysQuotaLedger :: "string \<Rightarrow> string \<Rightarrow> bool" where
  "AlwaysQuotaLedger state desiredState = True"

definition QuotaUsageActive :: "string \<Rightarrow> string \<Rightarrow> bool" where
  "QuotaUsageActive state desiredState =
     (if state = SandboxStateStarting \<or> state = SandboxStateReady \<or>
         state = SandboxStateDraining \<or> state = SandboxStateStopping then True
      else if state = SandboxStateCreating \<or> state = SandboxStateStopped
      then desiredState = SandboxDesiredStateRunning
      else False)"

definition QuotaUsageIncreases :: "string \<Rightarrow> string \<Rightarrow> string \<Rightarrow> string \<Rightarrow> bool" where
  "QuotaUsageIncreases fromState fromDesired toState toDesired =
     (if fromState = SandboxStateDeleted \<and> toState \<noteq> SandboxStateDeleted then True
      else QuotaUsageActive toState toDesired \<and> \<not> QuotaUsageActive fromState fromDesired)"

section \<open>Quota ledgers\<close>

definition TenantQuota :: "string \<Rightarrow> unit tx" where
  "TenantQuota tenantRef =
     st_catch
       (select_for_update (\<lambda>d. List.find (\<lambda>r. tq_tenant_ref r = tenantRef) (tenant_quotas d))
          (\<lambda>r. TenantLedger (tq_tenant_ref r)))
       (\<lambda>r. case r of Inl e \<Rightarrow> st_fail (Wrapped e) | Inr _ \<Rightarrow> st_return ())"

definition SubjectQuota :: "string \<Rightarrow> string \<Rightarrow> unit tx" where
  "SubjectQuota tenantRef subjectRef =
     st_catch
       (select_for_update
          (\<lambda>d. List.find (\<lambda>r. sq_tenant_ref r = tenantRef \<and> sq_subject_ref r = subjectRef) (subject_quotas d))
          (\<lambda>r. SubjectLedger (sq_tenant_ref r) (sq_subject_ref r)))
       (\<lambda>r. case r of Inl e \<Rightarrow> st_fail (Wrapped e) | Inr _ \<Rightarrow> st_return ())"

definition TenantAndSubjectQuota :: "string \<Rightarrow> string \<Rightarrow> unit tx" where
  "TenantAndSubjectQuota tenantRef subjectRef =
     st_bind (TenantQuota tenantRef) (\<lambda>_. SubjectQuota tenantRef subjectRef)"

definition ActiveSubject :: "string \<Rightarrow> string \<Rightarrow> time \<Rightarrow> unit tx" where
  "ActiveSubject tenantRef subjectRef now =
     st_catch
       (select_for_update
          (\<lambda>d. List.find (\<lambda>r. subj_tenant_ref r = tenantRef \<and> subj_ref r = subjectRef) (subjects d))
          (\<lambda>r. SubjectLock tenantRef subjectRef))
       (\<lambda>r. case r of
          Inl e \<Rightarrow>
            if errors_Is ErrNoRows e then st_fail (Sentinel ErrManagementNotFound)
            else st_fail (Wrapped e)
        | Inr subject \<Rightarrow>
            if subj_state subject = ''expired'' \<or>
               (case subj_expires_at subject of Some t \<Rightarrow> \<not> t > now | None \<Rightarrow> False)
            then st_fail (Sentinel ErrResourceExpired)
            else if subj_state subject \<noteq> ''active''
            then st_fail (Sentinel ErrInvalidLifecycleTransition)
            else st_return ())"

type_synonym QuotaScope = "string \<times> string"

fun lockTenantLedgers :: "string \<Rightarrow> QuotaScope list \<Rightarrow> unit tx" where
  "lockTenantLedgers previousTenant [] = st_return ()"
| "lockTenantLedgers previousTenant ((tenant, subject) # scopes) =
     (if tenant = previousTenant then lockTenantLedgers previousTenant scopes
      else st_bind (TenantQuota tenant) (\<lambda>_. lockTenantLedgers tenant scopes))"

fun lockSubjectLedgers :: "QuotaScope option \<Rightarrow> QuotaScope list \<Rightarrow> unit tx" where
  "lockSubjectLedgers previous [] = st_return ()"
| "lockSubjectLedgers previous (scope # scopes) =
     (if Some scope = previous then lockSubjectLedgers previous scopes
      else st_bind (SubjectQuota (fst scope) (snd scope)) (\<lambda>_. lockSubjectLedgers (Some scope) scopes))"

definition QuotaScopes :: "QuotaScope list \<Rightarrow> unit tx" where
  "QuotaScopes scopes =
     (let ordered = sort scopes
      in st_bind (lockTenantLedgers [] ordered) (\<lambda>_. lockSubjectLedgers None ordered))"

text \<open>\<open>SELECT DISTINCT tenant_ref,subject_ref ... ORDER BY tenant_ref,subject_ref\<close>.\<close>

definition SandboxQuotas :: "string list \<Rightarrow> unit tx" where
  "SandboxQuotas sandboxIDs =
     (if sandboxIDs = [] then st_return ()
      else st_bind (st_get (\<lambda>tx.
             sort (remdups (map (\<lambda>r. (sb_tenant_ref r, sb_subject_ref r))
               (filter (\<lambda>r. sb_id r \<in> set sandboxIDs) (sandboxes (tx_db tx)))))))
           (\<lambda>scopes.
             if scopes = [] then st_fail (Sentinel ErrNoRows) else QuotaScopes scopes))"

definition SandboxQuota :: "string \<Rightarrow> unit tx" where
  "SandboxQuota sandboxID = SandboxQuotas [sandboxID]"

section \<open>Sandbox, Workspace and Snapshot rows\<close>

record WorkspaceMutation =
  MutationKind :: string
  MutationID :: string
  EffectID :: string
  OperationID :: string
  ExpectedGeneration :: int
  TargetGeneration :: int
  MutationState :: string

record HomeWorkspace =
  HomeWorkspaceID :: string
  HomeSandboxID :: string
  HomeRunnerID :: string
  WorkspaceState :: string
  LogicalCapacityBytes :: int
  WorkspaceGeneration :: int
  Mutation :: WorkspaceMutation

record SandboxWorkspace =
  ResourceVCPUCount :: int
  ResourceMemoryBytes :: int
  ResourceWorkspaceBytes :: int
  LockedSandboxID :: string
  TenantRef :: string
  SubjectRef :: string
  WorkspaceID :: string
  ProfileRevisionID :: string
  EgressContext :: "string option"
  SandboxState :: string
  LockedDesiredState :: string
  Generation :: int
  LockedRevision :: int
  CurrentInstanceID :: string
  ReconcileOwner :: string
  Workspace :: HomeWorkspace

definition homeWorkspaceOf :: "WorkspaceRow \<Rightarrow> HomeWorkspace" where
  "homeWorkspaceOf w =
     \<lparr>HomeWorkspaceID = ws_id w, HomeSandboxID = ws_sandbox_id w, HomeRunnerID = ws_home_runner_id w,
      WorkspaceState = ws_state w, LogicalCapacityBytes = ws_logical_capacity_bytes w,
      WorkspaceGeneration = ws_generation w,
      Mutation =
        \<lparr>MutationKind = ws_mutation_kind w, MutationID = ws_mutation_id w,
         EffectID = ws_mutation_effect_id w, OperationID = ws_mutation_operation_id w,
         ExpectedGeneration = (case ws_mutation_expected_generation w of Some g \<Rightarrow> g | None \<Rightarrow> 0),
         TargetGeneration = (case ws_mutation_target_generation w of Some g \<Rightarrow> g | None \<Rightarrow> 0),
         MutationState = ws_mutation_state w\<rparr>\<rparr>"

definition lockWorkspace :: "string \<Rightarrow> string \<Rightarrow> HomeWorkspace tx" where
  "lockWorkspace workspaceID sandboxID =
     st_bind (select_for_update
       (\<lambda>d. List.find (\<lambda>w. ws_id w = workspaceID \<and> ws_sandbox_id w = sandboxID) (workspaces d))
       (\<lambda>w. WorkspaceLock (ws_id w)))
     (\<lambda>w. if \<not> ws_receipt_decodes w then st_fail (Wrapped Opaque)
          else st_return (homeWorkspaceOf w))"

definition lockedSandboxWorkspace :: "SandboxRow \<Rightarrow> HomeWorkspace \<Rightarrow> SandboxWorkspace" where
  "lockedSandboxWorkspace r w =
     \<lparr>ResourceVCPUCount = sb_vcpu_count r, ResourceMemoryBytes = sb_memory_bytes r,
      ResourceWorkspaceBytes = sb_workspace_bytes r, LockedSandboxID = sb_id r,
      TenantRef = sb_tenant_ref r, SubjectRef = sb_subject_ref r, WorkspaceID = sb_workspace_id r,
      ProfileRevisionID = sb_profile_revision_id r, EgressContext = sb_egress_context r,
      SandboxState = sb_state r, LockedDesiredState = sb_desired_state r,
      Generation = sb_generation r, LockedRevision = sb_revision r,
      CurrentInstanceID = sb_current_instance_id r, ReconcileOwner = sb_reconcile_owner r,
      Workspace = w\<rparr>"

definition lockedRowWorkspace :: "SandboxRow \<Rightarrow> string \<Rightarrow> SandboxWorkspace tx" where
  "lockedRowWorkspace r sandboxID =
     (case sb_egress_context r of
        Some context \<Rightarrow>
          if \<not> ValidateEgressContextName context then st_fail (Wrapped Opaque)
          else st_bind (lockWorkspace (sb_workspace_id r) sandboxID)
                 (\<lambda>w. st_return (lockedSandboxWorkspace r w))
      | None \<Rightarrow> st_bind (lockWorkspace (sb_workspace_id r) sandboxID)
                  (\<lambda>w. st_return (lockedSandboxWorkspace r w)))"

definition sandbox_in_scope :: "string \<Rightarrow> string \<Rightarrow> string \<Rightarrow> SandboxRow \<Rightarrow> bool" where
  "sandbox_in_scope sandboxID tenantRef subjectRef r \<longleftrightarrow>
     sb_id r = sandboxID \<and> sb_tenant_ref r = tenantRef \<and> sb_subject_ref r = subjectRef"

definition SandboxWorkspaceForSubject :: "string \<Rightarrow> string \<Rightarrow> string \<Rightarrow> SandboxWorkspace tx" where
  "SandboxWorkspaceForSubject tenantRef subjectRef sandboxID =
     st_bind (TenantAndSubjectQuota tenantRef subjectRef) (\<lambda>_.
     st_bind (select_for_update
       (\<lambda>d. List.find (\<lambda>r. sandbox_in_scope sandboxID tenantRef subjectRef r \<and>
                            sb_state r \<noteq> SandboxStateDeleted) (sandboxes d))
       (\<lambda>r. SandboxLock (sb_id r)))
     (\<lambda>r. lockedRowWorkspace r sandboxID))"

definition SandboxWorkspaceByID :: "string \<Rightarrow> SandboxWorkspace tx" where
  "SandboxWorkspaceByID sandboxID =
     st_bind (st_get (\<lambda>tx. find_sandbox (tx_db tx) sandboxID)) (\<lambda>found.
     case found of
       None \<Rightarrow> st_fail (Sentinel ErrNoRows)
     | Some row \<Rightarrow>
         st_bind (TenantAndSubjectQuota (sb_tenant_ref row) (sb_subject_ref row)) (\<lambda>_.
         st_bind (select_for_update
           (\<lambda>d. List.find (sandbox_in_scope sandboxID (sb_tenant_ref row) (sb_subject_ref row)) (sandboxes d))
           (\<lambda>r. SandboxLock (sb_id r)))
         (\<lambda>r. lockedRowWorkspace r sandboxID)))"

definition SandboxWorkspaceForTransition ::
  "string \<Rightarrow> (string \<Rightarrow> string \<Rightarrow> bool) \<Rightarrow> SandboxWorkspace tx" where
  "SandboxWorkspaceForTransition sandboxID increases =
     st_bind (st_get (\<lambda>tx. find_sandbox (tx_db tx) sandboxID)) (\<lambda>found.
     case found of
       None \<Rightarrow> st_fail (Sentinel ErrNoRows)
     | Some row \<Rightarrow>
         (let withLedger = increases (sb_state row) (sb_desired_state row) in
          st_bind (if withLedger then TenantAndSubjectQuota (sb_tenant_ref row) (sb_subject_ref row)
                   else st_return ()) (\<lambda>_.
          st_bind (select_for_update
            (\<lambda>d. List.find (sandbox_in_scope sandboxID (sb_tenant_ref row) (sb_subject_ref row)) (sandboxes d))
            (\<lambda>r. SandboxLock (sb_id r))) (\<lambda>r.
          st_bind (if withLedger then st_return ()
                   else st_modify (\<lambda>tx. tx\<lparr>tx_ledgerless := tx_ledgerless tx @ [sb_id r]\<rparr>)) (\<lambda>_.
          if \<not> withLedger \<and> increases (sb_state r) (sb_desired_state r)
          then st_fail (Sentinel ErrQuotaLedgerRequired)
          else lockedRowWorkspace r sandboxID)))))"

definition SandboxesInOrder :: "string list \<Rightarrow> unit tx" where
  "SandboxesInOrder sandboxIDs =
     (if sandboxIDs = [] then st_return ()
      else st_modify (\<lambda>tx. fold (\<lambda>sid. locking (SandboxLock sid))
             (sort (map sb_id (filter (\<lambda>r. sb_id r \<in> set sandboxIDs) (sandboxes (tx_db tx))))) tx))"

definition lockSnapshot :: "(SnapshotRow \<Rightarrow> bool) \<Rightarrow> SandboxWorkspace \<Rightarrow> SnapshotRow tx" where
  "lockSnapshot p locked =
     st_bind (select_for_update (\<lambda>d. List.find p (snapshots d)) (\<lambda>r. SnapshotLock (sn_id r)))
     (\<lambda>snapshot.
        if sn_sandbox_id snapshot \<noteq> LockedSandboxID locked \<or>
           sn_workspace_id snapshot \<noteq> WorkspaceID locked \<or>
           sn_home_runner_id snapshot \<noteq> HomeRunnerID (Workspace locked)
        then st_fail (Sentinel ErrNoRows)
        else st_return snapshot)"

definition SnapshotForSubject :: "string \<Rightarrow> string \<Rightarrow> SandboxWorkspace \<Rightarrow> string \<Rightarrow> SnapshotRow tx" where
  "SnapshotForSubject tenantRef subjectRef locked snapshotID =
     lockSnapshot (\<lambda>r. sn_id r = snapshotID \<and> sn_tenant_ref r = tenantRef \<and> sn_subject_ref r = subjectRef) locked"

definition SnapshotByID :: "SandboxWorkspace \<Rightarrow> string \<Rightarrow> SnapshotRow tx" where
  "SnapshotByID locked snapshotID = lockSnapshot (\<lambda>r. sn_id r = snapshotID) locked"

section \<open>The global lock order\<close>

text \<open>
  Tenant ledgers, Subject ledgers, Subject, Sandbox, Workspace, Snapshot, then
  operation-specific rows; rows of one kind by identity.
\<close>

primrec lock_key :: "Lock \<Rightarrow> nat \<times> string \<times> string" where
  "lock_key (TenantLedger t) = (0, t, [])"
| "lock_key (SubjectLedger t s) = (1, t, s)"
| "lock_key (SubjectLock t s) = (2, t, s)"
| "lock_key (SandboxLock i) = (3, i, [])"
| "lock_key (WorkspaceLock w) = (4, w, [])"
| "lock_key (SnapshotLock s) = (5, s, [])"
| "lock_key (EffectLock e) = (6, e, [])"
| "lock_key (TenantLock t) = (7, t, [])"
| "lock_key (RunnerShare r) = (8, r, [])"

definition ordered_locks :: "Lock list \<Rightarrow> bool" where
  "ordered_locks ls \<longleftrightarrow> sorted_wrt (\<lambda>a b. lock_key a < lock_key b) ls"

text \<open>The locks held so far are ordered and all come before a given key.\<close>

definition held_below :: "nat \<times> string \<times> string \<Rightarrow> Tx \<Rightarrow> bool" where
  "held_below k tx \<longleftrightarrow> ordered_locks (tx_locks tx) \<and> (\<forall>l \<in> set (tx_locks tx). lock_key l < k)"

definition held_upto :: "nat \<times> string \<times> string \<Rightarrow> Tx \<Rightarrow> bool" where
  "held_upto k tx \<longleftrightarrow> ordered_locks (tx_locks tx) \<and> (\<forall>l \<in> set (tx_locks tx). lock_key l \<le> k)"

lemma held_upto_mono: "held_upto k tx \<Longrightarrow> k \<le> k' \<Longrightarrow> held_upto k' tx"
  by (auto simp: held_upto_def)

lemma held_below_mono: "held_below k tx \<Longrightarrow> k \<le> k' \<Longrightarrow> held_below k' tx"
  by (auto simp: held_below_def)

lemma held_below_upto: "held_upto k tx \<Longrightarrow> k < k' \<Longrightarrow> held_below k' tx"
  by (auto simp: held_below_def held_upto_def)

lemma held_below_weaken: "held_below k tx \<Longrightarrow> held_upto k tx"
  by (auto simp: held_below_def held_upto_def)

lemma held_upto_ordered: "held_upto k tx \<Longrightarrow> ordered_locks (tx_locks tx)"
  by (simp add: held_upto_def)

lemma held_below_begin [simp]: "held_below k (begin_tx d)"
  by (simp add: held_below_def begin_tx_def ordered_locks_def)

lemma held_upto_begin [simp]: "held_upto k (begin_tx d)"
  by (simp add: held_upto_def begin_tx_def ordered_locks_def)

lemma locking_held: "held_below (lock_key l) tx \<Longrightarrow> held_upto (lock_key l) (locking l tx)"
  by (auto simp: held_below_def held_upto_def locking_def ordered_locks_def sorted_wrt_append)

lemma lock_key_inject: "lock_key a = lock_key b \<Longrightarrow> a = b"
  by (cases a; cases b) simp_all

lemma locking_upto:
  assumes "held_upto k tx" "k \<le> lock_key l"
  shows "held_upto (lock_key l) (locking l tx)"
proof (cases "l \<in> set (tx_locks tx)")
  case True
  then show ?thesis
    using assms by (auto simp: locking_def intro: held_upto_mono)
next
  case False
  then have "held_below (lock_key l) tx"
    using assms by (auto simp: held_upto_def held_below_def order_less_le dest: lock_key_inject)
  then show ?thesis
    by (rule locking_held)
qed

lemma wp_TenantQuota [wp_simps]:
  "wp (TenantQuota t) Q E tx =
     (if t \<in> tq_tenant_ref ` set (tenant_quotas (tx_db tx)) then Q () (locking (TenantLedger t) tx)
      else E (Wrapped (Sentinel ErrNoRows)) tx)"
  by (auto simp: TenantQuota_def wp_simps find_None_iff split: option.splits dest: find_mem)

lemma wp_SubjectQuota [wp_simps]:
  "wp (SubjectQuota t s) Q E tx =
     (if (t, s) \<in> (\<lambda>r. (sq_tenant_ref r, sq_subject_ref r)) ` set (subject_quotas (tx_db tx))
      then Q () (locking (SubjectLedger t s) tx) else E (Wrapped (Sentinel ErrNoRows)) tx)"
  by (auto simp: SubjectQuota_def wp_simps find_None_iff split: option.splits dest: find_mem)

text \<open>
  The sorted loops take each ledger once, in order, and on success hold the
  ledger of every scope; the tenant loop skips a leading empty tenant, which is
  the initial value of its previous tenant.
\<close>

lemma wp_lockTenantLedgers:
  assumes "sorted scopes" "\<forall>sc \<in> set scopes. prev \<le> fst sc" "held_upto (0, prev, []) tx"
  shows "wp (lockTenantLedgers prev scopes)
    (\<lambda>_ tx'. held_below (1, [], []) tx' \<and> tx_db tx' = tx_db tx \<and> set (tx_locks tx) \<subseteq> set (tx_locks tx') \<and>
       (\<forall>sc \<in> set scopes. fst sc \<noteq> prev \<longrightarrow> TenantLedger (fst sc) \<in> set (tx_locks tx')))
    (\<lambda>_ tx'. ordered_locks (tx_locks tx')) tx"
  using assms
proof (induction scopes arbitrary: prev tx)
  case Nil
  then show ?case
    by (auto simp: wp_simps intro: held_below_upto)
next
  case (Cons sc scopes)
  obtain t s where sc: "sc = (t, s)" by force
  have le: "\<forall>x \<in> set scopes. t \<le> fst x" and srt: "sorted scopes"
    using Cons.prems(1) by (fastforce simp: sc less_eq_prod_def, simp)
  show ?case
  proof (cases "t = prev")
    case True
    then show ?thesis
      using Cons.IH [OF srt, of prev tx] Cons.prems le by (simp add: sc)
  next
    case False
    then have "held_below (lock_key (TenantLedger t)) tx"
      using Cons.prems(2,3) by (auto simp: sc intro: held_below_upto)
    then have "held_upto (0, t, []) (locking (TenantLedger t) tx)"
      using locking_held by fastforce
    from Cons.IH [OF srt le this]
    show ?thesis
      using False Cons.prems(3)
      by (auto simp: sc wp_simps locking_locks held_upto_def elim!: wp_mono)
  qed
qed

lemma wp_lockSubjectLedgers:
  assumes "sorted scopes"
    and "case prev of None \<Rightarrow> held_below (1, [], []) tx
         | Some p \<Rightarrow> held_upto (1, p) tx \<and> (\<forall>sc \<in> set scopes. p \<le> sc)"
  shows "wp (lockSubjectLedgers prev scopes)
    (\<lambda>_ tx'. held_below (2, [], []) tx' \<and> tx_db tx' = tx_db tx \<and> set (tx_locks tx) \<subseteq> set (tx_locks tx') \<and>
       (\<forall>sc \<in> set scopes. Some sc \<noteq> prev \<longrightarrow> SubjectLedger (fst sc) (snd sc) \<in> set (tx_locks tx')))
    (\<lambda>_ tx'. ordered_locks (tx_locks tx')) tx"
  using assms
proof (induction scopes arbitrary: prev tx)
  case Nil
  then show ?case
    by (auto simp: wp_simps held_below_def held_upto_def less_prod_def less_eq_prod_def split: option.splits)
next
  case (Cons sc scopes)
  have le: "\<forall>x \<in> set scopes. sc \<le> x" and srt: "sorted scopes"
    using Cons.prems(1) by simp_all
  have ord: "ordered_locks (tx_locks tx)"
    using Cons.prems(2) by (auto simp: held_below_def held_upto_def split: option.splits)
  show ?case
  proof (cases "Some sc = prev")
    case True
    then show ?thesis
      using Cons.IH [where prev = prev and tx = tx, OF srt] Cons.prems by auto
  next
    case False
    have "held_below (1, sc) tx"
    proof (cases prev)
      case None
      then have "held_below (1, [], []) tx"
        using Cons.prems(2) by simp
      then show ?thesis
        by (rule held_below_mono) (cases sc, auto simp: less_eq_prod_def)
    next
      case (Some p)
      then have "held_upto (1, p) tx" "p < sc"
        using Cons.prems(2) False by auto
      then show ?thesis
        by (auto intro: held_below_upto simp: less_prod_def)
    qed
    then have "held_upto (1, sc) (locking (SubjectLedger (fst sc) (snd sc)) tx)"
      using locking_held [of "SubjectLedger (fst sc) (snd sc)" tx] by simp
    with le have "wp (lockSubjectLedgers (Some sc) scopes)
      (\<lambda>_ tx'. held_below (2, [], []) tx' \<and>
        tx_db tx' = tx_db (locking (SubjectLedger (fst sc) (snd sc)) tx) \<and>
        set (tx_locks (locking (SubjectLedger (fst sc) (snd sc)) tx)) \<subseteq> set (tx_locks tx') \<and>
        (\<forall>x \<in> set scopes. Some x \<noteq> Some sc \<longrightarrow> SubjectLedger (fst x) (snd x) \<in> set (tx_locks tx')))
      (\<lambda>_ tx'. ordered_locks (tx_locks tx')) (locking (SubjectLedger (fst sc) (snd sc)) tx)"
      by (intro Cons.IH [OF srt]) simp
    then show ?thesis
      using False ord by (auto simp: wp_simps locking_locks elim!: wp_mono)
  qed
qed

lemma wp_QuotaScopes:
  assumes "held_upto (0, [], []) tx"
  shows "wp (QuotaScopes scopes)
    (\<lambda>_ tx'. held_below (2, [], []) tx' \<and> tx_db tx' = tx_db tx \<and>
       (\<forall>(t, s) \<in> set scopes. (t \<noteq> [] \<longrightarrow> TenantLedger t \<in> set (tx_locks tx')) \<and>
          SubjectLedger t s \<in> set (tx_locks tx')))
    (\<lambda>_ tx'. ordered_locks (tx_locks tx')) tx"
proof -
  have *: "wp (lockTenantLedgers [] (sort scopes))
    (\<lambda>_ tx'. held_below (1, [], []) tx' \<and> tx_db tx' = tx_db tx \<and>
       (\<forall>sc \<in> set scopes. fst sc \<noteq> [] \<longrightarrow> TenantLedger (fst sc) \<in> set (tx_locks tx')))
    (\<lambda>_ tx'. ordered_locks (tx_locks tx')) tx"
    by (rule wp_mono [OF wp_lockTenantLedgers]) (use assms in auto)
  show ?thesis
    unfolding QuotaScopes_def Let_def wp_bind
    by (rule wp_mono [OF *]; (rule wp_mono [OF wp_lockSubjectLedgers])?)
      (auto, metis fst_conv subsetD)
qed

lemma wp_TenantAndSubjectQuota:
  assumes "held_below (0, t, []) tx"
  shows "wp (TenantAndSubjectQuota t s)
    (\<lambda>_ tx'. held_below (2, [], []) tx' \<and> tx_db tx' = tx_db tx \<and> tx_ledgerless tx' = tx_ledgerless tx \<and>
       TenantLedger t \<in> set (tx_locks tx') \<and> SubjectLedger t s \<in> set (tx_locks tx'))
    (\<lambda>_ tx'. ordered_locks (tx_locks tx')) tx"
proof -
  have 1: "held_upto (0, t, []) (locking (TenantLedger t) tx)"
    using locking_held [of "TenantLedger t" tx] assms by simp
  then have "held_below (lock_key (SubjectLedger t s)) (locking (TenantLedger t) tx)"
    by (auto intro: held_below_upto)
  then have 2: "held_upto (1, t, s) (locking (SubjectLedger t s) (locking (TenantLedger t) tx))"
    using locking_held by fastforce
  show ?thesis
    using assms 1 held_below_upto [OF 2, of "(2, [], [])"]
    by (auto simp: TenantAndSubjectQuota_def wp_simps locking_locks held_upto_def held_below_def)
qed

lemma wp_lockWorkspace:
  assumes "held_upto (3, i, []) tx"
  shows "wp (lockWorkspace wid sid)
    (\<lambda>w tx'. held_below (5, [], []) tx' \<and> tx_db tx' = tx_db tx \<and> tx_ledgerless tx' = tx_ledgerless tx \<and>
       set (tx_locks tx) \<subseteq> set (tx_locks tx') \<and>
       (\<exists>row \<in> set (workspaces (tx_db tx)). ws_id row = wid \<and> ws_sandbox_id row = sid \<and>
          w = homeWorkspaceOf row))
    (\<lambda>_ tx'. ordered_locks (tx_locks tx')) tx"
proof -
  have "held_upto (4, w, []) (locking (WorkspaceLock w) tx)" for w
    using locking_held [of "WorkspaceLock w" tx] held_below_upto [OF assms, of "(4, w, [])"] by simp
  then have "held_below (5, [], []) (locking (WorkspaceLock w) tx)" for w
    by (rule held_below_upto) simp
  then show ?thesis
    using assms
    by (auto simp: lockWorkspace_def wp_simps locking_locks held_upto_def held_below_def
        dest!: find_mem split: option.splits)
qed

lemma wp_lockedRowWorkspace:
  assumes "held_upto (3, i, []) tx"
  shows "wp (lockedRowWorkspace r sid)
    (\<lambda>lsw tx'. held_below (5, [], []) tx' \<and> tx_db tx' = tx_db tx \<and> tx_ledgerless tx' = tx_ledgerless tx \<and>
       set (tx_locks tx) \<subseteq> set (tx_locks tx') \<and>
       (\<exists>row \<in> set (workspaces (tx_db tx)). ws_id row = sb_workspace_id r \<and> ws_sandbox_id row = sid \<and>
          lsw = lockedSandboxWorkspace r (homeWorkspaceOf row)))
    (\<lambda>_ tx'. ordered_locks (tx_locks tx')) tx"
proof -
  have "wp (st_bind (lockWorkspace (sb_workspace_id r) sid) (\<lambda>w. st_return (lockedSandboxWorkspace r w)))
    (\<lambda>lsw tx'. held_below (5, [], []) tx' \<and> tx_db tx' = tx_db tx \<and> tx_ledgerless tx' = tx_ledgerless tx \<and>
       set (tx_locks tx) \<subseteq> set (tx_locks tx') \<and>
       (\<exists>row \<in> set (workspaces (tx_db tx)). ws_id row = sb_workspace_id r \<and> ws_sandbox_id row = sid \<and>
          lsw = lockedSandboxWorkspace r (homeWorkspaceOf row)))
    (\<lambda>_ tx'. ordered_locks (tx_locks tx')) tx"
    unfolding wp_bind wp_return by (rule wp_mono [OF wp_lockWorkspace [OF assms]]) auto
  then show ?thesis
    using held_upto_ordered [OF assms]
    by (auto simp: lockedRowWorkspace_def wp_simps split: option.splits)
qed

text \<open>Locking the Sandbox row, once the ledgers are held or not needed.\<close>

lemma locking_sandbox_held:
  "held_below (2, [], []) tx \<Longrightarrow> held_upto (3, i, []) (locking (SandboxLock i) tx)"
  using locking_held [of "SandboxLock i" tx] held_below_mono [of "(2, [], [])" tx "(3, i, [])"] by simp

definition transition_post ::
  "string \<Rightarrow> (string \<Rightarrow> string \<Rightarrow> bool) \<Rightarrow> Database \<Rightarrow> SandboxWorkspace \<Rightarrow> Tx \<Rightarrow> bool" where
  "transition_post sid increases d lsw tx' \<longleftrightarrow>
     held_below (5, [], []) tx' \<and> tx_db tx' = d \<and>
     (\<exists>r w. find_sandbox d sid = Some r \<and> w \<in> set (workspaces d) \<and> ws_id w = sb_workspace_id r \<and>
        ws_sandbox_id w = sid \<and> lsw = lockedSandboxWorkspace r (homeWorkspaceOf w) \<and>
        (if increases (sb_state r) (sb_desired_state r)
         then TenantLedger (sb_tenant_ref r) \<in> set (tx_locks tx') \<and>
              SubjectLedger (sb_tenant_ref r) (sb_subject_ref r) \<in> set (tx_locks tx') \<and>
              tx_ledgerless tx' = []
         else tx_ledgerless tx' = [sid]))"

lemma find_in_scope:
  assumes "find_sandbox d sid = Some r" "distinct (map sb_id (sandboxes d))"
  shows "List.find (sandbox_in_scope sid (sb_tenant_ref r) (sb_subject_ref r)) (sandboxes d) = Some r"
proof -
  have r: "r \<in> set (sandboxes d)" "sb_id r = sid"
    using assms(1) find_mem by (fastforce simp: find_sandbox_def)+
  have "sandbox_in_scope sid (sb_tenant_ref r) (sb_subject_ref r) x \<longleftrightarrow> sb_id x = sb_id r"
    if "x \<in> set (sandboxes d)" for x
    using that r assms(2) by (auto simp: sandbox_in_scope_def dest: eq_key_imp_eq_value)
      (metis distinct_map inj_on_def r(1) r(2))+
  then have "List.find (sandbox_in_scope sid (sb_tenant_ref r) (sb_subject_ref r)) (sandboxes d) =
      List.find (\<lambda>x. sb_id x = sb_id r) (sandboxes d)"
    by (rule find_cong [OF refl])
  then show ?thesis
    using find_key_unique [OF assms(2) r(1)] by simp
qed

lemma wp_SandboxWorkspaceForTransition:
  assumes "distinct (map sb_id (sandboxes d))"
  shows "wp (SandboxWorkspaceForTransition sid increases) (transition_post sid increases d)
    (\<lambda>_ tx'. ordered_locks (tx_locks tx')) (begin_tx d)"
proof (cases "find_sandbox d sid")
  case None
  then show ?thesis
    by (simp add: SandboxWorkspaceForTransition_def wp_simps begin_tx_def ordered_locks_def)
next
  case (Some r)
  note find = find_in_scope [OF Some assms]
  have id: "sb_id r = sid"
    using Some find_mem by (fastforce simp: find_sandbox_def)
  have row: "wp (lockedRowWorkspace r sid) (transition_post sid increases d)
      (\<lambda>_ tx'. ordered_locks (tx_locks tx')) tx"
    if "held_upto (3, sid, []) tx" "tx_db tx = d"
      "if increases (sb_state r) (sb_desired_state r)
       then TenantLedger (sb_tenant_ref r) \<in> set (tx_locks tx) \<and>
            SubjectLedger (sb_tenant_ref r) (sb_subject_ref r) \<in> set (tx_locks tx) \<and> tx_ledgerless tx = []
       else tx_ledgerless tx = [sid]" for tx
    by (rule wp_mono [OF wp_lockedRowWorkspace [OF that(1)]])
      (use that Some in \<open>auto simp: transition_post_def split: if_splits\<close>)
  show ?thesis
  proof (cases "increases (sb_state r) (sb_desired_state r)")
    case True
    have "wp (TenantAndSubjectQuota (sb_tenant_ref r) (sb_subject_ref r))
      (\<lambda>_ tx. wp (lockedRowWorkspace r sid) (transition_post sid increases d)
         (\<lambda>_ tx'. ordered_locks (tx_locks tx')) (locking (SandboxLock sid) tx) \<and> tx_db tx = d)
      (\<lambda>_ tx'. ordered_locks (tx_locks tx')) (begin_tx d)"
      by (rule wp_mono [OF wp_TenantAndSubjectQuota [OF held_below_begin]])
        (simp_all add: True row locking_sandbox_held locking_locks begin_tx_def)
    then show ?thesis
      using True Some find id
      by (auto simp: SandboxWorkspaceForTransition_def wp_simps begin_tx_def elim!: wp_mono)
  next
    case False
    have "held_upto (3, sid, []) (locking (SandboxLock sid) (begin_tx d))"
      by (simp add: locking_sandbox_held)
    with False Some find id show ?thesis
      by (simp add: SandboxWorkspaceForTransition_def wp_simps begin_tx_def held_upto_def row)
  qed
qed

section \<open>No circular wait\<close>

text \<open>
  The ways the stores compose the operations above: the ledgers of a set of
  scopes; the ledgers and rows of a batch of Sandboxes; one Sandbox and its
  Workspace for a transition; one Sandbox, its Workspace and possibly a
  Snapshot; and the ledgers followed by the Subject row.
\<close>

datatype LockCall =
    CallQuotaScopes "QuotaScope list"
  | CallSandboxBatch "string list"
  | CallTransition string "string \<Rightarrow> string \<Rightarrow> bool"
  | CallByID string "string option"
  | CallForSubject string string string "string option"
  | CallActiveSubject string string time

definition thenSnapshot :: "SandboxWorkspace tx \<Rightarrow> (SandboxWorkspace \<Rightarrow> string \<Rightarrow> SnapshotRow tx) \<Rightarrow> string option \<Rightarrow> unit tx" where
  "thenSnapshot body lockS snapshot =
     st_bind body (\<lambda>lsw. case snapshot of None \<Rightarrow> st_return ()
                          | Some sid \<Rightarrow> st_bind (lockS lsw sid) (\<lambda>_. st_return ()))"

fun acquire :: "LockCall \<Rightarrow> unit tx" where
  "acquire (CallQuotaScopes scopes) = QuotaScopes scopes"
| "acquire (CallSandboxBatch sids) = st_bind (SandboxQuotas sids) (\<lambda>_. SandboxesInOrder sids)"
| "acquire (CallTransition sid increases) =
     st_bind (SandboxWorkspaceForTransition sid increases) (\<lambda>_. st_return ())"
| "acquire (CallByID sid snapshot) = thenSnapshot (SandboxWorkspaceByID sid) SnapshotByID snapshot"
| "acquire (CallForSubject t s sid snapshot) =
     thenSnapshot (SandboxWorkspaceForSubject t s sid) (SnapshotForSubject t s) snapshot"
| "acquire (CallActiveSubject t s now) =
     st_bind (TenantAndSubjectQuota t s) (\<lambda>_. ActiveSubject t s now)"

definition lock_trace :: "Database \<times> LockCall \<Rightarrow> Lock list" where
  "lock_trace t = tx_locks (snd (acquire (snd t) (begin_tx (fst t))))"

text \<open>
  Two transactions that each hold a prefix of their acquisitions: one waits for
  the other when the next lock it wants is held by the other, which is itself
  not done acquiring.
\<close>

definition waits_for :: "('t \<Rightarrow> Lock list) \<Rightarrow> ('t \<Rightarrow> nat) \<Rightarrow> 't \<Rightarrow> 't \<Rightarrow> bool" where
  "waits_for acquires held t u \<longleftrightarrow>
     held t < length (acquires t) \<and> held u < length (acquires u) \<and>
     acquires t ! held t \<in> set (take (held u) (acquires u))"

locale ordered_acquisition =
  fixes acquires :: "'t \<Rightarrow> Lock list"
  assumes acquires_ordered: "ordered_locks (acquires t)"
begin

lemma wanted_increases:
  assumes "waits_for acquires held t u"
  shows "lock_key (acquires t ! held t) < lock_key (acquires u ! held u)"
proof -
  obtain i where i: "i < held u" "acquires u ! i = acquires t ! held t"
    using assms by (auto simp: waits_for_def in_set_conv_nth)
  from i(1) have "lock_key (acquires u ! i) < lock_key (acquires u ! held u)"
    using acquires_ordered [of u] assms
    by (simp add: ordered_locks_def sorted_wrt_iff_nth_less waits_for_def)
  then show ?thesis
    by (simp add: i(2))
qed

lemma no_circular_wait: "acyclic {(t, u). waits_for acquires held t u}"
proof -
  have "(t, u) \<in> {(t, u). waits_for acquires held t u}\<^sup>+ \<Longrightarrow>
      lock_key (acquires t ! held t) < lock_key (acquires u ! held u)" for t u
    by (induction rule: trancl_induct) (auto dest: wanted_increases intro: less_trans)
  then show ?thesis
    by (auto simp: acyclic_def)
qed

end

section \<open>The stores' acquisitions are ordered\<close>

abbreviation ordered_tx :: "'a \<Rightarrow> Tx \<Rightarrow> bool" where
  "ordered_tx a tx \<equiv> ordered_locks (tx_locks tx)"

lemma held_below_ordered: "held_below k tx \<Longrightarrow> ordered_tx a tx"
  by (simp add: held_below_def)

lemma ordered_ledgerless [simp]:
  "held_upto k (tx\<lparr>tx_ledgerless := xs\<rparr>) = held_upto k tx"
  "ordered_tx a (tx\<lparr>tx_ledgerless := xs\<rparr>) = ordered_tx a tx"
  by (simp_all add: held_upto_def)

lemma wp_row_then_workspace:
  assumes "held_upto (3, i, []) tx"
  shows "wp (lockedRowWorkspace r sid) (\<lambda>_. held_below (5, [], [])) ordered_tx tx"
  by (rule wp_mono [OF wp_lockedRowWorkspace [OF assms]]) auto

lemma wp_sandbox_then_workspace:
  assumes "held_below (2, [], []) tx"
  shows "wp (st_bind (select_for_update q (\<lambda>r. SandboxLock (sb_id r))) (\<lambda>r. lockedRowWorkspace r sid))
    (\<lambda>_. held_below (5, [], [])) ordered_tx tx"
  using held_below_ordered [OF assms] wp_row_then_workspace [OF locking_sandbox_held [OF assms]]
  by (auto simp: wp_simps split: option.splits)

lemma wp_ledgers_then:
  assumes "\<And>tx. held_below (2, [], []) tx \<Longrightarrow> wp (f ()) Q ordered_tx tx"
  shows "wp (st_bind (TenantAndSubjectQuota t s) f) Q ordered_tx (begin_tx d)"
  unfolding wp_bind
  by (rule wp_mono [OF wp_TenantAndSubjectQuota [OF held_below_begin]]) (simp_all add: assms)

lemma wp_ForSubject_ordered:
  "wp (SandboxWorkspaceForSubject t s sid) (\<lambda>_. held_below (5, [], [])) ordered_tx (begin_tx d)"
  unfolding SandboxWorkspaceForSubject_def
  by (rule wp_ledgers_then) (rule wp_sandbox_then_workspace)

lemma wp_ByID_ordered:
  "wp (SandboxWorkspaceByID sid) (\<lambda>_. held_below (5, [], [])) ordered_tx (begin_tx d)"
  by (auto simp: SandboxWorkspaceByID_def wp_get wp_bind wp_fail
      intro!: wp_ledgers_then [unfolded wp_bind] wp_sandbox_then_workspace [unfolded wp_bind]
      split: option.splits) (simp add: begin_tx_def ordered_locks_def)

lemma wp_transition_tail:
  assumes "held_below (2, [], []) tx"
  shows "wp (st_bind (select_for_update q (\<lambda>r. SandboxLock (sb_id r)))
    (\<lambda>r. st_bind (if withLedger then st_return ()
                  else st_modify (\<lambda>tx. tx\<lparr>tx_ledgerless := tx_ledgerless tx @ [sb_id r]\<rparr>))
    (\<lambda>_. if \<not> withLedger \<and> inc r then st_fail e else lockedRowWorkspace r sid)))
    (\<lambda>_. held_below (5, [], [])) ordered_tx tx"
proof -
  have h: "held_upto (3, i, []) (locking (SandboxLock i) tx)" for i
    using assms by (rule locking_sandbox_held)
  have o: "ordered_tx a (locking (SandboxLock i) tx)" for a i
    using h by (rule held_upto_ordered)
  have w: "wp (lockedRowWorkspace r sid) (\<lambda>_. held_below (5, [], [])) ordered_tx (locking (SandboxLock i) tx)"
      "wp (lockedRowWorkspace r sid) (\<lambda>_. held_below (5, [], [])) ordered_tx
         (locking (SandboxLock i) tx\<lparr>tx_ledgerless := xs\<rparr>)" for r i xs
    using h by (auto intro!: wp_row_then_workspace)
  show ?thesis
    using held_below_ordered [OF assms]
    by (cases withLedger) (simp_all add: wp_simps w o split: option.split)
qed

lemma wp_Transition_ordered:
  "wp (SandboxWorkspaceForTransition sid increases) (\<lambda>_. held_below (5, [], [])) ordered_tx (begin_tx d)"
proof (cases "find_sandbox d sid")
  case None
  then show ?thesis
    by (simp add: SandboxWorkspaceForTransition_def wp_simps begin_tx_def ordered_locks_def)
next
  case (Some r)
  show ?thesis
  proof (cases "increases (sb_state r) (sb_desired_state r)")
    case True
    have "wp (st_bind (TenantAndSubjectQuota (sb_tenant_ref r) (sb_subject_ref r))
        (\<lambda>_. st_bind (select_for_update
           (\<lambda>d. List.find (sandbox_in_scope sid (sb_tenant_ref r) (sb_subject_ref r)) (sandboxes d))
           (\<lambda>r. SandboxLock (sb_id r)))
        (\<lambda>r. st_bind (st_return ()) (\<lambda>_. lockedRowWorkspace r sid))))
        (\<lambda>_. held_below (5, [], [])) ordered_tx (begin_tx d)"
      by (rule wp_ledgers_then, rule wp_transition_tail [where withLedger = True, simplified])
    then show ?thesis
      using True Some by (simp add: SandboxWorkspaceForTransition_def wp_bind wp_get begin_tx_def)
  next
    case False
    show ?thesis
      using wp_transition_tail [OF held_below_begin, where withLedger = False] False Some
      by (simp add: SandboxWorkspaceForTransition_def wp_bind wp_get wp_return begin_tx_def)
  qed
qed

lemma wp_thenSnapshot:
  assumes "wp body (\<lambda>_. held_below (5, [], [])) ordered_tx (begin_tx d)"
    and "\<And>lsw sid. \<exists>p. lockS lsw sid = lockSnapshot p lsw"
  shows "wp (thenSnapshot body lockS snapshot) ordered_tx ordered_tx (begin_tx d)"
proof -
  have "wp (lockSnapshot p lsw) ordered_tx ordered_tx tx" if "held_below (5, [], []) tx" for p lsw tx
  proof -
    have "ordered_tx a (locking (SnapshotLock i) tx)" for a :: unit and i
      using locking_upto [OF held_below_weaken [OF that], of "SnapshotLock i"]
      by (auto dest: held_upto_ordered)
    then show ?thesis
      using held_below_ordered [OF that] by (auto simp: lockSnapshot_def wp_simps split: option.splits)
  qed
  then have "wp (lockS lsw sid) ordered_tx ordered_tx tx" if "held_below (5, [], []) tx" for lsw sid tx
    using that assms(2) [of lsw sid] by auto
  then have "wp (case snapshot of None \<Rightarrow> st_return ()
      | Some sid \<Rightarrow> st_bind (lockS lsw sid) (\<lambda>_. st_return ())) ordered_tx ordered_tx tx"
    if "held_below (5, [], []) tx" for lsw tx
    using that held_below_ordered [OF that] by (cases snapshot) (simp_all add: wp_bind wp_return_fun)
  then show ?thesis
    unfolding thenSnapshot_def wp_bind by (rule wp_mono [OF assms(1)]) auto
qed

lemma fold_locking_ordered:
  assumes "sorted sids" "held_upto (3, p, []) tx" "\<forall>x \<in> set sids. p \<le> x"
  shows "ordered_locks (tx_locks (fold (\<lambda>sid. locking (SandboxLock sid)) sids tx))"
  using assms
proof (induction sids arbitrary: p tx)
  case Nil
  then show ?case by (simp add: held_upto_def)
next
  case (Cons x xs)
  then have "held_upto (3, x, []) (locking (SandboxLock x) tx)"
    using locking_upto [of "(3, p, [])" tx "SandboxLock x"] by auto
  then show ?case
    using Cons by auto
qed

lemma wp_QuotaScopes_ordered:
  "wp (QuotaScopes scopes) (\<lambda>_. held_below (2, [], [])) ordered_tx (begin_tx d)"
  by (rule wp_mono [OF wp_QuotaScopes [OF held_upto_begin]]) auto

lemma wp_below_ordered: "wp m (\<lambda>_. held_below k) ordered_tx tx \<Longrightarrow> wp m ordered_tx ordered_tx tx"
  by (erule wp_mono) (simp_all add: held_below_ordered)

lemma wp_batch_ordered:
  "wp (st_bind (SandboxQuotas sids) (\<lambda>_. SandboxesInOrder sids)) ordered_tx ordered_tx (begin_tx d)"
proof -
  have rows: "wp (SandboxesInOrder sids) ordered_tx ordered_tx tx" if "held_below (2, [], []) tx" for tx
  proof -
    have "held_upto (3, [], []) tx"
      using that by (auto intro: held_upto_mono held_below_weaken)
    then have "ordered_locks (tx_locks (fold (\<lambda>sid. locking (SandboxLock sid)) (sort xs) tx))" for xs
      by (rule fold_locking_ordered [rotated]) auto
    then show ?thesis
      using held_below_ordered [OF that] by (simp add: SandboxesInOrder_def wp_simps)
  qed
  have ledgers: "wp (SandboxQuotas sids) (\<lambda>_. held_below (2, [], [])) ordered_tx (begin_tx d)"
    using held_below_ordered [OF held_below_begin]
    by (simp add: SandboxQuotas_def wp_simps wp_QuotaScopes_ordered)
  show ?thesis
    unfolding wp_bind by (rule wp_mono [OF ledgers]) (simp_all add: rows)
qed

lemma wp_active_subject_ordered:
  "wp (st_bind (TenantAndSubjectQuota t s) (\<lambda>_. ActiveSubject t s now)) ordered_tx ordered_tx (begin_tx d)"
proof (rule wp_ledgers_then)
  fix tx assume *: "held_below (2, [], []) tx"
  have "held_upto (2, t, s) tx"
    using * by (auto intro!: held_upto_mono [OF held_below_weaken] simp: less_eq_prod_def)
  then have "ordered_tx a (locking (SubjectLock t s) tx)" for a :: unit
    using locking_upto [of "(2, t, s)" tx "SubjectLock t s"] by (auto dest: held_upto_ordered)
  then show "wp (ActiveSubject t s now) ordered_tx ordered_tx tx"
    using held_below_ordered [OF *] by (auto simp: ActiveSubject_def wp_simps split: option.splits)
qed

lemma acquire_ordered: "wp (acquire call) ordered_tx ordered_tx (begin_tx d)"
proof (cases call)
  case (CallQuotaScopes scopes)
  then show ?thesis
    by (simp add: wp_below_ordered [OF wp_QuotaScopes_ordered])
next
  case (CallTransition sid increases)
  then show ?thesis
    by (simp add: wp_bind wp_return_fun wp_below_ordered [OF wp_Transition_ordered])
next
  case (CallByID sid snapshot)
  then show ?thesis
    by (auto simp: SnapshotByID_def intro!: wp_thenSnapshot wp_ByID_ordered)
next
  case (CallForSubject t s sid snapshot)
  then show ?thesis
    by (auto simp: SnapshotForSubject_def intro!: wp_thenSnapshot wp_ForSubject_ordered)
qed (simp_all add: wp_batch_ordered wp_active_subject_ordered)

lemma lock_trace_ordered: "ordered_locks (lock_trace t)"
  using acquire_ordered [of "snd t" "fst t"]
  by (auto simp: lock_trace_def wp_def split: prod.splits sum.splits)

interpretation row_locks: ordered_acquisition lock_trace
  by unfold_locales (rule lock_trace_ordered)


end
