(* ===== verification/Lifecycle_Store.thy ===== *)
theory Lifecycle_Store
  imports Row_Locks
begin

text \<open>
  The PostgreSQL store's lifecycle transactions: claiming due Sandboxes
  (\<open>ClaimLifecycleBatch\<close>) and committing a claimed transition
  (\<open>ApplyLifecycleAction\<close>), from \<open>internal/store/postgres_lifecycle.go\<close>, with
  the projections of \<open>internal/store/lifecycleprojection\<close> they call. A
  statement that the server refuses for reasons outside the data (a lost
  connection, a serialization failure) rolls the transaction back like the
  modelled errors do, and has no branch of its own.
\<close>

section \<open>Projections\<close>

text \<open>The trigger \<open>sandboxes_quota_ledger_lock\<close> fires on every update of a Sandbox's state.\<close>

definition quota_ledger_trigger :: "SandboxRow \<Rightarrow> SandboxRow \<Rightarrow> unit tx" where
  "quota_ledger_trigger old new =
     (if \<not> QuotaUsageIncreases (sb_state old) (sb_desired_state old) (sb_state new) (sb_desired_state new)
      then st_return ()
      else st_bind (st_get tx_ledgerless) (\<lambda>ledgerless.
        if sb_id new \<in> set ledgerless then st_fail (Sentinel (PgError ''P0001''))
        else st_bind (lock (TenantLedger (sb_tenant_ref new))) (\<lambda>_.
             lock (SubjectLedger (sb_tenant_ref new) (sb_subject_ref new)))))"

definition modify_db :: "(Database \<Rightarrow> Database) \<Rightarrow> unit tx" where
  "modify_db f = st_modify (\<lambda>tx. tx\<lparr>tx_db := f (tx_db tx)\<rparr>)"

definition add_timings :: "(OperationRow \<Rightarrow> bool) \<Rightarrow> string \<Rightarrow> time \<Rightarrow> Database \<Rightarrow> Database" where
  "add_timings p stage now d =
     d\<lparr>stage_timings := insert_new (\<lambda>r. (tm_operation_id r, tm_stage r))
         (map (\<lambda>o1. \<lparr>tm_operation_id = op_id o1, tm_sandbox_id = op_sandbox_id o1, tm_stage = stage,
                    tm_observed_at = now\<rparr>) (filter p (operations d)))
         (stage_timings d)\<rparr>"

definition complete_ops ::
  "string \<Rightarrow> string list \<Rightarrow> string \<Rightarrow> string \<Rightarrow> string \<Rightarrow> time \<Rightarrow> Database \<Rightarrow> Database" where
  "complete_ops sandboxID kinds state errorCode errorMessage now d =
     d\<lparr>operations := update_where
         (\<lambda>o1. op_sandbox_id o1 = sandboxID \<and> op_kind o1 \<in> set kinds \<and> in_flight o1)
         (\<lambda>o1. o1\<lparr>op_state := state, op_error_code := errorCode, op_error_message := errorMessage,
                  op_retryable := False,
                  op_started_at := (case op_started_at o1 of Some t \<Rightarrow> Some t | None \<Rightarrow> Some now),
                  op_completed_at := Some now, op_updated_at := now\<rparr>)
         (operations d)\<rparr>"

definition ProjectReadyOperations :: "string \<Rightarrow> time \<Rightarrow> unit tx" where
  "ProjectReadyOperations sandboxID now =
     modify_db (\<lambda>d.
       complete_ops sandboxID [''create'', ''start''] OperationStateSucceeded [] [] now
         (add_timings (\<lambda>o1. op_sandbox_id o1 = sandboxID \<and> op_kind o1 \<in> {''create'', ''start''} \<and> in_flight o1)
            ''ready_projected'' now d))"

abbreviation StageTeardownDrainCommitted :: string where
  "StageTeardownDrainCommitted \<equiv> ''teardown_drain_committed''"
abbreviation StageTeardownStopCommitted :: string where
  "StageTeardownStopCommitted \<equiv> ''teardown_stop_committed''"

definition RecordTeardownStage :: "string \<Rightarrow> string \<Rightarrow> time \<Rightarrow> unit tx" where
  "RecordTeardownStage sandboxID stage observedAt =
     (if sandboxID = [] \<or> stage = [] then st_fail Opaque
      else modify_db (add_timings
        (\<lambda>o1. op_sandbox_id o1 = sandboxID \<and> op_kind o1 \<in> {''drain'', ''stop'', ''delete''} \<and> in_flight o1)
        stage observedAt))"

section \<open>Committing a claimed transition\<close>

definition nextStateOf :: "string \<Rightarrow> string \<Rightarrow> string option" where
  "nextStateOf observed action =
     (if action = ''wait'' then Some observed
      else if action = ''finish_stop'' then Some SandboxStateStopped
      else if action = ''start_instance'' then Some SandboxStateStarting
      else if action = ''mark_ready'' then Some SandboxStateReady
      else if action = ''drain'' then Some SandboxStateDraining
      else if action = ''stop_instance'' then Some SandboxStateStopping
      else if action = ''fail'' then Some SandboxStateFailed
      else None)"

text \<open>A drain for the idle timeout or the maximum duration also stops wanting the Sandbox.\<close>

definition policy_drain :: "string \<Rightarrow> string \<Rightarrow> bool" where
  "policy_drain action reason \<longleftrightarrow>
     action = ''drain'' \<and> (reason = ''idle_timeout'' \<or> reason = ''maximum_duration'')"

definition actionIncreases :: "string \<Rightarrow> string \<Rightarrow> string \<Rightarrow> string \<Rightarrow> string \<Rightarrow> bool" where
  "actionIncreases action reason nextState state desiredState =
     QuotaUsageIncreases state desiredState nextState
       (if policy_drain action reason then SandboxDesiredStateStopped else desiredState)"

definition finishStopChecks :: "SandboxWorkspace \<Rightarrow> string \<Rightarrow> string \<Rightarrow> string tx" where
  "finishStopChecks locked sandboxID terminationReason =
     st_bind (st_get (\<lambda>tx. find_sandbox (tx_db tx) sandboxID)) (\<lambda>found.
     case found of
       None \<Rightarrow> st_fail (Wrapped (Sentinel ErrNoRows))
     | Some row \<Rightarrow>
         st_catch (select_for_update
             (\<lambda>d. List.find (\<lambda>e. ef_id e = EffectID (Mutation (Workspace locked))) (lifecycle_effects d))
             (\<lambda>e. EffectLock (ef_id e))) (\<lambda>r.
         case r of
           Inl e \<Rightarrow> if errors_Is ErrNoRows e then st_fail (Sentinel ErrRevisionConflict) else st_fail (Wrapped e)
         | Inr effect \<Rightarrow>
             (let m = Mutation (Workspace locked) in
              if MutationKind m \<noteq> ''stop'' \<or> MutationID m = [] \<or> MutationState m \<noteq> ''runner_succeeded'' \<or>
                 ef_state effect \<noteq> ''runner_succeeded'' \<or> ExpectedGeneration m \<noteq> Generation locked \<or>
                 TargetGeneration m \<noteq> i64 (Generation locked + 1)
              then st_fail (Sentinel ErrWorkspaceMutation)
              else st_return
                (if terminationReason = [] then sb_lifecycle_termination_reason row
                 else terminationReason))))"

definition committedRow :: "string \<Rightarrow> string \<Rightarrow> string \<Rightarrow> time option \<Rightarrow> time \<Rightarrow> SandboxRow \<Rightarrow> SandboxRow" where
  "committedRow nextState action reason scheduledAt now r = r
     \<lparr>sb_state := nextState,
      sb_lifecycle_action := (if action = ''wait'' then sb_lifecycle_action r else action),
      sb_desired_state := (if policy_drain action reason then ''stopped'' else sb_desired_state r),
      sb_lifecycle_termination_reason :=
        (if reason = [] then sb_lifecycle_termination_reason r else reason),
      sb_lifecycle_failure_class := (if action = ''fail'' then ''internal'' else sb_lifecycle_failure_class r),
      sb_lifecycle_failure_message :=
        (if action = ''fail'' then ''unrecognized lifecycle state'' else sb_lifecycle_failure_message r),
      sb_next_reconcile_at := (if action = ''fail'' then None else scheduledAt),
      sb_reconcile_owner := [], sb_reconcile_claim_expires_at := None,
      sb_drain_started_at :=
        (if action = ''drain''
         then (case sb_drain_started_at r of Some t \<Rightarrow> Some t | None \<Rightarrow> Some now)
         else if nextState \<noteq> ''draining'' then None else sb_drain_started_at r),
      sb_current_instance_id := (if action = ''finish_stop'' then [] else sb_current_instance_id r),
      sb_generation := (if action = ''finish_stop'' then sb_generation r + 1 else sb_generation r),
      sb_last_activity_at :=
        (if action = ''mark_ready''
         then (case sb_last_activity_at r of Some t \<Rightarrow> Some t | None \<Rightarrow> Some now)
         else sb_last_activity_at r),
      sb_revision := (if action = ''wait'' then sb_revision r else sb_revision r + 1),
      sb_updated_at := (if action = ''wait'' then sb_updated_at r else now)\<rparr>"

text \<open>The counters are \<open>bigint\<close> columns: an update that overflows one is refused by the server.\<close>

definition updateSandbox :: "LifecycleReconcileClaim \<Rightarrow> (SandboxRow \<Rightarrow> SandboxRow) \<Rightarrow> unit tx" where
  "updateSandbox claim f =
     (let p = (\<lambda>r. sb_id r = SandboxID claim \<and> sb_reconcile_owner r = WorkerID claim \<and>
                    sb_revision r = Revision claim)
      in st_bind (st_get (\<lambda>tx. filter p (sandboxes (tx_db tx)))) (\<lambda>matching.
         case matching of
           [old] \<Rightarrow>
             st_bind (st_guard (in_i64 (sb_generation (f old)) \<and> in_i64 (sb_revision (f old)))
                        (Wrapped (Sentinel (PgError ''22003'')))) (\<lambda>_.
             st_bind (quota_ledger_trigger old (f old)) (\<lambda>_.
             modify_db (\<lambda>d. d\<lparr>sandboxes := update_where p f (sandboxes d)\<rparr>)))
         | _ \<Rightarrow> st_fail (Sentinel ErrRevisionConflict)))"

definition setWorkspaceMutation ::
  "string \<Rightarrow> string \<Rightarrow> string \<Rightarrow> string \<Rightarrow> string \<Rightarrow> int \<Rightarrow> int \<Rightarrow> time \<Rightarrow> unit tx" where
  "setWorkspaceMutation workspaceID kind mutationID effectID operationID expectedG targetG now =
     (let p = (\<lambda>w. ws_id w = workspaceID \<and> ws_mutation_state w = [])
      in st_bind (st_get (\<lambda>tx. rows_affected p (workspaces (tx_db tx)))) (\<lambda>n.
         if n \<noteq> 1 then st_fail (Sentinel ErrWorkspaceMutation)
         else modify_db (\<lambda>d. d\<lparr>workspaces := update_where p
           (\<lambda>w. w\<lparr>ws_mutation_kind := kind, ws_mutation_id := mutationID, ws_mutation_effect_id := effectID,
                  ws_mutation_operation_id := operationID,
                  ws_mutation_expected_generation := Some expectedG,
                  ws_mutation_target_generation := Some targetG,
                  ws_mutation_state := ''queued'', ws_updated_at := now\<rparr>) (workspaces d)\<rparr>)))"

definition pendingStart :: "string \<Rightarrow> Database \<Rightarrow> string option" where
  "pendingStart sandboxID d =
     (case sort_key (\<lambda>o1. (op_created_at o1, op_id o1))
             (filter (\<lambda>o1. op_sandbox_id o1 = sandboxID \<and> op_kind o1 = ''start'' \<and> in_flight o1) (operations d)) of
        [] \<Rightarrow> None
      | os \<Rightarrow> Some (op_id (last os)))"

definition advanceWorkspaceRow :: "int \<Rightarrow> time \<Rightarrow> WorkspaceRow \<Rightarrow> WorkspaceRow" where
  "advanceWorkspaceRow nextGeneration now w = w
     \<lparr>ws_generation := nextGeneration, ws_mutation_kind := [], ws_mutation_id := [],
      ws_mutation_effect_id := [], ws_mutation_operation_id := [],
      ws_mutation_expected_generation := None, ws_mutation_target_generation := None,
      ws_mutation_state := [], ws_updated_at := now\<rparr>"

definition fenceLeases :: "string \<Rightarrow> int \<Rightarrow> time \<Rightarrow> Database \<Rightarrow> Database" where
  "fenceLeases sandboxID generation now d =
     d\<lparr>leases := update_where
         (\<lambda>l. ls_sandbox_id l = sandboxID \<and> ls_generation l = generation \<and> ls_state l = ''active'')
         (\<lambda>l. l\<lparr>ls_state := ''fenced'', ls_revision := ls_revision l + 1, ls_updated_at := now\<rparr>)
         (leases d)\<rparr>"

definition closeSessions :: "string \<Rightarrow> int \<Rightarrow> time \<Rightarrow> Database \<Rightarrow> Database" where
  "closeSessions sandboxID generation now d =
     d\<lparr>activity_sessions := update_where
         (\<lambda>a. as_sandbox_id a = sandboxID \<and> as_generation a = generation \<and> as_state a = ''active'')
         (\<lambda>a. a\<lparr>as_state := ''closed'', as_closed_at := Some now, as_updated_at := now\<rparr>)
         (activity_sessions d)\<rparr>"

definition admitPendingStart :: "LifecycleReconcileClaim \<Rightarrow> string \<Rightarrow> int \<Rightarrow> time \<Rightarrow> unit tx" where
  "admitPendingStart claim workspaceID nextGeneration now =
     (if DesiredState claim = SandboxDesiredStateRunning
      then st_bind (st_get (\<lambda>tx. pendingStart (SandboxID claim) (tx_db tx))) (\<lambda>start.
        case start of
          None \<Rightarrow> st_return ()
        | Some oid \<Rightarrow>
            setWorkspaceMutation workspaceID ''start'' oid oid oid nextGeneration nextGeneration now)
      else st_return ())"

definition finishStopWorkspace :: "LifecycleReconcileClaim \<Rightarrow> string \<Rightarrow> int \<Rightarrow> time \<Rightarrow> unit tx" where
  "finishStopWorkspace claim workspaceID generation now =
     (let nextGeneration = i64 (generation + 1);
          p = (\<lambda>w. ws_id w = workspaceID \<and> ws_generation w = generation \<and>
                    ws_mutation_kind w = ''stop'' \<and> ws_mutation_state w = ''runner_succeeded'')
      in st_bind (st_get (\<lambda>tx. rows_affected p (workspaces (tx_db tx)))) (\<lambda>n.
         if n \<noteq> 1 then st_fail (Sentinel ErrGenerationFenced)
         else
           st_bind (modify_db (\<lambda>d. d\<lparr>workspaces :=
             update_where p (advanceWorkspaceRow nextGeneration now) (workspaces d)\<rparr>)) (\<lambda>_.
           st_bind (admitPendingStart claim workspaceID nextGeneration now) (\<lambda>_.
           st_bind (modify_db (fenceLeases (SandboxID claim) generation now)) (\<lambda>_.
           modify_db (closeSessions (SandboxID claim) generation now))))))"

definition recordInstanceReason :: "string \<Rightarrow> string \<Rightarrow> int \<Rightarrow> time \<Rightarrow> unit tx" where
  "recordInstanceReason sandboxID reason instanceGeneration now =
     st_bind (st_get (\<lambda>tx.
       if instanceGeneration = 0
       then map_option sb_generation (find_sandbox (tx_db tx) sandboxID)
       else Some instanceGeneration)) (\<lambda>g.
     modify_db (\<lambda>d. d\<lparr>instances := update_where
       (\<lambda>i. in_sandbox_id i = sandboxID \<and> Some (in_generation i) = g)
       (\<lambda>i. i\<lparr>in_termination_reason :=
                (if in_termination_reason i = [] then reason else in_termination_reason i),
              in_updated_at := now\<rparr>)
       (instances d)\<rparr>))"

definition projectAction :: "LifecycleReconcileClaim \<Rightarrow> string \<Rightarrow> time \<Rightarrow> unit tx" where
  "projectAction claim action now =
     (let sid = SandboxID claim in
      if action = ''drain'' then RecordTeardownStage sid StageTeardownDrainCommitted now
      else if action = ''mark_ready'' then
        st_catch (ProjectReadyOperations sid now)
          (\<lambda>r. case r of Inl e \<Rightarrow> st_fail (Wrapped e) | Inr _ \<Rightarrow> st_return ())
      else if action = ''finish_stop'' then
        st_bind (RecordTeardownStage sid StageTeardownStopCommitted now) (\<lambda>_.
        st_bind (modify_db (complete_ops sid [''drain'', ''stop''] OperationStateSucceeded [] [] now)) (\<lambda>_.
        if DesiredState claim \<noteq> SandboxDesiredStateRunning
        then modify_db (complete_ops sid [''create'', ''start''] OperationStateFailed ''state_conflict''
               ''Sandbox stopped before the requested running state was reached'' now)
        else st_return ()))
      else if action = ''fail'' then
        modify_db (complete_ops sid [''create'', ''start'', ''drain'', ''stop'', ''delete'']
          OperationStateFailed ''internal_error'' ''Lifecycle reconciliation failed'' now)
      else st_return ())"

definition afterUpdate :: "LifecycleReconcileClaim \<Rightarrow> string \<Rightarrow> string \<Rightarrow> SandboxWorkspace \<Rightarrow> time \<Rightarrow> unit tx" where
  "afterUpdate claim action reason locked now =
     st_bind (if action = ''finish_stop''
              then finishStopWorkspace claim (WorkspaceID locked) (Generation locked) now
              else st_return ()) (\<lambda>_.
     st_bind (if reason \<noteq> []
              then recordInstanceReason (SandboxID claim) reason
                     (if action = ''finish_stop'' then Generation locked else 0) now
              else st_return ()) (\<lambda>_.
     projectAction claim action now))"

definition applyBody ::
  "LifecycleReconcileClaim \<Rightarrow> string \<Rightarrow> string \<Rightarrow> time \<Rightarrow> time \<Rightarrow> string \<Rightarrow> unit tx" where
  "applyBody claim action terminationReason now nextReconcileAt nextState =
     st_catch (SandboxWorkspaceForTransition (SandboxID claim)
                 (actionIncreases action terminationReason nextState)) (\<lambda>r.
     case r of
       Inl e \<Rightarrow>
         if errors_Is ErrNoRows e \<or> errors_Is ErrQuotaLedgerRequired e
         then st_fail (Sentinel ErrRevisionConflict) else st_fail (Wrapped e)
     | Inr locked \<Rightarrow>
         if LockedRevision locked \<noteq> Revision claim \<or> ReconcileOwner locked \<noteq> WorkerID claim
         then st_fail (Sentinel ErrRevisionConflict)
         else if action = ''delete'' \<and> MutationState (Mutation (Workspace locked)) \<noteq> []
         then st_fail (Sentinel ErrWorkspaceMutation)
         else
           st_bind (if action = ''finish_stop''
                    then finishStopChecks locked (SandboxID claim) terminationReason
                    else st_return terminationReason) (\<lambda>reason.
           let scheduledAt = (if nextReconcileAt \<noteq> 0 then Some nextReconcileAt else None) in
           st_bind (updateSandbox claim (committedRow nextState action reason scheduledAt now)) (\<lambda>_.
           afterUpdate claim action reason locked now)))"

definition ApplyLifecycleAction :: "Database apply_action" where
  "ApplyLifecycleAction claim action terminationReason now nextReconcileAt d =
     (case nextStateOf (ObservedState claim) action of
        None \<Rightarrow> (Some Opaque, d)
      | Some nextState \<Rightarrow>
          (case run_tx (applyBody claim action terminationReason now nextReconcileAt nextState) d of
             (Inl e, d') \<Rightarrow> (Some e, d')
           | (Inr _, d') \<Rightarrow> (None, d')))"

section \<open>Claiming due Sandboxes\<close>

text \<open>
  Rows that another transaction has locked are skipped (\<open>SKIP LOCKED\<close>): which
  ones they are is an input, one predicate for Sandboxes and one for Leases.
\<close>

definition lifecyclePickupStage :: "string \<Rightarrow> string option" where
  "lifecyclePickupStage trigger =
     (if trigger = ''notify'' then Some ''lifecycle_pickup_notify''
      else if trigger = ''deadline'' then Some ''lifecycle_pickup_deadline''
      else if trigger = ''immediate'' then Some ''lifecycle_pickup_immediate''
      else None)"

definition lease_due :: "time \<Rightarrow> LeaseRow \<Rightarrow> bool" where
  "lease_due now l \<longleftrightarrow> ls_state l = LeaseStateActive \<and> ls_expires_at l \<le> now"

definition expire_lease :: "time \<Rightarrow> LeaseRow \<Rightarrow> LeaseRow" where
  "expire_lease now l = l\<lparr>ls_state := LeaseStateExpired, ls_revision := ls_revision l + 1, ls_updated_at := now\<rparr>"

definition expireLifecycleLeases :: "(string \<Rightarrow> bool) \<Rightarrow> time \<Rightarrow> nat \<Rightarrow> Database \<Rightarrow> Database" where
  "expireLifecycleLeases lockedLease now limit d =
     (let due = map ls_id (take limit (sort_key (\<lambda>l. (ls_expires_at l, ls_id l))
                  (filter (\<lambda>l. lease_due now l \<and> \<not> lockedLease (ls_id l)) (leases d))))
      in d\<lparr>leases := update_where (\<lambda>l. ls_id l \<in> set due) (expire_lease now) (leases d)\<rparr>)"

definition claim_due :: "string \<Rightarrow> time \<Rightarrow> SandboxRow \<Rightarrow> bool" where
  "claim_due workerID now r \<longleftrightarrow>
     sb_state r \<noteq> SandboxStateDeleted \<and>
     (case sb_next_reconcile_at r of Some t \<Rightarrow> t \<le> now | None \<Rightarrow> False) \<and>
     \<not> (sb_state r = SandboxStateFailed \<and> sb_lifecycle_failure_class r \<noteq> []) \<and>
     (case sb_reconcile_claim_expires_at r of
        None \<Rightarrow> True | Some t \<Rightarrow> t \<le> now \<or> sb_reconcile_owner r = workerID)"

abbreviation schedule_key :: "SandboxRow \<Rightarrow> time \<times> string" where
  "schedule_key r \<equiv> (time_or_zero (sb_next_reconcile_at r), sb_id r)"

definition candidates :: "string \<Rightarrow> time \<Rightarrow> nat \<Rightarrow> Database \<Rightarrow> SandboxRow list" where
  "candidates workerID now batchSize d =
     take batchSize (sort_key schedule_key (filter (claim_due workerID now) (sandboxes d)))"

definition expireClaimedLeases :: "(string \<Rightarrow> bool) \<Rightarrow> string list \<Rightarrow> time \<Rightarrow> Database \<Rightarrow> Database" where
  "expireClaimedLeases lockedLease ids now d =
     d\<lparr>leases := update_where
         (\<lambda>l. ls_sandbox_id l \<in> set ids \<and> lease_due now l \<and> \<not> lockedLease (ls_id l))
         (expire_lease now) (leases d)\<rparr>"

definition closeClaimedSessions :: "string list \<Rightarrow> time \<Rightarrow> Database \<Rightarrow> Database" where
  "closeClaimedSessions ids now d =
     d\<lparr>activity_sessions := update_where
         (\<lambda>a. as_sandbox_id a \<in> set ids \<and> as_state a = ''active'' \<and>
              list_ex (\<lambda>l. ls_id l = as_lease_id a \<and>
                          (ls_state l \<noteq> ''active'' \<or> ls_expires_at l \<le> now)) (leases d))
         (\<lambda>a. a\<lparr>as_state := ''closed'', as_closed_at := Some now, as_updated_at := now\<rparr>)
         (activity_sessions d)\<rparr>"

definition activeSessionCount :: "SandboxRow \<Rightarrow> time \<Rightarrow> Database \<Rightarrow> int" where
  "activeSessionCount r now d =
     int (length (filter (\<lambda>a.
       as_sandbox_id a = sb_id r \<and> as_generation a = sb_generation r \<and>
       as_tenant_ref a = sb_tenant_ref r \<and> as_subject_ref a = sb_subject_ref r \<and> as_state a = ''active'' \<and>
       list_ex (\<lambda>l. ls_id l = as_lease_id a \<and> ls_state l = ''active'' \<and> ls_expires_at l > now) (leases d))
       (activity_sessions d)))"

definition stopEffectState :: "SandboxRow \<Rightarrow> Database \<Rightarrow> string" where
  "stopEffectState r d =
     (case sort_key (\<lambda>e. (ef_created_at e, ef_id e))
             (filter (\<lambda>e. ef_sandbox_id e = sb_id r \<and> ef_generation e = sb_generation r \<and> ef_kind e = ''stop'')
               (lifecycle_effects d)) of
        [] \<Rightarrow> []
      | es \<Rightarrow> ef_state (last es))"

definition claimOf :: "string \<Rightarrow> time \<Rightarrow> Database \<Rightarrow> SandboxRow \<Rightarrow> LifecycleReconcileClaim" where
  "claimOf workerID now d r =
     (let inst = List.find (\<lambda>i. in_id i = sb_current_instance_id r) (instances d);
          assignment = List.find (\<lambda>a. am_sandbox_id a = sb_id r \<and> am_generation a = sb_generation r \<and>
                                    am_instance_id a = sb_current_instance_id r) (assignments d)
      in \<lparr>SandboxID = sb_id r, WorkerID = workerID, Revision = sb_revision r,
          ObservedState = sb_state r, DesiredState = sb_desired_state r,
          IntentKind = sb_lifecycle_intent_kind r,
          claimIntentTerminationReason = sb_lifecycle_termination_reason r,
          claimStopEffectState = stopEffectState r d,
          claimGuestLiveness = (case inst of Some i \<Rightarrow> in_guest_liveness i | None \<Rightarrow> []),
          claimInstanceTerminationReason = (case inst of Some i \<Rightarrow> in_termination_reason i | None \<Rightarrow> []),
          claimHasInstance = (inst \<noteq> None),
          claimActiveSessions = activeSessionCount r now d,
          claimDrainStartedAt = sb_drain_started_at r,
          claimReadyAt = (case inst of Some i \<Rightarrow> in_ready_at i | None \<Rightarrow> None),
          claimLastActivityAt = sb_last_activity_at r,
          DrainGraceSeconds = sb_drain_grace_seconds r,
          IdleSeconds = sb_idle_seconds r,
          MaximumDurationSeconds = sb_maximum_duration_seconds r,
          claimAssignmentDeadline =
            (case assignment of Some a \<Rightarrow> am_operation_deadline a | None \<Rightarrow> None)\<rparr>)"

definition markClaimed :: "string \<Rightarrow> time \<Rightarrow> string list \<Rightarrow> Database \<Rightarrow> Database" where
  "markClaimed workerID expiresAt ids d =
     d\<lparr>sandboxes := update_where (\<lambda>r. sb_id r \<in> set ids)
         (\<lambda>r. r\<lparr>sb_reconcile_owner := workerID, sb_reconcile_claim_expires_at := Some expiresAt\<rparr>)
         (sandboxes d)\<rparr>"

definition ClaimLifecycleBatch :: "(string \<Rightarrow> bool) \<Rightarrow> (string \<Rightarrow> bool) \<Rightarrow> Database claim_batch" where
  "ClaimLifecycleBatch lockedSandbox lockedLease workerID now claimDuration batchSize wakeTrigger d =
     (if workerID = [] \<or> claimDuration \<le> 0 \<or> batchSize = 0 then (Inl Opaque, d)
      else case lifecyclePickupStage wakeTrigger of
        None \<Rightarrow> (Inl Opaque, d)
      | Some pickupStage \<Rightarrow>
          (let d1 = expireLifecycleLeases lockedLease now batchSize d;
               claimed = filter (\<lambda>r. \<not> lockedSandbox (sb_id r)) (candidates workerID now batchSize d1);
               ids = map sb_id claimed
           in if ids = [] then (Inr [], d1)
              else
                (let d2 = closeClaimedSessions ids now (expireClaimedLeases lockedLease ids now d1);
                     claims = map (claimOf workerID now d2) claimed;
                     affected = rows_affected (\<lambda>r. sb_id r \<in> set ids) (sandboxes d2)
                 in if affected \<noteq> length claims then (Inl (Sentinel ErrRevisionConflict), d1)
                    else
                      (Inr claims,
                       add_timings (\<lambda>o1. op_sandbox_id o1 \<in> set ids \<and> in_flight o1) pickupStage now
                         (markClaimed workerID (now + claimDuration) ids d2)))))"

definition ClaimLifecycle ::
  "(string \<Rightarrow> bool) \<Rightarrow> (string \<Rightarrow> bool) \<Rightarrow> string \<Rightarrow> time \<Rightarrow> duration \<Rightarrow> string \<Rightarrow> Database \<Rightarrow>
   (ports_error, LifecycleReconcileClaim option) result \<times> Database" where
  "ClaimLifecycle lockedSandbox lockedLease workerID now claimDuration wakeTrigger d =
     (case ClaimLifecycleBatch lockedSandbox lockedLease workerID now claimDuration 1 wakeTrigger d of
        (Inl e, d') \<Rightarrow> (Inl e, d')
      | (Inr [], d') \<Rightarrow> (Inr None, d')
      | (Inr (claim # _), d') \<Rightarrow> (Inr (Some claim), d'))"

definition postgres_store :: "(string \<Rightarrow> bool) \<Rightarrow> (string \<Rightarrow> bool) \<Rightarrow> Database ReconcileStore" where
  "postgres_store lockedSandbox lockedLease =
     \<lparr>ClaimOne = ClaimLifecycle lockedSandbox lockedLease,
      ApplyAction = ApplyLifecycleAction,
      BatchClaim = Some (ClaimLifecycleBatch lockedSandbox lockedLease)\<rparr>"

section \<open>What a commit does to the Sandbox table\<close>

lemma wp_modify_db [wp_simps]: "wp (modify_db f) Q E tx = Q () (tx\<lparr>tx_db := f (tx_db tx)\<rparr>)"
  by (simp add: modify_db_def wp_simps)

lemma unchanged_sandboxes [simp]:
  "sandboxes (add_timings p stage now d) = sandboxes d"
  "sandboxes (complete_ops sid kinds st code msg now d) = sandboxes d"
  "sandboxes (fenceLeases sid g now d) = sandboxes d"
  "sandboxes (closeSessions sid g now d) = sandboxes d"
  by (simp_all add: add_timings_def complete_ops_def fenceLeases_def closeSessions_def)

text \<open>Nothing after the Sandbox update touches the Sandbox table or takes another row lock.\<close>

definition keeps_rows :: "Tx \<Rightarrow> Tx \<Rightarrow> bool" where
  "keeps_rows tx tx' \<longleftrightarrow> sandboxes (tx_db tx') = sandboxes (tx_db tx) \<and> tx_locks tx' = tx_locks tx \<and>
     tx_ledgerless tx' = tx_ledgerless tx \<and>
     map in_id (instances (tx_db tx')) = map in_id (instances (tx_db tx))"

abbreviation always :: "'a \<Rightarrow> 'b \<Rightarrow> bool" where "always a b \<equiv> True"

lemma unchanged_instances [simp]:
  "instances (add_timings p stage now d) = instances d"
  "instances (complete_ops sid kinds st code msg now d) = instances d"
  "instances (fenceLeases sid g now d) = instances d"
  "instances (closeSessions sid g now d) = instances d"
  by (simp_all add: add_timings_def complete_ops_def fenceLeases_def closeSessions_def)

lemma wp_finishStopWorkspace_keeps: "wp (finishStopWorkspace c wid g now) (\<lambda>_. keeps_rows tx) always tx"
  by (simp add: finishStopWorkspace_def admitPendingStart_def setWorkspaceMutation_def keeps_rows_def
      wp_simps Let_def split: option.splits)

lemma wp_recordInstanceReason_keeps: "wp (recordInstanceReason sid reason g now) (\<lambda>_. keeps_rows tx) always tx"
  by (simp add: recordInstanceReason_def keeps_rows_def wp_simps)

lemma wp_projectAction_keeps: "wp (projectAction c a now) (\<lambda>_. keeps_rows tx) always tx"
  by (simp add: projectAction_def RecordTeardownStage_def ProjectReadyOperations_def keeps_rows_def
      wp_simps Let_def)

lemma keeps_rows_trans: "keeps_rows tx tx' \<Longrightarrow> keeps_rows tx' tx'' \<Longrightarrow> keeps_rows tx tx''"
  by (simp add: keeps_rows_def)

lemma keeps_rows_refl: "keeps_rows tx tx"
  by (simp add: keeps_rows_def)

lemma wp_bind_keeps:
  assumes "wp m (\<lambda>_. keeps_rows tx) always tx" "\<And>a tx'. wp (f a) (\<lambda>_. keeps_rows tx') always tx'"
  shows "wp (st_bind m f) (\<lambda>_. keeps_rows tx) always tx"
  unfolding wp_bind
proof (rule wp_mono [OF assms(1)])
  fix a tx' assume "keeps_rows tx tx'"
  then show "wp (f a) (\<lambda>_. keeps_rows tx) always tx'"
    by (intro wp_mono [OF assms(2)]) (auto intro: keeps_rows_trans)
qed simp

lemma wp_afterUpdate_keeps: "wp (afterUpdate c a reason locked now) (\<lambda>_. keeps_rows tx) always tx"
  unfolding afterUpdate_def
  by (intro wp_bind_keeps)
    (simp_all add: wp_if wp_return keeps_rows_refl wp_finishStopWorkspace_keeps
      wp_recordInstanceReason_keeps wp_projectAction_keeps)

lemma claimed_row_unique:
  assumes "distinct (map sb_id rows)" "r \<in> set rows" "sb_id r = sid" "P r"
  shows "filter (\<lambda>x. sb_id x = sid \<and> P x) rows = [r]"
    and "update_where (\<lambda>x. sb_id x = sid \<and> P x) f rows = update_where (by_id sid) f rows"
proof -
  have only: "x = r" if "x \<in> set rows" "sb_id x = sid" for x
    using assms that by (metis distinct_map inj_on_def)
  show "update_where (\<lambda>x. sb_id x = sid \<and> P x) f rows = update_where (by_id sid) f rows"
    using only assms(4) by (auto simp: update_where_def)
  have "filter (\<lambda>x. sb_id x = sid \<and> P x) rows = filter (\<lambda>x. x = r) rows"
    using only assms(3,4) by (intro filter_cong) auto
  also have "\<dots> = [r]"
    using assms(1,2) by (induction rows) (auto simp: filter_empty_conv)
  finally show "filter (\<lambda>x. sb_id x = sid \<and> P x) rows = [r]" .
qed

lemma wp_updateSandbox:
  assumes "distinct (map sb_id (sandboxes (tx_db tx)))" "find_sandbox (tx_db tx) (SandboxID c) = Some r"
    and "sb_revision r = Revision c" "sb_reconcile_owner r = WorkerID c"
    and "sb_tenant_ref (f r) = sb_tenant_ref r" "sb_subject_ref (f r) = sb_subject_ref r" "sb_id (f r) = sb_id r"
    and "if QuotaUsageIncreases (sb_state r) (sb_desired_state r) (sb_state (f r)) (sb_desired_state (f r))
         then TenantLedger (sb_tenant_ref r) \<in> set (tx_locks tx) \<and>
              SubjectLedger (sb_tenant_ref r) (sb_subject_ref r) \<in> set (tx_locks tx) \<and> tx_ledgerless tx = []
         else True"
  shows "wp (updateSandbox c f) Q E tx =
    (if in_i64 (sb_generation (f r)) \<and> in_i64 (sb_revision (f r))
     then Q () (tx\<lparr>tx_db := (tx_db tx)\<lparr>sandboxes := update_where (by_id (SandboxID c)) f (sandboxes (tx_db tx))\<rparr>\<rparr>)
     else E (Wrapped (Sentinel (PgError ''22003''))) tx)"
proof -
  have r: "r \<in> set (sandboxes (tx_db tx))" "sb_id r = SandboxID c"
    using assms(2) by (auto simp: find_sandbox_def dest: find_mem)
  note unique = claimed_row_unique [OF assms(1) r,
      of "\<lambda>x. sb_reconcile_owner x = WorkerID c \<and> sb_revision x = Revision c"]
  have held: "locking l tx = tx" if "l \<in> set (tx_locks tx)" for l
    using that by (simp add: locking_def)
  have "wp (quota_ledger_trigger r (f r)) Q' E tx = Q' () tx" for Q'
    using assms(5-8) by (auto simp: quota_ledger_trigger_def wp_simps held split: if_splits)
  then show ?thesis
    using unique assms(3,4) by (simp add: updateSandbox_def wp_simps Let_def)
qed

text \<open>
  A committed action rewrote exactly the claimed Sandbox's row, whose revision
  and owner were those of the claim; its locks are in order, and they include
  the quota ledgers when the new state pair counts more usage than the old one.
\<close>

definition commit_post ::
  "LifecycleReconcileClaim \<Rightarrow> string \<Rightarrow> string \<Rightarrow> time \<Rightarrow> time \<Rightarrow> string \<Rightarrow> Database \<Rightarrow> Tx \<Rightarrow> bool" where
  "commit_post c action reason now due nextState d tx \<longleftrightarrow>
     (\<exists>r reason'. find_sandbox d (SandboxID c) = Some r \<and> sb_revision r = Revision c \<and>
        sb_reconcile_owner r = WorkerID c \<and> (action \<noteq> ''finish_stop'' \<or> reason \<noteq> [] \<longrightarrow> reason' = reason) \<and>
        sandboxes (tx_db tx) = update_where (by_id (SandboxID c))
          (committedRow nextState action reason' (if due \<noteq> 0 then Some due else None) now) (sandboxes d) \<and>
        in_i64 (sb_generation (committedRow nextState action reason' (if due \<noteq> 0 then Some due else None) now r)) \<and>
        in_i64 (sb_revision (committedRow nextState action reason' (if due \<noteq> 0 then Some due else None) now r)) \<and>
        map in_id (instances (tx_db tx)) = map in_id (instances d) \<and>
        ordered_locks (tx_locks tx) \<and>
        (actionIncreases action reason nextState (sb_state r) (sb_desired_state r) \<longrightarrow>
           TenantLedger (sb_tenant_ref r) \<in> set (tx_locks tx) \<and>
           SubjectLedger (sb_tenant_ref r) (sb_subject_ref r) \<in> set (tx_locks tx)))"

lemma wp_finishStopChecks:
  assumes "held_below (5, [], []) tx"
  shows "wp (finishStopChecks locked sid reason)
    (\<lambda>reason' tx'. tx_db tx' = tx_db tx \<and> tx_ledgerless tx' = tx_ledgerless tx \<and>
       set (tx_locks tx) \<subseteq> set (tx_locks tx') \<and> ordered_locks (tx_locks tx') \<and>
       (reason \<noteq> [] \<longrightarrow> reason' = reason))
    always tx"
proof -
  have "ordered_locks (tx_locks (locking (EffectLock e) tx))" for e
    using locking_upto [OF held_below_weaken [OF assms], of "EffectLock e"] by (simp add: held_upto_def)
  then show ?thesis
    by (auto simp: finishStopChecks_def wp_simps Let_def locking_locks split: option.splits)
qed

lemma committedRow_fields [simp]:
  "sb_id (committedRow ns a reason sched now r) = sb_id r"
  "sb_tenant_ref (committedRow ns a reason sched now r) = sb_tenant_ref r"
  "sb_subject_ref (committedRow ns a reason sched now r) = sb_subject_ref r"
  "sb_workspace_id (committedRow ns a reason sched now r) = sb_workspace_id r"
  "sb_state (committedRow ns a reason sched now r) = ns"
  "sb_desired_state (committedRow ns a reason sched now r) =
     (if policy_drain a reason then ''stopped'' else sb_desired_state r)"
  "sb_revision (committedRow ns a reason sched now r) =
     (if a = ''wait'' then sb_revision r else sb_revision r + 1)"
  "sb_generation (committedRow ns a reason sched now r) =
     (if a = ''finish_stop'' then sb_generation r + 1 else sb_generation r)"
  "sb_reconcile_owner (committedRow ns a reason sched now r) = []"
  "sb_current_instance_id (committedRow ns a reason sched now r) =
     (if a = ''finish_stop'' then [] else sb_current_instance_id r)"
  by (simp_all add: committedRow_def)

lemma wp_update_then_after:
  assumes "distinct (map sb_id (sandboxes d))" "tx_db tx = d" "ordered_locks (tx_locks tx)"
    and "find_sandbox d (SandboxID c) = Some r" "sb_revision r = Revision c" "sb_reconcile_owner r = WorkerID c"
    and "a \<noteq> ''finish_stop'' \<or> reason \<noteq> [] \<longrightarrow> reason' = reason"
    and "actionIncreases a reason ns (sb_state r) (sb_desired_state r) \<longrightarrow>
           TenantLedger (sb_tenant_ref r) \<in> set (tx_locks tx) \<and>
           SubjectLedger (sb_tenant_ref r) (sb_subject_ref r) \<in> set (tx_locks tx) \<and> tx_ledgerless tx = []"
  shows "wp (st_bind (updateSandbox c (committedRow ns a reason' (if due \<noteq> 0 then Some due else None) now))
               (\<lambda>_. afterUpdate c a reason' locked now))
    (\<lambda>_. commit_post c a reason now due ns d) always tx"
proof -
  have policy: "policy_drain a reason' = policy_drain a reason"
    using assms(7) by (auto simp: policy_drain_def)
  let ?f = "committedRow ns a reason' (if due \<noteq> 0 then Some due else None) now"
  have ledgers: "if QuotaUsageIncreases (sb_state r) (sb_desired_state r) (sb_state (?f r)) (sb_desired_state (?f r))
      then TenantLedger (sb_tenant_ref r) \<in> set (tx_locks tx) \<and>
           SubjectLedger (sb_tenant_ref r) (sb_subject_ref r) \<in> set (tx_locks tx) \<and> tx_ledgerless tx = []
      else True"
    using assms(8) by (simp add: actionIncreases_def policy split: if_splits)
  let ?tx = "tx\<lparr>tx_db := (tx_db tx)\<lparr>sandboxes := update_where (by_id (SandboxID c)) ?f (sandboxes (tx_db tx))\<rparr>\<rparr>"
  have upd: "wp (updateSandbox c ?f) Q always tx =
      (if in_i64 (sb_generation (?f r)) \<and> in_i64 (sb_revision (?f r)) then Q () ?tx else True)" for Q
    using wp_updateSandbox [of tx c r ?f, OF _ _ assms(5,6) _ _ _ ledgers] assms(1,2,4) by simp
  have "commit_post c a reason now due ns d tx'"
    if "keeps_rows ?tx tx'" "in_i64 (sb_generation (?f r))" "in_i64 (sb_revision (?f r))" for tx'
    unfolding commit_post_def
    by (rule exI [of _ r], rule exI [of _ reason'])
      (use that assms(2-8) in \<open>simp add: keeps_rows_def\<close>)
  then have "wp (afterUpdate c a reason' locked now) (\<lambda>_. commit_post c a reason now due ns d) always ?tx"
    if "in_i64 (sb_generation (?f r))" "in_i64 (sb_revision (?f r))"
    using that by (intro wp_mono [OF wp_afterUpdate_keeps]) simp_all
  then show ?thesis
    unfolding wp_bind upd by simp
qed

lemma wp_applyBody:
  assumes "distinct (map sb_id (sandboxes d))"
  shows "wp (applyBody c a reason now due ns) (\<lambda>_. commit_post c a reason now due ns d) always (begin_tx d)"
  unfolding applyBody_def wp_catch
proof (rule wp_mono [OF wp_SandboxWorkspaceForTransition [OF assms]], goal_cases)
  case (1 locked tx)
  then obtain r w where r: "held_below (5, [], []) tx" "tx_db tx = d" "find_sandbox d (SandboxID c) = Some r"
      "locked = lockedSandboxWorkspace r w"
    and ledgers: "actionIncreases a reason ns (sb_state r) (sb_desired_state r) \<longrightarrow>
      TenantLedger (sb_tenant_ref r) \<in> set (tx_locks tx) \<and>
      SubjectLedger (sb_tenant_ref r) (sb_subject_ref r) \<in> set (tx_locks tx) \<and> tx_ledgerless tx = []"
    by (auto simp: transition_post_def split: if_splits)
  show ?case
  proof (cases "sb_revision r = Revision c \<and> sb_reconcile_owner r = WorkerID c")
    case True
    note tail = wp_update_then_after [OF assms _ _ r(3) conjunct1 [OF True] conjunct2 [OF True],
        where a = a and reason = reason and ns = ns and due = due and now = now]
    show ?thesis
    proof (cases "a = ''finish_stop''")
      case fin: True
      have "wp (finishStopChecks locked (SandboxID c) reason)
        (\<lambda>reason'. wp (st_bind (updateSandbox c (committedRow ns a reason' (if due \<noteq> 0 then Some due else None) now))
               (\<lambda>_. afterUpdate c a reason' locked now))
          (\<lambda>_. commit_post c a reason now due ns d) always) always tx"
      proof (rule wp_mono [OF wp_finishStopChecks [OF r(1)]], goal_cases)
        case (1 reason' tx')
        show ?case
          by (rule tail; use 1 r(2) ledgers fin in auto)
      qed simp
      then show ?thesis
        using True fin by (simp add: r(4) lockedSandboxWorkspace_def wp_bind Let_def)
    next
      case False
      have "wp (st_bind (updateSandbox c (committedRow ns a reason (if due \<noteq> 0 then Some due else None) now))
               (\<lambda>_. afterUpdate c a reason locked now))
          (\<lambda>_. commit_post c a reason now due ns d) always tx"
        using r(1,2) ledgers by (intro tail) (auto simp: held_below_def)
      then show ?thesis
        using True False by (simp add: r(4) lockedSandboxWorkspace_def wp_bind wp_return wp_if wp_fail Let_def)
    qed
  next
    case False
    then show ?thesis
      by (auto simp: r(4) lockedSandboxWorkspace_def wp_fail)
  qed
next
  case (2 e tx)
  then show ?case
    by (simp add: wp_fail wp_if)
qed

section \<open>The store is what the worker relies on\<close>

definition revision_of :: "Database \<Rightarrow> string \<Rightarrow> int option" where
  "revision_of d sid = map_option sb_revision (find_sandbox d sid)"

definition owner_of :: "Database \<Rightarrow> string \<Rightarrow> string option" where
  "owner_of d sid = map_option sb_reconcile_owner (find_sandbox d sid)"

definition unique_sandboxes :: "Database \<Rightarrow> bool" where
  "unique_sandboxes d \<longleftrightarrow> distinct (map sb_id (sandboxes d))"

datatype claim_event =
  ClaimEvent "string \<Rightarrow> bool" "string \<Rightarrow> bool" string time duration nat string

primrec do_claim :: "claim_event \<Rightarrow> Database \<Rightarrow> Database" where
  "do_claim (ClaimEvent lockedSandbox lockedLease worker now dur n wake) d =
     snd (ClaimLifecycleBatch lockedSandbox lockedLease worker now dur n wake d)"

lemma ApplyLifecycleAction_rollback:
  "ApplyLifecycleAction c a reason now due d = (Some e, d') \<Longrightarrow> d' = d"
  by (auto simp: ApplyLifecycleAction_def run_tx_def split: option.splits prod.splits sum.splits)

lemma ApplyLifecycleAction_commit:
  assumes "unique_sandboxes d" "ApplyLifecycleAction c a reason now due d = (None, d')"
  obtains ns tx where "nextStateOf (ObservedState c) a = Some ns"
    "applyBody c a reason now due ns (begin_tx d) = (Inr (), tx)" "d' = tx_db tx"
    "commit_post c a reason now due ns d tx"
proof -
  obtain ns tx where ok: "nextStateOf (ObservedState c) a = Some ns"
      "applyBody c a reason now due ns (begin_tx d) = (Inr (), tx)" "d' = tx_db tx"
    using assms(2) by (auto simp: ApplyLifecycleAction_def run_tx_def split: option.splits prod.splits sum.splits)
  then show ?thesis
    using that wp_applyBody [OF assms(1) [unfolded unique_sandboxes_def], of c a reason now due ns]
    by (simp add: wp_def)
qed

lemma find_committed:
  assumes "sandboxes d' = update_where (by_id sid) (committedRow ns a reason sched now) (sandboxes d)"
  shows "find_sandbox d' i = map_option
    (\<lambda>r. if i = sid then committedRow ns a reason sched now r else r) (find_sandbox d i)"
proof -
  have *: "find_sandbox d' i = map_option (\<lambda>r. if sb_id r = sid then committedRow ns a reason sched now r else r)
      (find_sandbox d i)"
    unfolding find_sandbox_def assms by (rule find_update_where) simp
  show ?thesis
  proof (cases "find_sandbox d i")
    case (Some r)
    then have "sb_id r = i"
      unfolding find_sandbox_def using find_mem by fastforce
    then show ?thesis
      using * Some by simp
  qed (simp add: *)
qed

lemma unique_sandboxes_update:
  "unique_sandboxes d \<Longrightarrow> (\<And>r. sb_id (f r) = sb_id r) \<Longrightarrow> sandboxes d' = update_where p f (sandboxes d) \<Longrightarrow>
   unique_sandboxes d'"
  by (simp add: unique_sandboxes_def)

lemma claim_phase_sandboxes [simp]:
  "sandboxes (expireLifecycleLeases lockedLease now n d) = sandboxes d"
  "sandboxes (expireClaimedLeases lockedLease ids now d) = sandboxes d"
  "sandboxes (closeClaimedSessions ids now d) = sandboxes d"
  by (simp_all add: expireLifecycleLeases_def expireClaimedLeases_def closeClaimedSessions_def Let_def)

abbreviation claim_row :: "string \<Rightarrow> time \<Rightarrow> SandboxRow \<Rightarrow> SandboxRow" where
  "claim_row worker t r \<equiv> r\<lparr>sb_reconcile_owner := worker, sb_reconcile_claim_expires_at := Some t\<rparr>"

text \<open>A claim that returns claims marked exactly their rows; any other outcome changed no row.\<close>

lemma ClaimLifecycleBatch_cases:
  assumes "ClaimLifecycleBatch lockedSandbox lockedLease worker now dur n wake d = (res, d')"
  obtains
      (none) "sandboxes d' = sandboxes d" "instances d' = instances d" "res = Inr [] \<or> (\<exists>e. res = Inl e)"
    | (some) claimed d2 where "worker \<noteq> []" "0 < dur" "claimed \<noteq> []"
        "sandboxes d2 = sandboxes d" "instances d2 = instances d"
        "set claimed \<subseteq> {r \<in> set (sandboxes d). claim_due worker now r \<and> \<not> lockedSandbox (sb_id r)}"
        "res = Inr (map (claimOf worker now d2) claimed)"
        "sandboxes d' = update_where (\<lambda>r. sb_id r \<in> sb_id ` set claimed) (claim_row worker (now + dur)) (sandboxes d)"
        "instances d' = instances d"
proof -
  define d1 where "d1 = expireLifecycleLeases lockedLease now n d"
  define claimed where "claimed = filter (\<lambda>r. \<not> lockedSandbox (sb_id r)) (candidates worker now n d1)"
  define d2 where "d2 = closeClaimedSessions (map sb_id claimed) now (expireClaimedLeases lockedLease (map sb_id claimed) now d1)"
  have d1: "sandboxes d1 = sandboxes d" "instances d1 = instances d"
    by (simp_all add: d1_def expireLifecycleLeases_def Let_def)
  have d2: "sandboxes d2 = sandboxes d" "instances d2 = instances d"
    by (simp_all add: d2_def d1 d1_def closeClaimedSessions_def expireClaimedLeases_def
        expireLifecycleLeases_def Let_def)
  have sub: "set claimed \<subseteq> {r \<in> set (sandboxes d). claim_due worker now r \<and> \<not> lockedSandbox (sb_id r)}"
    using set_take_subset [of n "sort_key schedule_key (filter (claim_due worker now) (sandboxes d1))"]
    by (auto simp: claimed_def candidates_def d1)
  show ?thesis
  proof (cases "worker = [] \<or> dur \<le> 0 \<or> n = 0 \<or> lifecyclePickupStage wake = None \<or> claimed = [] \<or>
      rows_affected (\<lambda>r. sb_id r \<in> set (map sb_id claimed)) (sandboxes d2) \<noteq> length claimed")
    case True
    have "sandboxes d' = sandboxes d" "instances d' = instances d" "res = Inr [] \<or> (\<exists>e. res = Inl e)"
      using assms True d1
      by (auto simp: ClaimLifecycleBatch_def Let_def d1_def [symmetric] claimed_def [symmetric]
          d2_def [symmetric] split: option.splits if_splits)
    then show ?thesis by (rule none)
  next
    case False
    then obtain stage where "lifecyclePickupStage wake = Some stage" by auto
    then have "res = Inr (map (claimOf worker now d2) claimed)"
      and "d' = add_timings (\<lambda>o1. op_sandbox_id o1 \<in> set (map sb_id claimed) \<and> in_flight o1) stage now
             (markClaimed worker (now + dur) (map sb_id claimed) d2)"
      using assms False
      by (simp_all add: ClaimLifecycleBatch_def Let_def d1_def [symmetric] claimed_def [symmetric]
          d2_def [symmetric])
    then show ?thesis
      using False by (intro some [OF _ _ _ d2 sub]) (simp_all add: markClaimed_def d2)
  qed
qed

lemma do_claim_revisions:
  assumes "unique_sandboxes d"
  shows "unique_sandboxes (do_claim ev d) \<and> revision_of (do_claim ev d) i = revision_of d i"
proof (cases ev)
  case (ClaimEvent lockedSandbox lockedLease worker now dur n wake)
  obtain res d' where step: "ClaimLifecycleBatch lockedSandbox lockedLease worker now dur n wake d = (res, d')"
    by force
  then have d': "do_claim ev d = d'" by (simp add: ClaimEvent)
  from step show ?thesis
  proof (cases rule: ClaimLifecycleBatch_cases)
    case none
    then show ?thesis
      using assms by (simp add: d' unique_sandboxes_def revision_of_def find_sandbox_def)
  next
    case (some claimed d2)
    have "revision_of d' i = revision_of d i"
      unfolding revision_of_def find_sandbox_def some(8)
      by (subst find_update_where) (auto simp: option.map_comp comp_def intro!: option.map_cong0)
    then show ?thesis
      using unique_sandboxes_update [OF assms _ some(8)] by (simp add: d')
  qed
qed

lemma commit_lookup:
  assumes "unique_sandboxes d" "ApplyLifecycleAction c a reason now due d = (None, d')"
  obtains r ns reason' sched where "find_sandbox d (SandboxID c) = Some r"
    "sb_revision r = Revision c" "sb_reconcile_owner r = WorkerID c"
    "nextStateOf (ObservedState c) a = Some ns"
    "sandboxes d' = update_where (by_id (SandboxID c)) (committedRow ns a reason' sched now) (sandboxes d)"
    "a \<noteq> ''finish_stop'' \<or> reason \<noteq> [] \<longrightarrow> reason' = reason"
    "sched = (if due \<noteq> 0 then Some due else None)"
    "map in_id (instances d') = map in_id (instances d)"
proof (rule ApplyLifecycleAction_commit [OF assms])
  fix ns tx
  assume ns: "nextStateOf (ObservedState c) a = Some ns" and d': "d' = tx_db tx"
    and "commit_post c a reason now due ns d tx"
  then obtain r reason' where "find_sandbox d (SandboxID c) = Some r"
      "sb_revision r = Revision c" "sb_reconcile_owner r = WorkerID c"
      "a \<noteq> ''finish_stop'' \<or> reason \<noteq> [] \<longrightarrow> reason' = reason"
      "sandboxes (tx_db tx) = update_where (by_id (SandboxID c))
          (committedRow ns a reason' (if due \<noteq> 0 then Some due else None) now) (sandboxes d)"
      "map in_id (instances (tx_db tx)) = map in_id (instances d)"
    unfolding commit_post_def by blast
  with ns d' show thesis
    by (intro that [of r ns reason' "if due \<noteq> 0 then Some due else None"]) simp_all
qed

interpretation postgres: reconcile_store ApplyLifecycleAction do_claim revision_of owner_of unique_sandboxes
proof unfold_locales
  fix c a reason now due and s s' :: Database
  assume s: "unique_sandboxes s" and ok: "ApplyLifecycleAction c a reason now due s = (None, s')"
  from s ok obtain r ns reason' sched where r: "find_sandbox s (SandboxID c) = Some r"
      "sb_revision r = Revision c" "sb_reconcile_owner r = WorkerID c"
      "sandboxes s' = update_where (by_id (SandboxID c)) (committedRow ns a reason' sched now) (sandboxes s)"
    by (rule commit_lookup)
  show "revision_of s (SandboxID c) = Some (Revision c) \<and> owner_of s (SandboxID c) = Some (WorkerID c)"
    using r by (simp add: revision_of_def owner_of_def)
  show "unique_sandboxes s' \<and> owner_of s' (SandboxID c) = Some []"
    using r unique_sandboxes_update [OF s _ r(4)] by (simp add: owner_of_def find_committed [OF r(4)])
  show "revision_of s' (SandboxID c) = Some (if a = ''wait'' then Revision c else Revision c + 1)"
    using r by (simp add: revision_of_def find_committed [OF r(4)])
  show "revision_of s' i = revision_of s i" if "i \<noteq> SandboxID c" for i
    using that by (simp add: revision_of_def find_committed [OF r(4)] option.map_comp comp_def)
qed (erule ApplyLifecycleAction_rollback, erule do_claim_revisions)

section \<open>Properties\<close>

text \<open>A database with one ready Sandbox, claimed by a worker, for the witnesses below.\<close>

definition sample_row :: SandboxRow where
  "sample_row =
     \<lparr>sb_id = ''s'', sb_tenant_ref = ''t'', sb_subject_ref = ''u'', sb_workspace_id = ''w'',
      sb_profile_revision_id = ''p'', sb_egress_context = None, sb_state = ''ready'',
      sb_desired_state = ''running'', sb_generation = 3, sb_revision = 7, sb_current_instance_id = ''i'',
      sb_reconcile_owner = ''k'', sb_reconcile_claim_expires_at = Some 900, sb_next_reconcile_at = Some 400,
      sb_drain_started_at = None, sb_last_activity_at = None, sb_lifecycle_action = [],
      sb_lifecycle_intent_kind = [], sb_lifecycle_termination_reason = [], sb_lifecycle_failure_class = [],
      sb_lifecycle_failure_message = [], sb_updated_at = 100, sb_vcpu_count = 1, sb_memory_bytes = 1,
      sb_workspace_bytes = 1, sb_drain_grace_seconds = 1, sb_idle_seconds = 1, sb_maximum_duration_seconds = 1,
      sb_execution_image_reference = [], sb_execution_image_digest = [], sb_lifecycle_request_metadata = []\<rparr>"

definition sample_workspace :: WorkspaceRow where
  "sample_workspace =
     \<lparr>ws_id = ''w'', ws_sandbox_id = ''s'', ws_home_runner_id = ''h'', ws_state = ''ready'',
      ws_logical_capacity_bytes = 1, ws_generation = 3, ws_mutation_kind = [], ws_mutation_id = [],
      ws_mutation_effect_id = [], ws_mutation_operation_id = [], ws_mutation_expected_generation = None,
      ws_mutation_target_generation = None, ws_mutation_state = [], ws_receipt_decodes = True, ws_updated_at = 0\<rparr>"

definition sample_quota :: QuotaRow where
  "sample_quota = \<lparr>qr_max_sandboxes = None, qr_max_active_instances = Some 1, qr_max_vcpu_count = Some 8,
     qr_max_memory_bytes = None, qr_max_snapshots = None, qr_max_port_sessions = None, qr_max_concurrent_operations = None\<rparr>"

definition sample_db :: Database where
  "sample_db =
     \<lparr>tenant_quotas = [QuotaRow.extend sample_quota
        (TenantQuotaRow.fields None None ''t'')],
      subject_quotas = [QuotaRow.extend sample_quota (SubjectQuotaRow.fields ''t'' ''u'')], subjects = [], sandboxes = [sample_row],
      workspaces = [sample_workspace], snapshots = [], lifecycle_effects = [], leases = [],
      activity_sessions = [], instances = [], assignments = [], operations = [], stage_timings = [],
      tenants = [\<lparr>tn_ref = ''t'', tn_state = ''active'', tn_expires_at = None\<rparr>], port_sessions = [],
      data_plane_sessions = [], application_authorities = [], runners = [\<lparr>rn_id = ''h'', rn_state = ''ready''\<rparr>],
      idempotency_records = [], audit_events = []\<rparr>"

definition sample_claim :: LifecycleReconcileClaim where
  "sample_claim = claimOf ''k'' 500 sample_db sample_row"

lemma sample_drain_commits:
  "fst (ApplyLifecycleAction sample_claim ''drain'' ''idle_timeout'' 500 500 sample_db) = None"
  by code_simp

text \<open>
  C2: a claim commits at most one change. Once \<open>ApplyLifecycleAction\<close> has
  committed an action other than a wait under a claim, every later commit under
  the same claim is refused, whatever claims and commits happened in between
  and whichever worker holds the row.
\<close>

theorem spent_claim_never_commits_again:
  assumes "unique_sandboxes d" "ApplyLifecycleAction c a reason now due d = (None, d')" "a \<noteq> ''wait''"
  shows "fst (ApplyLifecycleAction c a' reason' now' due'
           (store_events ApplyLifecycleAction do_claim evs d')) \<noteq> None"
  using assms by (rule postgres.changed_claim_is_spent)

theorem spent_claim_never_commits_again_witness:
  "fst (ApplyLifecycleAction sample_claim ''fail'' [] 600 0
     (store_events ApplyLifecycleAction do_claim
        [OtherEvent (ClaimEvent (\<lambda>_. False) (\<lambda>_. False) ''k'' 2000 10 1 ''notify'')]
        (snd (ApplyLifecycleAction sample_claim ''drain'' ''idle_timeout'' 500 500 sample_db)))) \<noteq> None"
proof -
  have "ApplyLifecycleAction sample_claim ''drain'' ''idle_timeout'' 500 500 sample_db =
      (None, snd (ApplyLifecycleAction sample_claim ''drain'' ''idle_timeout'' 500 500 sample_db))"
    using sample_drain_commits by (metis prod.collapse)
  moreover have "unique_sandboxes sample_db" by code_simp
  ultimately show ?thesis
    using spent_claim_never_commits_again by simp
qed

text \<open>
  C10: reconciling a claim whose decision is to wait changes no Sandbox's
  revision, which is the ETag callers see, even when the commit fails.
\<close>

theorem waiting_holds_every_revision:
  assumes "unique_sandboxes d" "DecisionAction (Decide (viewOfClaim c) now) = ActionWait"
    and "reconcileClaim reconciler (postgres_store lockedSandbox lockedLease) c now d = (res, d')"
  shows "revision_of d' i = revision_of d i"
  by (rule postgres.wait_holds_revisions [OF assms(1) _ assms(2,3)]) (simp add: postgres_store_def)

definition sample_reconciler :: "Database Reconciler" where
  "sample_reconciler =
     \<lparr>PrepareImages = None, Store = Some (postgres_store (\<lambda>_. False) (\<lambda>_. False)), Effects = None,
      ReconcilerWorkerID = ''k'', ClaimDuration = 100, PollInterval = 5, BatchSize = 2\<rparr>"

theorem waiting_holds_every_revision_witness:
  "fst (reconcileClaim sample_reconciler (postgres_store (\<lambda>_. False) (\<lambda>_. False)) sample_claim 500 sample_db) =
     (Some (decide_only ActionWait), None) \<and>
   revision_of (snd (reconcileClaim sample_reconciler (postgres_store (\<lambda>_. False) (\<lambda>_. False))
     sample_claim 500 sample_db)) ''s'' = Some 7"
proof -
  have "unique_sandboxes sample_db" "revision_of sample_db ''s'' = Some 7"
      "DecisionAction (Decide (viewOfClaim sample_claim) 500) = ActionWait"
      "fst (reconcileClaim sample_reconciler (postgres_store (\<lambda>_. False) (\<lambda>_. False)) sample_claim 500 sample_db) =
       (Some (decide_only ActionWait), None)"
    by code_simp+
  then show ?thesis
    using waiting_holds_every_revision [OF _ _ prod.collapse [symmetric]] by metis
qed

text \<open>
  C4: a commit that raises counted quota usage holds the Tenant's and the
  Subject's quota ledger, and took them before the Sandbox row: the locks of
  the whole transaction are in the global order.
\<close>

theorem quota_increase_holds_ledgers:
  assumes "unique_sandboxes d"
    and "applyBody c a reason now due ns (begin_tx d) = (Inr (), tx)"
    and "find_sandbox d (SandboxID c) = Some r" "find_sandbox (tx_db tx) (SandboxID c) = Some r'"
    and "QuotaUsageIncreases (sb_state r) (sb_desired_state r) (sb_state r') (sb_desired_state r')"
  shows "ordered_locks (tx_locks tx) \<and> TenantLedger (sb_tenant_ref r) \<in> set (tx_locks tx) \<and>
    SubjectLedger (sb_tenant_ref r) (sb_subject_ref r) \<in> set (tx_locks tx)"
proof -
  have "commit_post c a reason now due ns d tx"
    using wp_applyBody [OF assms(1) [unfolded unique_sandboxes_def], of c a reason now due ns] assms(2)
    by (simp add: wp_def)
  then obtain reason' where reason': "a \<noteq> ''finish_stop'' \<or> reason \<noteq> [] \<longrightarrow> reason' = reason"
    and s: "sandboxes (tx_db tx) = update_where (by_id (SandboxID c))
          (committedRow ns a reason' (if due \<noteq> 0 then Some due else None) now) (sandboxes d)"
    and locks: "ordered_locks (tx_locks tx)"
      "actionIncreases a reason ns (sb_state r) (sb_desired_state r) \<longrightarrow>
           TenantLedger (sb_tenant_ref r) \<in> set (tx_locks tx) \<and>
           SubjectLedger (sb_tenant_ref r) (sb_subject_ref r) \<in> set (tx_locks tx)"
    using assms(3) unfolding commit_post_def by auto
  have "policy_drain a reason' = policy_drain a reason"
    using reason' by (auto simp: policy_drain_def)
  then have "actionIncreases a reason ns (sb_state r) (sb_desired_state r)"
    using assms(3-5) by (auto simp: find_committed [OF s] actionIncreases_def split: if_splits)
  then show ?thesis
    using locks by simp
qed

definition sample_start_tx :: Tx where
  "sample_start_tx = snd (applyBody (sample_claim\<lparr>ObservedState := ''failed''\<rparr>) ''start_instance'' [] 500 500 ''starting''
     (begin_tx (sample_db\<lparr>sandboxes := [sample_row\<lparr>sb_state := ''failed''\<rparr>]\<rparr>)))"

theorem quota_increase_holds_ledgers_witness:
  "tx_locks sample_start_tx = [TenantLedger ''t'', SubjectLedger ''t'' ''u'', SandboxLock ''s'', WorkspaceLock ''w''] \<and>
   TenantLedger ''t'' \<in> set (tx_locks sample_start_tx)"
proof -
  have "fst (applyBody (sample_claim\<lparr>ObservedState := ''failed''\<rparr>) ''start_instance'' [] 500 500 ''starting''
     (begin_tx (sample_db\<lparr>sandboxes := [sample_row\<lparr>sb_state := ''failed''\<rparr>]\<rparr>))) = Inr ()"
    by code_simp
  then have run: "applyBody (sample_claim\<lparr>ObservedState := ''failed''\<rparr>) ''start_instance'' [] 500 500 ''starting''
     (begin_tx (sample_db\<lparr>sandboxes := [sample_row\<lparr>sb_state := ''failed''\<rparr>]\<rparr>)) = (Inr (), sample_start_tx)"
    by (simp add: sample_start_tx_def prod_eq_iff)
  have "unique_sandboxes (sample_db\<lparr>sandboxes := [sample_row\<lparr>sb_state := ''failed''\<rparr>]\<rparr>)"
    "find_sandbox (sample_db\<lparr>sandboxes := [sample_row\<lparr>sb_state := ''failed''\<rparr>]\<rparr>) ''s'' =
       Some (sample_row\<lparr>sb_state := ''failed''\<rparr>)"
    "SandboxID (sample_claim\<lparr>ObservedState := ''failed''\<rparr>) = ''s''"
    "sb_tenant_ref (sample_row\<lparr>sb_state := ''failed''\<rparr>) = ''t''"
    by code_simp+
  moreover have "map_option (\<lambda>r'. (sb_state r', sb_desired_state r')) (find_sandbox (tx_db sample_start_tx) ''s'') =
      Some (''starting'', ''running'')"
    by code_simp
  moreover have "QuotaUsageIncreases ''failed'' ''running'' ''starting'' ''running''" by code_simp
  moreover have "sb_state (sample_row\<lparr>sb_state := ''failed''\<rparr>) = ''failed''"
      "sb_desired_state (sample_row\<lparr>sb_state := ''failed''\<rparr>) = ''running''"
    by code_simp+
  moreover have "tx_locks sample_start_tx =
      [TenantLedger ''t'', SubjectLedger ''t'' ''u'', SandboxLock ''s'', WorkspaceLock ''w'']"
    by code_simp
  ultimately show ?thesis
    using quota_increase_holds_ledgers [OF _ run] by fastforce
qed

end
