(* ===== verification/Quota_Usage.thy ===== *)
theory Quota_Usage
  imports Lifecycle_Store
begin

text \<open>
  Quota ceilings and usage as PostgreSQL holds them (\<open>internal/store/postgres_store.go\<close>,
  \<open>internal/store/postgres_subject_capacity.go\<close>): reading a ledger, counting what a
  Subject or a Tenant uses, and the locks an admission takes before it counts.
\<close>

section \<open>Ledgers\<close>

definition scan_limits :: "'a QuotaRow_scheme \<Rightarrow> QuotaLimits option" where
  "scan_limits r =
     Option.bind (limit_Scan (qr_max_sandboxes r)) (\<lambda>a.
     Option.bind (limit_Scan (qr_max_active_instances r)) (\<lambda>b.
     Option.bind (limit_Scan (qr_max_vcpu_count r)) (\<lambda>c.
     Option.bind (limit_Scan (qr_max_memory_bytes r)) (\<lambda>m.
     Option.bind (limit_Scan (qr_max_snapshots r)) (\<lambda>s.
     Option.bind (limit_Scan (qr_max_port_sessions r)) (\<lambda>p.
     Option.bind (limit_Scan (qr_max_concurrent_operations r)) (\<lambda>o1.
       Some \<lparr>MaxSandboxes = a, MaxActiveInstances = b, MaxVCPUCount = c, MaxMemoryBytes = m,
             MaxSnapshots = s, MaxPortSessions = p, MaxConcurrentOperations = o1\<rparr>)))))))"

definition scan_tenant_limits :: "TenantQuotaRow \<Rightarrow> TenantQuotaLimits option" where
  "scan_tenant_limits r =
     Option.bind (scan_limits r) (\<lambda>q.
     Option.bind (limit_Scan (tq_max_active_subjects r)) (\<lambda>s.
     Option.bind (limit_Scan (tq_max_application_authorities r)) (\<lambda>a.
       Some (QuotaLimits.extend q (TenantQuotaLimits.fields s a)))))"

definition find_subject_quota :: "string \<Rightarrow> string \<Rightarrow> Database \<Rightarrow> SubjectQuotaRow option" where
  "find_subject_quota tenantRef subjectRef d =
     List.find (\<lambda>r. sq_tenant_ref r = tenantRef \<and> sq_subject_ref r = subjectRef) (subject_quotas d)"

definition find_tenant_quota :: "string \<Rightarrow> Database \<Rightarrow> TenantQuotaRow option" where
  "find_tenant_quota tenantRef d = List.find (\<lambda>r. tq_tenant_ref r = tenantRef) (tenant_quotas d)"

definition scanned :: "'r option \<Rightarrow> ('r \<Rightarrow> 'a option) \<Rightarrow> 'a tx" where
  "scanned found scan =
     (case found of
        None \<Rightarrow> st_fail (Wrapped (Sentinel ErrNoRows))
      | Some row \<Rightarrow> (case scan row of None \<Rightarrow> st_fail (Wrapped Opaque) | Some q \<Rightarrow> st_return q))"

definition readSubjectQuota :: "string \<Rightarrow> string \<Rightarrow> QuotaLimits tx" where
  "readSubjectQuota tenantRef subjectRef =
     st_bind (st_get (\<lambda>tx. find_subject_quota tenantRef subjectRef (tx_db tx))) (\<lambda>found. scanned found scan_limits)"

definition readTenantQuota :: "string \<Rightarrow> TenantQuotaLimits tx" where
  "readTenantQuota tenantRef =
     st_bind (st_get (\<lambda>tx. find_tenant_quota tenantRef (tx_db tx))) (\<lambda>found. scanned found scan_tenant_limits)"

definition lockTenantAndSubjectQuota :: "string \<Rightarrow> string \<Rightarrow> (TenantQuotaLimits \<times> QuotaLimits) tx" where
  "lockTenantAndSubjectQuota tenantRef subjectRef =
     st_bind (TenantAndSubjectQuota tenantRef subjectRef) (\<lambda>_.
     st_bind (readTenantQuota tenantRef) (\<lambda>tenantQuota.
     st_bind (readSubjectQuota tenantRef subjectRef) (\<lambda>subjectQuota.
       st_return (tenantQuota, subjectQuota))))"

definition tenant_admissible :: "TenantRow \<Rightarrow> time \<Rightarrow> perr option" where
  "tenant_admissible tenant now =
     (if tn_state tenant = ''suspended'' then Some (Sentinel ErrTenantSuspended)
      else if tn_state tenant = ''expired'' \<or>
              (case tn_expires_at tenant of Some t \<Rightarrow> \<not> t > now | None \<Rightarrow> False)
      then Some (Sentinel ErrResourceExpired)
      else if tn_state tenant \<noteq> ''active'' then Some (Sentinel ErrInvalidLifecycleTransition)
      else None)"

definition lockTenantAndSubjectQuotaForAdmission ::
  "string \<Rightarrow> string \<Rightarrow> time \<Rightarrow> (TenantQuotaLimits \<times> QuotaLimits) tx" where
  "lockTenantAndSubjectQuotaForAdmission tenantRef subjectRef now =
     st_bind (lockTenantAndSubjectQuota tenantRef subjectRef) (\<lambda>quotas.
     st_bind (st_catch
       (select_for_update (\<lambda>d. List.find (\<lambda>r. tn_ref r = tenantRef) (tenants d)) (\<lambda>r. TenantLock (tn_ref r)))
       (\<lambda>r. case r of Inl e \<Rightarrow> st_fail (Wrapped e) | Inr row \<Rightarrow> st_return row)) (\<lambda>tenant.
     case tenant_admissible tenant now of
       Some e \<Rightarrow> st_fail e
     | None \<Rightarrow> st_bind (ActiveSubject tenantRef subjectRef now) (\<lambda>_. st_return quotas)))"

section \<open>Usage\<close>

text \<open>The \<open>FILTER\<close> clause of both usage queries.\<close>

definition counts_compute :: "SandboxRow \<Rightarrow> bool" where
  "counts_compute r \<longleftrightarrow>
     (sb_desired_state r = ''running'' \<and> sb_state r \<in> {''creating'', ''stopped''}) \<or>
     sb_state r \<in> {''starting'', ''ready'', ''draining'', ''stopping''}"

text \<open>The rows of \<open>sandboxes JOIN workspaces ON workspace.id=sandbox.workspace_id\<close> of one Subject.\<close>

definition subject_sandboxes :: "string \<Rightarrow> string \<Rightarrow> Database \<Rightarrow> SandboxRow list" where
  "subject_sandboxes tenantRef subjectRef d =
     concat (map (\<lambda>r. map (\<lambda>_. r) (filter (\<lambda>w. ws_id w = sb_workspace_id r) (workspaces d)))
       (filter (\<lambda>r. sb_tenant_ref r = tenantRef \<and> sb_subject_ref r = subjectRef \<and> sb_state r \<noteq> ''deleted'')
         (sandboxes d)))"

definition tenant_sandboxes :: "string \<Rightarrow> Database \<Rightarrow> SandboxRow list" where
  "tenant_sandboxes tenantRef d =
     filter (\<lambda>r. sb_tenant_ref r = tenantRef \<and> sb_state r \<noteq> ''deleted'') (sandboxes d)"

definition count_where :: "('r \<Rightarrow> bool) \<Rightarrow> 'r list \<Rightarrow> int" where
  "count_where p rows = int (length (filter p rows))"

definition held_snapshot :: "SnapshotRow \<Rightarrow> bool" where
  "held_snapshot s \<longleftrightarrow> sn_state s \<in> {''creating'', ''ready'', ''deleting''}"

definition open_port :: "time \<Rightarrow> PortSessionRow \<Rightarrow> bool" where
  "open_port now p \<longleftrightarrow> ps_state p \<in> {''open'', ''closing''} \<and> ps_expires_at p > now"

definition live_data_plane :: "DataPlaneSessionRow \<Rightarrow> bool" where
  "live_data_plane s \<longleftrightarrow> dp_state s \<in> {''pending'', ''running'', ''cancelling''}"

definition preparing_image :: "OperationRow \<Rightarrow> bool" where
  "preparing_image o1 \<longleftrightarrow> op_kind o1 = ''prepare_image'' \<and> op_state o1 \<in> {''pending'', ''running''}"

definition active_until :: "string \<Rightarrow> time option \<Rightarrow> time \<Rightarrow> bool" where
  "active_until state expiresAt now \<longleftrightarrow>
     state = ''active'' \<and> (case expiresAt of None \<Rightarrow> True | Some t \<Rightarrow> t > now)"

definition subject_usage :: "string \<Rightarrow> string \<Rightarrow> time \<Rightarrow> Database \<Rightarrow> quotaUsage" where
  "subject_usage tenantRef subjectRef observedAt d =
     (let rows = subject_sandboxes tenantRef subjectRef d; active = filter counts_compute rows
      in \<lparr>use_sandboxes = int (length rows),
          use_activeInstances = int (length active),
          use_vcpuCount = sum_list (map sb_vcpu_count active),
          use_memoryBytes = sum_list (map sb_memory_bytes active),
          use_snapshots = count_where (\<lambda>s. sn_tenant_ref s = tenantRef \<and> sn_subject_ref s = subjectRef \<and>
            held_snapshot s) (snapshots d),
          use_portSessions = count_where (\<lambda>p. ps_tenant_ref p = tenantRef \<and> ps_subject_ref p = subjectRef \<and>
            open_port observedAt p) (port_sessions d),
          use_concurrentOperations =
            count_where (\<lambda>s. dp_tenant_ref s = tenantRef \<and> dp_subject_ref s = subjectRef \<and> live_data_plane s)
              (data_plane_sessions d) +
            count_where (\<lambda>o1. op_tenant_ref o1 = tenantRef \<and> op_subject_ref o1 = subjectRef \<and> preparing_image o1)
              (operations d)\<rparr>)"

definition tenant_usage :: "string \<Rightarrow> time \<Rightarrow> Database \<Rightarrow> TenantQuotaUsage" where
  "tenant_usage tenantRef now d =
     (let rows = tenant_sandboxes tenantRef d; active = filter counts_compute rows
      in \<lparr>use_sandboxes = int (length rows),
          use_activeInstances = int (length active),
          use_vcpuCount = sum_list (map sb_vcpu_count active),
          use_memoryBytes = sum_list (map sb_memory_bytes active),
          use_snapshots = count_where (\<lambda>s. sn_tenant_ref s = tenantRef \<and> held_snapshot s) (snapshots d),
          use_portSessions = count_where (\<lambda>p. ps_tenant_ref p = tenantRef \<and> open_port now p) (port_sessions d),
          use_concurrentOperations =
            count_where (\<lambda>s. dp_tenant_ref s = tenantRef \<and> live_data_plane s) (data_plane_sessions d) +
            count_where (\<lambda>o1. op_tenant_ref o1 = tenantRef \<and> preparing_image o1) (operations d),
          use_activeSubjects = count_where (\<lambda>s. subj_tenant_ref s = tenantRef \<and>
            active_until (subj_state s) (subj_expires_at s) now) (subjects d),
          use_applicationAuthorities = count_where (\<lambda>a. aa_tenant_ref a = tenantRef \<and>
            active_until (aa_state a) (aa_expires_at a) now) (application_authorities d)\<rparr>)"

text \<open>A sum that does not fit the \<open>int64\<close> it is scanned into is an error.\<close>

definition scanned_usage :: "'a quotaUsage_scheme \<Rightarrow> 'a quotaUsage_scheme tx" where
  "scanned_usage usage =
     (if in_i64 (use_vcpuCount usage) \<and> in_i64 (use_memoryBytes usage) then st_return usage
      else st_fail (Wrapped Opaque))"

definition readSubjectQuotaUsage :: "string \<Rightarrow> string \<Rightarrow> time \<Rightarrow> quotaUsage tx" where
  "readSubjectQuotaUsage tenantRef subjectRef observedAt =
     st_bind (st_get (\<lambda>tx. subject_usage tenantRef subjectRef observedAt (tx_db tx))) scanned_usage"

definition readTenantQuotaUsage :: "string \<Rightarrow> time \<Rightarrow> TenantQuotaUsage tx" where
  "readTenantQuotaUsage tenantRef now =
     st_bind (st_get (\<lambda>tx. tenant_usage tenantRef now (tx_db tx))) scanned_usage"

section \<open>The capacity report\<close>

definition readSubjectCapacity :: "string \<Rightarrow> string \<Rightarrow> time \<Rightarrow> SubjectCapacity tx" where
  "readSubjectCapacity tenantRef subjectRef observedAt =
     st_bind (readSubjectQuota tenantRef subjectRef) (\<lambda>limits.
     st_bind (readSubjectQuotaUsage tenantRef subjectRef observedAt) (\<lambda>usage.
     st_bind (readTenantQuota tenantRef) (\<lambda>tenantLimits.
     st_bind (readTenantQuotaUsage tenantRef observedAt) (\<lambda>tenantUsage.
       st_return
         \<lparr>cap_SubjectRef = subjectRef, cap_Limits = limits,
          cap_ConstrainingScopes = constraining_scopes limits usage tenantLimits tenantUsage,
          cap_Usage = usage, cap_Available = available_headroom limits usage tenantLimits tenantUsage,
          cap_ObservedAt = observedAt\<rparr>))))"

definition GetSubjectCapacity ::
  "string \<Rightarrow> string \<Rightarrow> time \<Rightarrow> Database \<Rightarrow> (ports_error, SubjectCapacity) result \<times> Database" where
  "GetSubjectCapacity tenantRef subjectRef observedAt = run_tx (readSubjectCapacity tenantRef subjectRef observedAt)"

section \<open>What is counted\<close>

text \<open>The queries and the row locks agree on which Sandboxes hold compute.\<close>

lemma counts_compute_iff: "counts_compute r \<longleftrightarrow> QuotaUsageActive (sb_state r) (sb_desired_state r)"
  by (auto simp: counts_compute_def QuotaUsageActive_def)

lemma wp_scanned [wp_simps]:
  "wp (scanned found scan) Q E tx =
     (case found of None \<Rightarrow> E (Wrapped (Sentinel ErrNoRows)) tx
      | Some row \<Rightarrow> (case scan row of None \<Rightarrow> E (Wrapped Opaque) tx | Some q \<Rightarrow> Q q tx))"
  by (simp add: scanned_def wp_simps split: option.splits)

lemma wp_scanned_usage [wp_simps]:
  "wp (scanned_usage usage) Q E tx =
     (if in_i64 (use_vcpuCount usage) \<and> in_i64 (use_memoryBytes usage) then Q usage tx else E (Wrapped Opaque) tx)"
  by (simp add: scanned_usage_def wp_simps)

lemma scan_limits_ok:
  assumes "scan_limits r = Some q"
  shows "MaxSandboxes q = Unlimited \<or> 0 \<le> MaxSandboxes q" "MaxActiveInstances q = Unlimited \<or> 0 \<le> MaxActiveInstances q"
    "MaxVCPUCount q = Unlimited \<or> 0 \<le> MaxVCPUCount q" "MaxMemoryBytes q = Unlimited \<or> 0 \<le> MaxMemoryBytes q"
    "MaxSnapshots q = Unlimited \<or> 0 \<le> MaxSnapshots q" "MaxPortSessions q = Unlimited \<or> 0 \<le> MaxPortSessions q"
    "MaxConcurrentOperations q = Unlimited \<or> 0 \<le> MaxConcurrentOperations q"
  using assms by (auto simp: scan_limits_def Option.bind_eq_Some_conv dest: limit_Scan_range)

end
