(* ===== verification/Lifecycle_Intents.thy ===== *)
theory Lifecycle_Intents
  imports Quota_Usage "HOL-Library.AList"
begin

text \<open>
  Recording a lifecycle intent (\<open>SetSandboxDesiredState\<close> of
  \<open>internal/store/postgres_lifecycle.go\<close>): the idempotency record, the checks on
  the locked rows, the quota admission of a start, the Workspace mutation, the
  new desired state, and the durable operation with its audit event.
\<close>

section \<open>Operations and audit events\<close>

record Problem =
  pb_Code :: string
  pb_Title :: string
  pb_RequestID :: string
  pb_Retryable :: bool

record Operation =
  o_ID :: string
  o_TenantRef :: string
  o_SubjectRef :: string
  o_SandboxID :: string
  o_Kind :: string
  o_State :: string
  o_RequestID :: string
  o_RequestMetadata :: "(string \<times> string) list"
  o_CapacityWaitDeadline :: "time option"
  o_Snapshot :: "SnapshotRow option"
  o_Error :: "Problem option"
  o_CreatedAt :: time
  o_StartedAt :: "time option"
  o_CompletedAt :: "time option"
  o_UpdatedAt :: time

record LifecycleIntentInput =
  li_TenantRef :: string
  li_SubjectRef :: string
  li_SandboxID :: string
  li_DesiredState :: string
  li_Operation :: Operation
  li_Now :: time
  li_IdempotencyKey :: string
  li_RequestHash :: string
  li_IdempotencyEnds :: time
  li_ExpectedRevision :: int
  li_AuditEvent :: AuditRow

definition operationOf :: "OperationRow \<Rightarrow> SnapshotRow option \<Rightarrow> Operation" where
  "operationOf r snapshot =
     \<lparr>o_ID = op_id r, o_TenantRef = op_tenant_ref r, o_SubjectRef = op_subject_ref r, o_SandboxID = op_sandbox_id r,
      o_Kind = op_kind r, o_State = op_state r, o_RequestID = op_request_id r,
      o_RequestMetadata = op_request_metadata r, o_CapacityWaitDeadline = None, o_Snapshot = snapshot,
      o_Error = (if op_error_code r = [] then None
        else Some \<lparr>pb_Code = op_error_code r, pb_Title = op_error_message r, pb_RequestID = op_request_id r,
                   pb_Retryable = op_retryable r\<rparr>),
      o_CreatedAt = op_created_at r, o_StartedAt = op_started_at r, o_CompletedAt = op_completed_at r,
      o_UpdatedAt = op_updated_at r\<rparr>"

definition owned_operation :: "string \<Rightarrow> string \<Rightarrow> string \<Rightarrow> OperationRow \<Rightarrow> bool" where
  "owned_operation tenantRef subjectRef operationID r \<longleftrightarrow>
     op_tenant_ref r = tenantRef \<and> op_subject_ref r = subjectRef \<and> op_id r = operationID"

text \<open>The preparation report that \<open>prepare_image\<close> operations carry is not represented.\<close>

definition getOperationByID :: "string \<Rightarrow> string \<Rightarrow> string \<Rightarrow> Operation tx" where
  "getOperationByID tenantRef subjectRef operationID =
     st_bind (st_get tx_db) (\<lambda>d.
     case List.find (owned_operation tenantRef subjectRef operationID) (operations d) of
       None \<Rightarrow> st_fail (Sentinel ErrSandboxNotFound)
     | Some r \<Rightarrow>
         if op_snapshot_id r = [] then st_return (operationOf r None)
         else (case List.find (\<lambda>s. sn_id s = op_snapshot_id r \<and> sn_tenant_ref s = tenantRef \<and>
                                   sn_subject_ref s = subjectRef) (snapshots d) of
                 None \<Rightarrow> st_fail (Wrapped (Sentinel ErrNoRows))
               | Some s \<Rightarrow> st_return (operationOf r (Some s))))"

definition operationSnapshotID :: "Operation \<Rightarrow> string" where
  "operationSnapshotID operation = (case o_Snapshot operation of None \<Rightarrow> [] | Some s \<Rightarrow> sn_id s)"

definition operationRow :: "string \<Rightarrow> string \<Rightarrow> Operation \<Rightarrow> OperationRow" where
  "operationRow tenantRef subjectRef operation =
     \<lparr>op_id = o_ID operation, op_sandbox_id = o_SandboxID operation, op_kind = o_Kind operation,
      op_state = o_State operation,
      op_error_code = (case o_Error operation of None \<Rightarrow> [] | Some p \<Rightarrow> pb_Code p),
      op_error_message = (case o_Error operation of None \<Rightarrow> [] | Some p \<Rightarrow> pb_Title p),
      op_retryable = (case o_Error operation of None \<Rightarrow> False | Some p \<Rightarrow> pb_Retryable p),
      op_created_at = o_CreatedAt operation, op_started_at = o_StartedAt operation,
      op_completed_at = (case o_CompletedAt operation of
          Some t \<Rightarrow> Some t
        | None \<Rightarrow> if o_State operation = OperationStateSucceeded \<or> o_State operation = OperationStateFailed
                  then Some (o_UpdatedAt operation) else None),
      op_updated_at = o_UpdatedAt operation, op_tenant_ref = tenantRef, op_subject_ref = subjectRef,
      op_snapshot_id = operationSnapshotID operation, op_request_id = o_RequestID operation,
      op_request_metadata = o_RequestMetadata operation,
      op_capacity_wait_deadline = o_CapacityWaitDeadline operation\<rparr>"

text \<open>The stages recorded with a new operation: its admission, and for a start the Workspace that exists already.\<close>

definition admission_timings :: "Operation \<Rightarrow> TimingRow list" where
  "admission_timings operation =
     map (\<lambda>stage. \<lparr>tm_operation_id = o_ID operation, tm_sandbox_id = o_SandboxID operation, tm_stage = stage,
                   tm_observed_at = o_CreatedAt operation\<rparr>)
       ((if o_Kind operation \<in> {''create'', ''start'', ''drain'', ''stop'', ''delete''} then [''durable_admission''] else []) @
        (if o_Kind operation = ''start'' then [''workspace_ready''] else []))"

definition unique_violation :: perr where
  "unique_violation = Wrapped (Sentinel (PgError ''23505''))"

definition insertOperation :: "string \<Rightarrow> string \<Rightarrow> Operation \<Rightarrow> unit tx" where
  "insertOperation tenantRef subjectRef operation =
     st_bind (st_get (\<lambda>tx. o_ID operation \<in> set (map op_id (operations (tx_db tx))))) (\<lambda>taken.
     if taken then st_fail unique_violation
     else modify_db (\<lambda>d. d\<lparr>operations := operations d @ [operationRow tenantRef subjectRef operation],
            stage_timings := insert_new (\<lambda>r. (tm_operation_id r, tm_stage r)) (admission_timings operation)
              (stage_timings d)\<rparr>))"

definition auditRow :: "AuditRow \<Rightarrow> AuditRow" where
  "auditRow event =
     event\<lparr>au_tenant_ref := (if au_tenant_ref event = [] then ''secondbox'' else au_tenant_ref event),
           au_subject_ref := (if au_subject_ref event \<noteq> [] then au_subject_ref event
             else if au_actor_id event \<noteq> [] then au_actor_id event else ''secondbox'')\<rparr>"

definition insertAuditEvent :: "AuditRow \<Rightarrow> unit tx" where
  "insertAuditEvent event =
     st_bind (st_get (\<lambda>tx. au_id event \<in> set (map au_id (audit_events (tx_db tx))))) (\<lambda>taken.
     if taken then st_fail unique_violation
     else modify_db (\<lambda>d. d\<lparr>audit_events := audit_events d @ [auditRow event]\<rparr>))"

section \<open>Idempotency records\<close>

definition record_key :: "LifecycleIntentInput \<Rightarrow> IdempotencyRow \<Rightarrow> bool" where
  "record_key input r \<longleftrightarrow>
     id_tenant_ref r = li_TenantRef input \<and> id_subject_ref r = li_SubjectRef input \<and>
     id_operation r = ''sandbox.'' @ o_Kind (li_Operation input) \<and> id_target_id r = li_SandboxID input \<and>
     id_idempotency_key r = li_IdempotencyKey input"

definition find_record :: "LifecycleIntentInput \<Rightarrow> Database \<Rightarrow> IdempotencyRow option" where
  "find_record input d = List.find (record_key input) (idempotency_records d)"

definition deleteExpiredIdempotencyRecord :: "LifecycleIntentInput \<Rightarrow> time \<Rightarrow> time \<Rightarrow> bool tx" where
  "deleteExpiredIdempotencyRecord input expiresAt now =
     (if expiresAt > now then st_return False
      else st_bind (modify_db (\<lambda>d. d\<lparr>idempotency_records :=
             filter (\<lambda>r. \<not> record_key input r) (idempotency_records d)\<rparr>)) (\<lambda>_. st_return True))"

definition intentRecord :: "LifecycleIntentInput \<Rightarrow> IdempotencyRow" where
  "intentRecord input =
     \<lparr>id_tenant_ref = li_TenantRef input, id_subject_ref = li_SubjectRef input,
      id_operation = ''sandbox.'' @ o_Kind (li_Operation input), id_target_id = li_SandboxID input,
      id_idempotency_key = li_IdempotencyKey input, id_request_hash = li_RequestHash input,
      id_response_resource_id = o_ID (li_Operation input), id_created_at = li_Now input,
      id_expires_at = li_IdempotencyEnds input\<rparr>"

definition insertIdempotencyRecord :: "LifecycleIntentInput \<Rightarrow> unit tx" where
  "insertIdempotencyRecord input =
     st_bind (st_get (\<lambda>tx. find_record input (tx_db tx))) (\<lambda>found.
     case found of
       Some _ \<Rightarrow> st_fail unique_violation
     | None \<Rightarrow> modify_db (\<lambda>d. d\<lparr>idempotency_records := idempotency_records d @ [intentRecord input]\<rparr>))"

section \<open>Admission of a start\<close>

definition lockSandboxWorkspace :: "string \<Rightarrow> string \<Rightarrow> string \<Rightarrow> SandboxWorkspace tx" where
  "lockSandboxWorkspace tenantRef subjectRef sandboxID =
     st_catch (SandboxWorkspaceForSubject tenantRef subjectRef sandboxID)
       (\<lambda>r. case r of
          Inl e \<Rightarrow> st_fail (if errors_Is ErrNoRows e then Sentinel ErrSandboxNotFound else e)
        | Inr locked \<Rightarrow> st_return locked)"

definition requireHomeRunnerReady :: "string \<Rightarrow> unit tx" where
  "requireHomeRunnerReady runnerID =
     st_catch (select_for_update (\<lambda>d. List.find (\<lambda>r. rn_id r = runnerID) (runners d)) (\<lambda>r. RunnerShare (rn_id r)))
       (\<lambda>r. case r of
          Inr row \<Rightarrow> if rn_state row = ''ready'' then st_return () else st_fail (Sentinel ErrHomeRunnerUnavailable)
        | Inl e \<Rightarrow> if errors_Is ErrNoRows e then st_fail (Sentinel ErrHomeRunnerUnavailable) else st_fail (Wrapped e))"

text \<open>\<open>strings.LastIndex\<close> for one character.\<close>

definition last_index :: "char \<Rightarrow> string \<Rightarrow> int" where
  "last_index c s = (if c \<in> set s then int (length s) - 1 - int (length (takeWhile (\<lambda>x. x \<noteq> c) (rev s))) else -1)"

definition ExecutionImageDigestReference :: "string \<Rightarrow> string \<Rightarrow> string" where
  "ExecutionImageDigestReference reference digest =
     (let repository = takeWhile (\<lambda>c. c \<noteq> CHR ''@'') reference;
          separator = last_index (CHR '':'') repository;
          named = (if separator > last_index (CHR ''/'') repository then take (nat separator) repository else repository)
      in named @ ''@'' @ digest)"

abbreviation executionImageReferenceMetadata :: string where
  "executionImageReferenceMetadata \<equiv> ''executionImageReference''"

text \<open>A start without an image of its own takes the image that the Sandbox is pinned to.\<close>

definition pinned_metadata :: "SandboxRow \<Rightarrow> (string \<times> string) list \<Rightarrow> (string \<times> string) list" where
  "pinned_metadata row metadata =
     (case map_of metadata executionImageReferenceMetadata of
        Some (c # cs) \<Rightarrow> metadata
      | _ \<Rightarrow>
          if sb_execution_image_reference row = [] then metadata
          else AList.update executionImageReferenceMetadata
            (if sb_execution_image_digest row = [] then sb_execution_image_reference row
             else ExecutionImageDigestReference (sb_execution_image_reference row) (sb_execution_image_digest row))
            metadata)"

definition start_delta :: "SandboxWorkspace \<Rightarrow> quotaUsage" where
  "start_delta locked = noUsage\<lparr>use_activeInstances := 1, use_vcpuCount := ResourceVCPUCount locked,
     use_memoryBytes := ResourceMemoryBytes locked\<rparr>"

definition compute_quota_exceeded :: perr where
  "compute_quota_exceeded = Joined [Sentinel ErrComputeQuotaExceeded, Sentinel ErrQuotaExceeded]"

definition start_refusal ::
  "QuotaLimits \<Rightarrow> quotaUsage \<Rightarrow> TenantQuotaLimits \<Rightarrow> TenantQuotaUsage \<Rightarrow> quotaUsage \<Rightarrow> perr option" where
  "start_refusal subjectQuota subjectUsage tenantQuota tenantUsage delta =
     (if \<not> Allows (MaxActiveInstances subjectQuota) (i64 (use_activeInstances subjectUsage + 1)) \<or>
         \<not> Allows (MaxVCPUCount subjectQuota) (i64 (use_vcpuCount subjectUsage + use_vcpuCount delta)) \<or>
         \<not> Allows (MaxMemoryBytes subjectQuota) (i64 (use_memoryBytes subjectUsage + use_memoryBytes delta)) \<or>
         tenantDataPlaneQuotaWouldExceed tenantQuota tenantUsage delta
      then if tenantDurableQuotaWouldExceed tenantQuota tenantUsage delta \<or>
              \<not> computeQuotaCanFit subjectQuota tenantQuota delta
           then Some (Sentinel ErrQuotaExceeded) else Some compute_quota_exceeded
      else None)"

definition admit_start ::
  "LifecycleIntentInput \<Rightarrow> SandboxWorkspace \<Rightarrow> TenantQuotaLimits \<Rightarrow> QuotaLimits \<Rightarrow> (string \<times> string) list tx" where
  "admit_start input locked tenantQuota subjectQuota =
     (if SandboxState locked \<noteq> SandboxStateStopped \<and> SandboxState locked \<noteq> SandboxStateFailed
      then st_fail (Sentinel ErrWorkspaceMutation)
      else st_bind (st_get (\<lambda>tx. find_sandbox (tx_db tx) (li_SandboxID input))) (\<lambda>found.
        case found of
          None \<Rightarrow> st_fail (Wrapped (Sentinel ErrNoRows))
        | Some row \<Rightarrow>
            st_bind (readSubjectQuotaUsage (li_TenantRef input) (li_SubjectRef input) (li_Now input)) (\<lambda>subjectUsage.
            st_bind (readTenantQuotaUsage (li_TenantRef input) (li_Now input)) (\<lambda>tenantUsage.
            case start_refusal subjectQuota subjectUsage tenantQuota tenantUsage (start_delta locked) of
              Some e \<Rightarrow> st_fail e
            | None \<Rightarrow>
                st_bind (requireHomeRunnerReady (HomeRunnerID (Workspace locked))) (\<lambda>_.
                st_bind (setWorkspaceMutation (WorkspaceID locked) ''start'' (o_ID (li_Operation input))
                  (o_ID (li_Operation input)) (o_ID (li_Operation input)) (Generation locked) (Generation locked)
                  (li_Now input)) (\<lambda>_.
                  st_return (pinned_metadata row (o_RequestMetadata (li_Operation input)))))))))"

section \<open>The intent\<close>

definition intent_guard :: "LifecycleIntentInput \<Rightarrow> SandboxWorkspace \<Rightarrow> perr option" where
  "intent_guard input locked =
     (let kind = o_Kind (li_Operation input); mutation = Mutation (Workspace locked);
          deleteWaitingForCreate = (kind = ''delete'' \<and>
            (MutationKind mutation = ''create'' \<or> MutationKind mutation = ''clone'') \<and> MutationState mutation \<noteq> [])
      in if LockedRevision locked \<noteq> li_ExpectedRevision input then Some (Sentinel ErrRevisionConflict)
         else if SandboxState locked = SandboxStateDeleted \<or> LockedDesiredState locked = SandboxDesiredStateDeleted
         then Some (Sentinel ErrGenerationFenced)
         else if MutationState mutation \<noteq> [] \<and> \<not> deleteWaitingForCreate then Some (Sentinel ErrWorkspaceMutation)
         else if WorkspaceGeneration (Workspace locked) \<noteq> Generation locked then Some (Sentinel ErrGenerationFenced)
         else if WorkspaceState (Workspace locked) \<noteq> ''ready'' \<and>
                 \<not> (kind = ''delete'' \<and>
                    (WorkspaceState (Workspace locked) = ''creating'' \<or> WorkspaceState (Workspace locked) = ''failed''))
         then Some (Sentinel ErrGenerationFenced)
         else None)"

definition intent_reason :: "string \<Rightarrow> string" where
  "intent_reason kind =
     (if kind = ''drain'' then TerminationReasonRequestedDrain
      else if kind = ''stop'' \<or> kind = ''delete'' then TerminationReasonRequestedStop else [])"

definition intendedRow :: "LifecycleIntentInput \<Rightarrow> (string \<times> string) list \<Rightarrow> SandboxRow \<Rightarrow> SandboxRow" where
  "intendedRow input metadata r =
     r\<lparr>sb_desired_state := li_DesiredState input, sb_next_reconcile_at := Some (li_Now input),
       sb_lifecycle_failure_class := [], sb_lifecycle_failure_message := [],
       sb_lifecycle_intent_kind := o_Kind (li_Operation input), sb_lifecycle_action := ''intent_received'',
       sb_lifecycle_request_metadata := metadata,
       sb_lifecycle_termination_reason := intent_reason (o_Kind (li_Operation input)),
       sb_revision := sb_revision r + 1, sb_updated_at := li_Now input\<rparr>"

definition updateIntent :: "LifecycleIntentInput \<Rightarrow> (string \<times> string) list \<Rightarrow> unit tx" where
  "updateIntent input metadata =
     (let p = sandbox_in_scope (li_SandboxID input) (li_TenantRef input) (li_SubjectRef input)
      in st_bind (st_get (\<lambda>tx. List.find p (sandboxes (tx_db tx)))) (\<lambda>found.
         case found of
           None \<Rightarrow> st_return ()
         | Some old \<Rightarrow>
             st_bind (st_guard (in_i64 (sb_revision old + 1)) (Wrapped (Sentinel (PgError ''22003'')))) (\<lambda>_.
             st_bind (quota_ledger_trigger old (intendedRow input metadata old)) (\<lambda>_.
             modify_db (\<lambda>d. d\<lparr>sandboxes := update_where p (intendedRow input metadata) (sandboxes d)\<rparr>)))))"

definition intendedOperation ::
  "LifecycleIntentInput \<Rightarrow> string \<Rightarrow> (string \<times> string) list \<Rightarrow> Operation" where
  "intendedOperation input observed metadata =
     (let operation = (li_Operation input)\<lparr>o_SandboxID := li_SandboxID input, o_RequestMetadata := metadata\<rparr>
      in if observed = SandboxStateStopped \<and> (o_Kind operation = ''drain'' \<or> o_Kind operation = ''stop'')
         then operation\<lparr>o_State := OperationStateSucceeded, o_StartedAt := Some (li_Now input),
                        o_CompletedAt := Some (li_Now input)\<rparr>
         else operation\<lparr>o_State := OperationStatePending\<rparr>)"

definition admit_intent :: "LifecycleIntentInput \<Rightarrow> SandboxWorkspace \<Rightarrow> (string \<times> string) list tx" where
  "admit_intent input locked =
     (if o_Kind (li_Operation input) = ''start''
      then st_bind (lockTenantAndSubjectQuotaForAdmission (li_TenantRef input) (li_SubjectRef input) (li_Now input))
             (\<lambda>(tenantQuota, subjectQuota). admit_start input locked tenantQuota subjectQuota)
      else st_return (o_RequestMetadata (li_Operation input)))"

definition recording :: "LifecycleIntentInput \<Rightarrow> string \<Rightarrow> (string \<times> string) list \<Rightarrow> Operation tx" where
  "recording input observed metadata =
     (if li_DesiredState input \<notin> set desired_states then st_fail Opaque
      else st_bind (updateIntent input metadata) (\<lambda>_.
        let operation = intendedOperation input observed metadata in
        st_bind (insertOperation (li_TenantRef input) (li_SubjectRef input) operation) (\<lambda>_.
        st_bind (insertIdempotencyRecord input) (\<lambda>_.
        st_bind (insertAuditEvent (li_AuditEvent input)) (\<lambda>_.
          st_return operation)))))"

definition record_intent :: "LifecycleIntentInput \<Rightarrow> Operation tx" where
  "record_intent input =
     st_bind (lockSandboxWorkspace (li_TenantRef input) (li_SubjectRef input) (li_SandboxID input)) (\<lambda>locked.
     case intent_guard input locked of
       Some e \<Rightarrow> st_fail e
     | None \<Rightarrow> st_bind (admit_intent input locked) (recording input (SandboxState locked)))"

definition replay_intent :: "LifecycleIntentInput \<Rightarrow> IdempotencyRow \<Rightarrow> Operation tx" where
  "replay_intent input prior =
     (if id_request_hash prior \<noteq> li_RequestHash input then st_fail (Sentinel ErrIdempotencyConflict)
      else st_bind (getOperationByID (li_TenantRef input) (li_SubjectRef input) (id_response_resource_id prior))
        (\<lambda>operation. st_bind (insertAuditEvent (li_AuditEvent input)) (\<lambda>_. st_return operation)))"

definition intentBody :: "LifecycleIntentInput \<Rightarrow> Operation tx" where
  "intentBody input =
     st_bind (st_catch (TenantAndSubjectQuota (li_TenantRef input) (li_SubjectRef input))
       (\<lambda>r. case r of Inl e \<Rightarrow> st_fail (Wrapped e) | Inr u \<Rightarrow> st_return u)) (\<lambda>_.
     st_bind (st_get (\<lambda>tx. find_record input (tx_db tx))) (\<lambda>found.
     case found of
       None \<Rightarrow> record_intent input
     | Some prior \<Rightarrow>
         st_bind (deleteExpiredIdempotencyRecord input (id_expires_at prior) (li_Now input)) (\<lambda>expired.
         if expired then record_intent input else replay_intent input prior)))"

definition SetSandboxDesiredState ::
  "LifecycleIntentInput \<Rightarrow> Database \<Rightarrow> (ports_error, Operation) result \<times> Database" where
  "SetSandboxDesiredState input d =
     (if au_id (li_AuditEvent input) = [] then (Inl Opaque, d) else run_tx (intentBody input) d)"

end
