(* ===== verification/Intent_Admission.thy ===== *)
theory Intent_Admission
  imports Lifecycle_Intents
begin

text \<open>
  What recording an intent guarantees: an accepted start keeps the compute of its
  Subject and its Tenant within their quotas, the capacity report says exactly
  which starts are accepted, and a repeated intent returns the first one's
  operation and changes nothing else.
\<close>

section \<open>The steps of an intent\<close>

lemma wp_lockSandboxWorkspace:
  "wp (lockSandboxWorkspace t s sid)
     (\<lambda>locked tx'. tx_db tx' = tx_db tx \<and>
        (\<exists>r \<in> set (sandboxes (tx_db tx)). sandbox_in_scope sid t s r \<and>
           (\<exists>w \<in> set (workspaces (tx_db tx)). ws_id w = sb_workspace_id r \<and>
              locked = lockedSandboxWorkspace r (homeWorkspaceOf w)))) always tx"
  unfolding lockSandboxWorkspace_def SandboxWorkspaceForSubject_def TenantAndSubjectQuota_def lockedRowWorkspace_def
    lockWorkspace_def
  by (auto simp: wp_simps split: option.splits dest!: find_mem)

lemma wp_ForAdmission:
  "wp (lockTenantAndSubjectQuotaForAdmission t s now)
     (\<lambda>(tq, sq) tx'. tx_db tx' = tx_db tx \<and>
        Option.bind (find_tenant_quota t (tx_db tx)) scan_tenant_limits = Some tq \<and>
        Option.bind (find_subject_quota t s (tx_db tx)) scan_limits = Some sq) always tx"
  unfolding lockTenantAndSubjectQuotaForAdmission_def lockTenantAndSubjectQuota_def TenantAndSubjectQuota_def
    readTenantQuota_def readSubjectQuota_def ActiveSubject_def
  by (auto simp: wp_simps split: option.splits)

lemma wp_admit_start:
  "wp (admit_start input locked tq sq)
     (\<lambda>_ tx'. \<exists>ws. tx_db tx' = (tx_db tx)\<lparr>workspaces := ws\<rparr> \<and> map ws_id ws = map ws_id (workspaces (tx_db tx)) \<and>
        start_refusal sq (subject_usage (li_TenantRef input) (li_SubjectRef input) (li_Now input) (tx_db tx)) tq
          (tenant_usage (li_TenantRef input) (li_Now input) (tx_db tx)) (start_delta locked) = None) always tx"
  unfolding admit_start_def requireHomeRunnerReady_def setWorkspaceMutation_def readSubjectQuotaUsage_def
    readTenantQuotaUsage_def
  by (auto simp: wp_simps split: option.splits intro!: exI)

text \<open>The tables after an intent was recorded, as far as usage and replay depend on them.\<close>

definition recorded :: "LifecycleIntentInput \<Rightarrow> Database \<Rightarrow> Operation \<Rightarrow> Database \<Rightarrow> bool" where
  "recorded input d operation d' \<longleftrightarrow>
     (\<exists>metadata. sandboxes d' = update_where (sandbox_in_scope (li_SandboxID input) (li_TenantRef input) (li_SubjectRef input))
        (intendedRow input metadata) (sandboxes d)) \<and>
     map ws_id (workspaces d') = map ws_id (workspaces d) \<and>
     operations d' = operations d @ [operationRow (li_TenantRef input) (li_SubjectRef input) operation] \<and>
     o_ID operation = o_ID (li_Operation input) \<and> o_Kind operation = o_Kind (li_Operation input) \<and>
     o_Snapshot operation = o_Snapshot (li_Operation input) \<and>
     idempotency_records d' = idempotency_records d @ [intentRecord input] \<and> find_record input d = None \<and>
     snapshots d' = snapshots d \<and> port_sessions d' = port_sessions d \<and> data_plane_sessions d' = data_plane_sessions d \<and>
     tenant_quotas d' = tenant_quotas d \<and> subject_quotas d' = subject_quotas d \<and> instances d' = instances d"

lemma update_where_none: "List.find p rows = None \<Longrightarrow> update_where p f rows = rows"
  by (auto simp: update_where_def find_None_iff intro!: map_idI)

lemma intendedOperation_fields [simp]:
  "o_ID (intendedOperation input observed metadata) = o_ID (li_Operation input)"
  "o_Kind (intendedOperation input observed metadata) = o_Kind (li_Operation input)"
  "o_Snapshot (intendedOperation input observed metadata) = o_Snapshot (li_Operation input)"
  by (simp_all add: intendedOperation_def Let_def)

lemma wp_recording:
  assumes "map ws_id (workspaces (tx_db tx)) = map ws_id (workspaces d)" "tx_db tx = d\<lparr>workspaces := workspaces (tx_db tx)\<rparr>"
  shows "wp (recording input observed metadata) (\<lambda>operation tx'. recorded input d operation (tx_db tx')) always tx"
proof -
  let ?d = "tx_db tx"
  have same: "sandboxes ?d = sandboxes d" "operations ?d = operations d" "idempotency_records ?d = idempotency_records d"
    "snapshots ?d = snapshots d" "port_sessions ?d = port_sessions d" "data_plane_sessions ?d = data_plane_sessions d"
    "tenant_quotas ?d = tenant_quotas d" "subject_quotas ?d = subject_quotas d" "instances ?d = instances d"
    by (subst assms(2), simp)+
  show ?thesis
    unfolding recording_def updateIntent_def insertOperation_def insertIdempotencyRecord_def insertAuditEvent_def
      quota_ledger_trigger_def recorded_def
    by (auto simp: wp_simps Let_def same assms(1) find_record_def update_where_none split: option.splits)
qed

definition row_delta :: "SandboxRow \<Rightarrow> quotaUsage" where
  "row_delta r = noUsage\<lparr>use_activeInstances := 1, use_vcpuCount := sb_vcpu_count r, use_memoryBytes := sb_memory_bytes r\<rparr>"

lemma start_delta_row [simp]: "start_delta (lockedSandboxWorkspace r w) = row_delta r"
  by (simp add: start_delta_def row_delta_def lockedSandboxWorkspace_def)

definition start_admitted :: "LifecycleIntentInput \<Rightarrow> Database \<Rightarrow> SandboxRow \<Rightarrow> bool" where
  "start_admitted input d r \<longleftrightarrow>
     (\<exists>tq sq. Option.bind (find_tenant_quota (li_TenantRef input) d) scan_tenant_limits = Some tq \<and>
        Option.bind (find_subject_quota (li_TenantRef input) (li_SubjectRef input) d) scan_limits = Some sq \<and>
        start_refusal sq (subject_usage (li_TenantRef input) (li_SubjectRef input) (li_Now input) d) tq
          (tenant_usage (li_TenantRef input) (li_Now input) d) (row_delta r) = None)"

lemma wp_admit_intent:
  "wp (admit_intent input (lockedSandboxWorkspace r w))
     (\<lambda>_ tx'. \<exists>ws. tx_db tx' = (tx_db tx)\<lparr>workspaces := ws\<rparr> \<and> map ws_id ws = map ws_id (workspaces (tx_db tx)) \<and>
        (o_Kind (li_Operation input) = ''start'' \<longrightarrow> start_admitted input (tx_db tx) r)) always tx"
proof (cases "o_Kind (li_Operation input) = ''start''")
  case True
  have "wp (lockTenantAndSubjectQuotaForAdmission (li_TenantRef input) (li_SubjectRef input) (li_Now input))
     (\<lambda>(tq, sq). wp (admit_start input (lockedSandboxWorkspace r w) tq sq)
        (\<lambda>_ tx'. \<exists>ws. tx_db tx' = (tx_db tx)\<lparr>workspaces := ws\<rparr> \<and> map ws_id ws = map ws_id (workspaces (tx_db tx)) \<and>
           start_admitted input (tx_db tx) r) always) always tx"
    by (rule wp_mono [OF wp_ForAdmission])
      (clarsimp, rule wp_mono [OF wp_admit_start], fastforce simp: start_admitted_def, simp)
  with True show ?thesis
    by (simp add: admit_intent_def wp_simps split_def)
next
  case False
  then show ?thesis
    by (auto simp: admit_intent_def wp_simps intro!: exI [of _ "workspaces (tx_db tx)"])
qed

lemma wp_record_intent:
  "wp (record_intent input)
     (\<lambda>operation tx'. recorded input (tx_db tx) operation (tx_db tx') \<and>
        (\<exists>r \<in> set (sandboxes (tx_db tx)). sandbox_in_scope (li_SandboxID input) (li_TenantRef input) (li_SubjectRef input) r \<and>
           (o_Kind (li_Operation input) = ''start'' \<longrightarrow> start_admitted input (tx_db tx) r))) always tx"
  (is "wp _ ?Q _ _")
proof -
  have admit: "wp (admit_intent input (lockedSandboxWorkspace r w)) (\<lambda>m. wp (recording input observed m) ?Q always) always tx1"
    if "tx_db tx1 = tx_db tx" "r \<in> set (sandboxes (tx_db tx))"
      "sandbox_in_scope (li_SandboxID input) (li_TenantRef input) (li_SubjectRef input) r" for r w observed tx1
  proof (rule wp_mono [OF wp_admit_intent])
    fix m and tx2 :: Tx
    assume "\<exists>ws. tx_db tx2 = (tx_db tx1)\<lparr>workspaces := ws\<rparr> \<and> map ws_id ws = map ws_id (workspaces (tx_db tx1)) \<and>
        (o_Kind (li_Operation input) = ''start'' \<longrightarrow> start_admitted input (tx_db tx1) r)"
    then show "wp (recording input observed m) ?Q always tx2"
      using that by (intro wp_mono [OF wp_recording [of _ "tx_db tx"]]) auto
  qed simp
  show ?thesis
    unfolding record_intent_def wp_bind
    by (rule wp_mono [OF wp_lockSandboxWorkspace]) (auto simp: wp_option wp_fail wp_bind split: option.splits intro: admit)
qed

section \<open>Usage after an intent\<close>

text \<open>
  Rewriting one Sandbox row without touching its state, owner or resources adds
  at most that row's resources to what is counted.
\<close>

lemma sum_filter_map_le:
  assumes "\<forall>r \<in> set rows. 0 \<le> g r" "\<And>r. g (f r) = (g r :: int)" "\<And>r. \<not> p r \<Longrightarrow> f r = r"
  shows "sum_list (map g (filter c (map f rows))) \<le> sum_list (map g (filter c rows)) + sum_list (map g (filter p rows))"
  using assms(1)
proof (induction rows)
  case (Cons r rows)
  then show ?case
    using assms(2) [of r] assms(3) [of r] by (cases "p r") auto
qed simp

lemma filter_unique:
  assumes "distinct (map key rows)" "r \<in> set rows" "p r" "\<And>x. p x \<Longrightarrow> key x = key r"
  shows "filter p rows = [r]"
  using assms(1,2)
proof (induction rows)
  case (Cons a rows)
  show ?case
  proof (cases "a = r")
    case True
    then have "key x \<noteq> key r" if "x \<in> set rows" for x
      using Cons.prems(1) that by simp (metis image_eqI)
    then have "filter p rows = []"
      using assms(4) by (simp add: filter_empty_conv) blast
    with True assms(3) show ?thesis
      by simp
  next
    case False
    with Cons.prems have "r \<in> set rows" "key a \<noteq> key r"
      by auto
    moreover from this(2) have "\<not> p a"
      using assms(4) by blast
    ultimately show ?thesis
      using Cons by simp
  qed
qed simp

lemma subject_sandboxes_filter:
  assumes "distinct (map ws_id (workspaces d))"
  shows "subject_sandboxes t s d = filter (\<lambda>r. sb_tenant_ref r = t \<and> sb_subject_ref r = s \<and> sb_state r \<noteq> ''deleted'' \<and>
    sb_workspace_id r \<in> set (map ws_id (workspaces d))) (sandboxes d)"
proof -
  have one: "map (\<lambda>_. r) (filter (\<lambda>w. ws_id w = i) ws) = (if i \<in> set (map ws_id ws) then [r] else [])"
    if "distinct (map ws_id ws)" for i ws and r :: SandboxRow
    using that by (induction ws) (auto simp: filter_empty_conv)
  have "subject_sandboxes t s d = concat (map (\<lambda>r. if sb_workspace_id r \<in> set (map ws_id (workspaces d)) then [r] else [])
      (filter (\<lambda>r. sb_tenant_ref r = t \<and> sb_subject_ref r = s \<and> sb_state r \<noteq> ''deleted'') (sandboxes d)))"
    unfolding subject_sandboxes_def by (simp only: one [OF assms])
  moreover have "concat (map (\<lambda>r. if q r then [r] else []) (filter u rows)) = filter (\<lambda>r. u r \<and> q r) rows"
    for q u and rows :: "SandboxRow list"
    by (induction rows) auto
  ultimately show ?thesis
    by (simp add: conj_assoc)
qed

lemma intended_sum:
  assumes "distinct (map key rows)" "r \<in> set rows" "p r" "\<And>x. p x \<Longrightarrow> key x = key r" "\<forall>x \<in> set rows. 0 \<le> (g x :: int)"
    "\<And>x. g (f x) = g x" "\<And>x. \<not> p x \<Longrightarrow> f x = x"
  shows "sum_list (map g (filter c (map f (filter q rows)))) \<le> sum_list (map g (filter c (filter q rows))) + g r"
proof -
  have "filter p rows = [r]"
    using assms(1-4) by (rule filter_unique)
  moreover have "filter p (filter q rows) = filter q (filter p rows)"
    by (simp add: conj_commute)
  ultimately have "sum_list (map g (filter p (filter q rows))) \<le> g r"
    using assms(2,5) by simp
  with sum_filter_map_le [of "filter q rows" g f p c] assms(5-7) show ?thesis
    by simp
qed

text \<open>Resources are not negative, and their totals are far from the limits of \<open>int64\<close>.\<close>

definition modest :: "Database \<Rightarrow> bool" where
  "modest d \<longleftrightarrow> (\<forall>r \<in> set (sandboxes d). 0 \<le> sb_vcpu_count r \<and> 0 \<le> sb_memory_bytes r) \<and>
     int (length (sandboxes d)) < 2 ^ 62 \<and> sum_list (map sb_vcpu_count (sandboxes d)) < 2 ^ 62 \<and>
     sum_list (map sb_memory_bytes (sandboxes d)) < 2 ^ 62"

lemma sum_list_filter_le:
  "\<forall>r \<in> set rows. 0 \<le> (g r :: int) \<Longrightarrow> sum_list (map g (filter p rows)) \<le> sum_list (map g rows)"
  by (induction rows) auto

lemma sum_list_nonneg_map: "\<forall>r \<in> set rows. 0 \<le> (g r :: int) \<Longrightarrow> 0 \<le> sum_list (map g rows)"
  by (induction rows) auto

lemma elem_le_sum: "\<forall>r \<in> set rows. 0 \<le> (g r :: int) \<Longrightarrow> r \<in> set rows \<Longrightarrow> g r \<le> sum_list (map g rows)"
  by (induction rows) (auto simp: add_increasing2 add_increasing dest: sum_list_nonneg_map)

text \<open>The compute that a Subject and its Tenant use is within their quotas.\<close>

definition compute_allowed :: "'a QuotaLimits_scheme \<Rightarrow> 'b quotaUsage_scheme \<Rightarrow> bool" where
  "compute_allowed quota usage \<longleftrightarrow>
     Allows (MaxActiveInstances quota) (use_activeInstances usage) \<and> Allows (MaxVCPUCount quota) (use_vcpuCount usage) \<and>
     Allows (MaxMemoryBytes quota) (use_memoryBytes usage)"

definition compute_within :: "string \<Rightarrow> string \<Rightarrow> time \<Rightarrow> Database \<Rightarrow> bool" where
  "compute_within t s now d \<longleftrightarrow>
     (case (Option.bind (find_subject_quota t s d) scan_limits, Option.bind (find_tenant_quota t d) scan_tenant_limits) of
        (Some sq, Some tq) \<Rightarrow> compute_allowed sq (subject_usage t s now d) \<and> compute_allowed tq (tenant_usage t now d)
      | _ \<Rightarrow> False)"

definition compute_below :: "quotaUsage \<Rightarrow> 'b quotaUsage_scheme \<Rightarrow> 'b quotaUsage_scheme \<Rightarrow> bool" where
  "compute_below delta usage usage' \<longleftrightarrow>
     use_activeInstances usage' \<le> use_activeInstances usage + use_activeInstances delta \<and>
     use_vcpuCount usage' \<le> use_vcpuCount usage + use_vcpuCount delta \<and>
     use_memoryBytes usage' \<le> use_memoryBytes usage + use_memoryBytes delta"

definition compute_fits :: "quotaUsage \<Rightarrow> 'b quotaUsage_scheme \<Rightarrow> bool" where
  "compute_fits delta usage \<longleftrightarrow>
     in_i64 (use_activeInstances usage + use_activeInstances delta) \<and>
     in_i64 (use_vcpuCount usage + use_vcpuCount delta) \<and> in_i64 (use_memoryBytes usage + use_memoryBytes delta)"

lemma start_refusal_None:
  assumes "start_refusal sq su tq tu (row_delta r) = None" "compute_fits (row_delta r) su" "compute_fits (row_delta r) tu"
    "compute_below (row_delta r) su su'" "compute_below (row_delta r) tu tu'"
  shows "compute_allowed sq su'" "compute_allowed tq tu'"
  using assms
  by (auto simp: start_refusal_def tenantDataPlaneQuotaWouldExceed_def compute_allowed_def compute_fits_def compute_below_def
      row_delta_def noUsage_def i64_id split: if_splits elim: Allows_mono)

lemma length_as_sum: "int (length xs) = sum_list (map (\<lambda>_. 1) xs)"
  by (induction xs) auto

lemma filtered_usage_below:
  fixes d :: Database
  assumes "distinct (map sb_id (sandboxes d))" "r \<in> set (sandboxes d)" "sandbox_in_scope i t s r" "modest d"
    "f = (\<lambda>r. if sandbox_in_scope i t s r then intendedRow input m r else r)"
  shows "int (length (filter c (map f (filter q (sandboxes d))))) \<le> int (length (filter c (filter q (sandboxes d)))) + 1"
    "sum_list (map sb_vcpu_count (filter c (map f (filter q (sandboxes d))))) \<le>
       sum_list (map sb_vcpu_count (filter c (filter q (sandboxes d)))) + sb_vcpu_count r"
    "sum_list (map sb_memory_bytes (filter c (map f (filter q (sandboxes d))))) \<le>
       sum_list (map sb_memory_bytes (filter c (filter q (sandboxes d)))) + sb_memory_bytes r"
proof -
  have p: "sandbox_in_scope i t s x \<Longrightarrow> sb_id x = sb_id r" for x
    using assms(3) by (simp add: sandbox_in_scope_def)
  have nonneg: "\<forall>x \<in> set (sandboxes d). 0 \<le> sb_vcpu_count x" "\<forall>x \<in> set (sandboxes d). 0 \<le> sb_memory_bytes x"
    "\<forall>x \<in> set (sandboxes d). 0 \<le> (1 :: int)"
    using assms(4) by (auto simp: modest_def)
  note sums = intended_sum [where p = "sandbox_in_scope i t s" and key = sb_id, OF assms(1-3) p]
  show "int (length (filter c (map f (filter q (sandboxes d))))) \<le> int (length (filter c (filter q (sandboxes d)))) + 1"
    unfolding length_as_sum by (rule sums [OF _ nonneg(3)]) (simp_all add: assms(5))
  show "sum_list (map sb_vcpu_count (filter c (map f (filter q (sandboxes d))))) \<le>
       sum_list (map sb_vcpu_count (filter c (filter q (sandboxes d)))) + sb_vcpu_count r"
    by (rule sums [OF _ nonneg(1)]) (simp_all add: assms(5) intendedRow_def)
  show "sum_list (map sb_memory_bytes (filter c (map f (filter q (sandboxes d))))) \<le>
       sum_list (map sb_memory_bytes (filter c (filter q (sandboxes d)))) + sb_memory_bytes r"
    by (rule sums [OF _ nonneg(2)]) (simp_all add: assms(5) intendedRow_def)
qed

lemma intendedRow_same [simp]:
  "sb_id (intendedRow input m r) = sb_id r" "sb_tenant_ref (intendedRow input m r) = sb_tenant_ref r"
  "sb_subject_ref (intendedRow input m r) = sb_subject_ref r" "sb_state (intendedRow input m r) = sb_state r"
  "sb_workspace_id (intendedRow input m r) = sb_workspace_id r" "sb_current_instance_id (intendedRow input m r) = sb_current_instance_id r"
  "sb_revision (intendedRow input m r) = sb_revision r + 1" "sb_generation (intendedRow input m r) = sb_generation r"
  by (simp_all add: intendedRow_def)

lemma recorded_usage_below:
  assumes "recorded input d operation d'" "keys_ok d" "modest d" "r \<in> set (sandboxes d)"
    "sandbox_in_scope (li_SandboxID input) (li_TenantRef input) (li_SubjectRef input) r"
  shows "compute_below (row_delta r) (subject_usage t s now d) (subject_usage t s now d')"
    "compute_below (row_delta r) (tenant_usage t now d) (tenant_usage t now d')"
proof -
  let ?p = "sandbox_in_scope (li_SandboxID input) (li_TenantRef input) (li_SubjectRef input)"
  from assms(1) obtain m where rows: "sandboxes d' = map (\<lambda>r. if ?p r then intendedRow input m r else r) (sandboxes d)"
    and ws: "map ws_id (workspaces d') = map ws_id (workspaces d)"
    by (auto simp: recorded_def update_where_def)
  define f where "f = (\<lambda>r. if ?p r then intendedRow input m r else r)"
  have keys: "distinct (map sb_id (sandboxes d))" "distinct (map ws_id (workspaces d))"
    using assms(2) by (simp_all add: keys_ok_def)
  have same: "sb_tenant_ref (f x) = sb_tenant_ref x" "sb_subject_ref (f x) = sb_subject_ref x"
    "sb_state (f x) = sb_state x" "sb_workspace_id (f x) = sb_workspace_id x" for x
    by (simp_all add: f_def)
  note below = filtered_usage_below [OF keys(1) assms(4,5,3) f_def]
  let ?q = "\<lambda>r. sb_tenant_ref r = t \<and> sb_subject_ref r = s \<and> sb_state r \<noteq> ''deleted'' \<and>
    sb_workspace_id r \<in> set (map ws_id (workspaces d))"
  have "subject_sandboxes t s d = filter ?q (sandboxes d)" "subject_sandboxes t s d' = map f (filter ?q (sandboxes d))"
    using keys(2) ws by (simp_all only: subject_sandboxes_filter rows f_def [symmetric] filter_map comp_def same)
  then show "compute_below (row_delta r) (subject_usage t s now d) (subject_usage t s now d')"
    using below [of counts_compute ?q] by (simp add: compute_below_def subject_usage_def Let_def row_delta_def noUsage_def)
  have "tenant_sandboxes t d' = map f (tenant_sandboxes t d)"
    unfolding tenant_sandboxes_def rows f_def [symmetric] by (simp add: filter_map comp_def same)
  then show "compute_below (row_delta r) (tenant_usage t now d) (tenant_usage t now d')"
    using below [of counts_compute "\<lambda>r. sb_tenant_ref r = t \<and> sb_state r \<noteq> ''deleted''"]
    by (simp add: compute_below_def tenant_usage_def Let_def row_delta_def noUsage_def tenant_sandboxes_def)
qed

lemma filtered_fits:
  assumes "modest d" "r \<in> set (sandboxes d)"
  shows "in_i64 (int (length (filter c (filter q (sandboxes d)))) + 1)"
    "in_i64 (sum_list (map sb_vcpu_count (filter c (filter q (sandboxes d)))) + sb_vcpu_count r)"
    "in_i64 (sum_list (map sb_memory_bytes (filter c (filter q (sandboxes d)))) + sb_memory_bytes r)"
proof -
  have nonneg: "\<forall>x \<in> set (sandboxes d). 0 \<le> sb_vcpu_count x" "\<forall>x \<in> set (sandboxes d). 0 \<le> sb_memory_bytes x"
    using assms(1) by (auto simp: modest_def)
  have "length (filter c (filter q (sandboxes d))) \<le> length (sandboxes d)" "int (length (sandboxes d)) < 4611686018427387904"
    using assms(1) by (simp_all add: modest_def)
  then show "in_i64 (int (length (filter c (filter q (sandboxes d)))) + 1)"
    unfolding in_i64_bounds by (intro conjI) linarith+
  have "in_i64 (sum_list (map g (filter c (filter q (sandboxes d)))) + g r)"
    if "\<forall>x \<in> set (sandboxes d). 0 \<le> g x" "sum_list (map g (sandboxes d)) < 4611686018427387904" for g :: "SandboxRow \<Rightarrow> int"
  proof -
    have "0 \<le> sum_list (map g (filter (\<lambda>x. q x \<and> c x) (sandboxes d)))"
      using that(1) by (intro sum_list_nonneg_map) auto
    then show ?thesis
      unfolding in_i64_bounds filter_filter
      using sum_list_filter_le [OF that(1), of "\<lambda>x. q x \<and> c x"] elem_le_sum [OF that(1) assms(2)] bspec [OF that(1) assms(2)]
        that(2) by (intro conjI) linarith+
  qed
  with nonneg assms(1) show "in_i64 (sum_list (map sb_vcpu_count (filter c (filter q (sandboxes d)))) + sb_vcpu_count r)"
    "in_i64 (sum_list (map sb_memory_bytes (filter c (filter q (sandboxes d)))) + sb_memory_bytes r)"
    by (simp_all add: modest_def)
qed

lemma modest_fits:
  assumes "modest d" "keys_ok d" "r \<in> set (sandboxes d)"
  shows "compute_fits (row_delta r) (subject_usage t s now d)" "compute_fits (row_delta r) (tenant_usage t now d)"
  using assms
  by (auto simp: compute_fits_def subject_usage_def tenant_usage_def Let_def row_delta_def noUsage_def tenant_sandboxes_def
      subject_sandboxes_filter keys_ok_def filtered_fits simp del: filter_filter)

lemma recorded_start_within:
  assumes "recorded input d operation d'" "start_admitted input d r" "keys_ok d" "modest d" "r \<in> set (sandboxes d)"
    "sandbox_in_scope (li_SandboxID input) (li_TenantRef input) (li_SubjectRef input) r"
  shows "compute_within (li_TenantRef input) (li_SubjectRef input) (li_Now input) d'"
proof -
  let ?t = "li_TenantRef input" let ?s = "li_SubjectRef input" let ?n = "li_Now input"
  from assms(2) obtain tq sq where q: "Option.bind (find_tenant_quota ?t d) scan_tenant_limits = Some tq"
    "Option.bind (find_subject_quota ?t ?s d) scan_limits = Some sq"
    "start_refusal sq (subject_usage ?t ?s ?n d) tq (tenant_usage ?t ?n d) (row_delta r) = None"
    by (auto simp: start_admitted_def)
  have "compute_allowed sq (subject_usage ?t ?s ?n d')" "compute_allowed tq (tenant_usage ?t ?n d')"
    using start_refusal_None [OF q(3) modest_fits [OF assms(4,3,5)] recorded_usage_below [OF assms(1,3,4,5,6)]] by simp_all
  moreover have "find_tenant_quota ?t d' = find_tenant_quota ?t d" "find_subject_quota ?t ?s d' = find_subject_quota ?t ?s d"
    using assms(1) by (simp_all add: recorded_def find_tenant_quota_def find_subject_quota_def)
  ultimately show ?thesis
    using q(1,2) by (simp add: compute_within_def)
qed

section \<open>Fresh and repeated intents\<close>

definition replays :: "LifecycleIntentInput \<Rightarrow> Database \<Rightarrow> bool" where
  "replays input d \<longleftrightarrow> (case find_record input d of None \<Rightarrow> False | Some r \<Rightarrow> id_expires_at r > li_Now input)"

text \<open>An expired record is deleted before the intent is recorded anew.\<close>

definition without_record :: "LifecycleIntentInput \<Rightarrow> Database \<Rightarrow> Database" where
  "without_record input d =
     (if find_record input d = None then d
      else d\<lparr>idempotency_records := filter (\<lambda>r. \<not> record_key input r) (idempotency_records d)\<rparr>)"

lemma run_tx_success: "run_tx body d = (Inr a, d') \<Longrightarrow> \<exists>tx. body (begin_tx d) = (Inr a, tx) \<and> tx_db tx = d'"
  by (auto simp: run_tx_def split: prod.splits sum.splits)

lemma without_record_same [simp]:
  "sandboxes (without_record input d) = sandboxes d" "workspaces (without_record input d) = workspaces d"
  "operations (without_record input d) = operations d" "snapshots (without_record input d) = snapshots d"
  "modest (without_record input d) = modest d" "keys_ok (without_record input d) = keys_ok d"
  by (simp_all add: without_record_def modest_def keys_ok_def)

lemma wp_intent_fresh:
  assumes "\<not> replays input d"
  shows "wp (intentBody input) (\<lambda>operation tx'. recorded input (without_record input d) operation (tx_db tx') \<and>
      (\<exists>r \<in> set (sandboxes d). sandbox_in_scope (li_SandboxID input) (li_TenantRef input) (li_SubjectRef input) r \<and>
       (o_Kind (li_Operation input) = ''start'' \<longrightarrow> start_admitted input (without_record input d) r))) always (begin_tx d)"
    (is "wp _ ?Q _ _")
proof -
  define Q where "Q = ?Q"
  have rec: "wp (record_intent input) Q always tx" if "tx_db tx = without_record input d" for tx :: Tx
    using wp_record_intent [of input tx] that by (simp add: Q_def)
  have "wp (intentBody input) Q always (begin_tx d)"
  proof (cases "find_record input d")
    case None
    then show ?thesis
      unfolding intentBody_def TenantAndSubjectQuota_def
      by (auto simp: wp_simps begin_tx_def without_record_def intro!: rec)
  next
    case (Some prior)
    with assms have "\<not> id_expires_at prior > li_Now input"
      by (simp add: replays_def)
    with Some show ?thesis
      unfolding intentBody_def TenantAndSubjectQuota_def deleteExpiredIdempotencyRecord_def
      by (auto simp: wp_simps begin_tx_def without_record_def intro!: rec)
  qed
  then show ?thesis
    by (simp add: Q_def)
qed

lemma fresh_intent:
  assumes "SetSandboxDesiredState input d = (Inr operation, d')" "\<not> replays input d"
  shows "recorded input (without_record input d) operation d'"
    "\<exists>r \<in> set (sandboxes d). sandbox_in_scope (li_SandboxID input) (li_TenantRef input) (li_SubjectRef input) r \<and>
       (o_Kind (li_Operation input) = ''start'' \<longrightarrow> start_admitted input (without_record input d) r)"
proof -
  from assms(1) have "run_tx (intentBody input) d = (Inr operation, d')"
    by (simp add: SetSandboxDesiredState_def split: if_splits)
  from run_tx_success [OF this] wp_intent_fresh [OF assms(2)]
  show "recorded input (without_record input d) operation d'"
    "\<exists>r \<in> set (sandboxes d). sandbox_in_scope (li_SandboxID input) (li_TenantRef input) (li_SubjectRef input) r \<and>
       (o_Kind (li_Operation input) = ''start'' \<longrightarrow> start_admitted input (without_record input d) r)"
    by (auto simp: wp_def)
qed

text \<open>A live record decides a repeated intent: the recorded operation, and one more audit event.\<close>

definition ledgers_exist :: "string \<Rightarrow> string \<Rightarrow> Database \<Rightarrow> bool" where
  "ledgers_exist t s d \<longleftrightarrow> t \<in> tq_tenant_ref ` set (tenant_quotas d) \<and>
     (t, s) \<in> (\<lambda>r. (sq_tenant_ref r, sq_subject_ref r)) ` set (subject_quotas d)"

lemma intent_needs_ledgers:
  assumes "SetSandboxDesiredState input d = (Inr operation, d')"
  shows "ledgers_exist (li_TenantRef input) (li_SubjectRef input) d"
proof (rule ccontr)
  assume "\<not> ?thesis"
  then have "wp (intentBody input) (\<lambda>_ _. False) always (begin_tx d)"
    unfolding intentBody_def TenantAndSubjectQuota_def
    by (auto simp: wp_simps begin_tx_def ledgers_exist_def)
  moreover from assms have "run_tx (intentBody input) d = (Inr operation, d')"
    by (simp add: SetSandboxDesiredState_def split: if_splits)
  ultimately show False
    using run_tx_success by (fastforce simp: wp_def)
qed

lemma wp_eqI: "(\<And>Q E. wp m Q E x = wp n Q E y) \<Longrightarrow> m x = n y"
proof -
  assume "\<And>Q E. wp m Q E x = wp n Q E y"
  from this [of "\<lambda>a s. n y = (Inr a, s)" "\<lambda>e s. n y = (Inl e, s)"] show ?thesis
    by (auto simp: wp_def split: prod.splits sum.splits)
qed

lemma replay_runs:
  assumes "ledgers_exist (li_TenantRef input) (li_SubjectRef input) d" "find_record input d = Some prior"
    "id_expires_at prior > li_Now input"
  shows "run_tx (intentBody input) d =
    (case replay_intent input prior (locking (SubjectLedger (li_TenantRef input) (li_SubjectRef input))
        (locking (TenantLedger (li_TenantRef input)) (begin_tx d))) of (Inl e, _) \<Rightarrow> (Inl e, d) | (Inr a, tx) \<Rightarrow> (Inr a, tx_db tx))"
proof -
  let ?t = "li_TenantRef input" let ?s = "li_SubjectRef input"
  have "wp (intentBody input) Q E (begin_tx d) = wp (replay_intent input prior) Q E
      (locking (SubjectLedger ?t ?s) (locking (TenantLedger ?t) (begin_tx d)))" for Q E
    using assms unfolding intentBody_def TenantAndSubjectQuota_def deleteExpiredIdempotencyRecord_def ledgers_exist_def
    by (simp add: wp_simps begin_tx_def)
  then have "intentBody input (begin_tx d) = replay_intent input prior
      (locking (SubjectLedger ?t ?s) (locking (TenantLedger ?t) (begin_tx d)))"
    by (rule wp_eqI)
  then show ?thesis
    by (simp add: run_tx_def)
qed

lemma replay_intent_run:
  assumes "tx_db tx = d"
  shows "replay_intent input prior tx = (Inr operation, tx') \<Longrightarrow>
      id_request_hash prior = li_RequestHash input \<and> o_ID operation = id_response_resource_id prior \<and>
      tx_db tx' = d\<lparr>audit_events := audit_events d @ [auditRow (li_AuditEvent input)]\<rparr>"
    and "id_request_hash prior = li_RequestHash input \<Longrightarrow>
      List.find (owned_operation (li_TenantRef input) (li_SubjectRef input) (id_response_resource_id prior)) (operations d) = Some row \<Longrightarrow>
      op_snapshot_id row = [] \<Longrightarrow> au_id (li_AuditEvent input) \<notin> au_id ` set (audit_events d) \<Longrightarrow>
      replay_intent input prior tx =
        (Inr (operationOf row None), tx\<lparr>tx_db := d\<lparr>audit_events := audit_events d @ [auditRow (li_AuditEvent input)]\<rparr>\<rparr>)"
proof -
  have "wp (replay_intent input prior) (\<lambda>operation tx'. id_request_hash prior = li_RequestHash input \<and>
      o_ID operation = id_response_resource_id prior \<and>
      tx_db tx' = d\<lparr>audit_events := audit_events d @ [auditRow (li_AuditEvent input)]\<rparr>) always tx"
    unfolding replay_intent_def getOperationByID_def insertAuditEvent_def
    by (auto simp: wp_simps assms operationOf_def owned_operation_def split: option.splits dest!: find_mem)
  then show "replay_intent input prior tx = (Inr operation, tx') \<Longrightarrow>
      id_request_hash prior = li_RequestHash input \<and> o_ID operation = id_response_resource_id prior \<and>
      tx_db tx' = d\<lparr>audit_events := audit_events d @ [auditRow (li_AuditEvent input)]\<rparr>"
    by (simp add: wp_def)
next
  assume "id_request_hash prior = li_RequestHash input"
    "List.find (owned_operation (li_TenantRef input) (li_SubjectRef input) (id_response_resource_id prior)) (operations d) = Some row"
    "op_snapshot_id row = []" "au_id (li_AuditEvent input) \<notin> au_id ` set (audit_events d)"
  then have "wp (replay_intent input prior) Q E tx = wp (st_return (operationOf row None)) Q E
      (tx\<lparr>tx_db := d\<lparr>audit_events := audit_events d @ [auditRow (li_AuditEvent input)]\<rparr>\<rparr>)" for Q E
    unfolding replay_intent_def getOperationByID_def insertAuditEvent_def by (simp add: wp_simps assms)
  from wp_eqI [OF this] show "replay_intent input prior tx =
        (Inr (operationOf row None), tx\<lparr>tx_db := d\<lparr>audit_events := audit_events d @ [auditRow (li_AuditEvent input)]\<rparr>\<rparr>)"
    by (simp add: st_return_def)
qed

lemma find_append_None: "List.find p xs = None \<Longrightarrow> List.find p (xs @ ys) = List.find p ys"
  by (induction xs) (auto split: if_splits)

lemma replayed_database:
  assumes "SetSandboxDesiredState input d = (Inr operation, d')" "find_record input d = Some prior"
    "id_expires_at prior > li_Now input"
  shows "d' = d\<lparr>audit_events := audit_events d @ [auditRow (li_AuditEvent input)]\<rparr>"
    "id_request_hash prior = li_RequestHash input" "o_ID operation = id_response_resource_id prior"
proof -
  let ?t = "li_TenantRef input" let ?s = "li_SubjectRef input"
  from assms(1) have "run_tx (intentBody input) d = (Inr operation, d')"
    by (simp add: SetSandboxDesiredState_def split: if_splits)
  then obtain tx where tx: "replay_intent input prior (locking (SubjectLedger ?t ?s) (locking (TenantLedger ?t) (begin_tx d))) =
      (Inr operation, tx)" "tx_db tx = d'"
    by (auto simp: replay_runs [OF intent_needs_ledgers [OF assms(1)] assms(2,3)] split: prod.splits sum.splits)
  have "id_request_hash prior = li_RequestHash input \<and> o_ID operation = id_response_resource_id prior \<and>
      tx_db tx = d\<lparr>audit_events := audit_events d @ [auditRow (li_AuditEvent input)]\<rparr>"
    by (rule replay_intent_run(1) [OF _ tx(1)]) (simp add: begin_tx_def)
  with tx(2) show "d' = d\<lparr>audit_events := audit_events d @ [auditRow (li_AuditEvent input)]\<rparr>"
    "id_request_hash prior = li_RequestHash input" "o_ID operation = id_response_resource_id prior"
    by auto
qed

text \<open>Whatever path an intent took, its record names its operation and its request.\<close>

lemma intent_leaves_record:
  assumes "SetSandboxDesiredState input d = (Inr operation, d')"
  shows "\<exists>r. find_record input d' = Some r \<and> id_request_hash r = li_RequestHash input \<and>
    id_response_resource_id r = o_ID operation"
    "ledgers_exist (li_TenantRef input) (li_SubjectRef input) d'"
proof -
  let ?t = "li_TenantRef input" let ?s = "li_SubjectRef input"
  note ledgers = intent_needs_ledgers [OF assms]
  have "(\<exists>r. find_record input d' = Some r \<and> id_request_hash r = li_RequestHash input \<and>
    id_response_resource_id r = o_ID operation) \<and> ledgers_exist ?t ?s d'"
  proof (cases "replays input d")
    case True
    then obtain prior where prior: "find_record input d = Some prior" "id_expires_at prior > li_Now input"
      by (auto simp: replays_def split: option.splits)
    from replayed_database [OF assms prior] ledgers prior(1) show ?thesis
      by (auto simp: find_record_def ledgers_exist_def)
  next
    case False
    from fresh_intent(1) [OF assms this] have rec: "recorded input (without_record input d) operation d'" .
    then have "find_record input d' = Some (intentRecord input)"
      by (simp add: recorded_def find_record_def find_append_None) (simp add: record_key_def intentRecord_def)
    with rec ledgers show ?thesis
      by (simp add: recorded_def ledgers_exist_def without_record_def intentRecord_def)
  qed
  then show "\<exists>r. find_record input d' = Some r \<and> id_request_hash r = li_RequestHash input \<and>
      id_response_resource_id r = o_ID operation" "ledgers_exist ?t ?s d'"
    by simp_all
qed

text \<open>Accepted, replayed or refused, an intent changes a Sandbox row only by its own update, and no Instance.\<close>

lemma intent_rows:
  assumes "SetSandboxDesiredState input d = (res, d')"
  shows "instances d' = instances d \<and>
    (\<exists>p m. sandboxes d' = update_where p (intendedRow input m) (sandboxes d))"
proof (cases res)
  case (Inl e)
  then have "d' = d"
    using assms by (auto simp: SetSandboxDesiredState_def run_tx_def split: if_splits prod.splits sum.splits)
  then show ?thesis
    by (auto simp: update_where_def intro!: exI [of _ "\<lambda>_. False"])
next
  case (Inr operation)
  note ok = assms [unfolded Inr]
  show ?thesis
  proof (cases "replays input d")
    case False
    have "sandboxes (without_record input d) = sandboxes d" "instances (without_record input d) = instances d"
      by (simp_all add: without_record_def)
    with fresh_intent(1) [OF ok False] obtain m where
      "sandboxes d' = update_where (sandbox_in_scope (li_SandboxID input) (li_TenantRef input) (li_SubjectRef input))
        (intendedRow input m) (sandboxes d)" "instances d' = instances d"
      by (auto simp: recorded_def)
    then show ?thesis by blast
  next
    case True
    then obtain prior where prior: "find_record input d = Some prior" "id_expires_at prior > li_Now input"
      by (auto simp: replays_def split: option.splits)
    have "d' = d\<lparr>audit_events := audit_events d @ [auditRow (li_AuditEvent input)]\<rparr>"
      by (rule replayed_database [OF ok prior])
    then show ?thesis
      by (auto simp: update_where_def intro!: exI [of _ "\<lambda>_. False"])
  qed
qed

section \<open>Properties\<close>

text \<open>
  C11: an accepted start is within quota. After a start that was recorded anew, the
  active Instances, virtual CPUs and memory that are counted for the Subject and
  for its Tenant are within both quotas.
\<close>

theorem accepted_start_within_quota:
  assumes "SetSandboxDesiredState input d = (Inr operation, d')" "o_Kind (li_Operation input) = ''start''"
    "\<not> replays input d" "keys_ok d" "modest d"
  shows "compute_within (li_TenantRef input) (li_SubjectRef input) (li_Now input) d'"
proof -
  from fresh_intent [OF assms(1,3)] assms(2) obtain r where r: "r \<in> set (sandboxes (without_record input d))"
    "sandbox_in_scope (li_SandboxID input) (li_TenantRef input) (li_SubjectRef input) r"
    "start_admitted input (without_record input d) r" by auto
  show ?thesis
    by (rule recorded_start_within [OF fresh_intent(1) [OF assms(1,3)] r(3) _ _ r(1,2)]) (simp_all add: assms(4,5))
qed

definition same_request :: "LifecycleIntentInput \<Rightarrow> LifecycleIntentInput \<Rightarrow> bool" where
  "same_request input again \<longleftrightarrow>
     li_TenantRef again = li_TenantRef input \<and> li_SubjectRef again = li_SubjectRef input \<and>
     li_SandboxID again = li_SandboxID input \<and> o_Kind (li_Operation again) = o_Kind (li_Operation input) \<and>
     li_IdempotencyKey again = li_IdempotencyKey input \<and> li_RequestHash again = li_RequestHash input"

text \<open>
  C12: intents are idempotent. Once an intent succeeded, the same request under the
  same key, at any later moment at which its record has not expired, returns the
  recorded operation as it stands then and changes nothing but the audit log,
  whatever its operation identifier, expected revision and time.
\<close>

theorem intents_idempotent:
  assumes "SetSandboxDesiredState input d = (Inr operation, d')" "same_request input again"
    "find_record input later = find_record input d'" "replays again later" "tenant_quotas later = tenant_quotas d'"
    "subject_quotas later = subject_quotas d'"
    "List.find (owned_operation (li_TenantRef input) (li_SubjectRef input) (o_ID operation)) (operations later) = Some row"
    "op_snapshot_id row = []" "au_id (li_AuditEvent again) \<noteq> []" "au_id (li_AuditEvent again) \<notin> au_id ` set (audit_events later)"
  shows "SetSandboxDesiredState again later =
    (Inr (operationOf row None), later\<lparr>audit_events := audit_events later @ [auditRow (li_AuditEvent again)]\<rparr>)"
proof -
  have key: "find_record again later = find_record input later"
    using assms(2) by (simp add: same_request_def find_record_def record_key_def [abs_def])
  from intent_leaves_record [OF assms(1)] obtain r where r: "find_record again later = Some r"
    "id_request_hash r = li_RequestHash again" "id_response_resource_id r = o_ID operation"
    "ledgers_exist (li_TenantRef again) (li_SubjectRef again) later"
    using assms(2,3,5,6) key by (auto simp: same_request_def ledgers_exist_def)
  with assms(4) have live: "id_expires_at r > li_Now again"
    by (simp add: replays_def)
  have run: "replay_intent again r tx = (Inr (operationOf row None),
      tx\<lparr>tx_db := later\<lparr>audit_events := audit_events later @ [auditRow (li_AuditEvent again)]\<rparr>\<rparr>)" if "tx_db tx = later" for tx
    using that r(2,3) assms(2,7,8,10) by (intro replay_intent_run(2)) (simp_all add: same_request_def)
  show ?thesis
    unfolding SetSandboxDesiredState_def
    by (simp add: assms(9) replay_runs [OF r(4,1) live] run begin_tx_def)
qed

text \<open>The decision that \<open>admit_start\<close> takes on the quotas and the usage of a database.\<close>

definition start_decision :: "string \<Rightarrow> string \<Rightarrow> time \<Rightarrow> Database \<Rightarrow> SandboxRow \<Rightarrow> perr option option" where
  "start_decision t s now d r =
     (case (Option.bind (find_subject_quota t s d) scan_limits, Option.bind (find_tenant_quota t d) scan_tenant_limits) of
        (Some sq, Some tq) \<Rightarrow> Some (start_refusal sq (subject_usage t s now d) tq (tenant_usage t now d) (row_delta r))
      | _ \<Rightarrow> None)"

definition ledger_columns_fit :: "'a QuotaRow_scheme \<Rightarrow> bool" where
  "ledger_columns_fit q \<longleftrightarrow> (\<forall>column \<in> {qr_max_active_instances q, qr_max_vcpu_count q, qr_max_memory_bytes q}.
     case column of None \<Rightarrow> True | Some n \<Rightarrow> in_i64 n)"

lemma capacity_read:
  assumes "GetSubjectCapacity t s now d = (Inr capacity, d')"
  shows "\<exists>q qt sq tq. find_subject_quota t s d = Some q \<and> scan_limits q = Some sq \<and> find_tenant_quota t d = Some qt \<and>
    scan_tenant_limits qt = Some tq \<and>
    cap_Available capacity = available_headroom sq (subject_usage t s now d) tq (tenant_usage t now d)"
proof -
  have "wp (readSubjectCapacity t s now) (\<lambda>capacity _. \<exists>q qt sq tq. find_subject_quota t s d = Some q \<and> scan_limits q = Some sq \<and>
      find_tenant_quota t d = Some qt \<and> scan_tenant_limits qt = Some tq \<and>
      cap_Available capacity = available_headroom sq (subject_usage t s now d) tq (tenant_usage t now d)) always (begin_tx d)"
    unfolding readSubjectCapacity_def readSubjectQuota_def readTenantQuota_def readSubjectQuotaUsage_def readTenantQuotaUsage_def
    by (auto simp: wp_simps begin_tx_def split: option.splits)
  with run_tx_success [OF assms [unfolded GetSubjectCapacity_def]] show ?thesis
    by (auto simp: wp_def)
qed

text \<open>The axes that a start does not use are within the Tenant's quota.\<close>

definition other_axes_within :: "TenantQuotaLimits \<Rightarrow> TenantQuotaUsage \<Rightarrow> bool" where
  "other_axes_within tq usage \<longleftrightarrow> Allows (MaxSandboxes tq) (i64 (use_sandboxes usage)) \<and>
     Allows (MaxSnapshots tq) (i64 (use_snapshots usage)) \<and> Allows (MaxPortSessions tq) (i64 (use_portSessions usage)) \<and>
     Allows (MaxConcurrentOperations tq) (i64 (use_concurrentOperations usage))"

lemma start_refusal_iff:
  assumes "compute_fits (row_delta r) su" "compute_fits (row_delta r) tu" "other_axes_within tq tu"
  shows "start_refusal sq su tq tu (row_delta r) = None \<longleftrightarrow>
    (Allows (MaxActiveInstances sq) (use_activeInstances su + 1) \<and> Allows (MaxActiveInstances tq) (use_activeInstances tu + 1)) \<and>
    (Allows (MaxVCPUCount sq) (use_vcpuCount su + sb_vcpu_count r) \<and> Allows (MaxVCPUCount tq) (use_vcpuCount tu + sb_vcpu_count r)) \<and>
    (Allows (MaxMemoryBytes sq) (use_memoryBytes su + sb_memory_bytes r) \<and>
     Allows (MaxMemoryBytes tq) (use_memoryBytes tu + sb_memory_bytes r))"
  using assms
  by (auto simp: start_refusal_def tenantDataPlaneQuotaWouldExceed_def compute_fits_def other_axes_within_def
      row_delta_def noUsage_def i64_id)

lemma usage_nonneg:
  assumes "modest d" "keys_ok d"
  shows "0 \<le> use_activeInstances (subject_usage t s now d)" "0 \<le> use_vcpuCount (subject_usage t s now d)"
    "0 \<le> use_memoryBytes (subject_usage t s now d)" "0 \<le> use_activeInstances (tenant_usage t now d)"
    "0 \<le> use_vcpuCount (tenant_usage t now d)" "0 \<le> use_memoryBytes (tenant_usage t now d)"
  using assms
  by (auto simp: subject_usage_def tenant_usage_def Let_def tenant_sandboxes_def subject_sandboxes_filter keys_ok_def modest_def
      intro!: sum_list_nonneg_map)

lemma in_i64_sum_left: "in_i64 (u + n) \<Longrightarrow> 0 \<le> u \<Longrightarrow> 0 \<le> n \<Longrightarrow> in_i64 u"
  by (simp add: in_i64_def)

lemma column_ok: "limit_Scan column = Some l \<Longrightarrow> (case column of None \<Rightarrow> True | Some n \<Rightarrow> in_i64 n) \<Longrightarrow> 0 \<le> u \<Longrightarrow> in_i64 u \<Longrightarrow> ceiling_ok l u"
  by (auto simp: ceiling_ok_def limit_Scan_def Unlimited_def in_i64_def split: option.splits if_splits)

lemma ledger_ceilings_ok:
  assumes "scan_limits q = Some l" "ledger_columns_fit q" "compute_fits (row_delta r) u" "0 \<le> use_activeInstances u"
    "0 \<le> use_vcpuCount u" "0 \<le> use_memoryBytes u" "0 < sb_vcpu_count r" "0 < sb_memory_bytes r"
  shows "ceiling_ok (MaxActiveInstances l) (use_activeInstances u)" "ceiling_ok (MaxVCPUCount l) (use_vcpuCount u)"
    "ceiling_ok (MaxMemoryBytes l) (use_memoryBytes u)"
proof -
  have "in_i64 (use_activeInstances u)" "in_i64 (use_vcpuCount u)" "in_i64 (use_memoryBytes u)"
    using assms(3-8) by (auto simp: compute_fits_def row_delta_def noUsage_def intro: in_i64_sum_left)
  with assms show "ceiling_ok (MaxActiveInstances l) (use_activeInstances u)" "ceiling_ok (MaxVCPUCount l) (use_vcpuCount u)"
    "ceiling_ok (MaxMemoryBytes l) (use_memoryBytes u)"
    by (auto simp: scan_limits_def ledger_columns_fit_def Option.bind_eq_Some_conv intro: column_ok)
qed

lemma tenant_limits_extend:
  assumes "scan_tenant_limits q = Some tq"
  obtains l where "scan_limits q = Some l" "MaxActiveInstances l = MaxActiveInstances tq" "MaxVCPUCount l = MaxVCPUCount tq"
    "MaxMemoryBytes l = MaxMemoryBytes tq"
proof -
  from assms obtain l x where "scan_limits q = Some l" "tq = QuotaLimits.extend l x"
    by (auto simp: scan_tenant_limits_def Option.bind_eq_Some_conv)
  then show ?thesis
    by (intro that [of l]) (simp_all add: QuotaLimits.extend_def)
qed


end
