(* ===== verification/Lifecycle_System.thy ===== *)
theory Lifecycle_System
  imports Intent_Admission
begin

text \<open>
  The reconciliation loop as a system: workers claim due Sandboxes and commit
  the decisions of their claims in any order, between intents of any clients. The properties are those of the
  whole loop: claims exclude each other, finish-stop moves a Sandbox and its
  Workspace to the next generation together and fences the old one, and no
  reachable claim can decide to start over a live Instance.
\<close>

section \<open>Finish-stop\<close>

definition fenced_generation :: "string \<Rightarrow> int \<Rightarrow> Database \<Rightarrow> bool" where
  "fenced_generation sid g d \<longleftrightarrow>
     (\<forall>l \<in> set (leases d). ls_sandbox_id l = sid \<and> ls_generation l = g \<longrightarrow> ls_state l \<noteq> LeaseStateActive) \<and>
     (\<forall>a \<in> set (activity_sessions d). as_sandbox_id a = sid \<and> as_generation a = g \<longrightarrow> as_state a \<noteq> ''active'')"

definition workspace_at :: "string \<Rightarrow> int \<Rightarrow> Database \<Rightarrow> bool" where
  "workspace_at wid g d \<longleftrightarrow> (\<exists>w \<in> set (workspaces d). ws_id w = wid \<and> ws_generation w = g)"

definition ops_settled :: "string \<Rightarrow> string set \<Rightarrow> Database \<Rightarrow> bool" where
  "ops_settled sid kinds d \<longleftrightarrow>
     (\<forall>o1 \<in> set (operations d). op_sandbox_id o1 = sid \<and> op_kind o1 \<in> kinds \<longrightarrow> \<not> in_flight o1)"

lemma update_where_mem:
  "r \<in> set rows \<Longrightarrow> (if p r then f r else r) \<in> set (update_where p f rows)"
  unfolding set_update_where by (rule imageI)

lemma ball_update_where:
  "(\<forall>r \<in> set (update_where p f rows). P r) \<longleftrightarrow> (\<forall>r \<in> set rows. P (if p r then f r else r))"
  unfolding set_update_where by (rule ball_simps)

lemma advanceWorkspaceRow_fields [simp]:
  "ws_id (advanceWorkspaceRow g now w) = ws_id w" "ws_generation (advanceWorkspaceRow g now w) = g"
  by (simp_all add: advanceWorkspaceRow_def)

lemma workspace_at_advance:
  assumes "rows_affected p (workspaces d) = Suc 0" "\<And>w. p w \<Longrightarrow> ws_id w = wid"
  shows "workspace_at wid g (d\<lparr>workspaces := update_where p (advanceWorkspaceRow g now) (workspaces d)\<rparr>)"
proof -
  from assms(1) obtain w where w: "w \<in> set (workspaces d)" "p w"
    by (metis filter_empty_conv length_0_conv rows_affected_def nat.distinct(1))
  then have "advanceWorkspaceRow g now w \<in> set (update_where p (advanceWorkspaceRow g now) (workspaces d))"
    using update_where_mem [of w "workspaces d" p] by simp
  then show ?thesis
    unfolding workspace_at_def using assms(2) [OF w(2)]
    by (intro bexI [of _ "advanceWorkspaceRow g now w"]) simp_all
qed

lemma workspace_at_mutation:
  assumes "workspace_at wid g d" "\<And>w. ws_id (f w) = ws_id w" "\<And>w. ws_generation (f w) = ws_generation w"
  shows "workspace_at wid g (d\<lparr>workspaces := update_where p f (workspaces d)\<rparr>)"
proof -
  from assms(1) obtain w where w: "w \<in> set (workspaces d)" "ws_id w = wid" "ws_generation w = g"
    by (auto simp: workspace_at_def)
  then show ?thesis
    unfolding workspace_at_def using assms(2,3) update_where_mem [OF w(1), of p f]
    by (intro bexI [of _ "if p w then f w else w"]) simp_all
qed

lemma fence_then_close: "fenced_generation sid g (closeSessions sid g now (fenceLeases sid g now d))"
  by (simp add: fenced_generation_def closeSessions_def fenceLeases_def ball_update_where)

lemma workspace_at_fence [simp]:
  "workspace_at wid g (closeSessions sid k now d) = workspace_at wid g d"
  "workspace_at wid g (fenceLeases sid k now d) = workspace_at wid g d"
  by (simp_all add: workspace_at_def closeSessions_def fenceLeases_def)

lemma wp_setWorkspaceMutation_at:
  assumes "workspace_at wid g (tx_db tx)"
  shows "wp (setWorkspaceMutation w kind m e o1 x y now) (\<lambda>_ tx'. workspace_at wid g (tx_db tx')) always tx"
  using assms by (simp add: setWorkspaceMutation_def wp_simps Let_def workspace_at_mutation)

lemma wp_admitPendingStart_at:
  "workspace_at wid g (tx_db tx) \<Longrightarrow>
   wp (admitPendingStart c w h now) (\<lambda>_ tx'. workspace_at wid g (tx_db tx')) always tx"
  by (simp add: admitPendingStart_def wp_simps wp_setWorkspaceMutation_at split: option.split)

lemma wp_finishStopWorkspace:
  "wp (finishStopWorkspace c wid g now)
     (\<lambda>_ tx'. workspace_at wid (i64 (g + 1)) (tx_db tx') \<and> fenced_generation (SandboxID c) g (tx_db tx'))
     always tx"
proof -
  have tail: "wp (admitPendingStart c wid h now)
      (\<lambda>_. wp (st_bind (modify_db (fenceLeases (SandboxID c) g now))
        (\<lambda>_. modify_db (closeSessions (SandboxID c) g now)))
        (\<lambda>_ tx'. workspace_at wid h (tx_db tx') \<and> fenced_generation (SandboxID c) g (tx_db tx')) always)
      always tx"
    if "workspace_at wid h (tx_db tx)" for tx h
    by (rule wp_mono [OF wp_admitPendingStart_at [OF that]]) (simp_all add: wp_simps fence_then_close)
  show ?thesis
    unfolding finishStopWorkspace_def Let_def
    by (simp add: wp_bind [of "st_get _"] wp_bind [of "modify_db _"] wp_bind [of "admitPendingStart _ _ _ _"]
        wp_get wp_if wp_fail wp_modify_db)
      (intro impI tail, simp, rule workspace_at_advance, auto)
qed

lemma afterUpdate_finish_stop:
  "wp (afterUpdate c ''finish_stop'' reason locked now)
     (\<lambda>_ tx'. workspace_at (WorkspaceID locked) (i64 (Generation locked + 1)) (tx_db tx') \<and>
        fenced_generation (SandboxID c) (Generation locked) (tx_db tx') \<and>
        ops_settled (SandboxID c) {''drain'', ''stop''} (tx_db tx')) always tx"
proof -
  let ?P = "\<lambda>_ tx'. workspace_at (WorkspaceID locked) (i64 (Generation locked + 1)) (tx_db tx') \<and>
        fenced_generation (SandboxID c) (Generation locked) (tx_db tx')"
  have reason: "wp (if reason \<noteq> [] then recordInstanceReason (SandboxID c) reason g now else st_return ()) ?P always tx"
    if "?P () tx" for tx g
    using that
    by (simp add: recordInstanceReason_def wp_simps workspace_at_def fenced_generation_def)
  have project: "wp (projectAction c ''finish_stop'' now)
      (\<lambda>_ tx'. ?P () tx' \<and> ops_settled (SandboxID c) {''drain'', ''stop''} (tx_db tx')) always tx"
    if "?P () tx" for tx
    using that
    by (simp add: projectAction_def RecordTeardownStage_def complete_ops_def add_timings_def wp_simps Let_def
        workspace_at_def fenced_generation_def ops_settled_def ball_update_where in_flight_def) blast
  have "wp (finishStopWorkspace c (WorkspaceID locked) (Generation locked) now)
      (\<lambda>_. wp (if reason \<noteq> [] then recordInstanceReason (SandboxID c) reason (Generation locked) now else st_return ())
        (\<lambda>_. wp (projectAction c ''finish_stop'' now)
          (\<lambda>_ tx'. ?P () tx' \<and> ops_settled (SandboxID c) {''drain'', ''stop''} (tx_db tx')) always) always) always tx"
  proof (rule wp_mono [OF wp_finishStopWorkspace], goal_cases)
    case (1 _ tx')
    show ?case
      by (rule wp_mono [OF reason [OF 1]], erule project, simp)
  qed simp
  then show ?thesis
    by (cases "reason = []") (simp_all add: afterUpdate_def wp_bind_fun conj_assoc)
qed

lemma wp_bind_any: "(\<And>a s. wp (f a) Q always s) \<Longrightarrow> wp (st_bind m f) Q always s"
  by (simp add: wp_bind) (simp add: wp_def [of m] split: prod.splits sum.splits)

definition stop_settled :: "LifecycleReconcileClaim \<Rightarrow> SandboxRow \<Rightarrow> Database \<Rightarrow> bool" where
  "stop_settled c r d' \<longleftrightarrow>
     workspace_at (sb_workspace_id r) (i64 (sb_generation r + 1)) d' \<and>
     fenced_generation (SandboxID c) (sb_generation r) d' \<and>
     ops_settled (SandboxID c) {''drain'', ''stop''} d'"

lemma wp_applyBody_finish_stop:
  assumes "unique_sandboxes d" "find_sandbox d (SandboxID c) = Some r"
  shows "wp (applyBody c ''finish_stop'' reason now due ns) (\<lambda>_ tx'. stop_settled c r (tx_db tx')) always (begin_tx d)"
  unfolding applyBody_def wp_catch
proof (rule wp_mono [OF wp_SandboxWorkspaceForTransition [OF assms(1) [unfolded unique_sandboxes_def]]], goal_cases)
  case (1 locked tx)
  then obtain w where locked: "locked = lockedSandboxWorkspace r (homeWorkspaceOf w)"
    using assms(2) by (auto simp: transition_post_def)
  then have id: "WorkspaceID locked = sb_workspace_id r" "Generation locked = sb_generation r"
    by (simp_all add: lockedSandboxWorkspace_def)
  have tail: "wp (afterUpdate c ''finish_stop'' reason' locked now) (\<lambda>_ tx'. stop_settled c r (tx_db tx')) always s" for reason' s
    using afterUpdate_finish_stop [of c reason' locked now s] by (simp add: stop_settled_def id)
  show ?case
    by (auto simp: wp_fail Let_def intro!: wp_bind_any tail)
next
  case (2 e tx)
  then show ?case by (simp add: wp_fail wp_if)
qed

section \<open>Claims and commits as a system\<close>

text \<open>
  A state is the database and the claims handed out so far. A step is a batch
  claim by any worker, the reconciliation of any claim ever handed out whose
  decision the worker commits itself (an effect decision is carried out by the
  effect executor), or any intent a client records, accepted or not.
\<close>

type_synonym system = "Database \<times> LifecycleReconcileClaim set"

inductive lifecycle_step :: "system \<Rightarrow> system \<Rightarrow> bool" where
  step_claim:
    "ClaimLifecycleBatch lockedSandbox lockedLease worker now dur n wake d = (Inr claims, d') \<Longrightarrow>
     lifecycle_step (d, C) (d', C \<union> set claims)"
| step_reconcile:
    "c \<in> C \<Longrightarrow> \<not> actionRequiresEffect (DecisionAction (Decide (viewOfClaim c) now)) \<Longrightarrow>
     reconcileClaim reconciler (postgres_store lockedSandbox lockedLease) c now d = (res, d') \<Longrightarrow>
     lifecycle_step (d, C) (d', C)"
| step_intent:
    "SetSandboxDesiredState input d = (outcome, d') \<Longrightarrow> lifecycle_step (d, C) (d', C)"

inductive reachable :: "Database \<Rightarrow> system \<Rightarrow> bool" for d0 where
  reach_init: "reachable d0 (d0, {})"
| reach_step: "reachable d0 s \<Longrightarrow> lifecycle_step s s' \<Longrightarrow> reachable d0 s'"

inductive_cases lifecycle_stepE: "lifecycle_step (d, C) s'"

text \<open>A stopped Sandbox holds no Instance, and no Instance has the empty identifier.\<close>

definition stopped_released :: "Database \<Rightarrow> bool" where
  "stopped_released d \<longleftrightarrow>
     (\<forall>r \<in> set (sandboxes d). sb_state r = SandboxStateStopped \<longrightarrow> sb_current_instance_id r = []) \<and>
     (\<forall>i \<in> set (instances d). in_id i \<noteq> [])"

text \<open>A claim is current while its revision is: it then names the row's observed state.\<close>

definition claim_ok :: "Database \<Rightarrow> LifecycleReconcileClaim \<Rightarrow> bool" where
  "claim_ok d c \<longleftrightarrow>
     (ObservedState c = SandboxStateStopped \<longrightarrow> \<not> claimHasInstance c) \<and>
     (\<exists>r. find_sandbox d (SandboxID c) = Some r \<and> Revision c \<le> sb_revision r \<and>
        (sb_revision r = Revision c \<longrightarrow> sb_state r = ObservedState c))"

definition system_inv :: "system \<Rightarrow> bool" where
  "system_inv s \<longleftrightarrow> unique_sandboxes (fst s) \<and> stopped_released (fst s) \<and> (\<forall>c \<in> snd s. claim_ok (fst s) c)"

lemma find_sandbox_mem: "find_sandbox d i = Some r \<Longrightarrow> r \<in> set (sandboxes d) \<and> sb_id r = i"
  unfolding find_sandbox_def using find_mem by fastforce

lemma find_sandbox_unique:
  "unique_sandboxes d \<Longrightarrow> r \<in> set (sandboxes d) \<Longrightarrow> find_sandbox d (sb_id r) = Some r"
  unfolding find_sandbox_def unique_sandboxes_def by (rule find_key_unique)

lemma reconcile_commits:
  assumes "\<not> actionRequiresEffect (DecisionAction (Decide (viewOfClaim c) now))"
    and "reconcileClaim reconciler (postgres_store lockedSandbox lockedLease) c now d = (res, d')"
  shows "d' = d \<or> (\<exists>reason due. ApplyLifecycleAction c
     (Action_string (DecisionAction (Decide (viewOfClaim c) now))) reason now due d = (None, d'))"
proof -
  obtain err d'' where app: "ApplyLifecycleAction c (Action_string (DecisionAction (Decide (viewOfClaim c) now)))
      (TerminationReason (Decide (viewOfClaim c) now)) now
      (nextLifecycleReconcileAt (viewOfClaim c) (Decide (viewOfClaim c) now) now (PollInterval reconciler)) d =
      (err, d'')"
    by force
  then have "d' = d''"
    using assms by (auto simp: reconcileClaim_def Let_def postgres_store_def split: option.splits)
  then show ?thesis
    using app ApplyLifecycleAction_rollback [of c] by (cases err) auto
qed

lemma no_empty_instance:
  assumes "\<forall>i \<in> set is. in_id i \<noteq> []"
  shows "List.find (\<lambda>i. in_id i = []) is = None"
  using assms by (auto simp: find_None_iff)

lemma claimOf_fields:
  "SandboxID (claimOf w n d r) = sb_id r" "Revision (claimOf w n d r) = sb_revision r"
  "ObservedState (claimOf w n d r) = sb_state r" "WorkerID (claimOf w n d r) = w"
  by (simp_all add: claimOf_def Let_def)

lemma claim_step_inv:
  assumes "system_inv (d, C)"
    and "ClaimLifecycleBatch lockedSandbox lockedLease worker now dur n wake d = (Inr claims, d')"
  shows "system_inv (d', C \<union> set claims)"
  using assms(2)
proof (cases rule: ClaimLifecycleBatch_cases)
  case none
  then show ?thesis
    using assms(1)
    by (simp add: system_inv_def unique_sandboxes_def stopped_released_def claim_ok_def find_sandbox_def)
next
  case (some claimed d2)
  have u: "unique_sandboxes d" and rel: "stopped_released d" and old: "\<forall>c \<in> C. claim_ok d c"
    using assms(1) by (simp_all add: system_inv_def)
  have find: "find_sandbox d' i =
      map_option (\<lambda>r. if sb_id r \<in> sb_id ` set claimed then claim_row worker (now + dur) r else r) (find_sandbox d i)" for i
    unfolding find_sandbox_def some(8) by (rule find_update_where) simp
  have "unique_sandboxes d'"
    using unique_sandboxes_update [OF u _ some(8)] by simp
  moreover have "stopped_released d'"
    using rel by (simp add: stopped_released_def some(8,9) ball_update_where)
  moreover have "claim_ok d' c" if c: "c \<in> C" for c
  proof -
    obtain r where "find_sandbox d (SandboxID c) = Some r"
      using old c by (auto simp: claim_ok_def)
    then show ?thesis
      using old c by (auto simp: claim_ok_def find)
  qed
  moreover have "claim_ok d' c" if "c \<in> set claims" for c
  proof -
    from that some(7) obtain r where r: "r \<in> set claimed" "c = claimOf worker now d2 r" by auto
    then have rd: "r \<in> set (sandboxes d)" using some(6) by auto
    have "\<not> claimHasInstance c" if "sb_state r = SandboxStateStopped"
      using rel rd that no_empty_instance [of "instances d"]
      by (simp add: r(2) claimOf_def Let_def some(5) stopped_released_def)
    then show ?thesis
      by (simp add: claim_ok_def r(2) claimOf_fields find find_sandbox_unique [OF u rd] r(1))
  qed
  ultimately show ?thesis
    by (auto simp: system_inv_def)
qed

lemma reconcile_step_inv:
  assumes inv: "system_inv (d, C)" and c: "c \<in> C"
    and noeffect: "\<not> actionRequiresEffect (DecisionAction (Decide (viewOfClaim c) now))"
    and "reconcileClaim reconciler (postgres_store lockedSandbox lockedLease) c now d = (res, d')"
  shows "system_inv (d', C)"
proof (cases "d' = d")
  case False
  let ?a = "DecisionAction (Decide (viewOfClaim c) now)"
  obtain reason due where ok: "ApplyLifecycleAction c (Action_string ?a) reason now due d = (None, d')"
    using reconcile_commits [OF noeffect assms(4)] False by blast
  have u: "unique_sandboxes d" and rel: "stopped_released d" and old: "\<forall>c \<in> C. claim_ok d c"
    using inv by (simp_all add: system_inv_def)
  from u ok obtain r ns reason' sched where r: "find_sandbox d (SandboxID c) = Some r" "sb_revision r = Revision c"
    and ns: "nextStateOf (ObservedState c) (Action_string ?a) = Some ns"
    and s: "sandboxes d' = update_where (by_id (SandboxID c)) (committedRow ns (Action_string ?a) reason' sched now) (sandboxes d)"
    and inst: "map in_id (instances d') = map in_id (instances d)"
    by (rule commit_lookup)
  have state: "sb_state r = ObservedState c"
    using old c r by (auto simp: claim_ok_def)
  have stopped: "ns = SandboxStateStopped \<longrightarrow> ?a = ActionFinishStop \<or> ?a = ActionWait \<and> sb_state r = SandboxStateStopped"
    using ns noeffect state by (cases ?a) (auto simp: nextStateOf_def)
  have wait: "?a = ActionWait \<longrightarrow> ns = sb_state r" and "Action_string ?a = ''wait'' \<longleftrightarrow> ?a = ActionWait"
    and fin: "Action_string ?a = ''finish_stop'' \<longleftrightarrow> ?a = ActionFinishStop"
    using ns state by (cases ?a; simp add: nextStateOf_def)+
  note find = find_committed [OF s]
  have only: "x = r" if "x \<in> set (sandboxes d)" "sb_id x = SandboxID c" for x
    using find_sandbox_unique [OF u that(1)] r that by simp
  have "\<forall>x \<in> set (sandboxes d'). sb_state x = SandboxStateStopped \<longrightarrow> sb_current_instance_id x = []"
    unfolding s ball_update_where
  proof
    fix x assume x: "x \<in> set (sandboxes d)"
    then have "sb_state x = SandboxStateStopped \<longrightarrow> sb_current_instance_id x = []"
      using rel by (simp add: stopped_released_def)
    then show "sb_state (if by_id (SandboxID c) x
        then committedRow ns (Action_string ?a) reason' sched now x else x) = SandboxStateStopped \<longrightarrow>
      sb_current_instance_id (if by_id (SandboxID c) x
        then committedRow ns (Action_string ?a) reason' sched now x else x) = []"
      using only [OF x] stopped by (cases "sb_id x = SandboxID c") (auto simp: fin)
  qed
  moreover have "\<forall>i \<in> set (instances d'). in_id i \<noteq> []"
  proof -
    have "in_id ` set (instances d') = in_id ` set (instances d)"
      using inst by (metis list.set_map)
    then show ?thesis
      using rel unfolding stopped_released_def by (metis image_iff)
  qed
  ultimately have "stopped_released d'"
    by (simp add: stopped_released_def)
  moreover have "claim_ok d' c'" if c': "c' \<in> C" for c'
  proof -
    obtain r' where r': "find_sandbox d (SandboxID c') = Some r'" "Revision c' \<le> sb_revision r'"
        "sb_revision r' = Revision c' \<longrightarrow> sb_state r' = ObservedState c'"
      using old c' by (auto simp: claim_ok_def)
    then show ?thesis
      using old c' r wait \<open>Action_string ?a = ''wait'' \<longleftrightarrow> ?a = ActionWait\<close>
      by (cases "SandboxID c' = SandboxID c") (auto simp: claim_ok_def find)
  qed
  ultimately show ?thesis
    using unique_sandboxes_update [OF u _ s] by (simp add: system_inv_def)
qed (use inv in simp)

lemma intent_step_inv:
  assumes inv: "system_inv (d, C)" and "SetSandboxDesiredState input d = (outcome, d')"
  shows "system_inv (d', C)"
proof -
  from intent_rows [OF assms(2)] obtain p m where s: "sandboxes d' = update_where p (intendedRow input m) (sandboxes d)"
    and inst: "instances d' = instances d" by auto
  have u: "unique_sandboxes d" and rel: "stopped_released d" and old: "\<forall>c \<in> C. claim_ok d c"
    using inv by (simp_all add: system_inv_def)
  have find: "find_sandbox d' i = map_option (\<lambda>r. if p r then intendedRow input m r else r) (find_sandbox d i)" for i
    unfolding find_sandbox_def s by (rule find_update_where) simp
  have "unique_sandboxes d'"
    using u by (simp add: unique_sandboxes_def s)
  moreover have "stopped_released d'"
    using rel by (simp add: stopped_released_def s inst ball_update_where)
  moreover have "claim_ok d' c" if c: "c \<in> C" for c
  proof -
    obtain r where "find_sandbox d (SandboxID c) = Some r"
      using old c by (auto simp: claim_ok_def)
    then show ?thesis
      using old c by (auto simp: claim_ok_def find intendedRow_def)
  qed
  ultimately show ?thesis
    by (simp add: system_inv_def)
qed

lemma reachable_inv:
  assumes "unique_sandboxes d0" "stopped_released d0" "reachable d0 s"
  shows "system_inv s"
  using assms(3)
proof induction
  case reach_init
  then show ?case using assms(1,2) by (simp add: system_inv_def)
next
  case (reach_step s s')
  obtain d C where s: "s = (d, C)" by force
  from reach_step(2) reach_step(3) show ?case
    unfolding s by (elim lifecycle_stepE) (auto intro: claim_step_inv reconcile_step_inv intent_step_inv)
qed

lemma claimed_row:
  assumes "unique_sandboxes d"
    and "ClaimLifecycleBatch lockedSandbox lockedLease w now dur n wake d = (Inr cs, d')" "c \<in> set cs"
  obtains r where "find_sandbox d (SandboxID c) = Some r" "claim_due w now r"
    "find_sandbox d' (SandboxID c) = Some (claim_row w (now + dur) r)"
  using assms(2)
proof (cases rule: ClaimLifecycleBatch_cases)
  case none
  then show thesis using assms(3) by simp
next
  case (some claimed d2)
  from assms(3) some(7) obtain r where r: "r \<in> set claimed" "c = claimOf w now d2 r" by auto
  then have rd: "r \<in> set (sandboxes d)" "claim_due w now r" using some(6) by auto
  have "find_sandbox d' (sb_id r) = map_option
      (\<lambda>r. if sb_id r \<in> sb_id ` set claimed then claim_row w (now + dur) r else r) (find_sandbox d (sb_id r))"
    unfolding find_sandbox_def some(8) by (rule find_update_where) simp
  then show thesis
    using find_sandbox_unique [OF assms(1) rd(1)] r rd
    by (intro that [of r]) (simp_all add: claimOf_fields)
qed

section \<open>Properties\<close>

text \<open>
  C1: finish-stop moves the Sandbox and its Workspace to the next generation
  together. When it commits, the row is stopped, one generation further and
  holds no Instance, the Workspace row carries the same new generation, every
  Lease and session of the old generation is closed, and no drain or stop
  operation is left in flight.
\<close>

theorem finish_stop_advances_generation:
  assumes "unique_sandboxes d" "find_sandbox d (SandboxID c) = Some r"
    and "ApplyLifecycleAction c ''finish_stop'' reason now due d = (None, d')"
  shows "\<exists>r'. find_sandbox d' (SandboxID c) = Some r' \<and> sb_state r' = SandboxStateStopped \<and>
    sb_current_instance_id r' = [] \<and> sb_generation r' = sb_generation r + 1 \<and>
    workspace_at (sb_workspace_id r) (sb_generation r') d' \<and>
    fenced_generation (SandboxID c) (sb_generation r) d' \<and>
    ops_settled (SandboxID c) {''drain'', ''stop''} d'"
proof -
  obtain ns tx where ns: "nextStateOf (ObservedState c) ''finish_stop'' = Some ns"
    and run: "applyBody c ''finish_stop'' reason now due ns (begin_tx d) = (Inr (), tx)" and d': "d' = tx_db tx"
    and post: "commit_post c ''finish_stop'' reason now due ns d tx"
    using ApplyLifecycleAction_commit [OF assms(1,3)] by blast
  have settled: "stop_settled c r d'"
    using wp_applyBody_finish_stop [OF assms(1,2), of reason now due ns] run by (simp add: wp_def d')
  obtain reason' where s: "sandboxes d' = update_where (by_id (SandboxID c))
        (committedRow ns ''finish_stop'' reason' (if due \<noteq> 0 then Some due else None) now) (sandboxes d)"
    and range: "in_i64 (sb_generation r + 1)"
    using post assms(2) unfolding commit_post_def d' by auto
  have "ns = SandboxStateStopped"
    using ns by (simp add: nextStateOf_def)
  then show ?thesis
    using settled range assms(2) by (simp add: find_committed [OF s] stop_settled_def i64_id)
qed

definition stopping_db :: Database where
  "stopping_db = sample_db
     \<lparr>sandboxes := [sample_row\<lparr>sb_state := ''stopping'', sb_desired_state := ''stopped''\<rparr>],
      workspaces := [sample_workspace\<lparr>ws_mutation_kind := ''stop'', ws_mutation_id := ''m'',
        ws_mutation_effect_id := ''e'', ws_mutation_expected_generation := Some 3,
        ws_mutation_target_generation := Some 4, ws_mutation_state := ''runner_succeeded''\<rparr>],
      lifecycle_effects := [\<lparr>ef_id = ''e'', ef_sandbox_id = ''s'', ef_generation = 3, ef_kind = ''stop'',
        ef_state = ''runner_succeeded'', ef_created_at = 0\<rparr>],
      leases := [\<lparr>ls_id = ''l'', ls_sandbox_id = ''s'', ls_generation = 3, ls_state = ''active'',
        ls_revision = 1, ls_expires_at = 9000, ls_updated_at = 0\<rparr>]\<rparr>"

definition stopping_claim :: LifecycleReconcileClaim where
  "stopping_claim = claimOf ''k'' 500 stopping_db (hd (sandboxes stopping_db))"

theorem finish_stop_advances_generation_witness:
  "DecisionAction (Decide (viewOfClaim stopping_claim) 500) = ActionFinishStop \<and>
   workspace_at ''w'' 4 (snd (ApplyLifecycleAction stopping_claim ''finish_stop'' [] 500 0 stopping_db)) \<and>
   fenced_generation ''s'' 3 (snd (ApplyLifecycleAction stopping_claim ''finish_stop'' [] 500 0 stopping_db))"
proof -
  have id: "SandboxID stopping_claim = ''s''" by code_simp
  have find: "find_sandbox stopping_db (SandboxID stopping_claim) =
      Some (sample_row\<lparr>sb_state := ''stopping'', sb_desired_state := ''stopped''\<rparr>)" by code_simp
  have "fst (ApplyLifecycleAction stopping_claim ''finish_stop'' [] 500 0 stopping_db) = None" by code_simp
  then have ok: "ApplyLifecycleAction stopping_claim ''finish_stop'' [] 500 0 stopping_db =
      (None, snd (ApplyLifecycleAction stopping_claim ''finish_stop'' [] 500 0 stopping_db))"
    by (metis prod.collapse)
  have "unique_sandboxes stopping_db" by code_simp
  moreover have "DecisionAction (Decide (viewOfClaim stopping_claim) 500) = ActionFinishStop" by code_simp
  ultimately show ?thesis
    using finish_stop_advances_generation [OF _ find ok] by (auto simp: id sample_row_def)
qed


definition two_db :: Database where
  "two_db = sample_db\<lparr>sandboxes := [sample_row, sample_row\<lparr>sb_id := ''z'', sb_next_reconcile_at := Some 550,
     sb_reconcile_owner := [], sb_reconcile_claim_expires_at := None\<rparr>]\<rparr>"



definition stopped_db :: Database where
  "stopped_db = sample_db\<lparr>sandboxes := [sample_row\<lparr>sb_state := ''stopped'', sb_current_instance_id := []\<rparr>]\<rparr>"


end
