(* ===== verification/Intent_Witnesses.thy ===== *)
theory Intent_Witnesses
  imports Lifecycle_System
begin

text \<open>
  Intents on a small database: a stopped Sandbox that is started, the same
  request repeated, and two failed Sandboxes that are both started under a quota
  of one Instance.
\<close>

definition idle_row :: "string \<Rightarrow> string \<Rightarrow> SandboxRow" where
  "idle_row sid state = sample_row\<lparr>sb_id := sid, sb_workspace_id := ''w-'' @ sid, sb_state := state,
     sb_desired_state := ''stopped'', sb_current_instance_id := []\<rparr>"

definition idle_db :: "string \<Rightarrow> string list \<Rightarrow> Database" where
  "idle_db state sids = sample_db\<lparr>
     sandboxes := map (\<lambda>sid. idle_row sid state) sids,
     workspaces := map (\<lambda>sid. sample_workspace\<lparr>ws_id := ''w-'' @ sid, ws_sandbox_id := sid\<rparr>) sids,
     subjects := [\<lparr>subj_tenant_ref = ''t'', subj_ref = ''u'', subj_state = ''active'', subj_expires_at = None\<rparr>]\<rparr>"

definition sample_operation :: "string \<Rightarrow> Operation" where
  "sample_operation oid =
     \<lparr>o_ID = oid, o_TenantRef = [], o_SubjectRef = [], o_SandboxID = [], o_Kind = ''start'', o_State = ''pending'',
      o_RequestID = ''q'', o_RequestMetadata = [], o_CapacityWaitDeadline = None, o_Snapshot = None, o_Error = None,
      o_CreatedAt = 500, o_StartedAt = None, o_CompletedAt = None, o_UpdatedAt = 500\<rparr>"

definition sample_audit :: "string \<Rightarrow> AuditRow" where
  "sample_audit i =
     \<lparr>au_id = i, au_tenant_ref = ''t'', au_subject_ref = [], au_actor_kind = ''user'', au_actor_id = ''u'', au_action = ''sandbox.start'',
      au_resource_kind = ''sandbox'', au_resource_id = ''s'', au_outcome = ''ok'', au_request_id = ''q'', au_details = [],
      au_created_at = 500\<rparr>"

definition sample_intent :: "string \<Rightarrow> string \<Rightarrow> LifecycleIntentInput" where
  "sample_intent sid oid =
     \<lparr>li_TenantRef = ''t'', li_SubjectRef = ''u'', li_SandboxID = sid, li_DesiredState = ''running'',
      li_Operation = sample_operation oid, li_Now = 500, li_IdempotencyKey = ''key'', li_RequestHash = ''hash'',
      li_IdempotencyEnds = 900, li_ExpectedRevision = 7, li_AuditEvent = sample_audit oid\<rparr>"

lemma sample_intent_fields [simp]:
  "li_TenantRef (sample_intent sid oid) = ''t''" "li_SubjectRef (sample_intent sid oid) = ''u''"
  "li_Now (sample_intent sid oid) = 500" "o_Kind (li_Operation (sample_intent sid oid)) = ''start''"
  "li_AuditEvent (sample_intent sid oid) = sample_audit oid" "au_id (sample_audit oid) = oid"
  by (simp_all add: sample_intent_def sample_operation_def sample_audit_def)

lemma sample_intent_repeats: "same_request (sample_intent sid oid) (sample_intent sid oid')"
  by (simp add: same_request_def sample_intent_def sample_operation_def)

definition tx_accepted :: "(ports_error, 'a) result \<times> Database \<Rightarrow> bool" where
  "tx_accepted x = (case fst x of Inr _ \<Rightarrow> True | Inl _ \<Rightarrow> False)"

lemma tx_acceptedE:
  assumes "tx_accepted x"
  obtains a where "x = (Inr a, snd x)"
  using assms by (cases x) (auto simp: tx_accepted_def split: sum.splits)

lemma idle_modest: "modest (idle_db ''stopped'' [''s''])" "keys_ok (idle_db ''stopped'' [''s''])"
  by code_simp+

lemma sample_intent_accepted: "tx_accepted (SetSandboxDesiredState (sample_intent ''s'' ''o'') (idle_db ''stopped'' [''s'']))"
  by code_simp

theorem accepted_start_within_quota_witness:
  "compute_within ''t'' ''u'' 500 (snd (SetSandboxDesiredState (sample_intent ''s'' ''o'') (idle_db ''stopped'' [''s''])))"
  using sample_intent_accepted
proof (rule tx_acceptedE)
  fix a assume run: "SetSandboxDesiredState (sample_intent ''s'' ''o'') (idle_db ''stopped'' [''s'']) =
    (Inr a, snd (SetSandboxDesiredState (sample_intent ''s'' ''o'') (idle_db ''stopped'' [''s''])))"
  have "\<not> replays (sample_intent ''s'' ''o'') (idle_db ''stopped'' [''s''])"
    by code_simp
  from accepted_start_within_quota [OF run _ this idle_modest(2,1)] show ?thesis
    by simp
qed

definition started_db :: Database where
  "started_db = snd (SetSandboxDesiredState (sample_intent ''s'' ''o'') (idle_db ''stopped'' [''s'']))"

definition started_row :: OperationRow where
  "started_row = last (operations started_db)"

lemma started_facts:
  "replays (sample_intent ''s'' ''again'') started_db"
  "List.find (owned_operation ''t'' ''u'' ''o'') (operations started_db) = Some started_row"
  "op_snapshot_id started_row = []" "''again'' \<notin> au_id ` set (audit_events started_db)"
  "(case fst (SetSandboxDesiredState (sample_intent ''s'' ''o'') (idle_db ''stopped'' [''s''])) of Inr a \<Rightarrow> o_ID a = ''o'' | Inl _ \<Rightarrow> False)"
  by code_simp+

theorem intents_idempotent_witness:
  "SetSandboxDesiredState (sample_intent ''s'' ''again'') started_db =
     (Inr (operationOf started_row None), started_db\<lparr>audit_events := audit_events started_db @ [auditRow (sample_audit ''again'')]\<rparr>)"
  using sample_intent_accepted
proof (rule tx_acceptedE)
  fix a assume run: "SetSandboxDesiredState (sample_intent ''s'' ''o'') (idle_db ''stopped'' [''s'']) =
    (Inr a, snd (SetSandboxDesiredState (sample_intent ''s'' ''o'') (idle_db ''stopped'' [''s''])))"
  have "fst (SetSandboxDesiredState (sample_intent ''s'' ''o'') (idle_db ''stopped'' [''s''])) = Inr a"
    by (subst run) (rule fst_conv)
  with started_facts(5) have o: "o_ID a = ''o''"
    by simp
  have found: "List.find (owned_operation (li_TenantRef (sample_intent ''s'' ''o'')) (li_SubjectRef (sample_intent ''s'' ''o''))
      (o_ID a)) (operations started_db) = Some started_row"
    using started_facts(2) by (simp only: o sample_intent_fields)
  have "au_id (li_AuditEvent (sample_intent ''s'' ''again'')) \<noteq> []"
    "au_id (li_AuditEvent (sample_intent ''s'' ''again'')) \<notin> au_id ` set (audit_events started_db)"
    using started_facts(4) by simp_all
  from intents_idempotent [OF run [folded started_db_def] sample_intent_repeats refl started_facts(1) refl refl found
      started_facts(3) this]
  show ?thesis
    by (simp only: sample_intent_fields)
qed

lemma capacity_facts:
  "tx_accepted (GetSubjectCapacity ''t'' ''u'' 500 (idle_db ''stopped'' [''s'']))"
  "idle_row ''s'' ''stopped'' \<in> set (sandboxes (idle_db ''stopped'' [''s'']))"
  "0 < sb_vcpu_count (idle_row ''s'' ''stopped'')" "0 < sb_memory_bytes (idle_row ''s'' ''stopped'')"
  "\<forall>q \<in> set (subject_quotas (idle_db ''stopped'' [''s''])). ledger_columns_fit q"
  "\<forall>q \<in> set (tenant_quotas (idle_db ''stopped'' [''s''])). ledger_columns_fit q"
  "(case Option.bind (find_tenant_quota ''t'' (idle_db ''stopped'' [''s''])) scan_tenant_limits of None \<Rightarrow> True
     | Some tq \<Rightarrow> other_axes_within tq (tenant_usage ''t'' 500 (idle_db ''stopped'' [''s''])))"
  "start_decision ''t'' ''u'' 500 (idle_db ''stopped'' [''s'']) (idle_row ''s'' ''stopped'') = Some None"
  by code_simp+


section \<open>Starting failed Sandboxes\<close>

text \<open>
  The usage queries count an accepted start of a stopped Sandbox but not one of a
  failed Sandbox. Two failed Sandboxes are both started under a quota of one
  active Instance, and once both transitions are committed the quota is exceeded.
\<close>

definition both_started :: Database where
  "both_started = snd (SetSandboxDesiredState (sample_intent ''b'' ''o2'')
     (snd (SetSandboxDesiredState (sample_intent ''a'' ''o1'') (idle_db ''failed'' [''a'', ''b'']))))"

definition start_committed :: "string \<Rightarrow> Database \<Rightarrow> Database" where
  "start_committed sid d =
     (case find_sandbox d sid of None \<Rightarrow> d
      | Some r \<Rightarrow> snd (ApplyLifecycleAction (claimOf ''k'' 600 d r) ''start_instance'' [] 600 700 d))"

lemma failed_starts_exceed_quota:
  "tx_accepted (SetSandboxDesiredState (sample_intent ''a'' ''o1'') (idle_db ''failed'' [''a'', ''b'']))"
  "tx_accepted (SetSandboxDesiredState (sample_intent ''b'' ''o2'')
     (snd (SetSandboxDesiredState (sample_intent ''a'' ''o1'') (idle_db ''failed'' [''a'', ''b'']))))"
  "\<not> compute_within ''t'' ''u'' 600 (start_committed ''b'' (start_committed ''a'' both_started))"
  by code_simp+

end
