(* ===== verification/Scheduler_Placement.thy ===== *)
theory Scheduler_Placement
  imports Contracts
begin

text \<open>
  Runner placement (\<open>internal/scheduler/placement.go\<close>) and the recovery policy
  of assignments (\<open>internal/reconcile/policy.go\<close>). The ranking of compatible
  Runners is stated by the comparison the code sorts with and by a key; the
  locale \<open>ranked_choice\<close> proves what choosing the first of a ranking means,
  once, and the Runner ranking interprets it.
\<close>

section \<open>Snapshots and requirements\<close>

abbreviation DrainPhaseActive :: string where "DrainPhaseActive \<equiv> ''active''"
abbreviation DrainPhaseDraining :: string where "DrainPhaseDraining \<equiv> ''draining''"

abbreviation RunnerCapabilityClientSelectedImage :: string where
  "RunnerCapabilityClientSelectedImage \<equiv> ''client-selected-image''"
abbreviation RunnerCapabilityPhysicalStorageAdmission :: string where
  "RunnerCapabilityPhysicalStorageAdmission \<equiv> ''physical-storage-admission''"

record Capacity =
  VCPUCount :: int
  MemoryBytes :: int
  DiskBytes :: int
  Instances :: int
  Operations :: int

record Requirements =
  ReqPoolName :: string
  ReqArchitecture :: string
  RequiredCapabilities :: "string list"
  ReqCapacity :: Capacity
  ReqEgressContext :: "string option"

record MaterializationSnapshot =
  MatBackendKind :: string
  MatArchitecture :: string
  RuntimeDigest :: string
  ToolchainDigest :: string
  MatDigest :: string

record RunnerSnapshot =
  RunnerID :: string
  PoolName :: string
  BackendKind :: string
  Architecture :: string
  Capabilities :: "string \<Rightarrow> bool"
  Allocatable :: Capacity
  Reserved :: Capacity
  DrainPhase :: string
  LastHeartbeatAt :: time
  Materializations :: "MaterializationSnapshot list"
  SupportedEgressContexts :: "string list"
  GuestProtocolMinimum :: nat
  GuestProtocolMaximum :: nat

datatype scheduler_error = ErrNoCompatibleRunner | ErrSchedHomeRunnerUnavailable | ErrEgressContextUnavailable

section \<open>Compatibility\<close>

definition freeCapacity :: "RunnerSnapshot \<Rightarrow> Capacity" where
  "freeCapacity runner =
     \<lparr>VCPUCount = i64 (VCPUCount (Allocatable runner) - VCPUCount (Reserved runner)),
      MemoryBytes = i64 (MemoryBytes (Allocatable runner) - MemoryBytes (Reserved runner)),
      DiskBytes = i64 (DiskBytes (Allocatable runner) - DiskBytes (Reserved runner)),
      Instances = i64 (Instances (Allocatable runner) - Instances (Reserved runner)),
      Operations = i64 (Operations (Allocatable runner) - Operations (Reserved runner))\<rparr>"

definition hasMaterialization :: "RunnerSnapshot \<Rightarrow> bool" where
  "hasMaterialization runner =
     list_ex (\<lambda>m. MatBackendKind m = BackendKind runner \<and> MatArchitecture m = Architecture runner \<and>
                  MatDigest m \<noteq> []) (Materializations runner)"

text \<open>Go's division truncates toward zero; the divisor here is positive.\<close>

definition diskLimit :: "RunnerSnapshot \<Rightarrow> int" where
  "diskLimit runner =
     (let bytes = DiskBytes (Allocatable runner); n = Instances (Allocatable runner) in
      if Capabilities runner RunnerCapabilityPhysicalStorageAdmission \<and>
         BackendKind runner = ''firecracker'' \<and> n > 0
      then (if bytes \<ge> 0 then bytes div n else - ((- bytes) div n))
      else bytes)"

definition compatible :: "Requirements \<Rightarrow> RunnerSnapshot \<Rightarrow> time \<Rightarrow> duration \<Rightarrow> bool" where
  "compatible requirements runner now heartbeatTimeout =
     (if PoolName runner \<noteq> ReqPoolName requirements \<or> Architecture runner \<noteq> ReqArchitecture requirements \<or>
         DrainPhase runner \<noteq> DrainPhaseActive \<or> LastHeartbeatAt runner < now + i64 (- heartbeatTimeout)
      then False
      else if BackendKind runner = [] \<or> \<not> Capabilities runner ''compute'' then False
      else if RunnerCapabilityClientSelectedImage \<notin> set (RequiredCapabilities requirements) \<and>
              \<not> hasMaterialization runner then False
      else if \<not> list_all (Capabilities runner) (RequiredCapabilities requirements) then False
      else if \<not> list_all (Capabilities runner) [''network-policy'', ''storage'', ''cleanup'', ''local-workspace'']
      then False
      else
        (let free = freeCapacity runner;
             physicalStorage = Capabilities runner RunnerCapabilityPhysicalStorageAdmission;
             need = ReqCapacity requirements
         in VCPUCount free \<ge> VCPUCount need \<and> MemoryBytes free \<ge> MemoryBytes need \<and>
            ((physicalStorage \<and> diskLimit runner \<ge> DiskBytes need) \<or>
             (\<not> physicalStorage \<and> DiskBytes free \<ge> DiskBytes need)) \<and>
            Instances free \<ge> Instances need \<and> Operations free \<ge> Operations need))"

definition contextSupported :: "Requirements \<Rightarrow> RunnerSnapshot \<Rightarrow> bool" where
  "contextSupported requirements runner =
     (case ReqEgressContext requirements of
        None \<Rightarrow> True
      | Some context \<Rightarrow> context \<in> set (SupportedEgressContexts runner))"

section \<open>Ranking and selection\<close>

definition ranked_before :: "RunnerSnapshot \<Rightarrow> RunnerSnapshot \<Rightarrow> bool" where
  "ranked_before left right =
     (let leftFree = freeCapacity left; rightFree = freeCapacity right in
      if Instances leftFree \<noteq> Instances rightFree then Instances leftFree > Instances rightFree
      else if VCPUCount leftFree \<noteq> VCPUCount rightFree then VCPUCount leftFree > VCPUCount rightFree
      else if MemoryBytes leftFree \<noteq> MemoryBytes rightFree then MemoryBytes leftFree > MemoryBytes rightFree
      else RunnerID left < RunnerID right)"

definition rank_key :: "RunnerSnapshot \<Rightarrow> int \<times> int \<times> int \<times> string" where
  "rank_key r = (- Instances (freeCapacity r), - VCPUCount (freeCapacity r), - MemoryBytes (freeCapacity r), RunnerID r)"

definition eligible :: "Requirements \<Rightarrow> time \<Rightarrow> duration \<Rightarrow> RunnerSnapshot \<Rightarrow> bool" where
  "eligible requirements now heartbeatTimeout runner \<longleftrightarrow>
     compatible requirements runner now heartbeatTimeout \<and> contextSupported requirements runner"

definition SelectRunner ::
  "Requirements \<Rightarrow> RunnerSnapshot list \<Rightarrow> time \<Rightarrow> duration \<Rightarrow> (scheduler_error, RunnerSnapshot) result" where
  "SelectRunner requirements runners now heartbeatTimeout =
     (let ranked = filter (eligible requirements now heartbeatTimeout) runners;
          contextMismatch = list_ex (\<lambda>r. compatible requirements r now heartbeatTimeout \<and>
                                         \<not> contextSupported requirements r) runners
      in if List.null ranked then
           (if contextMismatch then Inl (Sentinel ErrEgressContextUnavailable)
            else Inl (Sentinel ErrNoCompatibleRunner))
         else Inr (hd (sort_key rank_key ranked)))"

definition SelectHomeRunner ::
  "string \<Rightarrow> Requirements \<Rightarrow> RunnerSnapshot list \<Rightarrow> time \<Rightarrow> duration \<Rightarrow>
   (scheduler_error, RunnerSnapshot) result" where
  "SelectHomeRunner homeRunnerID requirements runners now heartbeatTimeout =
     (if homeRunnerID = [] then Inl (Sentinel ErrSchedHomeRunnerUnavailable)
      else
        (let homeCandidates =
               (case List.find (\<lambda>r. RunnerID r = homeRunnerID) runners of None \<Rightarrow> [] | Some r \<Rightarrow> [r])
         in case SelectRunner requirements homeCandidates now heartbeatTimeout of
              Inl err \<Rightarrow>
                if errors_Is ErrEgressContextUnavailable err then Inl err
                else if errors_Is ErrNoCompatibleRunner err
                then Inl (Sentinel ErrSchedHomeRunnerUnavailable)
                else Inl err
            | Inr selected \<Rightarrow> Inr selected))"

section \<open>Assignment recovery\<close>

datatype RecoveryAction =
    RecoveryWait | RecoveryRetry | RecoveryFence | RecoveryAdvanceGeneration | RecoveryFailTerminal

abbreviation FailureTransient :: string where "FailureTransient \<equiv> ''transient''"
abbreviation FailureCompatibility :: string where "FailureCompatibility \<equiv> ''compatibility''"
abbreviation FailureFencing :: string where "FailureFencing \<equiv> ''fencing''"
abbreviation FailureStartupTimeout :: string where "FailureStartupTimeout \<equiv> ''startup_timeout''"

record AssignmentState =
  AssignState :: string
  AssignGeneration :: int
  FenceProofDigest :: string
  FailureClass :: string
  RetryCount :: int
  RetryLimit :: int
  Deadline :: time

record RecoveryDecision =
  RecoveryDecisionAction :: RecoveryAction
  NextGeneration :: int

abbreviation recover :: "RecoveryAction \<Rightarrow> RecoveryDecision" where
  "recover a \<equiv> \<lparr>RecoveryDecisionAction = a, NextGeneration = 0\<rparr>"

definition DecideRunnerLoss :: "AssignmentState \<Rightarrow> time \<Rightarrow> RecoveryDecision" where
  "DecideRunnerLoss state now =
     (if AssignState state = ''fenced'' \<and> FenceProofDigest state \<noteq> []
      then \<lparr>RecoveryDecisionAction = RecoveryAdvanceGeneration, NextGeneration = i64 (AssignGeneration state + 1)\<rparr>
      else recover RecoveryFence)"

definition DecideAssignment :: "AssignmentState \<Rightarrow> time \<Rightarrow> RecoveryDecision" where
  "DecideAssignment state now =
     (if AssignState state = ''ready'' then recover RecoveryWait
      else if AssignState state = ''fencing'' then
        (if Deadline state = 0 \<or> now < Deadline state then recover RecoveryWait
         else if RetryCount state < RetryLimit state then recover RecoveryFence
         else recover RecoveryFailTerminal)
      else if Deadline state \<noteq> 0 \<and> \<not> now < Deadline state then recover RecoveryFence
      else if AssignState state \<noteq> ''failed'' then recover RecoveryWait
      else if FailureClass state = FailureTransient \<and> RetryCount state < RetryLimit state
      then recover RecoveryRetry
      else recover RecoveryFailTerminal)"

section \<open>Choosing the first of a ranking\<close>

locale ranked_choice =
  fixes before :: "'a \<Rightarrow> 'a \<Rightarrow> bool" and key :: "'a \<Rightarrow> 'k::linorder"
  assumes before_key: "before x y \<longleftrightarrow> key x < key y"
begin

lemma choice_mem: "xs \<noteq> [] \<Longrightarrow> hd (sort_key key xs) \<in> set xs"
  by (metis hd_in_set set_empty set_sort)

lemma choice_minimal:
  assumes "y \<in> set xs"
  shows "\<not> before y (hd (sort_key key xs))"
proof -
  have "sorted (map key (sort_key key xs))" by simp
  moreover obtain z zs where zs: "sort_key key xs = z # zs"
    using assms by (metis list.exhaust set_empty set_sort empty_iff)
  moreover have "y \<in> set (z # zs)"
    using assms zs by (metis set_sort)
  ultimately have "key z \<le> key y" by auto
  then show ?thesis
    by (simp add: before_key zs)
qed

lemma choice_unique:
  assumes "x \<in> set xs" "\<And>y. y \<in> set xs \<Longrightarrow> \<not> before y x" "inj_on key (set xs)"
  shows "hd (sort_key key xs) = x"
proof -
  have ne: "xs \<noteq> []" using assms(1) by auto
  have "key (hd (sort_key key xs)) = key x"
    using assms(2) [OF choice_mem [OF ne]] choice_minimal [OF assms(1)] by (auto simp: before_key)
  then show ?thesis
    using assms(1,3) choice_mem [OF ne] by (auto dest: inj_onD)
qed

lemma choice_order_independent:
  assumes "set xs = set ys" "inj_on key (set xs)" "xs \<noteq> []"
  shows "hd (sort_key key xs) = hd (sort_key key ys)"
proof -
  have "ys \<noteq> []" using assms by auto
  then have "hd (sort_key key ys) \<in> set xs"
    using choice_mem assms(1) by auto
  moreover have "\<not> before y (hd (sort_key key ys))" if "y \<in> set xs" for y
    using choice_minimal that assms(1) by auto
  ultimately show ?thesis
    using assms(2) by (rule choice_unique)
qed

end

lemma ranked_before_key: "ranked_before x y \<longleftrightarrow> rank_key x < rank_key y"
  by (auto simp: ranked_before_def rank_key_def Let_def less_prod_def)

interpretation runner_rank: ranked_choice ranked_before rank_key
  by unfold_locales (rule ranked_before_key)

section \<open>Properties\<close>

lemma eligible_iff_success:
  "(\<exists>r. SelectRunner req runners now timeout = Inr r) \<longleftrightarrow> (\<exists>r \<in> set runners. eligible req now timeout r)"
  by (auto simp: SelectRunner_def Let_def filter_empty_conv)

lemma SelectRunner_eq:
  "SelectRunner req runners now timeout = Inr r \<Longrightarrow>
   filter (eligible req now timeout) runners \<noteq> [] \<and>
   r = hd (sort_key rank_key (filter (eligible req now timeout) runners))"
  by (auto simp: SelectRunner_def Let_def split: if_splits)

lemma SelectRunner_mem:
  assumes "SelectRunner req runners now timeout = Inr r"
  shows "r \<in> set (filter (eligible req now timeout) runners)"
  using runner_rank.choice_mem SelectRunner_eq [OF assms] by metis

definition sound_capacity :: "Capacity \<Rightarrow> bool" where
  "sound_capacity c \<longleftrightarrow>
     0 \<le> VCPUCount c \<and> VCPUCount c \<le> maxInt64 \<and> 0 \<le> MemoryBytes c \<and> MemoryBytes c \<le> maxInt64 \<and>
     0 \<le> DiskBytes c \<and> DiskBytes c \<le> maxInt64 \<and> 0 \<le> Instances c \<and> Instances c \<le> maxInt64 \<and>
     0 \<le> Operations c \<and> Operations c \<le> maxInt64"

lemma i64_diff: "0 \<le> a \<Longrightarrow> a \<le> maxInt64 \<Longrightarrow> 0 \<le> b \<Longrightarrow> b \<le> maxInt64 \<Longrightarrow> i64 (a - b) = a - b"
  by (rule i64_id) (simp add: in_i64_bounds)

text \<open>A Runner that fits the witnesses below.\<close>

definition sample_capacity :: Capacity where
  "sample_capacity = \<lparr>VCPUCount = 8, MemoryBytes = 64, DiskBytes = 1000, Instances = 4, Operations = 9\<rparr>"

definition sample_runner :: RunnerSnapshot where
  "sample_runner =
     \<lparr>RunnerID = ''r1'', PoolName = ''p'', BackendKind = ''firecracker'', Architecture = ''amd64'',
      Capabilities = (\<lambda>c. c \<in> set [''compute'', ''network-policy'', ''storage'', ''cleanup'', ''local-workspace'']),
      Allocatable = sample_capacity,
      Reserved = \<lparr>VCPUCount = 2, MemoryBytes = 8, DiskBytes = 100, Instances = 1, Operations = 0\<rparr>,
      DrainPhase = ''active'', LastHeartbeatAt = 95,
      Materializations = [\<lparr>MatBackendKind = ''firecracker'', MatArchitecture = ''amd64'', RuntimeDigest = ''a'',
        ToolchainDigest = ''b'', MatDigest = ''d''\<rparr>],
      SupportedEgressContexts = [''x''], GuestProtocolMinimum = 1, GuestProtocolMaximum = 1\<rparr>"

definition sample_requirements :: Requirements where
  "sample_requirements =
     \<lparr>ReqPoolName = ''p'', ReqArchitecture = ''amd64'', RequiredCapabilities = [],
      ReqCapacity = \<lparr>VCPUCount = 2, MemoryBytes = 16, DiskBytes = 10, Instances = 1, Operations = 1\<rparr>,
      ReqEgressContext = Some ''x''\<rparr>"

text \<open>
  C14: a selected Runner is one of the offered ones, satisfies every hard
  requirement and the egress context, and no eligible Runner ranks before it
  in the code's comparison; selection fails exactly when no Runner is eligible,
  and then says whether only the egress context was missing.
\<close>

theorem SelectRunner_correct:
  "case SelectRunner req runners now timeout of
     Inr r \<Rightarrow> r \<in> set runners \<and> compatible req r now timeout \<and> contextSupported req r \<and>
       (\<forall>r' \<in> set runners. compatible req r' now timeout \<and> contextSupported req r' \<longrightarrow> \<not> ranked_before r' r)
   | Inl e \<Rightarrow> (\<forall>r \<in> set runners. \<not> (compatible req r now timeout \<and> contextSupported req r)) \<and>
       e = Sentinel (if \<exists>r \<in> set runners. compatible req r now timeout
                     then ErrEgressContextUnavailable else ErrNoCompatibleRunner)"
proof (cases "SelectRunner req runners now timeout")
  case (Inl e)
  then show ?thesis
    by (auto simp: SelectRunner_def Let_def filter_empty_conv eligible_def list_ex_iff split: if_splits)
next
  case (Inr r)
  note r = SelectRunner_eq [OF Inr]
  have "r \<in> set (filter (eligible req now timeout) runners)"
    by (rule SelectRunner_mem [OF Inr])
  moreover have "\<not> ranked_before r' r" if "r' \<in> set (filter (eligible req now timeout) runners)" for r'
    using runner_rank.choice_minimal [OF that] r by simp
  ultimately show ?thesis
    by (simp add: Inr eligible_def)
qed

theorem SelectRunner_correct_witness:
  "(\<exists>r. SelectRunner sample_requirements [sample_runner] 100 10 = Inr r \<and> r = sample_runner) \<and>
   (case SelectRunner sample_requirements [sample_runner\<lparr>SupportedEgressContexts := []\<rparr>] 100 10 of
      Inl e \<Rightarrow> e = Sentinel ErrEgressContextUnavailable | Inr _ \<Rightarrow> False)"
proof -
  have "\<exists>r \<in> set [sample_runner]. eligible sample_requirements 100 10 r" by code_simp
  then obtain r where "SelectRunner sample_requirements [sample_runner] 100 10 = Inr r"
    using eligible_iff_success by blast
  moreover have "case SelectRunner sample_requirements [sample_runner\<lparr>SupportedEgressContexts := []\<rparr>] 100 10 of
      Inl e \<Rightarrow> e = Sentinel ErrEgressContextUnavailable | Inr _ \<Rightarrow> False"
    by code_simp
  ultimately show ?thesis
    using SelectRunner_correct [where req = sample_requirements and runners = "[sample_runner]" and now = 100 and timeout = 10] by simp
qed

text \<open>
  C15: the selection depends on the set of Runners only: two listings of the
  same Runners, with distinct identities, select the same Runner.
\<close>

theorem SelectRunner_order_independent:
  assumes "set runners = set runners'" "inj_on RunnerID (set runners)"
  shows "SelectRunner req runners now timeout = SelectRunner req runners' now timeout"
proof -
  have "inj_on rank_key (set runners)"
    using assms(2) by (auto simp: inj_on_def rank_key_def)
  then have "inj_on rank_key (set (filter (eligible req now timeout) runners))"
    by (rule inj_on_subset) auto
  then have "hd (sort_key rank_key (filter (eligible req now timeout) runners)) =
      hd (sort_key rank_key (filter (eligible req now timeout) runners'))"
    if "filter (eligible req now timeout) runners \<noteq> []"
    using that assms(1) by (intro runner_rank.choice_order_independent) auto
  then show ?thesis
    using assms(1) by (auto simp: SelectRunner_def Let_def filter_empty_conv list_ex_iff)
qed

theorem SelectRunner_order_independent_witness:
  "SelectRunner sample_requirements [sample_runner, sample_runner\<lparr>RunnerID := ''r0''\<rparr>] 100 10 =
   SelectRunner sample_requirements [sample_runner\<lparr>RunnerID := ''r0''\<rparr>, sample_runner, sample_runner] 100 10"
  by (rule SelectRunner_order_independent) (auto simp: sample_runner_def)



text \<open>
  Ordinary placement only ever admits the home Runner: a result is the
  first listed Runner with the home identity, and it is compatible; any other
  outcome is the egress-context error or the home-unavailable error.
\<close>

lemma SelectHomeRunner_only_home:
  "case SelectHomeRunner home req runners now timeout of
     Inr r \<Rightarrow> home \<noteq> [] \<and> List.find (\<lambda>x. RunnerID x = home) runners = Some r \<and> RunnerID r = home \<and>
       compatible req r now timeout \<and> contextSupported req r
   | Inl e \<Rightarrow> e = Sentinel ErrEgressContextUnavailable \<or> e = Sentinel ErrSchedHomeRunnerUnavailable"
  by (auto simp: SelectHomeRunner_def SelectRunner_def eligible_def Let_def dest: find_mem
      split: option.splits sum.splits if_splits)



end
