(* ===== verification/Framing.thy ===== *)
theory Framing
  imports Prelude
begin

text \<open>
  The framed wire formats: the direct data-plane handshake and its typed
  messages (\<open>pkg/portdirect/framing.go\<close>, which the Runner module repeats in
  \<open>runner/internal/portdirect/framing.go\<close>) and the private helper protocol
  (\<open>runner/internal/microsandboxprotocol/codec.go\<close>). A byte is a \<open>char\<close>. A
  connection is read in the pieces in which its bytes arrive, and a writer
  answers every call with a count and an error of its choice, so the theorems
  cover every split of the stream and every partial write. The locale
  \<open>framed_channel\<close> is the contract of one framed message; what follows for a
  sequence of messages on one connection is proved there.
\<close>

section \<open>Readers and writers\<close>

type_synonym byte = char
type_synonym reader = "byte list list"

datatype frame_error =
    EOF | ErrUnexpectedEOF | ErrShortWrite | SliceOutOfRange | ErrHandshakeMalformed
  | ErrFrameOversized | ErrFrameMalformed

text \<open>\<open>io.ReadFull\<close>: one call of the reader returns at most the piece that has arrived.\<close>

fun read_pieces :: "nat \<Rightarrow> byte list \<Rightarrow> reader \<Rightarrow> (frame_error, byte list) result \<times> reader" where
  "read_pieces n got [] =
     (if n = 0 then Inr got else if got = [] then Inl (Sentinel EOF) else Inl (Sentinel ErrUnexpectedEOF), [])"
| "read_pieces n got (piece # pieces) =
     (if n = 0 then (Inr got, piece # pieces)
      else if length piece \<le> n then read_pieces (n - length piece) (got @ piece) pieces
      else (Inr (got @ take n piece), drop n piece # pieces))"

definition ReadFull :: "nat \<Rightarrow> (reader, frame_error, byte list) st" where
  "ReadFull n = read_pieces n []"

text \<open>
  The answers are what the calls of \<open>Write\<close> return, in order: a count and
  whether the error is nil. After the last one every call takes all its bytes.
\<close>

record Writer =
  accepted :: "byte list"
  answers :: "(int \<times> bool) list"

definition Write :: "byte list \<Rightarrow> Writer \<Rightarrow> int \<times> frame_error go_error option \<times> Writer" where
  "Write p w =
     (case answers w of
        [] \<Rightarrow> (int (length p), None, w\<lparr>accepted := accepted w @ p\<rparr>)
      | (n, ok) # rest \<Rightarrow>
          (n, if ok then None else Some Opaque, w\<lparr>accepted := accepted w @ take (nat n) p, answers := rest\<rparr>))"

text \<open>
  \<open>writeAll\<close> of the handshake: a count outside the payload makes Go's
  reslicing panic, which is the outcome \<open>SliceOutOfRange\<close>.
\<close>

function writeAll :: "byte list \<Rightarrow> (Writer, frame_error, unit) st" where
  "writeAll payload w =
     (if payload = [] then (Inr (), w)
      else case Write payload w of (written, err, w') \<Rightarrow>
        (case err of
           Some e \<Rightarrow> (Inl e, w')
         | None \<Rightarrow>
             if written = 0 then (Inl (Sentinel ErrShortWrite), w')
             else if written < 0 \<or> int (length payload) < written then (Inl (Sentinel SliceOutOfRange), w')
             else writeAll (drop (nat written) payload) w'))"
  by pat_completeness auto
termination
  by (relation "measure (\<lambda>(payload, w). length payload)") auto

function writeFull :: "byte list \<Rightarrow> (Writer, frame_error, unit) st" where
  "writeFull value w =
     (if value = [] then (Inr (), w)
      else case Write value w of (written, err, w') \<Rightarrow>
        (case err of
           Some e \<Rightarrow> (Inl e, w')
         | None \<Rightarrow>
             if written \<le> 0 \<or> int (length value) < written then (Inl (Sentinel ErrShortWrite), w')
             else writeFull (drop (nat written) value) w'))"
  by pat_completeness auto
termination
  by (relation "measure (\<lambda>(value, w). length value)") auto

declare writeAll.simps [simp del] writeFull.simps [simp del]

section \<open>Big-endian lengths\<close>

definition PutUint32 :: "nat \<Rightarrow> byte list" where
  "PutUint32 n = [char_of (n div 16777216), char_of (n div 65536), char_of (n div 256), char_of n]"

definition Uint32 :: "byte list \<Rightarrow> nat" where
  "Uint32 b = of_char (b ! 0) * 16777216 + of_char (b ! 1) * 65536 + of_char (b ! 2) * 256 + of_char (b ! 3)"

definition AppendUint16 :: "byte list \<Rightarrow> nat \<Rightarrow> byte list" where
  "AppendUint16 b n = b @ [char_of (n div 256), char_of n]"

definition Uint16 :: "byte list \<Rightarrow> nat" where
  "Uint16 b = of_char (b ! 0) * 256 + of_char (b ! 1)"

section \<open>Direct data-plane messages\<close>

definition Magic :: "byte list" where "Magic = ''SBXDP1''"

abbreviation MaximumCredentialBytes :: nat where "MaximumCredentialBytes \<equiv> 2048"
abbreviation MaximumDetailBytes :: nat where "MaximumDetailBytes \<equiv> 128"
abbreviation MaximumTypedMessageBytes :: nat where "MaximumTypedMessageBytes \<equiv> 2097152"

definition WriteTypedMessage :: "byte list \<Rightarrow> (Writer, frame_error, unit) st" where
  "WriteTypedMessage payload =
     (if payload = [] \<or> length payload > MaximumTypedMessageBytes then st_fail Opaque
      else st_bind (writeAll (PutUint32 (length payload))) (\<lambda>_. writeAll payload))"

definition ReadTypedMessage :: "(reader, frame_error, byte list) st" where
  "ReadTypedMessage =
     st_bind (ReadFull 4) (\<lambda>header.
       let len = Uint32 header in
       if len = 0 \<or> len > MaximumTypedMessageBytes then st_fail Opaque
       else ReadFull len)"

type_synonym SessionKind = byte

abbreviation SessionKindPort :: SessionKind where "SessionKindPort \<equiv> CHR 0x00"
abbreviation SessionKindExec :: SessionKind where "SessionKindExec \<equiv> CHR 0x01"
abbreviation SessionKindPTY :: SessionKind where "SessionKindPTY \<equiv> CHR 0x02"
abbreviation SessionKindFile :: SessionKind where "SessionKindFile \<equiv> CHR 0x03"

definition SessionKind_String :: "SessionKind \<Rightarrow> string" where
  "SessionKind_String kind =
     (if kind = SessionKindPort then ''port'' else if kind = SessionKindExec then ''exec''
      else if kind = SessionKindPTY then ''pty'' else if kind = SessionKindFile then ''file''
      else ''unknown'')"

definition validSessionKind :: "SessionKind \<Rightarrow> bool" where
  "validSessionKind kind \<longleftrightarrow>
     of_char SessionKindPort \<le> (of_char kind :: nat) \<and> (of_char kind :: nat) \<le> of_char SessionKindFile"

record Credential =
  CredentialKind :: SessionKind
  Value :: "byte list"

type_synonym Verdict = byte

abbreviation VerdictAdmitted :: Verdict where "VerdictAdmitted \<equiv> CHR 0x00"
abbreviation VerdictDenied :: Verdict where "VerdictDenied \<equiv> CHR 0x01"
abbreviation VerdictSessionKindUnsupported :: Verdict where "VerdictSessionKindUnsupported \<equiv> CHR 0x02"

text \<open>One \<open>Write\<close> call whose count is ignored, as the handshake frames are sent.\<close>

definition write_frame :: "byte list \<Rightarrow> (Writer, frame_error, unit) st" where
  "write_frame frame w =
     (case Write frame w of (_, Some e, w') \<Rightarrow> (Inl (Wrapped e), w') | (_, None, w') \<Rightarrow> (Inr (), w'))"

definition WriteCredential :: "SessionKind \<Rightarrow> byte list \<Rightarrow> (Writer, frame_error, unit) st" where
  "WriteCredential kind credential =
     (if \<not> validSessionKind kind then st_fail Opaque
      else if credential = [] \<or> length credential > MaximumCredentialBytes then st_fail Opaque
      else write_frame (AppendUint16 (Magic @ [kind]) (length credential) @ credential))"

definition read_or_malformed :: "nat \<Rightarrow> (reader, frame_error, byte list) st" where
  "read_or_malformed n =
     st_catch (ReadFull n) (\<lambda>r.
       case r of Inl _ \<Rightarrow> st_fail (Wrapped (Sentinel ErrHandshakeMalformed)) | Inr b \<Rightarrow> st_return b)"

definition ReadCredential :: "(reader, frame_error, Credential) st" where
  "ReadCredential =
     st_bind (read_or_malformed (length Magic + 3)) (\<lambda>header.
       if take (length Magic) header \<noteq> Magic then st_fail (Sentinel ErrHandshakeMalformed)
       else
         let kind = header ! length Magic in
         if \<not> validSessionKind kind then st_fail (Sentinel ErrHandshakeMalformed)
         else
           let len = Uint16 (drop (length Magic + 1) header) in
           if len = 0 \<or> len > MaximumCredentialBytes then st_fail (Sentinel ErrHandshakeMalformed)
           else st_bind (read_or_malformed len) (\<lambda>credential.
             st_return \<lparr>CredentialKind = kind, Value = credential\<rparr>))"

definition validVerdict :: "Verdict \<Rightarrow> bool" where
  "validVerdict verdict \<longleftrightarrow>
     \<not> (verdict \<noteq> VerdictAdmitted \<and> verdict \<noteq> VerdictDenied \<and> verdict \<noteq> VerdictSessionKindUnsupported)"

definition WriteVerdict :: "Verdict \<Rightarrow> byte list \<Rightarrow> (Writer, frame_error, unit) st" where
  "WriteVerdict verdict detail =
     (if \<not> validVerdict verdict then st_fail Opaque
      else
        let detail = (if length detail > MaximumDetailBytes then take MaximumDetailBytes detail else detail) in
        write_frame (AppendUint16 (Magic @ [verdict]) (length detail) @ detail))"

definition ReadVerdict :: "(reader, frame_error, Verdict \<times> byte list) st" where
  "ReadVerdict =
     st_bind (read_or_malformed (length Magic + 3)) (\<lambda>header.
       if take (length Magic) header \<noteq> Magic then st_fail (Sentinel ErrHandshakeMalformed)
       else
         let verdict = header ! length Magic in
         if \<not> validVerdict verdict then st_fail (Sentinel ErrHandshakeMalformed)
         else
           let len = Uint16 (drop (length Magic + 1) header) in
           if len > MaximumDetailBytes then st_fail (Sentinel ErrHandshakeMalformed)
           else st_bind (read_or_malformed len) (\<lambda>detail. st_return (verdict, detail)))"

section \<open>Helper protocol\<close>

text \<open>
  Protobuf marshalling is a third-party package: \<open>marshal\<close> and \<open>unmarshal\<close> are
  parameters, and \<open>hasMessage\<close> says that the envelope's oneof is set.
\<close>

abbreviation MaxFrameBytes :: nat where "MaxFrameBytes \<equiv> 1048576"

definition ReadFrame ::
  "(byte list \<Rightarrow> 'env option) \<Rightarrow> ('env \<Rightarrow> bool) \<Rightarrow> (reader, frame_error, 'env) st" where
  "ReadFrame unmarshal hasMessage =
     st_catch (ReadFull 4) (\<lambda>r. case r of
       Inl e \<Rightarrow> st_fail (Wrapped e)
     | Inr header \<Rightarrow>
         let len = Uint32 header in
         if len = 0 then st_fail (Sentinel ErrFrameMalformed)
         else if len > MaxFrameBytes then st_fail (Sentinel ErrFrameOversized)
         else st_catch (ReadFull len) (\<lambda>r. case r of
           Inl e \<Rightarrow> st_fail (Wrapped e)
         | Inr payload \<Rightarrow>
             (case unmarshal payload of
                None \<Rightarrow> st_fail (Wrapped (Sentinel ErrFrameMalformed))
              | Some envelope \<Rightarrow>
                  if hasMessage envelope then st_return envelope
                  else st_fail (Wrapped (Sentinel ErrFrameMalformed)))))"

definition WriteFrame ::
  "('env \<Rightarrow> byte list option) \<Rightarrow> ('env \<Rightarrow> bool) \<Rightarrow> 'env option \<Rightarrow> (Writer, frame_error, unit) st" where
  "WriteFrame marshal hasMessage envelope =
     (case envelope of
        None \<Rightarrow> st_fail (Sentinel ErrFrameMalformed)
      | Some env \<Rightarrow>
          if \<not> hasMessage env then st_fail (Sentinel ErrFrameMalformed)
          else
            (case marshal env of
               None \<Rightarrow> st_fail (Wrapped Opaque)
             | Some payload \<Rightarrow>
                 if payload = [] \<or> length payload > MaxFrameBytes then st_fail (Sentinel ErrFrameOversized)
                 else st_bind (wrapping (writeFull (PutUint32 (length payload)))) (\<lambda>_.
                   wrapping (writeFull payload))))"

section \<open>What readers and writers do\<close>

lemma read_pieces_ok:
  "n \<le> length (concat ps) \<Longrightarrow>
   \<exists>ps'. read_pieces n got ps = (Inr (got @ take n (concat ps)), ps') \<and> concat ps' = drop n (concat ps)"
  by (induction n got ps rule: read_pieces.induct) auto

lemma read_pieces_short:
  "length (concat ps) < n \<Longrightarrow>
   read_pieces n got ps = (Inl (Sentinel (if got @ concat ps = [] then EOF else ErrUnexpectedEOF)), [])"
  by (induction n got ps rule: read_pieces.induct) auto

lemma wp_ReadFull [wp_simps]:
  assumes "n \<le> length (concat ps) \<Longrightarrow> (\<And>ps'. concat ps' = drop n (concat ps) \<Longrightarrow> Q (take n (concat ps)) ps')"
    and "length (concat ps) < n \<Longrightarrow> E (Sentinel (if concat ps = [] then EOF else ErrUnexpectedEOF)) []"
  shows "wp (ReadFull n) Q E ps"
proof (cases "n \<le> length (concat ps)")
  case True
  then obtain ps' where "ReadFull n ps = (Inr (take n (concat ps)), ps')" "concat ps' = drop n (concat ps)"
    using read_pieces_ok [of n ps "[]"] by (auto simp: ReadFull_def)
  then show ?thesis
    using assms(1) [OF True] by (simp add: wp_def)
next
  case False
  then show ?thesis
    using assms(2) read_pieces_short [of ps n "[]"] by (simp add: wp_def ReadFull_def)
qed

lemma of_char_lt [simp]: "of_char c < (256 :: nat)"
  by (rule nat_of_char_less_256)

lemma div_256: "n div 65536 = n div 256 div (256 :: nat)" "n div 16777216 = n div 256 div 256 div (256 :: nat)"
  by (simp_all add: div_mult2_eq [symmetric])

lemma char_step: "char_of (c * 256 + of_char d :: nat) = d" "(c * 256 + of_char d) div 256 = (c :: nat)"
proof -
  have "of_char (char_of (c * 256 + of_char d :: nat)) = (of_char d :: nat)"
    by (simp add: of_char_of)
  then show "char_of (c * 256 + of_char d :: nat) = d"
    by (simp only: of_char_eq_iff)
qed simp

lemma Uint32_nested:
  "Uint32 b = ((of_char (b ! 0) * 256 + of_char (b ! 1)) * 256 + of_char (b ! 2)) * 256 + of_char (b ! 3)"
  by (simp add: Uint32_def)

lemma Uint32_Put: "n < 4294967296 \<Longrightarrow> Uint32 (PutUint32 n) = n"
proof -
  assume "n < 4294967296"
  then have "n div 256 div 256 div 256 mod 256 = n div 256 div 256 div 256"
    by (intro mod_less) (simp add: div_256 [symmetric] less_mult_imp_div_less)
  then show ?thesis
    using div_mult_mod_eq [of "n div 256 div 256" 256] div_mult_mod_eq [of "n div 256" 256] div_mult_mod_eq [of n 256]
    unfolding Uint32_nested PutUint32_def by (simp only: nth_Cons_0 nth_Cons_numeral nth_Cons_Suc of_char_of div_256) simp
qed

lemma Put_Uint32: "length b = 4 \<Longrightarrow> PutUint32 (Uint32 b) = b"
proof -
  assume "length b = 4"
  then obtain w x y z where b: "b = [w, x, y, z]"
    by (auto simp: numeral_eq_Suc length_Suc_conv)
  have "Uint32 b = ((of_char w * 256 + of_char x) * 256 + of_char y) * 256 + of_char z"
    by (simp add: b Uint32_def)
  then show ?thesis
    unfolding b PutUint32_def div_256 by (simp only: char_step char_of_char)
qed

lemma Uint16_Append: "n < 65536 \<Longrightarrow> Uint16 (drop (length b) (AppendUint16 b n)) = n"
  using div_mult_mod_eq [of n 256] by (simp add: Uint16_def AppendUint16_def of_char_of)

lemma Append_Uint16: "length b = 2 \<Longrightarrow> AppendUint16 a (Uint16 b) = a @ b"
proof -
  assume "length b = 2"
  then obtain x y where b: "b = [x, y]"
    by (auto simp: numeral_eq_Suc length_Suc_conv)
  then show ?thesis
    by (simp add: Uint16_def AppendUint16_def char_step)
qed

lemma length_Put [simp]: "length (PutUint32 n) = 4"
  by (simp add: PutUint32_def)

lemma writeAll_outcome:
  "writeAll payload w = (r, w') \<Longrightarrow>
   (case r of Inr _ \<Rightarrow> accepted w' = accepted w @ payload
    | Inl _ \<Rightarrow> \<exists>k. accepted w' = accepted w @ take k payload)"
proof (induction payload w arbitrary: r w' rule: writeAll.induct)
  case (1 payload w)
  show ?case
  proof (cases "payload = []")
    case True
    then show ?thesis using 1(2) by (auto simp: writeAll.simps)
  next
    case False
    obtain n err w1 where W: "Write payload w = (n, err, w1)" by (metis prod_cases3)
    have a: "accepted w1 = accepted w @ take (nat n) payload"
      using W by (auto simp: Write_def split: list.splits prod.splits)
    then have some: "\<exists>k. accepted w1 = accepted w @ take k payload" by blast
    show ?thesis
    proof (cases "err = None \<and> 0 < n \<and> n \<le> int (length payload)")
      case True
      then have "writeAll (drop (nat n) payload) w1 = (r, w')"
        using 1(2) False W by (auto simp: writeAll.simps [of payload w])
      then have IH: "case r of Inl _ \<Rightarrow> \<exists>k. accepted w' = accepted w1 @ take k (drop (nat n) payload)
          | Inr _ \<Rightarrow> accepted w' = accepted w1 @ drop (nat n) payload"
        using True W by (intro 1(1) [OF False W [symmetric] refl]) auto
      show ?thesis
      proof (cases r)
        case (Inl e)
        then obtain k where "accepted w' = accepted w1 @ take k (drop (nat n) payload)"
          using IH by auto
        then have "accepted w' = accepted w @ take (nat n + k) payload"
          by (simp add: a take_add)
        then show ?thesis using Inl by auto
      qed (use IH a in auto)
    next
      case False
      then have "w' = w1" "\<exists>e. r = Inl e"
        using 1(2) \<open>payload \<noteq> []\<close> W by (auto simp: writeAll.simps [of payload w] split: option.splits if_splits)
      then show ?thesis
        using some by auto
    qed
  qed
qed

lemma writeFull_writeAll:
  "writeFull p w =
     (case writeAll p w of (r, w') \<Rightarrow>
        (if r = Inl (Sentinel SliceOutOfRange) then Inl (Sentinel ErrShortWrite) else r, w'))"
proof (induction p w rule: writeFull.induct)
  case (1 p w)
  show ?case
  proof (cases "p = []")
    case True
    then show ?thesis by (simp add: writeFull.simps writeAll.simps)
  next
    case False
    obtain n err w1 where W: "Write p w = (n, err, w1)" by (metis prod_cases3)
    have err: "err = None \<or> err = Some Opaque"
      using W by (auto simp: Write_def split: list.splits prod.splits if_splits)
    have IH: "err = None \<Longrightarrow> \<not> (n \<le> 0 \<or> int (length p) < n) \<Longrightarrow> writeFull (drop (nat n) p) w1 =
        (case writeAll (drop (nat n) p) w1 of (r, w') \<Rightarrow>
           (if r = Inl (Sentinel SliceOutOfRange) then Inl (Sentinel ErrShortWrite) else r, w'))"
      by (rule 1 [OF False W [symmetric] refl])
    show ?thesis
    proof (cases "err = None \<and> \<not> (n \<le> 0 \<or> int (length p) < n)")
      case True
      then have "writeFull p w = writeFull (drop (nat n) p) w1" "writeAll p w = writeAll (drop (nat n) p) w1"
        using False W by (simp_all add: writeFull.simps [of p w] writeAll.simps [of p w])
      then show ?thesis using IH True by simp
    next
      case c: False
      show ?thesis
        using c False W err by (auto simp: writeFull.simps [of p w] writeAll.simps [of p w])
    qed
  qed
qed

lemma writeAll_success: "writeAll p w = (Inr u, w') \<Longrightarrow> accepted w' = accepted w @ p"
  using writeAll_outcome [of p w "Inr u" w'] by simp

lemma writeFull_success: "writeFull p w = (Inr u, w') \<Longrightarrow> accepted w' = accepted w @ p"
  by (cases "writeAll p w") (simp add: writeFull_writeAll writeAll_success split: if_splits)

section \<open>Framed messages on one connection\<close>

primrec receive :: "(reader, frame_error, 'm) st \<Rightarrow> nat \<Rightarrow> (reader, frame_error, 'm list) st" where
  "receive rd 0 = st_return []"
| "receive rd (Suc n) = st_bind rd (\<lambda>m. st_bind (receive rd n) (\<lambda>ms. st_return (m # ms)))"

primrec send :: "('m \<Rightarrow> (Writer, frame_error, unit) st) \<Rightarrow> 'm list \<Rightarrow> (Writer, frame_error, unit) st" where
  "send wr [] = st_return ()"
| "send wr (m # ms) = st_bind (wr m) (\<lambda>_. send wr ms)"

text \<open>
  The reading side of a framed message: a reader whose pending bytes start with
  the frame of a valid message returns that message and leaves the rest, and it
  only ever returns a valid message whose frame it has consumed. The writing
  side adds that a successful write appends the frame of a valid message.
\<close>

locale frame_reader =
  fixes rd :: "(reader, frame_error, 'm) st"
    and frame :: "'m \<Rightarrow> byte list"
    and valid :: "'m \<Rightarrow> bool"
  assumes read_frame: "valid m \<Longrightarrow> concat ps = frame m @ rest \<Longrightarrow> \<exists>ps'. rd ps = (Inr m, ps') \<and> concat ps' = rest"
    and read_consumed: "rd ps = (Inr m, ps') \<Longrightarrow> valid m \<and> concat ps = frame m @ concat ps'"
    and frame_nonempty: "frame m \<noteq> []"
begin

lemma receive_frames:
  "list_all valid ms \<Longrightarrow> concat ps = concat (map frame ms) @ rest \<Longrightarrow>
   \<exists>ps'. receive rd (length ms) ps = (Inr ms, ps') \<and> concat ps' = rest"
proof (induction ms arbitrary: ps)
  case (Cons m ms)
  obtain ps1 where ps1: "rd ps = (Inr m, ps1)" "concat ps1 = concat (map frame ms) @ rest"
    using read_frame [of m ps "concat (map frame ms) @ rest"] Cons(2,3) by (simp, blast)
  obtain ps2 where "receive rd (length ms) ps1 = (Inr ms, ps2)" "concat ps2 = rest"
    using Cons(1) [OF _ ps1(2)] Cons(2) by (simp, blast)
  then show ?case
    using ps1 by (simp add: st_bind_def st_return_def)
qed (simp add: st_return_def)

lemma frame_unique:
  assumes "valid m" "valid m'" "frame m @ r = frame m' @ r'"
  shows "m = m' \<and> r = r'"
proof -
  obtain ps1 where "rd [frame m @ r] = (Inr m, ps1)" "concat ps1 = r"
    using read_frame [OF assms(1), of "[frame m @ r]" r] by auto
  moreover obtain ps2 where "rd [frame m @ r] = (Inr m', ps2)" "concat ps2 = r'"
    using read_frame [OF assms(2), of "[frame m @ r]" r'] assms(3) by auto
  ultimately show ?thesis by simp
qed

lemma frames_unique:
  "list_all valid ms \<Longrightarrow> list_all valid ms' \<Longrightarrow>
   concat (map frame ms) = concat (map frame ms') \<Longrightarrow> ms = ms'"
proof (induction ms arbitrary: ms')
  case Nil
  then show ?case by (cases ms') (simp_all add: frame_nonempty)
next
  case (Cons m ms)
  show ?case
  proof (cases ms')
    case Nil
    then show ?thesis using Cons(4) by (simp add: frame_nonempty)
  next
    case ms': (Cons m' ms'')
    have "m = m' \<and> concat (map frame ms) = concat (map frame ms'')"
      by (rule frame_unique) (use Cons(2-4) ms' in simp_all)
    then show ?thesis
      using Cons(1) [of ms''] Cons(2,3) ms' by simp
  qed
qed

end

locale framed_channel = frame_reader rd frame valid
  for rd :: "(reader, frame_error, 'm) st" and frame :: "'m \<Rightarrow> byte list" and valid :: "'m \<Rightarrow> bool" +
  fixes wr :: "'m \<Rightarrow> (Writer, frame_error, unit) st"
  assumes write_frame: "wr m w = (Inr u, w') \<Longrightarrow> valid m \<and> accepted w' = accepted w @ frame m"
begin

lemma send_frames:
  "send wr ms w = (Inr u, w') \<Longrightarrow> list_all valid ms \<and> accepted w' = accepted w @ concat (map frame ms)"
proof (induction ms arbitrary: w)
  case (Cons m ms)
  then obtain u1 w1 where 1: "wr m w = (Inr u1, w1)" "send wr ms w1 = (Inr u, w')"
    by (auto simp: st_bind_def split: prod.splits sum.splits)
  then show ?case
    using write_frame [OF 1(1)] Cons(1) [OF 1(2)] by simp
qed (simp add: st_return_def)

lemma channel_round_trip:
  assumes "send wr ms w = (Inr u, w')" "concat ps = drop (length (accepted w)) (accepted w') @ rest"
  shows "\<exists>ps'. receive rd (length ms) ps = (Inr ms, ps') \<and> concat ps' = rest"
  using send_frames [OF assms(1)] assms(2) receive_frames [of ms ps rest] by simp

end

section \<open>The message formats are framed channels\<close>

definition typed_frame :: "byte list \<Rightarrow> byte list" where
  "typed_frame payload = PutUint32 (length payload) @ payload"

definition typed_valid :: "byte list \<Rightarrow> bool" where
  "typed_valid payload \<longleftrightarrow> payload \<noteq> [] \<and> length payload \<le> MaximumTypedMessageBytes"

lemma ReadFull_run:
  assumes "n \<le> length (concat ps)"
  obtains ps' where "ReadFull n ps = (Inr (take n (concat ps)), ps')" "concat ps' = drop n (concat ps)"
  using read_pieces_ok [OF assms, of "[]"] by (auto simp: ReadFull_def)

lemma ReadFull_Inr:
  assumes "ReadFull n ps = (Inr b, ps')"
  shows "length b = n \<and> concat ps = b @ concat ps'"
proof (cases "n \<le> length (concat ps)")
  case True
  obtain ps1 where "ReadFull n ps = (Inr (take n (concat ps)), ps1)" "concat ps1 = drop n (concat ps)"
    by (rule ReadFull_run [OF True])
  then show ?thesis using True assms by auto
next
  case False
  then show ?thesis
    using assms read_pieces_short [of ps n "[]"] by (simp add: ReadFull_def)
qed

lemma ReadTypedMessage_frame:
  assumes "typed_valid m" "concat ps = typed_frame m @ rest"
  shows "\<exists>ps'. ReadTypedMessage ps = (Inr m, ps') \<and> concat ps' = rest"
proof -
  obtain ps1 where 1: "ReadFull 4 ps = (Inr (PutUint32 (length m)), ps1)" "concat ps1 = m @ rest"
    by (rule ReadFull_run [of 4 ps]) (use assms(2) in \<open>simp_all add: typed_frame_def\<close>)
  obtain ps2 where 2: "ReadFull (length m) ps1 = (Inr m, ps2)" "concat ps2 = rest"
    by (rule ReadFull_run [of "length m" ps1]) (use 1(2) in simp_all)
  have "Uint32 (PutUint32 (length m)) = length m"
    using assms(1) by (intro Uint32_Put) (simp add: typed_valid_def)
  then show ?thesis
    using 1 2 assms(1) by (simp add: ReadTypedMessage_def st_bind_def typed_valid_def Let_def)
qed

lemma ReadTypedMessage_consumed:
  assumes "ReadTypedMessage ps = (Inr m, ps')"
  shows "typed_valid m \<and> concat ps = typed_frame m @ concat ps'"
proof -
  obtain h ps1 where 1: "ReadFull 4 ps = (Inr h, ps1)" "ReadFull (Uint32 h) ps1 = (Inr m, ps')"
    "0 < Uint32 h" "Uint32 h \<le> MaximumTypedMessageBytes"
    using assms by (auto simp: ReadTypedMessage_def st_bind_def st_fail_def Let_def split: prod.splits sum.splits if_splits)
  then show ?thesis
    using ReadFull_Inr [OF 1(1)] ReadFull_Inr [OF 1(2)] Put_Uint32 [of h]
    by (auto simp: typed_valid_def typed_frame_def)
qed

lemma WriteTypedMessage_frame:
  assumes "WriteTypedMessage m w = (Inr u, w')"
  shows "typed_valid m \<and> accepted w' = accepted w @ typed_frame m"
proof -
  have v: "typed_valid m"
    using assms by (auto simp: WriteTypedMessage_def typed_valid_def st_fail_def split: if_splits)
  then obtain u1 w1 where 1: "writeAll (PutUint32 (length m)) w = (Inr u1, w1)" "writeAll m w1 = (Inr u, w')"
    using assms
    by (auto simp: WriteTypedMessage_def typed_valid_def st_bind_def split: prod.splits sum.splits if_splits)
  show ?thesis
    using v writeAll_success [OF 1(1)] writeAll_success [OF 1(2)] by (simp add: typed_frame_def)
qed

interpretation typed: framed_channel ReadTypedMessage typed_frame typed_valid WriteTypedMessage
proof unfold_locales
  show "typed_frame m \<noteq> []" for m
    by (simp add: typed_frame_def PutUint32_def)
qed (use ReadTypedMessage_frame ReadTypedMessage_consumed WriteTypedMessage_frame in blast)+

text \<open>Both handshake frames are the magic, one byte, a 16-bit length and a body.\<close>

definition handshake_frame :: "byte \<Rightarrow> byte list \<Rightarrow> byte list" where
  "handshake_frame tag body = AppendUint16 (Magic @ [tag]) (length body) @ body"

lemma length_Magic [simp]: "length Magic = 6"
  by (simp add: Magic_def)

lemma header_parts:
  assumes "h = AppendUint16 (Magic @ [tag]) n" "n < 65536"
  shows "length h = 9" "take 6 h = Magic" "h ! 6 = tag" "Uint16 (drop 7 h) = n"
  using Uint16_Append [OF assms(2), of "Magic @ [tag]"] by (simp_all add: assms(1) AppendUint16_def nth_append)

lemma header_of_parts:
  assumes "length h = 9" "take 6 h = Magic"
  shows "h = AppendUint16 (Magic @ [h ! 6]) (Uint16 (drop 7 h))"
proof -
  have "h = take 6 h @ [h ! 6] @ drop 7 h"
    using id_take_nth_drop [of 6 h] assms(1) by simp
  then show ?thesis
    using assms by (simp add: Append_Uint16)
qed

lemma read_or_malformed_eq:
  "read_or_malformed n ps =
     (case ReadFull n ps of
        (Inl _, ps') \<Rightarrow> (Inl (Wrapped (Sentinel ErrHandshakeMalformed)), ps')
      | (Inr b, ps') \<Rightarrow> (Inr b, ps'))"
  by (simp add: read_or_malformed_def st_catch_def st_fail_def st_return_def split: prod.splits sum.splits)

lemma handshake_pieces:
  assumes "concat ps = handshake_frame tag body @ rest" "length body < 65536"
  obtains h ps1 ps2 where
    "read_or_malformed 9 ps = (Inr h, ps1)" "take 6 h = Magic" "h ! 6 = tag" "Uint16 (drop 7 h) = length body"
    "read_or_malformed (length body) ps1 = (Inr body, ps2)" "concat ps2 = rest"
proof -
  define h where "h = AppendUint16 (Magic @ [tag]) (length body)"
  note parts = header_parts [OF h_def assms(2)]
  have ps: "concat ps = h @ body @ rest"
    using assms(1) by (simp add: handshake_frame_def h_def)
  obtain ps1 where 1: "ReadFull 9 ps = (Inr h, ps1)" "concat ps1 = body @ rest"
    by (rule ReadFull_run [of 9 ps]) (use ps parts(1) in simp_all)
  obtain ps2 where 2: "ReadFull (length body) ps1 = (Inr body, ps2)" "concat ps2 = rest"
    by (rule ReadFull_run [of "length body" ps1]) (use 1(2) in simp_all)
  show ?thesis
    by (rule that [of h ps1 ps2]) (use 1 2 parts in \<open>simp_all add: read_or_malformed_eq\<close>)
qed

lemma handshake_consumed:
  assumes "read_or_malformed 9 ps = (Inr h, ps1)" "take 6 h = Magic"
    and "read_or_malformed (Uint16 (drop 7 h)) ps1 = (Inr body, ps2)"
  shows "length body = Uint16 (drop 7 h) \<and> concat ps = handshake_frame (h ! 6) body @ concat ps2"
proof -
  have 1: "ReadFull 9 ps = (Inr h, ps1)" and 2: "ReadFull (Uint16 (drop 7 h)) ps1 = (Inr body, ps2)"
    using assms(1,3) by (auto simp: read_or_malformed_eq split: prod.splits sum.splits)
  have "handshake_frame (h ! 6) body = h @ body"
    using ReadFull_Inr [OF 2] header_of_parts [OF conjunct1 [OF ReadFull_Inr [OF 1]] assms(2)]
    by (simp add: handshake_frame_def)
  then show ?thesis
    using ReadFull_Inr [OF 1] ReadFull_Inr [OF 2] by simp
qed

definition credential_frame :: "Credential \<Rightarrow> byte list" where
  "credential_frame c = handshake_frame (CredentialKind c) (Value c)"

definition credential_valid :: "Credential \<Rightarrow> bool" where
  "credential_valid c \<longleftrightarrow> validSessionKind (CredentialKind c) \<and> Value c \<noteq> [] \<and> length (Value c) \<le> MaximumCredentialBytes"

lemma ReadCredential_frame:
  assumes "credential_valid c" "concat ps = credential_frame c @ rest"
  shows "\<exists>ps'. ReadCredential ps = (Inr c, ps') \<and> concat ps' = rest"
proof -
  obtain h ps1 ps2 where
    "read_or_malformed 9 ps = (Inr h, ps1)" "take 6 h = Magic" "h ! 6 = CredentialKind c"
    "Uint16 (drop 7 h) = length (Value c)"
    "read_or_malformed (length (Value c)) ps1 = (Inr (Value c), ps2)" "concat ps2 = rest"
    by (rule handshake_pieces [of ps "CredentialKind c" "Value c" rest])
      (use assms in \<open>simp_all add: credential_frame_def credential_valid_def\<close>)
  then show ?thesis
    using assms(1) by (simp add: ReadCredential_def st_bind_def st_return_def Let_def credential_valid_def)
qed

lemma ReadCredential_consumed:
  assumes "ReadCredential ps = (Inr c, ps')"
  shows "credential_valid c \<and> concat ps = credential_frame c @ concat ps'"
proof -
  obtain h ps1 v where 1: "read_or_malformed 9 ps = (Inr h, ps1)" "take 6 h = Magic" "validSessionKind (h ! 6)"
    "0 < Uint16 (drop 7 h)" "Uint16 (drop 7 h) \<le> MaximumCredentialBytes"
    "read_or_malformed (Uint16 (drop 7 h)) ps1 = (Inr v, ps')" "c = \<lparr>CredentialKind = h ! 6, Value = v\<rparr>"
    using assms by (auto simp: ReadCredential_def st_bind_def st_fail_def st_return_def Let_def
        split: prod.splits sum.splits if_splits)
  show ?thesis
    using handshake_consumed [OF 1(1,2,6)] 1 by (auto simp: credential_valid_def credential_frame_def)
qed

interpretation credential: frame_reader ReadCredential credential_frame credential_valid
proof unfold_locales
  show "credential_frame m \<noteq> []" for m
    by (simp add: credential_frame_def handshake_frame_def AppendUint16_def)
qed (use ReadCredential_frame ReadCredential_consumed in blast)+

definition verdict_frame :: "Verdict \<times> byte list \<Rightarrow> byte list" where
  "verdict_frame = (\<lambda>(verdict, detail). handshake_frame verdict detail)"

definition verdict_valid :: "Verdict \<times> byte list \<Rightarrow> bool" where
  "verdict_valid = (\<lambda>(verdict, detail). validVerdict verdict \<and> length detail \<le> MaximumDetailBytes)"

lemma ReadVerdict_frame:
  assumes "verdict_valid m" "concat ps = verdict_frame m @ rest"
  shows "\<exists>ps'. ReadVerdict ps = (Inr m, ps') \<and> concat ps' = rest"
proof -
  obtain v d where m: "m = (v, d)" by (cases m)
  obtain h ps1 ps2 where
    "read_or_malformed 9 ps = (Inr h, ps1)" "take 6 h = Magic" "h ! 6 = v" "Uint16 (drop 7 h) = length d"
    "read_or_malformed (length d) ps1 = (Inr d, ps2)" "concat ps2 = rest"
    by (rule handshake_pieces [of ps v d rest]) (use assms m in \<open>simp_all add: verdict_frame_def verdict_valid_def\<close>)
  then show ?thesis
    using assms(1) by (simp add: m ReadVerdict_def st_bind_def st_return_def Let_def verdict_valid_def)
qed

lemma ReadVerdict_consumed:
  assumes "ReadVerdict ps = (Inr m, ps')"
  shows "verdict_valid m \<and> concat ps = verdict_frame m @ concat ps'"
proof -
  obtain h ps1 d where 1: "read_or_malformed 9 ps = (Inr h, ps1)" "take 6 h = Magic" "validVerdict (h ! 6)"
    "Uint16 (drop 7 h) \<le> MaximumDetailBytes"
    "read_or_malformed (Uint16 (drop 7 h)) ps1 = (Inr d, ps')" "m = (h ! 6, d)"
    using assms by (auto simp: ReadVerdict_def st_bind_def st_fail_def st_return_def Let_def
        split: prod.splits sum.splits if_splits)
  show ?thesis
    using handshake_consumed [OF 1(1,2,5)] 1 by (simp add: verdict_valid_def verdict_frame_def)
qed

interpretation verdict: frame_reader ReadVerdict verdict_frame verdict_valid
proof unfold_locales
  show "verdict_frame m \<noteq> []" for m
    by (cases m) (simp add: verdict_frame_def handshake_frame_def AppendUint16_def)
qed (use ReadVerdict_frame ReadVerdict_consumed in blast)+

section \<open>Properties\<close>

lemma ReadFull_consumes:
  "\<exists>k \<le> n. concat (snd (ReadFull n ps)) = drop k (concat ps)"
proof (cases "n \<le> length (concat ps)")
  case True
  obtain ps1 where "ReadFull n ps = (Inr (take n (concat ps)), ps1)" "concat ps1 = drop n (concat ps)"
    by (rule ReadFull_run [OF True])
  then show ?thesis by auto
next
  case False
  then have "snd (ReadFull n ps) = []"
    using read_pieces_short [of ps n "[]"] by (simp add: ReadFull_def)
  then show ?thesis
    using False by (intro exI [of _ "length (concat ps)"]) simp
qed

lemma read_or_malformed_outcome:
  assumes "read_or_malformed n ps = (r, ps')"
  shows "(\<exists>k \<le> n. concat ps' = drop k (concat ps)) \<and> (\<forall>e. r = Inl e \<longrightarrow> errors_Is ErrHandshakeMalformed e)"
  using assms ReadFull_consumes [of n ps] by (auto simp: read_or_malformed_eq split: prod.splits sum.splits)

lemma drop_at_most:
  assumes "\<exists>k \<le> m. ys = drop k xs" "\<exists>k \<le> n. zs = drop k ys"
  shows "\<exists>k \<le> m + n. zs = drop k xs"
proof -
  obtain k k' where "k \<le> m" "ys = drop k xs" "k' \<le> n" "zs = drop k' ys"
    using assms by auto
  then show ?thesis by (intro exI [of _ "k + k'"]) (simp add: add.commute)
qed

text \<open>A writer that keeps the contract of \<open>io.Writer\<close> on a call with this payload.\<close>

definition io_Writer :: "byte list \<Rightarrow> Writer \<Rightarrow> bool" where
  "io_Writer p w \<longleftrightarrow> (case answers w of [] \<Rightarrow> True | (n, ok) # _ \<Rightarrow> ok \<longrightarrow> n = int (length p))"

lemma write_frame_accepted:
  "write_frame f w = (Inr u, w') \<Longrightarrow> io_Writer f w \<Longrightarrow> accepted w' = accepted w @ f"
  by (auto simp: write_frame_def Write_def io_Writer_def split: list.splits prod.splits option.splits if_splits)

text \<open>
  C18: any sequence of typed messages that was written with success, whatever
  partial writes the connection made, is read back exactly, in whatever pieces
  its bytes arrive, and the bytes after the last message stay unread.
\<close>

theorem typed_messages_round_trip:
  assumes "send WriteTypedMessage ms w = (Inr u, w')"
    and "concat ps = drop (length (accepted w)) (accepted w') @ rest"
  shows "\<exists>ps'. receive ReadTypedMessage (length ms) ps = (Inr ms, ps') \<and> concat ps' = rest"
  using assms by (rule typed.channel_round_trip)

definition sample_writer :: Writer where
  "sample_writer = \<lparr>accepted = ''!'', answers = [(1, True), (3, True), (2, True)]\<rparr>"

theorem typed_messages_round_trip_witness:
  "\<exists>ps'. receive ReadTypedMessage 2 [take 2 (PutUint32 3), [], drop 2 (PutUint32 3) @ ''ab'',
      ''c'' @ PutUint32 1 @ ''dX''] = (Inr [''abc'', ''d''], ps') \<and> concat ps' = ''X''"
proof -
  have w: "send WriteTypedMessage [''abc'', ''d''] sample_writer =
      (Inr (), \<lparr>accepted = ''!'' @ PutUint32 3 @ ''abc'' @ PutUint32 1 @ ''d'', answers = []\<rparr>)"
    by (simp add: WriteTypedMessage_def st_bind_def st_return_def writeAll.simps Write_def sample_writer_def PutUint32_def)
  have "concat [take 2 (PutUint32 3), [], drop 2 (PutUint32 3) @ ''ab'', ''c'' @ PutUint32 1 @ ''dX''] =
      PutUint32 3 @ ''abc'' @ PutUint32 1 @ ''dX''"
    by (simp del: append_assoc add: append_assoc [symmetric])
  then have "\<exists>ps'. receive ReadTypedMessage (length [''abc'', ''d'']) [take 2 (PutUint32 3), [],
      drop 2 (PutUint32 3) @ ''ab'', ''c'' @ PutUint32 1 @ ''dX''] = (Inr [''abc'', ''d''], ps') \<and> concat ps' = ''X''"
    by (intro typed_messages_round_trip [OF w]) (simp add: sample_writer_def)
  then show ?thesis
    by (simp only: list.size One_nat_def add_Suc_right add_0_right numeral_2_eq_2)
qed

text \<open>
  C21: on every writer, \<open>writeAll\<close> returns, reports success only when the whole
  payload has been accepted in order, and leaves a prefix of it after an error;
  \<open>writeFull\<close> of the helper protocol agrees with it except that a count
  outside the payload is a short write there and a panic in \<open>writeAll\<close>.
\<close>

theorem writeAll_all_or_prefix:
  "(case writeAll payload w of (Inr _, w') \<Rightarrow> accepted w' = accepted w @ payload
    | (Inl _, w') \<Rightarrow> \<exists>k. accepted w' = accepted w @ take k payload) \<and>
   writeFull payload w =
     (case writeAll payload w of (r, w') \<Rightarrow>
        (if r = Inl (Sentinel SliceOutOfRange) then Inl (Sentinel ErrShortWrite) else r, w'))"
  using writeAll_outcome [of payload w] by (auto simp: writeFull_writeAll split: prod.splits sum.splits)

text \<open>
  C19: whatever an unauthenticated peer sends, \<open>ReadCredential\<close> returns after
  consuming at most a header and the credential bound; it fails only with the
  malformed-handshake error, and it succeeds exactly on the pending bytes that
  start with the frame of a valid credential, consuming that frame and nothing
  beyond it.
\<close>

theorem ReadCredential_total_bounded:
  "case ReadCredential ps of (r, ps') \<Rightarrow>
     (\<exists>k \<le> 9 + MaximumCredentialBytes. concat ps' = drop k (concat ps)) \<and>
     (case r of
        Inl e \<Rightarrow> errors_Is ErrHandshakeMalformed e \<and>
          (\<nexists>c rest. credential_valid c \<and> concat ps = credential_frame c @ rest)
      | Inr c \<Rightarrow> credential_valid c \<and> concat ps = credential_frame c @ concat ps')"
proof -
  obtain r ps' where r: "ReadCredential ps = (r, ps')" by (cases "ReadCredential ps")
  obtain h ps1 where h: "read_or_malformed 9 ps = (h, ps1)" by (cases "read_or_malformed 9 ps")
  note 1 = read_or_malformed_outcome [OF h]
  have step: "(\<exists>e. r = Inl e \<and> errors_Is ErrHandshakeMalformed e \<and> ps' = ps1) \<or>
      (\<exists>n b. n \<le> MaximumCredentialBytes \<and> read_or_malformed n ps1 = (b, ps') \<and> (\<forall>e. r = Inl e \<longrightarrow> b = Inl e))"
    using r h 1 by (auto simp: ReadCredential_def st_bind_def st_fail_def st_return_def Let_def
        split: prod.splits sum.splits if_splits)
  have body: "(\<exists>k \<le> MaximumCredentialBytes. concat ps' = drop k (concat ps1)) \<and>
      (\<forall>e. r = Inl e \<longrightarrow> errors_Is ErrHandshakeMalformed e)"
    using step
  proof (elim disjE exE conjE)
    fix n b assume n: "n \<le> MaximumCredentialBytes" "read_or_malformed n ps1 = (b, ps')" "\<forall>e. r = Inl e \<longrightarrow> b = Inl e"
    then show ?thesis
      using read_or_malformed_outcome [OF n(2)] by (auto intro: order_trans)
  qed (auto intro: exI [of _ 0])
  have "\<exists>k \<le> 9 + MaximumCredentialBytes. concat ps' = drop k (concat ps)"
    using drop_at_most [OF conjunct1 [OF 1] conjunct1 [OF body]] .
  moreover have "\<nexists>c rest. credential_valid c \<and> concat ps = credential_frame c @ rest" if "r = Inl e" for e
    using r that ReadCredential_frame [of _ ps] by (metis Inl_Inr_False prod.inject)
  ultimately show ?thesis
    using r body ReadCredential_consumed [of ps _ ps'] by (simp split: sum.splits)
qed

text \<open>
  C20: the handshake round trip over a connection that keeps the contract of
  \<open>io.Writer\<close>: the credential arrives with its kind, and the verdict arrives with
  its detail cut to the detail bound, for every admissible credential and every
  detail, with nothing beyond the frame consumed.
\<close>

theorem handshake_round_trip:
  assumes "WriteCredential kind credential w = (Inr u, w1)" "io_Writer (handshake_frame kind credential) w"
    and "WriteVerdict verdict detail w1 = (Inr u', w2)"
    and "io_Writer (handshake_frame verdict (take MaximumDetailBytes detail)) w1"
    and "concat ps = drop (length (accepted w)) (accepted w2) @ rest"
  shows "\<exists>ps1 ps2. ReadCredential ps = (Inr \<lparr>CredentialKind = kind, Value = credential\<rparr>, ps1) \<and>
     ReadVerdict ps1 = (Inr (verdict, take MaximumDetailBytes detail), ps2) \<and> concat ps2 = rest"
proof -
  have c: "credential_valid \<lparr>CredentialKind = kind, Value = credential\<rparr>"
    and w1: "accepted w1 = accepted w @ handshake_frame kind credential"
    using assms(1,2) write_frame_accepted [of "handshake_frame kind credential" w u w1]
    by (auto simp: WriteCredential_def credential_valid_def st_fail_def handshake_frame_def split: if_splits)
  have v: "verdict_valid (verdict, take MaximumDetailBytes detail)"
    and w2: "accepted w2 = accepted w1 @ handshake_frame verdict (take MaximumDetailBytes detail)"
    using assms(3,4) write_frame_accepted [of "handshake_frame verdict (take MaximumDetailBytes detail)" w1 u' w2]
    by (auto simp: WriteVerdict_def verdict_valid_def st_fail_def handshake_frame_def Let_def split: if_splits)
  obtain ps1 where 1: "ReadCredential ps = (Inr \<lparr>CredentialKind = kind, Value = credential\<rparr>, ps1)"
    "concat ps1 = verdict_frame (verdict, take MaximumDetailBytes detail) @ rest"
    using ReadCredential_frame [OF c, of ps] assms(5) w1 w2 by (auto simp: credential_frame_def verdict_frame_def)
  then show ?thesis
    using ReadVerdict_frame [OF v 1(2)] by auto
qed

theorem handshake_round_trip_witness:
  "\<exists>ps1 ps2. ReadCredential [''SBXDP1'' @ [CHR 0x01, CHR 0x00, CHR 0x02] @ ''tkSB'',
        ''XDP1'' @ [CHR 0x00, CHR 0x00, CHR 0x02] @ ''okdata''] =
      (Inr \<lparr>CredentialKind = SessionKindExec, Value = ''tk''\<rparr>, ps1) \<and>
     ReadVerdict ps1 = (Inr (VerdictAdmitted, ''ok''), ps2) \<and> concat ps2 = ''data''"
proof -
  define w :: Writer where "w = \<lparr>accepted = [], answers = [(11, True)]\<rparr>"
  define w1 where "w1 = snd (WriteCredential SessionKindExec ''tk'' w)"
  have "WriteCredential SessionKindExec ''tk'' w = (Inr (), w1)"
    "WriteVerdict VerdictAdmitted ''ok'' w1 = (Inr (), snd (WriteVerdict VerdictAdmitted ''ok'' w1))"
    "io_Writer (handshake_frame SessionKindExec ''tk'') w"
    "io_Writer (handshake_frame VerdictAdmitted (take MaximumDetailBytes ''ok'')) w1"
    "accepted w = []" 
    "accepted (snd (WriteVerdict VerdictAdmitted ''ok'' w1)) = ''SBXDP1'' @ [CHR 0x01, CHR 0x00, CHR 0x02] @ ''tkSB'' @
        ''XDP1'' @ [CHR 0x00, CHR 0x00, CHR 0x02] @ ''ok''"
    unfolding w1_def w_def by code_simp+
  from handshake_round_trip [OF this(1,3,2,4), of "[''SBXDP1'' @ [CHR 0x01, CHR 0x00, CHR 0x02] @ ''tkSB'',
        ''XDP1'' @ [CHR 0x00, CHR 0x00, CHR 0x02] @ ''okdata'']" "''data''"] this(5,6)
  show ?thesis by simp
qed

text \<open>
  C22: for every marshalling in which unmarshalling inverts marshalling, a
  helper envelope that was written with success is read back, in whatever
  pieces it arrives, and the following bytes stay unread; \<open>ReadFrame\<close> never
  returns an envelope without a message.
\<close>

theorem helper_frame_round_trip:
  assumes "\<And>env payload. marshal env = Some payload \<Longrightarrow> unmarshal payload = Some env"
    and "WriteFrame marshal hasMessage envelope w = (Inr u, w')"
    and "concat ps = drop (length (accepted w)) (accepted w') @ rest"
  shows "\<exists>env ps'. envelope = Some env \<and> hasMessage env \<and>
    ReadFrame unmarshal hasMessage ps = (Inr env, ps') \<and> concat ps' = rest"
proof -
  obtain env payload where env: "envelope = Some env" "hasMessage env" "marshal env = Some payload"
    "payload \<noteq> []" "length payload \<le> MaxFrameBytes"
    using assms(2) by (auto simp: WriteFrame_def st_fail_def split: option.splits if_splits)
  obtain u1 w1 where "writeFull (PutUint32 (length payload)) w = (Inr u1, w1)" "writeFull payload w1 = (Inr u, w')"
    using assms(2) env by (auto simp: WriteFrame_def wrapping_def st_bind_def st_catch_def st_fail_def st_return_def
        split: prod.splits sum.splits)
  then have "accepted w' = accepted w @ PutUint32 (length payload) @ payload"
    by (simp add: writeFull_success)
  then have ps: "concat ps = PutUint32 (length payload) @ payload @ rest"
    using assms(3) by simp
  obtain ps1 where 1: "ReadFull 4 ps = (Inr (PutUint32 (length payload)), ps1)" "concat ps1 = payload @ rest"
    by (rule ReadFull_run [of 4 ps]) (use ps in simp_all)
  obtain ps2 where 2: "ReadFull (length payload) ps1 = (Inr payload, ps2)" "concat ps2 = rest"
    by (rule ReadFull_run [of "length payload" ps1]) (use 1(2) in simp_all)
  have "Uint32 (PutUint32 (length payload)) = length payload"
    using env(5) by (intro Uint32_Put) simp
  then show ?thesis
    using 1 2 env assms(1) [OF env(3)]
    by (simp add: ReadFrame_def st_catch_def st_return_def Let_def)
qed

theorem helper_frame_round_trip_witness:
  "\<exists>env ps'. Some ''hi'' = Some env \<and> env \<noteq> [] \<and>
    ReadFrame Some (\<lambda>e. e \<noteq> []) [PutUint32 2, ''h'', ''i!''] = (Inr env, ps') \<and> concat ps' = ''!''"
proof -
  have w: "WriteFrame Some (\<lambda>e. e \<noteq> []) (Some ''hi'') \<lparr>accepted = [], answers = [(2, True)]\<rparr> =
      (Inr (), \<lparr>accepted = PutUint32 2 @ ''hi'', answers = []\<rparr>)"
    by (simp add: WriteFrame_def wrapping_def st_bind_def st_catch_def st_return_def writeFull.simps Write_def PutUint32_def)
  show ?thesis
    by (rule helper_frame_round_trip [OF _ w]) simp_all
qed

end
