(* ===== verification/Ext4_Reclaim.thy ===== *)
theory Ext4_Reclaim
  imports Prelude
begin

text \<open>
  Reclaiming freed guest blocks (\<open>runner/internal/workspacestore\<close>:
  \<open>ext4_free_blocks.go\<close> and \<open>reclaim.go\<close>): the reader of the untrusted ext4
  metadata, its checksums, the bitmap scan with its byte-wise fast path, the
  collector that merges runs across groups, the inward alignment, and the
  bounded punching. Bytes and on-disk fields are words of their width; offsets
  and block numbers are integers with the wrap-around of \<open>int64\<close> and \<open>uint64\<close>
  written out.
\<close>

unbundle bit_operations_syntax

section \<open>The img\<close>

type_synonym octet = "8 word"

text \<open>
  An open image file: its bytes (None where the host cannot read), its size,
  whether it is a regular file and the 512-byte sectors it holds.
\<close>

record ImageFile =
  content :: "int \<Rightarrow> octet option"
  imageSize :: int
  regular :: bool
  sectors :: int

definition ReadAt :: "ImageFile \<Rightarrow> int \<Rightarrow> int \<Rightarrow> octet list option" where
  "ReadAt img off n =
     (if off < 0 \<or> n < 0 \<or> imageSize img < off + n then None
      else those (map (content img) [off..off + n - 1]))"

definition Uint16LE :: "octet list \<Rightarrow> nat \<Rightarrow> 16 word" where
  "Uint16LE b off = ucast (b ! off) OR push_bit 8 (ucast (b ! (off + 1)))"

definition Uint32LE :: "octet list \<Rightarrow> nat \<Rightarrow> 32 word" where
  "Uint32LE b off =
     ucast (b ! off) OR push_bit 8 (ucast (b ! (off + 1))) OR push_bit 16 (ucast (b ! (off + 2))) OR
     push_bit 24 (ucast (b ! (off + 3)))"

definition PutUint32LE :: "32 word \<Rightarrow> octet list" where
  "PutUint32LE v = [ucast v, ucast (drop_bit 8 v), ucast (drop_bit 16 v), ucast (drop_bit 24 v)]"

section \<open>Format constants\<close>

definition ext4ReclaimIncompatFeatures :: "32 word" where
  "ext4ReclaimIncompatFeatures =
     0x0002 OR 0x0004 OR 0x0040 OR 0x0080 OR 0x0100 OR 0x0200 OR 0x0400 OR 0x2000 OR 0x4000 OR 0x8000 OR
     0x10000 OR 0x20000"

definition ext4ReclaimROCompatFeatures :: "32 word" where
  "ext4ReclaimROCompatFeatures =
     0x0001 OR 0x0002 OR 0x0004 OR 0x0008 OR 0x0010 OR 0x0020 OR 0x0040 OR 0x0100 OR 0x0400 OR 0x1000 OR
     0x2000 OR 0x8000 OR 0x10000"

abbreviation ext4FeatureIncompatRecover :: "32 word" where "ext4FeatureIncompatRecover \<equiv> 0x0004"
abbreviation ext4FeatureIncompat64Bit :: "32 word" where "ext4FeatureIncompat64Bit \<equiv> 0x0080"
abbreviation ext4FeatureIncompatCsumSeed :: "32 word" where "ext4FeatureIncompatCsumSeed \<equiv> 0x2000"
abbreviation ext4FeatureROCompatGDTCsum :: "32 word" where "ext4FeatureROCompatGDTCsum \<equiv> 0x0010"
abbreviation ext4FeatureROCompatMetadataCsum :: "32 word" where "ext4FeatureROCompatMetadataCsum \<equiv> 0x0400"
abbreviation ext4FeatureCompatHasJournal :: "32 word" where "ext4FeatureCompatHasJournal \<equiv> 0x0004"
abbreviation ext4StateValid :: "16 word" where "ext4StateValid \<equiv> 0x0001"
abbreviation ext4StateErrors :: "16 word" where "ext4StateErrors \<equiv> 0x0002"
abbreviation ext4StateFCReplay :: "16 word" where "ext4StateFCReplay \<equiv> 0x0020"
abbreviation ext4GroupBlockUninit :: "16 word" where "ext4GroupBlockUninit \<equiv> 0x0002"

abbreviation ext4ReclaimSuperblockInvalid :: string where
  "ext4ReclaimSuperblockInvalid \<equiv> ''ext4_superblock_invalid''"
abbreviation ext4ReclaimFeaturesUnsupported :: string where
  "ext4ReclaimFeaturesUnsupported \<equiv> ''ext4_features_unsupported''"
abbreviation ext4ReclaimNeedsRecovery :: string where "ext4ReclaimNeedsRecovery \<equiv> ''ext4_needs_recovery''"
abbreviation ext4ReclaimUnclean :: string where "ext4ReclaimUnclean \<equiv> ''ext4_unclean''"
abbreviation ext4ReclaimFilesystemErrors :: string where
  "ext4ReclaimFilesystemErrors \<equiv> ''ext4_filesystem_errors''"
abbreviation ext4ReclaimChecksumMismatch :: string where
  "ext4ReclaimChecksumMismatch \<equiv> ''ext4_checksum_mismatch''"
abbreviation ext4ReclaimGroupInvalid :: string where "ext4ReclaimGroupInvalid \<equiv> ''ext4_group_invalid''"
abbreviation ext4ReclaimFreeCountMismatch :: string where
  "ext4ReclaimFreeCountMismatch \<equiv> ''ext4_free_count_mismatch''"

section \<open>Checksums\<close>

text \<open>\<open>hash/crc32\<close> with the Castagnoli table, as its portable implementation computes it.\<close>

definition crc32_step :: "32 word \<Rightarrow> 32 word" where
  "crc32_step crc = (if crc AND 1 = 1 then drop_bit 1 crc XOR 0x82f63b78 else drop_bit 1 crc)"

definition ext4CRC32CTable :: "octet \<Rightarrow> 32 word" where
  "ext4CRC32CTable i = (crc32_step ^^ 8) (ucast i)"

definition crc32_Update :: "32 word \<Rightarrow> octet list \<Rightarrow> 32 word" where
  "crc32_Update crc p =
     NOT (fold (\<lambda>v c. ext4CRC32CTable (ucast c XOR v) XOR drop_bit 8 c) p (NOT crc))"

definition ext4Checksum :: "32 word \<Rightarrow> octet list \<Rightarrow> 32 word" where
  "ext4Checksum seed data = NOT (crc32_Update (NOT seed) data)"

definition crc16_step :: "16 word \<Rightarrow> 16 word" where
  "crc16_step crc = (if crc AND 1 \<noteq> 0 then drop_bit 1 crc XOR 0xa001 else drop_bit 1 crc)"

definition ext4CRC16 :: "16 word \<Rightarrow> octet list \<Rightarrow> 16 word" where
  "ext4CRC16 crc data = fold (\<lambda>value c. (crc16_step ^^ 8) (c XOR ucast value)) data crc"

section \<open>Superblock\<close>

record ext4ByteRange =
  Offset :: int
  Length :: int

record ext4Geometry =
  blockBytes :: int
  blocksCount :: int
  firstDataBlock :: int
  blocksPerGroup :: int
  groupCount :: int
  descriptorBytes :: int
  is64Bit :: bool
  metadataChecksum :: bool
  groupChecksum :: bool
  checksumSeed :: "32 word"
  uuid :: "octet list"

text \<open>The checks of the superblock that precede its geometry; the reason of a decline, if any.\<close>

definition superblockState :: "octet list \<Rightarrow> string option" where
  "superblockState sb =
     (let le32 = Uint32LE sb; le16 = Uint16LE sb; incompat = le32 0x60; roCompat = le32 0x64 in
      if le16 0x38 \<noteq> 0xef53 \<or> le32 0x4C < 1 then Some ext4ReclaimSuperblockInvalid
      else if incompat AND NOT ext4ReclaimIncompatFeatures \<noteq> 0 \<or>
              roCompat AND NOT ext4ReclaimROCompatFeatures \<noteq> 0 then Some ext4ReclaimFeaturesUnsupported
      else if roCompat AND ext4FeatureROCompatMetadataCsum \<noteq> 0 \<and>
              (sb ! 0x175 \<noteq> 1 \<or> ext4Checksum 0xffffffff (take 0x3FC sb) \<noteq> le32 0x3FC)
           then Some ext4ReclaimChecksumMismatch
      else if incompat AND ext4FeatureIncompatRecover \<noteq> 0 then Some ext4ReclaimNeedsRecovery
      else if le32 0x5C AND ext4FeatureCompatHasJournal = 0 \<and> le16 0x3A AND ext4StateValid = 0
           then Some ext4ReclaimUnclean
      else if le16 0x3A AND ext4StateErrors \<noteq> 0 then Some ext4ReclaimFilesystemErrors
      else if le16 0x3A AND ext4StateFCReplay \<noteq> 0 then Some ext4ReclaimNeedsRecovery
      else None)"

definition superblockChecksumSeed :: "octet list \<Rightarrow> 32 word" where
  "superblockChecksumSeed sb =
     (if Uint32LE sb 0x64 AND ext4FeatureROCompatMetadataCsum = 0 then 0
      else if Uint32LE sb 0x60 AND ext4FeatureIncompatCsumSeed \<noteq> 0 then Uint32LE sb 0x270
      else ext4Checksum 0xffffffff (take 16 (drop 0x68 sb)))"

text \<open>The geometry the superblock names, before it is checked.\<close>

definition superblockGeometry :: "octet list \<Rightarrow> ext4Geometry" where
  "superblockGeometry sb =
     (let le32 = (\<lambda>off. uint (Uint32LE sb off));
          wide = (Uint32LE sb 0x60 AND ext4FeatureIncompat64Bit \<noteq> 0);
          bytes = 1024 * 2 ^ nat (le32 0x18);
          count = (if wide then le32 0x04 OR push_bit 32 (le32 0x150) else le32 0x04);
          first = le32 0x14; perGroup = le32 0x20
      in \<lparr>blockBytes = bytes, blocksCount = count, firstDataBlock = first, blocksPerGroup = perGroup,
          groupCount = (if perGroup = 0 then 0 else u64 (count - first + perGroup - 1) div perGroup),
          descriptorBytes = (if wide then uint (Uint16LE sb 0xFE) else 32),
          is64Bit = wide,
          metadataChecksum = (Uint32LE sb 0x64 AND ext4FeatureROCompatMetadataCsum \<noteq> 0),
          groupChecksum = (Uint32LE sb 0x64 AND ext4FeatureROCompatGDTCsum \<noteq> 0),
          checksumSeed = superblockChecksumSeed sb, uuid = take 16 (drop 0x68 sb)\<rparr>)"

definition parseExt4Superblock :: "octet list \<Rightarrow> int \<Rightarrow> string + ext4Geometry" where
  "parseExt4Superblock sb imageBytes =
     (case superblockState sb of
        Some reason \<Rightarrow> Inl reason
      | None \<Rightarrow>
          if Uint32LE sb 0x18 > 6 \<or> Uint32LE sb 0x1C \<noteq> Uint32LE sb 0x18 then Inl ext4ReclaimSuperblockInvalid
          else
            let g = superblockGeometry sb;
                expectedFirstDataBlock = (if blockBytes g = 1024 then 1 else 0)
            in
            if firstDataBlock g \<noteq> expectedFirstDataBlock \<or>
               blocksPerGroup g \<noteq> u64 (blockBytes g * 8) \<or>
               uint (Uint32LE sb 0x24) \<noteq> blocksPerGroup g \<or>
               blocksCount g \<le> u64 (firstDataBlock g + 1) \<or>
               blocksCount g > u64 imageBytes div blockBytes g
            then Inl ext4ReclaimSuperblockInvalid
            else if is64Bit g \<and>
               (descriptorBytes g < 64 \<or> descriptorBytes g > 64 \<or>
                descriptorBytes g AND (descriptorBytes g - 1) \<noteq> 0)
            then Inl ext4ReclaimSuperblockInvalid
            else if u64 (firstDataBlock g + 1 +
                 u64 (groupCount g * descriptorBytes g + blockBytes g - 1) div blockBytes g) > blocksCount g
            then Inl ext4ReclaimSuperblockInvalid
            else Inr g)"

section \<open>Group descriptors and bitmaps\<close>

definition descriptorChecksumValid :: "ext4Geometry \<Rightarrow> 32 word \<Rightarrow> octet list \<Rightarrow> bool" where
  "descriptorChecksumValid g grp descriptor =
     (let stored = Uint16LE descriptor 0x1E; groupBytes = PutUint32LE grp; tail = drop 0x20 descriptor in
      if metadataChecksum g then
        (let c1 = ext4Checksum (checksumSeed g) groupBytes;
             c2 = ext4Checksum c1 (take 0x1E descriptor);
             c3 = ext4Checksum c2 [0, 0];
             c4 = ext4Checksum c3 tail
         in ucast c4 = stored)
      else if groupChecksum g then
        (let c1 = ext4CRC16 0xffff (uuid g);
             c2 = ext4CRC16 c1 groupBytes;
             c3 = ext4CRC16 c2 (take 0x1E descriptor);
             c4 = (if is64Bit g then ext4CRC16 c3 tail else c3)
         in c4 = stored)
      else True)"

definition bitmapChecksumValid :: "ext4Geometry \<Rightarrow> octet list \<Rightarrow> octet list \<Rightarrow> bool" where
  "bitmapChecksumValid g descriptor bitmap =
     (if \<not> metadataChecksum g then True
      else
        let checksum = ext4Checksum (checksumSeed g) (take (nat (blocksPerGroup g div 8)) bitmap);
            stored = ucast (Uint16LE descriptor 0x18) :: 32 word
        in if descriptorBytes g \<ge> 0x3A
           then checksum = stored OR push_bit 16 (ucast (Uint16LE descriptor 0x38))
           else checksum AND 0xffff = stored)"

definition OnesCount8 :: "octet \<Rightarrow> nat" where
  "OnesCount8 v = length (filter (bit v) [0..<8])"

definition countExt4FreeBits :: "octet list \<Rightarrow> nat \<Rightarrow> int" where
  "countExt4FreeBits bitmap blocks =
     (let full = blocks div 8;
          used = sum_list (map OnesCount8 (take full bitmap));
          remainder = blocks mod 8;
          used = (if remainder \<noteq> 0 then used + OnesCount8 (bitmap ! full AND (push_bit remainder 1 - 1)) else used)
      in u64 (int blocks - int used))"

section \<open>Runs\<close>

record ext4RunCollector =
  keep :: "ext4ByteRange \<Rightarrow> ext4ByteRange option"
  pending :: ext4ByteRange
  kept :: "ext4ByteRange list"

abbreviation emptyRange :: ext4ByteRange where "emptyRange \<equiv> \<lparr>Offset = 0, Length = 0\<rparr>"

definition collector_flush :: "ext4RunCollector \<Rightarrow> ext4RunCollector" where
  "collector_flush c =
     (if Length (pending c) = 0 then c
      else case keep c (pending c) of
        Some r \<Rightarrow> c\<lparr>kept := kept c @ [r], pending := emptyRange\<rparr>
      | None \<Rightarrow> c\<lparr>pending := emptyRange\<rparr>)"

definition collector_add :: "int \<Rightarrow> int \<Rightarrow> ext4RunCollector \<Rightarrow> ext4RunCollector" where
  "collector_add off len c =
     (if Length (pending c) \<noteq> 0 \<and> i64 (Offset (pending c) + Length (pending c)) = off
      then c\<lparr>pending := (pending c)\<lparr>Length := i64 (Length (pending c) + len)\<rparr>\<rparr>
      else (collector_flush c)\<lparr>pending := \<lparr>Offset = off, Length = len\<rparr>\<rparr>)"

definition appendRun :: "int \<Rightarrow> int \<Rightarrow> nat \<Rightarrow> nat \<Rightarrow> ext4RunCollector \<Rightarrow> ext4RunCollector" where
  "appendRun groupStart bytes start stop runs =
     collector_add (i64 (i64 (u64 (groupStart + int start)) * bytes)) (i64 (i64 (u64 (int stop - int start)) * bytes)) runs"

text \<open>The scan of one bitmap; \<open>add\<close> is \<open>appendRun\<close> and \<open>s\<close> what it updates.\<close>

function scan_bitmap ::
  "(nat \<Rightarrow> nat \<Rightarrow> 's \<Rightarrow> 's) \<Rightarrow> octet list \<Rightarrow> nat \<Rightarrow> nat \<Rightarrow> nat \<Rightarrow> bool \<Rightarrow> 's \<Rightarrow> 's" where
  "scan_bitmap add bitmap blocks block runStart inRun s =
     (if block < blocks then
        (if block mod 8 = 0 \<and> blocks - block \<ge> 8 \<and> bitmap ! (block div 8) = 0xff then
           (if inRun then scan_bitmap add bitmap blocks (block + 8) runStart False (add runStart block s)
            else scan_bitmap add bitmap blocks (block + 8) runStart inRun s)
         else if block mod 8 = 0 \<and> blocks - block \<ge> 8 \<and> bitmap ! (block div 8) = 0x00 then
           (if \<not> inRun then scan_bitmap add bitmap blocks (block + 8) block True s
            else scan_bitmap add bitmap blocks (block + 8) runStart inRun s)
         else
           (let free = (bitmap ! (block div 8) AND push_bit (block mod 8) 1 = 0) in
            if free \<and> \<not> inRun then scan_bitmap add bitmap blocks (block + 1) block True s
            else if \<not> free \<and> inRun
            then scan_bitmap add bitmap blocks (block + 1) runStart False (add runStart block s)
            else scan_bitmap add bitmap blocks (block + 1) runStart inRun s))
      else if inRun then add runStart blocks s
      else s)"
  by pat_completeness auto
termination
  by (relation "measure (\<lambda>(_, _, blocks, block, _). blocks - block)") auto

declare scan_bitmap.simps [simp del]

definition collectExt4FreeRuns :: "ext4RunCollector \<Rightarrow> octet list \<Rightarrow> nat \<Rightarrow> int \<Rightarrow> int \<Rightarrow> ext4RunCollector" where
  "collectExt4FreeRuns runs bitmap blocks groupStart bytes =
     scan_bitmap (appendRun groupStart bytes) bitmap blocks 0 0 False runs"

section \<open>Free ranges\<close>

datatype reclaim_stop = ReadFailed | Declined string

definition descriptor_at :: "ext4Geometry \<Rightarrow> octet list \<Rightarrow> int \<Rightarrow> octet list" where
  "descriptor_at g descriptors grp =
     take (nat (descriptorBytes g)) (drop (nat (u64 (grp * descriptorBytes g))) descriptors)"

definition group_uninit :: "ext4Geometry \<Rightarrow> octet list \<Rightarrow> bool" where
  "group_uninit g descriptor \<longleftrightarrow>
     (metadataChecksum g \<or> groupChecksum g) \<and> Uint16LE descriptor 0x12 AND ext4GroupBlockUninit \<noteq> 0"

definition bitmap_block :: "ext4Geometry \<Rightarrow> octet list \<Rightarrow> int" where
  "bitmap_block g descriptor =
     (if is64Bit g then uint (Uint32LE descriptor 0x00) OR push_bit 32 (uint (Uint32LE descriptor 0x20))
      else uint (Uint32LE descriptor 0x00))"

definition descriptor_free :: "ext4Geometry \<Rightarrow> octet list \<Rightarrow> int" where
  "descriptor_free g descriptor =
     (if is64Bit g then uint (Uint16LE descriptor 0x0C) OR push_bit 16 (uint (Uint16LE descriptor 0x2C))
      else uint (Uint16LE descriptor 0x0C))"

definition group_blocks :: "ext4Geometry \<Rightarrow> int \<Rightarrow> nat" where
  "group_blocks g grp =
     nat (min (blocksPerGroup g) (u64 (blocksCount g - u64 (firstDataBlock g + grp * blocksPerGroup g))))"

text \<open>One iteration of the loop over the groups.\<close>

definition scanGroup ::
  "ImageFile \<Rightarrow> ext4Geometry \<Rightarrow> octet list \<Rightarrow> int \<Rightarrow> ext4RunCollector \<Rightarrow> reclaim_stop + ext4RunCollector" where
  "scanGroup img g descriptors grp runs =
     (let descriptor = descriptor_at g descriptors grp in
      if \<not> descriptorChecksumValid g (word_of_int grp) descriptor then Inl (Declined ext4ReclaimChecksumMismatch)
      else if group_uninit g descriptor then Inr runs
      else
        let bitmapBlock = bitmap_block g descriptor in
        if bitmapBlock \<le> firstDataBlock g \<or> bitmapBlock \<ge> blocksCount g then Inl (Declined ext4ReclaimGroupInvalid)
        else
          (case ReadAt img (i64 (i64 bitmapBlock * blockBytes g)) (blockBytes g) of
             None \<Rightarrow> Inl ReadFailed
           | Some bitmap \<Rightarrow>
               if \<not> bitmapChecksumValid g descriptor bitmap then Inl (Declined ext4ReclaimChecksumMismatch)
               else if countExt4FreeBits bitmap (group_blocks g grp) \<noteq> descriptor_free g descriptor
               then Inl (Declined ext4ReclaimFreeCountMismatch)
               else Inr (collectExt4FreeRuns runs bitmap (group_blocks g grp)
                          (u64 (firstDataBlock g + grp * blocksPerGroup g)) (blockBytes g))))"

fun scanGroups ::
  "ImageFile \<Rightarrow> ext4Geometry \<Rightarrow> octet list \<Rightarrow> nat list \<Rightarrow> ext4RunCollector \<Rightarrow> reclaim_stop + ext4RunCollector" where
  "scanGroups img g descriptors [] runs = Inr runs"
| "scanGroups img g descriptors (grp # groups) runs =
     (case scanGroup img g descriptors (int grp) runs of
        Inl stop \<Rightarrow> Inl stop
      | Inr runs' \<Rightarrow> scanGroups img g descriptors groups runs')"

definition ext4FreeRanges ::
  "ImageFile \<Rightarrow> int \<Rightarrow> (ext4ByteRange \<Rightarrow> ext4ByteRange option) \<Rightarrow> reclaim_stop + ext4ByteRange list" where
  "ext4FreeRanges img imageBytes keepRange =
     (case ReadAt img 1024 1024 of
        None \<Rightarrow> Inl ReadFailed
      | Some superblock \<Rightarrow>
          (case parseExt4Superblock superblock imageBytes of
             Inl reason \<Rightarrow> Inl (Declined reason)
           | Inr g \<Rightarrow>
               (case ReadAt img (i64 (i64 (u64 (firstDataBlock g + 1)) * blockBytes g))
                       (u64 (groupCount g * descriptorBytes g)) of
                  None \<Rightarrow> Inl ReadFailed
                | Some descriptors \<Rightarrow>
                    (case scanGroups img g descriptors [0..<nat (groupCount g)]
                            \<lparr>keep = keepRange, pending = emptyRange, kept = []\<rparr> of
                       Inl stop \<Rightarrow> Inl stop
                     | Inr runs \<Rightarrow> Inr (kept (collector_flush runs))))))"

section \<open>Alignment and punching\<close>

abbreviation workspaceReclaimAlignmentBytes :: int where "workspaceReclaimAlignmentBytes \<equiv> 65536"
abbreviation workspaceReclaimMinimumBytes :: int where "workspaceReclaimMinimumBytes \<equiv> 1048576"
abbreviation workspaceReclaimMaximumPunches :: int where "workspaceReclaimMaximumPunches \<equiv> 4096"

abbreviation workspaceReclaimRelocationSealed :: string where
  "workspaceReclaimRelocationSealed \<equiv> ''relocation_sealed''"
abbreviation workspaceReclaimPunchLimitReached :: string where
  "workspaceReclaimPunchLimitReached \<equiv> ''punch_limit_reached''"
abbreviation workspaceReclaimHostStorageExhausted :: string where
  "workspaceReclaimHostStorageExhausted \<equiv> ''host_storage_exhausted''"

text \<open>Go's division truncates toward zero; the divisor is positive.\<close>

definition go_div :: "int \<Rightarrow> int \<Rightarrow> int" where
  "go_div a b = (if a \<ge> 0 then a div b else - ((- a) div b))"

definition alignWorkspaceReclaimRange :: "ext4ByteRange \<Rightarrow> ext4ByteRange option" where
  "alignWorkspaceReclaimRange free =
     (let start = i64 (go_div (i64 (i64 (Offset free + workspaceReclaimAlignmentBytes) - 1)) workspaceReclaimAlignmentBytes
                       * workspaceReclaimAlignmentBytes);
          stop = i64 (go_div (i64 (Offset free + Length free)) workspaceReclaimAlignmentBytes
                      * workspaceReclaimAlignmentBytes)
      in if i64 (stop - start) < workspaceReclaimMinimumBytes then None
         else Some \<lparr>Offset = start, Length = i64 (stop - start)\<rparr>)"

record freeBlockReclaim =
  Reason :: string
  Ranges :: int
  PunchedBytes :: int
  AllocatedBefore :: int
  AllocatedAfter :: int

datatype reclaim_error = Canceled | ENOSPC | EDQUOT | HostIO | CorruptState

text \<open>
  The host: whether the context is done, whether a range of the file still
  holds an extent, and punching a hole. They are the kernel's and the
  context's, and change with the file's state.
\<close>

record Host =
  ctxErr :: "ImageFile \<Rightarrow> bool"
  rangeAllocated :: "ImageFile \<Rightarrow> int \<Rightarrow> int \<Rightarrow> reclaim_error + bool"
  punchHole :: "int \<Rightarrow> int \<Rightarrow> ImageFile \<Rightarrow> (reclaim_error, unit) result \<times> ImageFile"

fun punchWorkspaceReclaimRanges ::
  "Host \<Rightarrow> ext4ByteRange list \<Rightarrow> int \<Rightarrow> freeBlockReclaim \<Rightarrow>
   (ImageFile, reclaim_error, freeBlockReclaim) st" where
  "punchWorkspaceReclaimRanges host [] limit result img = (Inr result, img)"
| "punchWorkspaceReclaimRanges host (free # ranges) limit result img =
     (if ctxErr host img then (Inl (Sentinel Canceled), img)
      else case rangeAllocated host img (Offset free) (Length free) of
        Inl e \<Rightarrow> (Inl (Wrapped (Sentinel e)), img)
      | Inr held \<Rightarrow>
          if \<not> held then punchWorkspaceReclaimRanges host ranges limit result img
          else if Ranges result = limit
          then (Inr (result\<lparr>Reason := workspaceReclaimPunchLimitReached\<rparr>), img)
          else
            (case punchHole host (Offset free) (Length free) img of
               (Inl e, img') \<Rightarrow>
                 if errors_Is ENOSPC e \<or> errors_Is EDQUOT e
                 then (Inr (result\<lparr>Reason := workspaceReclaimHostStorageExhausted\<rparr>), img')
                 else (Inl (Wrapped e), img')
             | (Inr _, img') \<Rightarrow>
                 punchWorkspaceReclaimRanges host ranges limit
                   (result\<lparr>Ranges := i64 (Ranges result + 1),
                           PunchedBytes := i64 (PunchedBytes result + Length free)\<rparr>) img'))"

definition allocatedImageBytes :: "int \<Rightarrow> (ImageFile, reclaim_error, int) st" where
  "allocatedImageBytes capacityBytes img =
     (if \<not> regular img \<or> imageSize img \<noteq> capacityBytes then (Inl (Wrapped (Sentinel CorruptState)), img)
      else (Inr (i64 (sectors img * 512)), img))"

definition reclaimFreeImageBlocks :: "Host \<Rightarrow> int \<Rightarrow> (ImageFile, reclaim_error, freeBlockReclaim) st" where
  "reclaimFreeImageBlocks host capacityBytes =
     st_bind (allocatedImageBytes capacityBytes) (\<lambda>before.
       let result = \<lparr>Reason = [], Ranges = 0, PunchedBytes = 0, AllocatedBefore = before, AllocatedAfter = before\<rparr> in
       st_bind (st_get (\<lambda>img. ext4FreeRanges img capacityBytes alignWorkspaceReclaimRange)) (\<lambda>r.
         case r of
           Inl ReadFailed \<Rightarrow> st_fail (Wrapped (Sentinel HostIO))
         | Inl (Declined reason) \<Rightarrow> st_return (result\<lparr>Reason := reason\<rparr>)
         | Inr ranges \<Rightarrow>
             st_bind (punchWorkspaceReclaimRanges host ranges workspaceReclaimMaximumPunches result) (\<lambda>result.
               st_bind (allocatedImageBytes capacityBytes) (\<lambda>after.
                 st_return (result\<lparr>AllocatedAfter := after\<rparr>)))))"

end
