(* ===== verification/Ext4_Free_Ranges.thy ===== *)
theory Ext4_Free_Ranges
  imports Ext4_Reclaim
begin

text \<open>
  What the reclaim reads and punches. The scan of a bitmap with its byte-wise
  fast path is the bit-by-bit reference \<open>bit_runs\<close>; the collector keeps the
  merged runs; so the ranges handed to the punch are exactly the bytes of the
  blocks that the image's own bitmaps mark free, shrunk to whole alignment
  units, and no byte of any other block changes.
\<close>

section \<open>The scan is the bit-by-bit reference\<close>

definition bit_free :: "octet list \<Rightarrow> nat \<Rightarrow> bool" where
  "bit_free bitmap b \<longleftrightarrow> bitmap ! (b div 8) AND push_bit (b mod 8) 1 = 0"

function bit_runs :: "(nat \<Rightarrow> bool) \<Rightarrow> nat \<Rightarrow> nat \<Rightarrow> nat option \<Rightarrow> (nat \<times> nat) list" where
  "bit_runs P n b run =
     (if b < n then
        (case run of
           None \<Rightarrow> bit_runs P n (Suc b) (if P b then Some b else None)
         | Some r \<Rightarrow> if P b then bit_runs P n (Suc b) (Some r) else (r, b) # bit_runs P n (Suc b) None)
      else (case run of None \<Rightarrow> [] | Some r \<Rightarrow> [(r, n)]))"
  by pat_completeness auto
termination
  by (relation "measure (\<lambda>(_, n, b, _). n - b)") auto

declare bit_runs.simps [simp del]

lemma bit_runs_skip_used:
  "(\<And>i. i < k \<Longrightarrow> \<not> P (b + i)) \<Longrightarrow> 0 < k \<Longrightarrow> b + k \<le> n \<Longrightarrow>
   bit_runs P n b run = (case run of None \<Rightarrow> [] | Some r \<Rightarrow> [(r, b)]) @ bit_runs P n (b + k) None"
proof (induction k arbitrary: b run)
  case (Suc k)
  have "\<not> P b" using Suc(2) [of 0] by simp
  then have 1: "bit_runs P n b run = (case run of None \<Rightarrow> [] | Some r \<Rightarrow> [(r, b)]) @ bit_runs P n (Suc b) None"
    using Suc(4) by (subst bit_runs.simps) (simp split: option.splits)
  show ?case
  proof (cases "k = 0")
    case False
    have "bit_runs P n (Suc b) None = bit_runs P n (Suc b + k) None"
      using Suc(1) [of "Suc b" None] Suc(2) [of "Suc i" for i] Suc(4) False by simp
    then show ?thesis using 1 by simp
  qed (use 1 in simp)
qed simp

lemma bit_runs_skip_free:
  "(\<And>i. i < k \<Longrightarrow> P (b + i)) \<Longrightarrow> 0 < k \<Longrightarrow> b + k \<le> n \<Longrightarrow>
   bit_runs P n b run = bit_runs P n (b + k) (Some (case run of None \<Rightarrow> b | Some r \<Rightarrow> r))"
proof (induction k arbitrary: b run)
  case (Suc k)
  have "P b" using Suc(2) [of 0] by simp
  then have 1: "bit_runs P n b run = bit_runs P n (Suc b) (Some (case run of None \<Rightarrow> b | Some r \<Rightarrow> r))"
    using Suc(4) by (subst bit_runs.simps) (simp split: option.splits)
  show ?case
  proof (cases "k = 0")
    case False
    have "bit_runs P n (Suc b) (Some r) = bit_runs P n (Suc b + k) (Some r)" for r
      using Suc(1) [of "Suc b" "Some r"] Suc(2) [of "Suc i" for i] Suc(4) False by simp
    then show ?thesis using 1 by simp
  qed (use 1 in simp)
qed simp

lemma bit_free_iff: "bit_free bitmap b \<longleftrightarrow> \<not> bit (bitmap ! (b div 8)) (b mod 8)"
  by (simp add: bit_free_def bit_iff_and_push_bit_not_eq_0)

lemma bit_all_ones: "i < 8 \<Longrightarrow> bit (0xff :: octet) i"
proof -
  assume "i < 8"
  moreover have "(0xff :: octet) = mask 8" by (simp add: mask_numeral)
  ultimately show ?thesis by (simp only: bit_mask_iff) simp
qed

lemma bit_free_in_byte:
  assumes "b mod 8 = 0" "i < 8"
  shows "bit_free bitmap (b + i) \<longleftrightarrow> \<not> bit (bitmap ! (b div 8)) i"
proof -
  have "(b + i) div 8 = b div 8" "(b + i) mod 8 = i"
    using assms by (auto elim!: dvdE simp flip: dvd_eq_mod_eq_0)
  then show ?thesis by (simp add: bit_free_iff)
qed

lemma scan_bitmap_bit_runs:
  "scan_bitmap add bitmap n b r inRun s =
     fold (\<lambda>(x, y). add x y) (bit_runs (bit_free bitmap) n b (if inRun then Some r else None)) s"
proof (induction add bitmap n b r inRun s rule: scan_bitmap.induct)
  case (1 add bitmap n b r inRun s)
  let ?byte = "bitmap ! (b div 8)"
  consider (finish) "\<not> b < n"
    | (ones) "b < n" "b mod 8 = 0 \<and> n - b \<ge> 8 \<and> ?byte = 0xff"
    | (zeros) "b < n" "\<not> (b mod 8 = 0 \<and> n - b \<ge> 8 \<and> ?byte = 0xff)" "b mod 8 = 0 \<and> n - b \<ge> 8 \<and> ?byte = 0x00"
    | (bit) "b < n" "\<not> (b mod 8 = 0 \<and> n - b \<ge> 8 \<and> ?byte = 0xff)" "\<not> (b mod 8 = 0 \<and> n - b \<ge> 8 \<and> ?byte = 0x00)"
    by blast
  then show ?case
  proof cases
    case finish
    then show ?thesis by (simp add: scan_bitmap.simps [of add bitmap n b] bit_runs.simps [of _ n b])
  next
    case ones
    have "\<not> bit_free bitmap (b + i)" if "i < 8" for i
      using ones that bit_all_ones [OF that] by (simp add: bit_free_in_byte)
    then have "bit_runs (bit_free bitmap) n b run =
        (case run of None \<Rightarrow> [] | Some r \<Rightarrow> [(r, b)]) @ bit_runs (bit_free bitmap) n (b + 8) None" for run
      using ones by (intro bit_runs_skip_used) auto
    then show ?thesis
      using ones 1(1,2) by (cases inRun) (simp_all add: scan_bitmap.simps [of add bitmap n b])
  next
    case zeros
    have "bit_free bitmap (b + i)" if "i < 8" for i
      using zeros that by (simp add: bit_free_in_byte)
    then have "bit_runs (bit_free bitmap) n b run =
        bit_runs (bit_free bitmap) n (b + 8) (Some (case run of None \<Rightarrow> b | Some r \<Rightarrow> r))" for run
      using zeros by (intro bit_runs_skip_free) auto
    then show ?thesis
      using zeros 1(3,4) by (cases inRun) (simp_all add: scan_bitmap.simps [of add bitmap n b])
  next
    case bit
    have free: "(?byte AND push_bit (b mod 8) 1 = 0) = bit_free bitmap b"
      by (simp add: bit_free_def)
    have scan: "scan_bitmap add bitmap n b r inRun s =
        (if bit_free bitmap b \<and> \<not> inRun then scan_bitmap add bitmap n (b + 1) b True s
         else if \<not> bit_free bitmap b \<and> inRun then scan_bitmap add bitmap n (b + 1) r False (add r b s)
         else scan_bitmap add bitmap n (b + 1) r inRun s)"
      unfolding scan_bitmap.simps [of add bitmap n b r inRun s] Let_def free using bit by (simp only: if_True if_False)
    show ?thesis
      using 1(5-7) [OF bit, OF free [symmetric]] bit(1) unfolding scan
      by (cases "bit_free bitmap b"; cases inRun) (simp_all add: bit_runs.simps [of _ n b])
  qed
qed

section \<open>What the runs cover\<close>

definition run_blocks :: "(nat \<times> nat) list \<Rightarrow> nat set" where
  "run_blocks rs = (\<Union>(x, y) \<in> set rs. {x..<y})"

lemma run_blocks_simps [simp]:
  "run_blocks [] = {}" "run_blocks ((x, y) # rs) = {x..<y} \<union> run_blocks rs"
  by (simp_all add: run_blocks_def)

text \<open>Runs in increasing order with a gap between them, from \<open>lo\<close> on and ending by \<open>n\<close>.\<close>

fun runs_in :: "nat \<Rightarrow> nat \<Rightarrow> (nat \<times> nat) list \<Rightarrow> bool" where
  "runs_in lo n [] \<longleftrightarrow> True"
| "runs_in lo n ((x, y) # rs) \<longleftrightarrow> lo \<le> x \<and> x < y \<and> y \<le> n \<and> runs_in (Suc y) n rs"

lemma bit_runs_end: "\<not> b < n \<Longrightarrow> bit_runs P n b run = (case run of None \<Rightarrow> [] | Some r \<Rightarrow> [(r, n)])"
  by (simp add: bit_runs.simps [of P n b])

lemma bit_runs_step:
  "b < n \<Longrightarrow> bit_runs P n b None = bit_runs P n (Suc b) (if P b then Some b else None)"
  "b < n \<Longrightarrow> P b \<Longrightarrow> bit_runs P n b (Some r) = bit_runs P n (Suc b) (Some r)"
  "b < n \<Longrightarrow> \<not> P b \<Longrightarrow> bit_runs P n b (Some r) = (r, b) # bit_runs P n (Suc b) None"
  by (simp_all add: bit_runs.simps [of P n b])

lemma bit_runs_cover:
  "b \<le> n \<Longrightarrow> (case run of None \<Rightarrow> True | Some r \<Rightarrow> r < b) \<Longrightarrow>
   run_blocks (bit_runs P n b run) =
     (case run of None \<Rightarrow> {} | Some r \<Rightarrow> {r..<b}) \<union> {x. b \<le> x \<and> x < n \<and> P x}"
proof (induction "n - b" arbitrary: b run)
  case 0
  then show ?case by (cases run) (auto simp: bit_runs_end)
next
  case (Suc k)
  then have b: "b < n" "k = n - Suc b" "Suc b \<le> n" by simp_all
  note IH = Suc(1) [OF b(2,3)]
  have split: "{x. b \<le> x \<and> x < n \<and> P x} = (if P b then {b} else {}) \<union> {x. Suc b \<le> x \<and> x < n \<and> P x}"
    using b(1) by (auto simp: Suc_le_eq order.order_iff_strict)
  show ?case
  proof (cases run)
    case None
    then show ?thesis
      using IH [of "if P b then Some b else None"] b(1) by (simp add: bit_runs_step split split: if_splits)
  next
    case (Some r)
    then have r: "r < b" using Suc(4) by simp
    then have "{r..<Suc b} = {r..<b} \<union> {b}" by auto
    then show ?thesis
      using IH [of "if P b then Some r else None"] b(1) Some r
      by (cases "P b") (simp_all add: bit_runs_step split)
  qed
qed

lemma bit_runs_in:
  "b \<le> n \<Longrightarrow> (case run of None \<Rightarrow> lo \<le> b | Some r \<Rightarrow> lo \<le> r \<and> r < b) \<Longrightarrow> runs_in lo n (bit_runs P n b run)"
proof (induction "n - b" arbitrary: b run lo)
  case 0
  then show ?case by (cases run) (auto simp: bit_runs_end)
next
  case (Suc k)
  then have b: "b < n" "k = n - Suc b" "Suc b \<le> n" by simp_all
  note IH = Suc(1) [OF b(2,3)]
  show ?case
  proof (cases run)
    case None
    then show ?thesis
      using IH [of lo "if P b then Some b else None"] Suc(4) b(1) by (simp add: bit_runs_step split: if_splits)
  next
    case (Some r)
    then show ?thesis
      using IH [of lo "Some r"] IH [of "Suc b" None] Suc(4) b(1)
      by (cases "P b") (simp_all add: bit_runs_step)
  qed
qed

section \<open>The collector\<close>

definition range_bytes :: "ext4ByteRange \<Rightarrow> int set" where
  "range_bytes r = {Offset r ..< Offset r + Length r}"

text \<open>The merged ranges of a collector that keeps everything, the pending one included.\<close>

definition raw_ranges :: "ext4RunCollector \<Rightarrow> ext4ByteRange list" where
  "raw_ranges c = kept c @ (if Length (pending c) = 0 then [] else [pending c])"

definition ranges_before :: "int \<Rightarrow> ext4ByteRange list \<Rightarrow> bool" where
  "ranges_before lim rs \<longleftrightarrow>
     sorted_wrt (\<lambda>r r'. Offset r + Length r < Offset r') rs \<and>
     (\<forall>r \<in> set rs. 0 \<le> Offset r \<and> 0 < Length r \<and> Offset r + Length r \<le> lim)"

definition keeps_all :: "ext4RunCollector \<Rightarrow> bool" where
  "keeps_all c \<longleftrightarrow> keep c = Some \<and> (Length (pending c) = 0 \<longrightarrow> kept c = [])"

lemma ranges_before_mono: "ranges_before lim rs \<Longrightarrow> lim \<le> lim' \<Longrightarrow> ranges_before lim' rs"
  by (auto simp: ranges_before_def intro: order_trans)

lemma collector_add_raw:
  assumes "keeps_all c" "ranges_before off (raw_ranges c)" "0 \<le> off" "0 < len" "off + len \<le> maxInt64"
  shows "keeps_all (collector_add off len c)"
    and "ranges_before (off + len) (raw_ranges (collector_add off len c))"
    and "\<Union> (range_bytes ` set (raw_ranges (collector_add off len c))) =
         \<Union> (range_bytes ` set (raw_ranges c)) \<union> {off ..< off + len}"
proof -
  let ?p = "pending c"
  have flush: "raw_ranges ((collector_flush c)\<lparr>pending := \<lparr>Offset = off, Length = len\<rparr>\<rparr>) =
      raw_ranges c @ [\<lparr>Offset = off, Length = len\<rparr>]" and k: "keep (collector_flush c) = Some"
    using assms(1,4) by (simp_all add: raw_ranges_def collector_flush_def keeps_all_def)
  have "keeps_all (collector_add off len c) \<and> ranges_before (off + len) (raw_ranges (collector_add off len c)) \<and>
      \<Union> (range_bytes ` set (raw_ranges (collector_add off len c))) =
         \<Union> (range_bytes ` set (raw_ranges c)) \<union> {off ..< off + len}"
  proof (cases "Length ?p \<noteq> 0 \<and> i64 (Offset ?p + Length ?p) = off")
    case True
    have p: "0 \<le> Offset ?p" "0 < Length ?p" "Offset ?p + Length ?p \<le> off"
      using True assms(2) by (auto simp: ranges_before_def raw_ranges_def)
    then have e: "Offset ?p + Length ?p = off" "i64 (Length ?p + len) = Length ?p + len"
      using True assms by (auto simp: i64_id in_i64_bounds)
    have raw: "raw_ranges (collector_add off len c) = kept c @ [?p\<lparr>Length := Length ?p + len\<rparr>]"
      and old: "raw_ranges c = kept c @ [?p]"
      using True p assms(4) e by (auto simp: raw_ranges_def collector_add_def)
    have "range_bytes (?p\<lparr>Length := Length ?p + len\<rparr>) = range_bytes ?p \<union> {off ..< off + len}"
      using e p assms(4) by (auto simp: range_bytes_def)
    moreover have "keeps_all (collector_add off len c)"
      using True assms(1,4) e p by (simp add: collector_add_def keeps_all_def)
    ultimately show ?thesis
      using assms(2,4) e(1) p unfolding raw old
      by (auto simp: ranges_before_def sorted_wrt_append intro: order_trans)
  next
    case False
    have raw: "raw_ranges (collector_add off len c) = raw_ranges c @ [\<lparr>Offset = off, Length = len\<rparr>]"
      unfolding collector_add_def using False flush by auto
    have lt: "Offset r + Length r < off" if r: "r \<in> set (raw_ranges c)" for r
    proof (cases "Length ?p = 0")
      case True
      then show ?thesis using r assms(1) by (simp add: raw_ranges_def keeps_all_def)
    next
      case p: False
      then have b: "0 \<le> Offset ?p" "0 < Length ?p" "Offset ?p + Length ?p \<le> off"
        using assms(2) by (auto simp: ranges_before_def raw_ranges_def)
      then have "i64 (Offset ?p + Length ?p) = Offset ?p + Length ?p"
        using assms(4,5) by (simp add: i64_id in_i64_bounds)
      then have "Offset ?p + Length ?p < off"
        using False p b by auto
      then show ?thesis
        using r p b(2) assms(2) by (auto simp: ranges_before_def raw_ranges_def sorted_wrt_append)
    qed
    have "keeps_all (collector_add off len c)"
      unfolding collector_add_def using False assms(4) k by (auto simp: keeps_all_def)
    then show ?thesis
      using assms(2,3,4) lt unfolding raw
      by (auto simp: ranges_before_def sorted_wrt_append range_bytes_def intro: order_trans)
  qed
  then show "keeps_all (collector_add off len c)"
    and "ranges_before (off + len) (raw_ranges (collector_add off len c))"
    and "\<Union> (range_bytes ` set (raw_ranges (collector_add off len c))) =
         \<Union> (range_bytes ` set (raw_ranges c)) \<union> {off ..< off + len}" by blast+
qed

section \<open>The geometry of an accepted superblock\<close>

lemma int_le_div_iff:
  assumes "0 < (b :: int)"
  shows "a \<le> x div b \<longleftrightarrow> a * b \<le> x"
proof
  assume "a \<le> x div b"
  then have "a * b \<le> (x div b) * b"
    using assms by simp
  also have "\<dots> \<le> x"
    using assms div_mult_mod_eq [of x b] pos_mod_sign [of b x] by linarith
  finally show "a * b \<le> x" .
next
  assume "a * b \<le> x"
  then have "(a * b) div b \<le> x div b"
    by (rule zdiv_mono1) (rule assms)
  then show "a \<le> x div b" using assms by simp
qed

lemma int_div_less_iff: "0 < (b :: int) \<Longrightarrow> x div b < a \<longleftrightarrow> x < a * b"
  using int_le_div_iff [of b a x] by linarith

definition geometry_ok :: "ext4Geometry \<Rightarrow> int \<Rightarrow> bool" where
  "geometry_ok g imageBytes \<longleftrightarrow>
     1024 \<le> blockBytes g \<and> blockBytes g \<le> 65536 \<and> blocksPerGroup g = 8 * blockBytes g \<and>
     0 \<le> firstDataBlock g \<and> firstDataBlock g \<le> 1 \<and> firstDataBlock g + 1 < blocksCount g \<and>
     blocksCount g * blockBytes g \<le> imageBytes \<and>
     groupCount g = (blocksCount g - firstDataBlock g + blocksPerGroup g - 1) div blocksPerGroup g \<and>
     0 \<le> descriptorBytes g \<and> descriptorBytes g \<le> 64"

lemma block_size_bounds:
  assumes "\<not> Uint32LE sb 0x18 > 6"
  shows "1024 \<le> (1024 :: int) * 2 ^ nat (uint (Uint32LE sb 0x18))" "(1024 :: int) * 2 ^ nat (uint (Uint32LE sb 0x18)) \<le> 65536"
proof -
  have "Uint32LE sb 0x18 \<le> 6"
    using assms by simp
  then have "uint (Uint32LE sb 0x18) \<le> 6"
    by (simp add: word_le_def)
  then have "nat (uint (Uint32LE sb 0x18)) \<le> 6"
    by (simp only: nat_le_iff of_nat_numeral)
  then have "(2 :: int) ^ nat (uint (Uint32LE sb 0x18)) \<le> 2 ^ 6"
    by (rule power_increasing) simp
  then show "(1024 :: int) * 2 ^ nat (uint (Uint32LE sb 0x18)) \<le> 65536" by simp
qed simp

lemma parse_geometry:
  assumes "parseExt4Superblock sb imageBytes = Inr g" "0 \<le> imageBytes" "imageBytes \<le> maxInt64"
  shows "geometry_ok g imageBytes"
proof -
  have g: "g = superblockGeometry sb" "\<not> Uint32LE sb 0x18 > 6"
    and f: "firstDataBlock g = (if blockBytes g = 1024 then 1 else 0)"
    and p: "blocksPerGroup g = u64 (blockBytes g * 8)"
    and c: "u64 (firstDataBlock g + 1) < blocksCount g" "blocksCount g \<le> u64 imageBytes div blockBytes g"
    and d: "is64Bit g \<longrightarrow> descriptorBytes g = 64"
    using assms(1) by (auto simp add: parseExt4Superblock_def Let_def split: option.splits if_splits)
  have d': "0 \<le> descriptorBytes g \<and> descriptorBytes g \<le> 64"
    using d by (cases "is64Bit g") (simp_all add: g(1) superblockGeometry_def Let_def)
  have bb: "1024 \<le> blockBytes g" "blockBytes g \<le> 65536"
    using block_size_bounds [OF g(2)] by (simp_all add: g(1) superblockGeometry_def Let_def)
  have p': "blocksPerGroup g = 8 * blockBytes g"
    using p bb by (simp add: u64_id)
  have f': "0 \<le> firstDataBlock g" "firstDataBlock g \<le> 1"
    using f by simp_all
  have c1: "firstDataBlock g + 1 < blocksCount g"
    using c(1) f' by (simp add: u64_id)
  have "blocksCount g \<le> imageBytes div blockBytes g"
    using c(2) assms(2,3) by (simp add: u64_id)
  then have c2: "blocksCount g * blockBytes g \<le> imageBytes"
    using bb(1) by (simp add: int_le_div_iff)
  have "blocksCount g \<le> blocksCount g * blockBytes g"
    using bb(1) c1 f' by (simp add: mult_le_cancel_left1)
  then have "blocksCount g \<le> maxInt64"
    using c2 assms(3) by linarith
  then have "u64 (blocksCount g - firstDataBlock g + blocksPerGroup g - 1) = blocksCount g - firstDataBlock g + blocksPerGroup g - 1"
    using c1 f' bb p' by (intro u64_id) simp_all
  moreover have "groupCount g = u64 (blocksCount g - firstDataBlock g + blocksPerGroup g - 1) div blocksPerGroup g"
    using p' bb by (simp add: g(1) superblockGeometry_def Let_def)
  ultimately show ?thesis
    using bb p' f' c1 c2 d' by (simp add: geometry_ok_def)
qed

section \<open>Scanning the groups\<close>

text \<open>A block that the bitmap of its initialised group marks free.\<close>

definition block_free :: "ImageFile \<Rightarrow> ext4Geometry \<Rightarrow> octet list \<Rightarrow> int \<Rightarrow> bool" where
  "block_free img g descriptors b \<longleftrightarrow>
     firstDataBlock g \<le> b \<and> b < blocksCount g \<and>
     (let d = descriptor_at g descriptors ((b - firstDataBlock g) div blocksPerGroup g) in
      \<not> group_uninit g d \<and>
      (case ReadAt img (bitmap_block g d * blockBytes g) (blockBytes g) of
         None \<Rightarrow> False
       | Some bitmap \<Rightarrow> bit_free bitmap (nat ((b - firstDataBlock g) mod blocksPerGroup g))))"

definition collected :: "ext4RunCollector \<Rightarrow> int set" where
  "collected c = \<Union> (range_bytes ` set (raw_ranges c))"

lemma block_interval:
  assumes "0 < bb"
  shows "{a * bb ..< e * bb} = {z. a \<le> z div bb \<and> z div bb < (e :: int)}"
  using assms by (auto simp: int_le_div_iff int_div_less_iff)

lemma appendRun_eq:
  assumes "0 \<le> start" "0 < bb" "x \<le> y" "(start + int y) * bb \<le> maxInt64"
  shows "appendRun start bb x y = collector_add ((start + int x) * bb) ((int y - int x) * bb)"
proof -
  have "start + int y \<le> (start + int y) * bb"
    using assms(1,2) mult_le_cancel_left1 [of "start + int y" bb] by auto
  then have y: "start + int y \<le> maxInt64" using assms(4) by linarith
  have x: "(start + int x) * bb \<le> (start + int y) * bb" "(int y - int x) * bb \<le> (start + int y) * bb"
    using assms(1-3) by simp_all
  have "0 \<le> (start + int x) * bb" "0 \<le> (int y - int x) * bb"
    using assms(1-3) by simp_all
  then have "i64 ((start + int x) * bb) = (start + int x) * bb" "i64 ((int y - int x) * bb) = (int y - int x) * bb"
    using x assms(4) by (auto intro!: i64_id simp only: in_i64_bounds)
  then show ?thesis
    using y assms(1,3) by (simp add: appendRun_def fun_eq_iff u64_id i64_id in_i64_bounds)
qed

lemma fold_appendRun:
  assumes "0 \<le> start" "0 < bb" "(start + int n) * bb \<le> maxInt64"
  shows "runs_in lo n rs \<Longrightarrow> keeps_all c \<Longrightarrow> ranges_before ((start + int e) * bb) (raw_ranges c) \<Longrightarrow>
    e \<le> lo \<Longrightarrow> e \<le> n \<Longrightarrow>
    (let c' = fold (\<lambda>(x, y). appendRun start bb x y) rs c in
     keeps_all c' \<and> ranges_before ((start + int n) * bb) (raw_ranges c') \<and>
     collected c' = collected c \<union> {z. \<exists>k \<in> run_blocks rs. z div bb = start + int k})"
proof (induction rs arbitrary: lo c e)
  case Nil
  then show ?case
    using assms(2) by (auto simp: elim!: ranges_before_mono)
next
  case (Cons r rs)
  obtain x y where r: "r = (x, y)" by (cases r)
  have xy: "lo \<le> x" "x < y" "y \<le> n" "runs_in (Suc y) n rs"
    using Cons(2) r by simp_all
  have ybb: "(start + int y) * bb \<le> maxInt64"
    using xy(3) assms(2,3) by (intro order_trans [OF _ assms(3)]) simp
  define c1 where "c1 = appendRun start bb x y c"
  have c1: "c1 = collector_add ((start + int x) * bb) ((int y - int x) * bb) c"
    using appendRun_eq [OF assms(1,2) _ ybb, of x] xy(2) by (simp add: c1_def)
  have len: "(start + int x) * bb + (int y - int x) * bb = (start + int y) * bb"
    by (simp add: algebra_simps)
  have pre: "ranges_before ((start + int x) * bb) (raw_ranges c)"
    using Cons(4,5) xy(1) assms(2) by (elim ranges_before_mono) simp
  have pos: "0 \<le> (start + int x) * bb" "0 < (int y - int x) * bb"
    using assms(1,2) xy(2) by simp_all
  note add = collector_add_raw [OF Cons(3) pre pos, unfolded len, OF ybb, folded c1]
  have IH: "let c' = fold (\<lambda>(x, y). appendRun start bb x y) rs c1 in
     keeps_all c' \<and> ranges_before ((start + int n) * bb) (raw_ranges c') \<and>
     collected c' = collected c1 \<union> {z. \<exists>k \<in> run_blocks rs. z div bb = start + int k}"
    using Cons(1) [OF xy(4) add(1,2)] xy(3) by simp
  have "{z. start + int x \<le> z div bb \<and> z div bb < start + int y} = {z. \<exists>k \<in> {x..<y}. z div bb = start + int k}"
    by (auto intro!: bexI [of _ "nat (z div bb - start)" for z])
  then have "collected c1 = collected c \<union> {z. \<exists>k \<in> {x..<y}. z div bb = start + int k}"
    using add(3) block_interval [OF assms(2), of "start + int x" "start + int y"] by (simp add: collected_def)
  then show ?case
    using IH by (auto simp: Let_def r c1_def [symmetric])
qed

lemma i64_block_offset:
  assumes "0 \<le> b" "b \<le> c" "1 \<le> bb" "c * bb \<le> maxInt64"
  shows "i64 (i64 b * bb) = b * bb"
proof -
  have "b * bb \<le> c * bb" "b \<le> b * bb" "0 \<le> b * bb"
    using assms mult_left_mono [of 1 bb b] by (auto intro!: mult_right_mono)
  then have "in_i64 b" "in_i64 (b * bb)"
    unfolding in_i64_bounds using assms(1,4) by linarith+
  then show ?thesis by (simp add: i64_id)
qed

lemma group_arith:
  assumes "geometry_ok g imageBytes" "imageBytes \<le> maxInt64" "0 \<le> grp" "grp < groupCount g"
  defines "start \<equiv> firstDataBlock g + grp * blocksPerGroup g"
  shows "u64 start = start" "0 \<le> start" "start < blocksCount g"
    "int (group_blocks g grp) = min (blocksPerGroup g) (blocksCount g - start)"
    "(start + int (group_blocks g grp)) * blockBytes g \<le> maxInt64"
proof -
  have g: "0 < blocksPerGroup g" "0 \<le> firstDataBlock g" "blocksCount g * blockBytes g \<le> imageBytes" "1024 \<le> blockBytes g"
    "groupCount g = (blocksCount g - firstDataBlock g + blocksPerGroup g - 1) div blocksPerGroup g"
    "0 < blocksCount g"
    using assms(1) by (auto simp: geometry_ok_def)
  have "grp + 1 \<le> groupCount g" using assms(4) by simp
  then have "(grp + 1) * blocksPerGroup g \<le> blocksCount g - firstDataBlock g + blocksPerGroup g - 1"
    using g(1,5) by (simp add: int_le_div_iff)
  then show s: "start < blocksCount g"
    by (simp add: start_def algebra_simps)
  show n: "0 \<le> start"
    using g(1,2) assms(3) by (simp add: start_def)
  have "blocksCount g * 1 \<le> blocksCount g * blockBytes g"
    using g(4,6) by (intro mult_left_mono) simp_all
  then have c: "blocksCount g \<le> maxInt64"
    using g(3) assms(2) by linarith
  show u: "u64 start = start"
    using s n c by (intro u64_id) simp_all
  show b: "int (group_blocks g grp) = min (blocksPerGroup g) (blocksCount g - start)"
    using s n c g(1) u by (simp add: group_blocks_def start_def [symmetric] u64_id)
  then have "start + int (group_blocks g grp) \<le> blocksCount g" by simp
  then have "(start + int (group_blocks g grp)) * blockBytes g \<le> blocksCount g * blockBytes g"
    using g(4) by (intro mult_right_mono) simp_all
  then show "(start + int (group_blocks g grp)) * blockBytes g \<le> maxInt64"
    using g(3) assms(2) by linarith
qed

text \<open>The blocks of one group, by their number within the group.\<close>

lemma group_block_iff:
  assumes "geometry_ok g imageBytes" "imageBytes \<le> maxInt64" "0 \<le> grp" "grp < groupCount g"
  defines "start \<equiv> firstDataBlock g + grp * blocksPerGroup g"
  shows "(firstDataBlock g \<le> b \<and> b < blocksCount g \<and> (b - firstDataBlock g) div blocksPerGroup g = grp) \<longleftrightarrow>
    (\<exists>k < group_blocks g grp. b = start + int k)"
    and "k < group_blocks g grp \<Longrightarrow> nat ((start + int k - firstDataBlock g) mod blocksPerGroup g) = k"
proof -
  note a = group_arith [OF assms(1-4), folded start_def]
  have p: "0 < blocksPerGroup g" using assms(1) by (auto simp: geometry_ok_def)
  have within: "(b - firstDataBlock g) div blocksPerGroup g = grp \<longleftrightarrow> start \<le> b \<and> b < start + blocksPerGroup g" for b
  proof -
    have "(b - firstDataBlock g) div blocksPerGroup g = grp \<longleftrightarrow>
        grp \<le> (b - firstDataBlock g) div blocksPerGroup g \<and> (b - firstDataBlock g) div blocksPerGroup g < grp + 1"
      by auto
    then show ?thesis
      using p by (auto simp: int_le_div_iff int_div_less_iff start_def algebra_simps)
  qed
  have f: "firstDataBlock g \<le> start" using p assms(3) by (simp add: start_def)
  show "(firstDataBlock g \<le> b \<and> b < blocksCount g \<and> (b - firstDataBlock g) div blocksPerGroup g = grp) \<longleftrightarrow>
    (\<exists>k < group_blocks g grp. b = start + int k)"
  proof
    assume "firstDataBlock g \<le> b \<and> b < blocksCount g \<and> (b - firstDataBlock g) div blocksPerGroup g = grp"
    then have "start \<le> b" "b < blocksCount g" "b < start + blocksPerGroup g"
      using within by auto
    then show "\<exists>k < group_blocks g grp. b = start + int k"
      using a(4) by (intro exI [of _ "nat (b - start)"]) (simp add: nat_less_iff)
  next
    assume "\<exists>k < group_blocks g grp. b = start + int k"
    then obtain k where "int k < int (group_blocks g grp)" "b = start + int k" by auto
    then show "firstDataBlock g \<le> b \<and> b < blocksCount g \<and> (b - firstDataBlock g) div blocksPerGroup g = grp"
      using a(4) f within by simp
  qed
  show "nat ((start + int k - firstDataBlock g) mod blocksPerGroup g) = k" if "k < group_blocks g grp"
  proof -
    have "int k < blocksPerGroup g" using that a(4) by linarith
    then show ?thesis by (simp add: start_def)
  qed
qed

text \<open>One group adds exactly its free blocks.\<close>

lemma scanGroup_collects:
  assumes "geometry_ok g imageBytes" "imageBytes \<le> maxInt64" "0 \<le> grp" "grp < groupCount g"
    and "scanGroup img g ds grp c = Inr c'"
    and "keeps_all c" "ranges_before ((firstDataBlock g + grp * blocksPerGroup g) * blockBytes g) (raw_ranges c)"
  shows "keeps_all c' \<and>
    ranges_before ((firstDataBlock g + (grp + 1) * blocksPerGroup g) * blockBytes g) (raw_ranges c') \<and>
    collected c' = collected c \<union>
      {z. block_free img g ds (z div blockBytes g) \<and> (z div blockBytes g - firstDataBlock g) div blocksPerGroup g = grp}"
proof -
  let ?d = "descriptor_at g ds grp" and ?bb = "blockBytes g" and ?n = "group_blocks g grp"
  let ?start = "firstDataBlock g + grp * blocksPerGroup g"
  have g: "0 < blocksPerGroup g" "1024 \<le> ?bb" "blocksCount g * ?bb \<le> imageBytes" "0 \<le> firstDataBlock g"
    using assms(1) by (auto simp: geometry_ok_def)
  note a = group_arith [OF assms(1-4)]
  have next_group: "(?start + int ?n) * ?bb \<le> (firstDataBlock g + (grp + 1) * blocksPerGroup g) * ?bb"
    "?start * ?bb \<le> (firstDataBlock g + (grp + 1) * blocksPerGroup g) * ?bb"
    using a(4) g(1,2) by (auto intro!: mult_right_mono simp: algebra_simps)
  show ?thesis
  proof (cases "group_uninit g ?d")
    case True
    then have "c' = c"
      using assms(5) by (auto simp: scanGroup_def Let_def split: if_splits)
    moreover have "\<not> block_free img g ds b" if "(b - firstDataBlock g) div blocksPerGroup g = grp" for b
      using True that by (auto simp: block_free_def Let_def)
    ultimately show ?thesis
      using assms(6,7) next_group(2) by (auto intro: ranges_before_mono)
  next
    case False
    then obtain bitmap where
      b: "firstDataBlock g < bitmap_block g ?d" "bitmap_block g ?d < blocksCount g"
      "ReadAt img (i64 (i64 (bitmap_block g ?d) * ?bb)) ?bb = Some bitmap"
      and c': "c' = collectExt4FreeRuns c bitmap ?n (u64 ?start) ?bb"
      using assms(5) by (auto simp: scanGroup_def Let_def split: if_splits option.splits)
    have "i64 (i64 (bitmap_block g ?d) * ?bb) = bitmap_block g ?d * ?bb"
      using g b(1,2) assms(2) by (intro i64_block_offset [of _ "blocksCount g"]) linarith+
    then have read: "ReadAt img (bitmap_block g ?d * ?bb) ?bb = Some bitmap"
      using b(3) by simp
    let ?runs = "bit_runs (bit_free bitmap) ?n 0 None"
    have c'': "c' = fold (\<lambda>(x, y). appendRun ?start ?bb x y) ?runs c"
      by (simp add: c' collectExt4FreeRuns_def scan_bitmap_bit_runs a(1))
    have free: "block_free img g ds b \<and> (b - firstDataBlock g) div blocksPerGroup g = grp \<longleftrightarrow>
        (\<exists>k \<in> run_blocks ?runs. b = ?start + int k)" for b
    proof -
      have "block_free img g ds b \<and> (b - firstDataBlock g) div blocksPerGroup g = grp \<longleftrightarrow>
          (firstDataBlock g \<le> b \<and> b < blocksCount g \<and> (b - firstDataBlock g) div blocksPerGroup g = grp) \<and>
          bit_free bitmap (nat ((b - firstDataBlock g) mod blocksPerGroup g))"
        using False read by (auto simp: block_free_def Let_def)
      also have "\<dots> \<longleftrightarrow> (\<exists>k < ?n. b = ?start + int k) \<and>
          bit_free bitmap (nat ((b - firstDataBlock g) mod blocksPerGroup g))"
        by (simp only: group_block_iff(1) [OF assms(1-4)])
      also have "\<dots> \<longleftrightarrow> (\<exists>k < ?n. b = ?start + int k \<and> bit_free bitmap k)"
        using group_block_iff(2) [OF assms(1-4)] by auto
      also have "\<dots> \<longleftrightarrow> (\<exists>k \<in> run_blocks ?runs. b = ?start + int k)"
        using bit_runs_cover [of 0 ?n None "bit_free bitmap"] by auto
      finally show ?thesis .
    qed
    show ?thesis
      using fold_appendRun [OF a(2) _ a(5) bit_runs_in [where b = 0 and n = ?n and run = None and lo = 0 and P = "bit_free bitmap"] assms(6), of 0]
        assms(7) g(2) next_group(1) unfolding c'' free
      by (auto simp: Let_def intro: ranges_before_mono)
  qed
qed

lemma scanGroups_collects:
  assumes "geometry_ok g imageBytes" "imageBytes \<le> maxInt64"
  shows "scanGroups img g ds [k..<n] c = Inr c' \<Longrightarrow> k \<le> n \<Longrightarrow> int n \<le> groupCount g \<Longrightarrow> keeps_all c \<Longrightarrow>
    ranges_before ((firstDataBlock g + int k * blocksPerGroup g) * blockBytes g) (raw_ranges c) \<Longrightarrow>
    keeps_all c' \<and>
    ranges_before ((firstDataBlock g + int n * blocksPerGroup g) * blockBytes g) (raw_ranges c') \<and>
    collected c' = collected c \<union> {z. block_free img g ds (z div blockBytes g) \<and>
      int k \<le> (z div blockBytes g - firstDataBlock g) div blocksPerGroup g \<and>
      (z div blockBytes g - firstDataBlock g) div blocksPerGroup g < int n}"
proof (induction "n - k" arbitrary: k c)
  case 0
  then show ?case by auto
next
  case (Suc m)
  then have k: "k < n" "m = n - Suc k" "Suc k \<le> n" by simp_all
  then obtain c1 where c1: "scanGroup img g ds (int k) c = Inr c1" "scanGroups img g ds [Suc k..<n] c1 = Inr c'"
    using Suc(3) by (auto simp: upt_conv_Cons split: sum.splits)
  have step: "keeps_all c1 \<and>
    ranges_before ((firstDataBlock g + (int k + 1) * blocksPerGroup g) * blockBytes g) (raw_ranges c1) \<and>
    collected c1 = collected c \<union>
      {z. block_free img g ds (z div blockBytes g) \<and> (z div blockBytes g - firstDataBlock g) div blocksPerGroup g = int k}"
    using scanGroup_collects [OF assms _ _ c1(1) Suc(6,7)] k(1) Suc(5) by simp
  then have IH: "keeps_all c' \<and>
    ranges_before ((firstDataBlock g + int n * blocksPerGroup g) * blockBytes g) (raw_ranges c') \<and>
    collected c' = collected c1 \<union> {z. block_free img g ds (z div blockBytes g) \<and>
      int (Suc k) \<le> (z div blockBytes g - firstDataBlock g) div blocksPerGroup g \<and>
      (z div blockBytes g - firstDataBlock g) div blocksPerGroup g < int n}"
    using Suc(1) [OF k(2) c1(2) k(3) Suc(5)] by (simp add: add.commute)
  then show ?case
    using step k(1) by auto
qed

section \<open>Keeping part of the ranges\<close>

text \<open>
  A collector with any \<open>keep\<close> runs in step with the one that keeps every range
  and holds the kept part of it.
\<close>

definition keep_sim :: "(ext4ByteRange \<Rightarrow> ext4ByteRange option) \<Rightarrow> ext4RunCollector \<Rightarrow> ext4RunCollector \<Rightarrow> bool" where
  "keep_sim f c d \<longleftrightarrow> keep c = f \<and> keep d = Some \<and> pending c = pending d \<and> kept c = List.map_filter f (kept d)"

lemma keep_sim_flush: "keep_sim f c d \<Longrightarrow> keep_sim f (collector_flush c) (collector_flush d)"
  by (auto simp: keep_sim_def collector_flush_def List.map_filter_def split: option.splits)

lemma keep_sim_pending: "keep_sim f c d \<Longrightarrow> keep_sim f (c\<lparr>pending := p\<rparr>) (d\<lparr>pending := p\<rparr>)"
  by (simp add: keep_sim_def)

lemma keep_sim_add:
  assumes "keep_sim f c d"
  shows "keep_sim f (collector_add off len c) (collector_add off len d)"
proof -
  have "pending c = pending d" using assms by (simp add: keep_sim_def)
  then show ?thesis
    using assms by (simp add: collector_add_def keep_sim_flush keep_sim_pending)
qed

lemma keep_sim_fold:
  "keep_sim f c d \<Longrightarrow> keep_sim f (fold (\<lambda>(x, y). appendRun s bb x y) rs c) (fold (\<lambda>(x, y). appendRun s bb x y) rs d)"
  by (induction rs arbitrary: c d) (auto simp: appendRun_def keep_sim_add)

lemma keep_sim_group:
  "keep_sim f c d \<Longrightarrow> rel_sum (=) (keep_sim f) (scanGroup img g ds grp c) (scanGroup img g ds grp d)"
  by (auto simp: scanGroup_def collectExt4FreeRuns_def scan_bitmap_bit_runs Let_def keep_sim_fold split: option.splits)

lemma keep_sim_groups:
  "keep_sim f c d \<Longrightarrow> rel_sum (=) (keep_sim f) (scanGroups img g ds grps c) (scanGroups img g ds grps d)"
proof (induction grps arbitrary: c d)
  case (Cons grp grps)
  then show ?case
    using keep_sim_group [OF Cons(2), of img g ds "int grp"] by (auto split: sum.splits elim: rel_sum.cases)
qed simp

section \<open>The free ranges are the free blocks\<close>

text \<open>The bytes that belong to a block which the image marks free.\<close>

definition ext4_free_byte :: "ImageFile \<Rightarrow> int \<Rightarrow> int \<Rightarrow> bool" where
  "ext4_free_byte img imageBytes z =
     (case ReadAt img 1024 1024 of
        None \<Rightarrow> False
      | Some sb \<Rightarrow>
          (case parseExt4Superblock sb imageBytes of
             Inl _ \<Rightarrow> False
           | Inr g \<Rightarrow>
               (case ReadAt img ((firstDataBlock g + 1) * blockBytes g) (groupCount g * descriptorBytes g) of
                  None \<Rightarrow> False
                | Some ds \<Rightarrow> block_free img g ds (z div blockBytes g))))"

lemma descriptor_read:
  assumes "geometry_ok g imageBytes" "imageBytes \<le> maxInt64"
  shows "i64 (i64 (u64 (firstDataBlock g + 1)) * blockBytes g) = (firstDataBlock g + 1) * blockBytes g"
    and "u64 (groupCount g * descriptorBytes g) = groupCount g * descriptorBytes g"
    and "0 \<le> groupCount g"
proof -
  have g: "0 < blocksPerGroup g" "8192 \<le> blocksPerGroup g" "0 \<le> firstDataBlock g" "firstDataBlock g \<le> 1"
    "firstDataBlock g + 1 < blocksCount g" "blocksCount g * blockBytes g \<le> imageBytes" "1024 \<le> blockBytes g"
    "groupCount g = (blocksCount g - firstDataBlock g + blocksPerGroup g - 1) div blocksPerGroup g"
    "0 \<le> descriptorBytes g" "descriptorBytes g \<le> 64"
    using assms(1) by (auto simp: geometry_ok_def)
  show "i64 (i64 (u64 (firstDataBlock g + 1)) * blockBytes g) = (firstDataBlock g + 1) * blockBytes g"
    using g assms(2) by (subst u64_id, linarith, simp, intro i64_block_offset [of _ "blocksCount g"]) linarith+
  show p: "0 \<le> groupCount g"
    using g by (simp add: pos_imp_zdiv_nonneg_iff)
  have "groupCount g * blocksPerGroup g \<le> blocksCount g - firstDataBlock g + blocksPerGroup g - 1"
    unfolding g(8) using g(1) by (subst int_le_div_iff [symmetric]) simp_all
  then have "(groupCount g - 1) * blocksPerGroup g < blocksCount g"
    using g(3) by (simp add: algebra_simps)
  moreover have "groupCount g - 1 \<le> (groupCount g - 1) * blocksPerGroup g" if "1 \<le> groupCount g"
    using that g(1) mult_left_mono [of 1 "blocksPerGroup g" "groupCount g - 1"] by simp
  ultimately have gc: "groupCount g \<le> blocksCount g"
    using g(3,5) by (cases "1 \<le> groupCount g") linarith+
  have "blocksCount g * 1024 \<le> blocksCount g * blockBytes g"
    using g by (intro mult_left_mono) linarith+
  then have "groupCount g * 64 \<le> maxInt64"
    using gc g(6) assms(2) by linarith
  moreover have "groupCount g * descriptorBytes g \<le> groupCount g * 64" "0 \<le> groupCount g * descriptorBytes g"
    using p g(9,10) by (auto intro!: mult_left_mono)
  moreover have "(2 :: int) ^ 64 = 18446744073709551616" by simp
  ultimately show "u64 (groupCount g * descriptorBytes g) = groupCount g * descriptorBytes g"
    by (intro u64_id) linarith+
qed

lemma group_lt_count:
  assumes "geometry_ok g imageBytes" "block_free img g ds b"
  shows "0 \<le> (b - firstDataBlock g) div blocksPerGroup g" "(b - firstDataBlock g) div blocksPerGroup g < groupCount g"
proof -
  have g: "0 < blocksPerGroup g"
    "groupCount g = (blocksCount g - firstDataBlock g + blocksPerGroup g - 1) div blocksPerGroup g"
    and b: "firstDataBlock g \<le> b" "b < blocksCount g"
    using assms by (auto simp: geometry_ok_def block_free_def)
  show "0 \<le> (b - firstDataBlock g) div blocksPerGroup g"
    using g(1) b(1) by (simp add: pos_imp_zdiv_nonneg_iff)
  have "(b - firstDataBlock g + blocksPerGroup g) div blocksPerGroup g \<le> groupCount g"
    unfolding g(2) using g(1) b(2) by (intro zdiv_mono1) linarith+
  moreover have "(b - firstDataBlock g + blocksPerGroup g) div blocksPerGroup g =
      (b - firstDataBlock g) div blocksPerGroup g + 1"
    using g(1) by (intro div_add_self2) simp
  ultimately show "(b - firstDataBlock g) div blocksPerGroup g < groupCount g"
    by linarith
qed

lemma ranges_cover_bounded:
  assumes "ranges_before lim rs" "\<Union> (range_bytes ` set rs) \<subseteq> {z. z div bb < c}" "0 < bb" "c * bb \<le> imageBytes"
  shows "ranges_before imageBytes rs"
proof -
  have "Offset r + Length r \<le> imageBytes" if r: "r \<in> set rs" for r
  proof -
    have "Offset r + Length r - 1 \<in> range_bytes r"
      using assms(1) r by (auto simp: ranges_before_def range_bytes_def)
    then have "(Offset r + Length r - 1) div bb < c" using assms(2) r by blast
    then have "Offset r + Length r - 1 < c * bb" using assms(3) by (simp add: int_div_less_iff)
    then show ?thesis using assms(4) by linarith
  qed
  then show ?thesis using assms(1) by (simp add: ranges_before_def)
qed

lemma free_ranges_exact:
  assumes "0 \<le> imageBytes" "imageBytes \<le> maxInt64" "ext4FreeRanges img imageBytes f = Inr ranges"
  shows "\<exists>raw. ranges = List.map_filter f raw \<and> ranges_before imageBytes raw \<and>
    \<Union> (range_bytes ` set raw) = {z. ext4_free_byte img imageBytes z}"
proof -
  obtain sb g where sb: "ReadAt img 1024 1024 = Some sb" "parseExt4Superblock sb imageBytes = Inr g"
    using assms(3) by (auto simp: ext4FreeRanges_def split: option.splits sum.splits)
  have ok: "geometry_ok g imageBytes" by (rule parse_geometry [OF sb(2) assms(1,2)])
  note read = descriptor_read [OF ok assms(2)]
  let ?start = "\<lambda>f. \<lparr>keep = f, pending = emptyRange, kept = []\<rparr>"
  obtain ds c where ds: "ReadAt img ((firstDataBlock g + 1) * blockBytes g) (groupCount g * descriptorBytes g) = Some ds"
    and c: "scanGroups img g ds [0..<nat (groupCount g)] (?start f) = Inr c" "ranges = kept (collector_flush c)"
    using assms(3) sb read(1,2) by (auto simp: ext4FreeRanges_def split: option.splits sum.splits)
  have "keep_sim f (?start f) (?start Some)"
    by (simp add: keep_sim_def List.map_filter_def)
  then obtain d where d: "scanGroups img g ds [0..<nat (groupCount g)] (?start Some) = Inr d" "keep_sim f c d"
    using keep_sim_groups [of f "?start f" "?start Some" img g ds "[0..<nat (groupCount g)]"] c(1)
    by (auto elim: rel_sum.cases)
  have init: "keeps_all (?start Some)" "raw_ranges (?start Some) = []"
    by (simp_all add: keeps_all_def raw_ranges_def)
  have D: "keeps_all d" "ranges_before ((firstDataBlock g + groupCount g * blocksPerGroup g) * blockBytes g) (raw_ranges d)"
    "collected d = {z. block_free img g ds (z div blockBytes g) \<and>
      0 \<le> (z div blockBytes g - firstDataBlock g) div blocksPerGroup g \<and>
      (z div blockBytes g - firstDataBlock g) div blocksPerGroup g < groupCount g}"
    using scanGroups_collects [OF ok assms(2) d(1) _ _ init(1)] init(2) read(3)
    by (auto simp: collected_def ranges_before_def)
  have all: "collected d = {z. ext4_free_byte img imageBytes z}"
    using group_lt_count [OF ok] by (auto simp: D(3) ext4_free_byte_def sb ds)
  have "kept (collector_flush d) = raw_ranges d"
    using D(1) by (auto simp: collector_flush_def raw_ranges_def keeps_all_def)
  then have "ranges = List.map_filter f (raw_ranges d)"
    using keep_sim_flush [OF d(2)] c(2) by (simp add: keep_sim_def)
  moreover have "ranges_before imageBytes (raw_ranges d)"
    using ok by (intro ranges_cover_bounded [OF D(2), of "blockBytes g" "blocksCount g"])
      (auto simp: geometry_ok_def collected_def [symmetric] D(3) block_free_def)
  ultimately show ?thesis
    using all by (auto simp: collected_def)
qed

section \<open>Alignment\<close>

lemma align_facts:
  assumes "0 \<le> Offset r" "0 < Length r" "Offset r + Length r \<le> 4611686018427387904"
  defines "lo \<equiv> (Offset r + 65535) div 65536" and "hi \<equiv> (Offset r + Length r) div 65536"
  shows "alignWorkspaceReclaimRange r =
    (if (hi - lo) * 65536 < workspaceReclaimMinimumBytes then None
     else Some \<lparr>Offset = lo * 65536, Length = (hi - lo) * 65536\<rparr>)"
proof -
  have lo: "0 \<le> lo" "lo * 65536 \<le> Offset r + 65535" and hi: "0 \<le> hi" "hi * 65536 \<le> Offset r + Length r"
    using assms(1,2) by (simp_all add: lo_def hi_def pos_imp_zdiv_nonneg_iff int_le_div_iff [symmetric])
  have "i64 (i64 (Offset r + 65536) - 1) = Offset r + 65535"
    using assms(1-3) by (simp add: i64_id in_i64_bounds)
  moreover have "i64 (Offset r + Length r) = Offset r + Length r" "i64 (lo * 65536) = lo * 65536"
    "i64 (hi * 65536) = hi * 65536" "i64 (hi * 65536 - lo * 65536) = (hi - lo) * 65536"
    using assms(1-3) lo hi by (simp_all add: i64_id in_i64_bounds algebra_simps)
  ultimately show ?thesis
    using assms(1,2) by (simp add: alignWorkspaceReclaimRange_def Let_def go_div_def lo_def hi_def)
qed

lemma align_within:
  assumes "0 \<le> Offset r" "0 < Length r" "Offset r + Length r \<le> 4611686018427387904"
    and "alignWorkspaceReclaimRange r = Some r'"
  shows "range_bytes r' \<subseteq> range_bytes r" "65536 dvd Offset r'" "65536 dvd Length r'"
    "workspaceReclaimMinimumBytes \<le> Length r'"
proof -
  let ?lo = "(Offset r + 65535) div 65536" and ?hi = "(Offset r + Length r) div 65536"
  have r': "r' = \<lparr>Offset = ?lo * 65536, Length = (?hi - ?lo) * 65536\<rparr>" "workspaceReclaimMinimumBytes \<le> (?hi - ?lo) * 65536"
    using assms(4) unfolding align_facts [OF assms(1-3)] by (auto split: if_splits)
  have "Offset r \<le> ?lo * 65536" "?hi * 65536 \<le> Offset r + Length r"
    using int_div_less_iff [of 65536 "Offset r + 65535" "?lo + 1"] by (simp_all add: int_le_div_iff [symmetric])
  then show "range_bytes r' \<subseteq> range_bytes r"
    by (auto simp: range_bytes_def r'(1) algebra_simps)
  show "65536 dvd Offset r'" "65536 dvd Length r'" "workspaceReclaimMinimumBytes \<le> Length r'"
    using r' by simp_all
qed

section \<open>Punching\<close>

definition punches_only_range :: "Host \<Rightarrow> bool" where
  "punches_only_range host \<longleftrightarrow>
     (\<forall>off len img r img'. punchHole host off len img = (r, img') \<longrightarrow>
        (\<forall>z. z < off \<or> off + len \<le> z \<longrightarrow> content img' z = content img z))"

lemma punch_preserves:
  assumes "punches_only_range host" "z \<notin> \<Union> (range_bytes ` set ranges)"
  shows "content (snd (punchWorkspaceReclaimRanges host ranges limit result img)) z = content img z"
  using assms(2)
proof (induction ranges arbitrary: result img)
  case (Cons free ranges)
  have "content img' z = content img z" if "punchHole host (Offset free) (Length free) img = (r, img')" for r img'
  proof -
    have "z < Offset free \<or> Offset free + Length free \<le> z"
      using Cons(2) by (auto simp: range_bytes_def)
    then show ?thesis
      using assms(1) that unfolding punches_only_range_def by blast
  qed
  then show ?case
    using Cons by (simp split: sum.splits prod.splits)
qed simp

lemma punch_count:
  assumes "punchWorkspaceReclaimRanges host ranges limit result img = (Inr result', img')"
    and "0 \<le> Ranges result" "Ranges result \<le> limit" "limit \<le> 1000000"
  shows "Ranges result \<le> Ranges result' \<and> Ranges result' \<le> limit \<and>
    (Reason result' = Reason result \<or> Reason result' = workspaceReclaimHostStorageExhausted \<or>
     Reason result' = workspaceReclaimPunchLimitReached \<and> Ranges result' = limit)"
  using assms(1-3)
proof (induction ranges arbitrary: result img)
  case (Cons free ranges)
  have "i64 (Ranges result + 1) = Ranges result + 1"
    using Cons(3,4) assms(4) by (simp add: i64_id in_i64_bounds)
  then show ?case
    using Cons by (fastforce split: sum.splits prod.splits if_splits)
qed simp

section \<open>Counting free bits\<close>

lemma OnesCount8_card: "OnesCount8 v = card {i. i < 8 \<and> bit v i}"
proof -
  have "{i. i < 8 \<and> bit v i} = set (filter (bit v) [0..<8])" by auto
  then show ?thesis
    by (simp add: OnesCount8_def distinct_card [symmetric] del: set_filter)
qed

lemma card_split:
  "card {b. b < m + k \<and> Q b} = card {b. b < m \<and> Q b} + card {i. i < k \<and> Q (m + i :: nat)}"
proof -
  have "{b. b < m + k \<and> Q b} = {b. b < m \<and> Q b} \<union> (\<lambda>i. m + i) ` {i. i < k \<and> Q (m + i)}"
  proof (intro set_eqI iffI)
    fix b assume b: "b \<in> {b. b < m + k \<and> Q b}"
    show "b \<in> {b. b < m \<and> Q b} \<union> (\<lambda>i. m + i) ` {i. i < k \<and> Q (m + i)}"
    proof (cases "b < m")
      case False
      then have "b = m + (b - m)" by simp
      then show ?thesis using b by (intro UnI2 image_eqI [of _ _ "b - m"]) auto
    qed (use b in simp)
  qed auto
  moreover have "card ((\<lambda>i. m + i) ` {i. i < k \<and> Q (m + i)}) = card {i. i < k \<and> Q (m + i)}"
    by (simp add: card_image)
  ultimately show ?thesis
    by (subst \<open>{b. b < m + k \<and> Q b} = _\<close>, subst card_Un_disjoint) auto
qed

lemma used_bits_bytes:
  "n \<le> length bitmap \<Longrightarrow>
   sum_list (map OnesCount8 (take n bitmap)) = card {b. b < 8 * n \<and> \<not> bit_free bitmap b}"
proof (induction n)
  case (Suc n)
  have "{i. i < 8 \<and> \<not> bit_free bitmap (8 * n + i)} = {i. i < 8 \<and> bit (bitmap ! n) i}"
    by (auto simp: bit_free_in_byte)
  then show ?case
    using Suc card_split [of "8 * n" 8 "\<lambda>b. \<not> bit_free bitmap b"]
    by (simp add: take_Suc_conv_app_nth OnesCount8_card add.commute)
qed simp

lemma count_free_bits:
  assumes "blocks \<le> 8 * length bitmap" "blocks < 18446744073709551616"
  shows "countExt4FreeBits bitmap blocks = int (card {b. b < blocks \<and> bit_free bitmap b})"
proof -
  let ?n = "blocks div 8" and ?r = "blocks mod 8"
  let ?used = "\<lambda>m. {b. b < m \<and> \<not> bit_free bitmap b}"
  have "push_bit ?r 1 - 1 = (mask ?r :: octet)"
    by (simp add: mask_eq_exp_minus_1 push_bit_eq_mult)
  then have "{i. i < ?r \<and> \<not> bit_free bitmap (8 * ?n + i)} = {i. i < 8 \<and> bit (bitmap ! ?n AND (push_bit ?r 1 - 1)) i}"
    using mod_less_divisor [of 8 blocks] by (auto simp: bit_free_in_byte bit_and_iff bit_mask_iff)
  then have last: "card (?used blocks) = card (?used (8 * ?n)) + OnesCount8 (bitmap ! ?n AND (push_bit ?r 1 - 1))"
    using card_split [of "8 * ?n" ?r "\<lambda>b. \<not> bit_free bitmap b"] by (simp add: OnesCount8_card)
  have "OnesCount8 (bitmap ! ?n AND (push_bit ?r 1 - 1)) = 0" if "?r = 0"
    using that by (simp add: OnesCount8_def)
  moreover have "?n \<le> length bitmap" using assms(1) by simp
  ultimately have count: "countExt4FreeBits bitmap blocks = u64 (int blocks - int (card (?used blocks)))"
    using last by (auto simp: countExt4FreeBits_def Let_def used_bits_bytes)
  have "blocks = card ({b. b < blocks \<and> bit_free bitmap b} \<union> ?used blocks)"
    using card_lessThan [of blocks] by (simp add: Collect_disj_eq [symmetric] lessThan_def conj_disj_distribL [symmetric])
  also have "\<dots> = card {b. b < blocks \<and> bit_free bitmap b} + card (?used blocks)"
    by (intro card_Un_disjoint) auto
  finally show ?thesis
    using assms(2) by (simp add: count u64_id)
qed

end
