(* ===== verification/Ext4_Safety.thy ===== *)
theory Ext4_Safety
  imports Ext4_Free_Ranges
begin

text \<open>
  The properties of the freed-block reclaim, and a small filesystem image on
  which their hypotheses hold: 300 blocks of 4 KiB in one group whose first
  three blocks are in use.
\<close>

section \<open>A small image\<close>

definition sample_byte :: "int \<Rightarrow> octet" where
  "sample_byte z =
     (if z > 8192 then 0 else if z = 8192 then 0x07
      else if z > 4109 then 0
      else if z \<ge> 4096 then (if z = 4096 then 0x02 else if z = 4108 then 0x29 else if z = 4109 then 0x01 else 0)
      else if z > 1100 then 0
      else case map_of [(1028, 0x2c), (1029, 0x01), (1048, 0x02), (1052, 0x02), (1057, 0x80), (1061, 0x80),
              (1080, 0x53), (1081, 0xef), (1082, 0x01), (1100, 0x01)] z of None \<Rightarrow> 0 | Some v \<Rightarrow> v)"

definition sample_image :: ImageFile where
  "sample_image =
     \<lparr>content = (\<lambda>z. Some (sample_byte z)), imageSize = 1228800, regular = True, sectors = 2400\<rparr>"

definition sample_geometry :: ext4Geometry where
  "sample_geometry =
     \<lparr>blockBytes = 4096, blocksCount = 300, firstDataBlock = 0, blocksPerGroup = 32768, groupCount = 1,
      descriptorBytes = 32, is64Bit = False, metadataChecksum = False, groupChecksum = False, checksumSeed = 0,
      uuid = take 16 (drop 0x68 (map sample_byte [1024..2047]))\<rparr>"

lemma sample_geometry_simps [simp]:
  "blockBytes sample_geometry = 4096" "blocksCount sample_geometry = 300" "firstDataBlock sample_geometry = 0"
  "blocksPerGroup sample_geometry = 32768" "groupCount sample_geometry = 1" "descriptorBytes sample_geometry = 32"
  "\<not> is64Bit sample_geometry" "\<not> metadataChecksum sample_geometry" "\<not> groupChecksum sample_geometry"
  by (simp_all add: sample_geometry_def)

declare upto_rec_numeral [simp del]

lemma sample_image_simps [simp]:
  "imageSize sample_image = 1228800" "regular sample_image" "sectors sample_image = 2400"
  "content sample_image z = Some (sample_byte z)"
  by (simp_all add: sample_image_def)

lemma those_map_Some: "those (map (\<lambda>z. Some (f z)) xs) = Some (map f xs)"
  by (induction xs) simp_all

lemma ReadAt_sample:
  "0 \<le> off \<Longrightarrow> 0 \<le> n \<Longrightarrow> off + n \<le> 1228800 \<Longrightarrow> ReadAt sample_image off n = Some (map sample_byte [off..off + n - 1])"
  by (simp add: ReadAt_def sample_image_def those_map_Some)

lemma sample_nth: "int k < n \<Longrightarrow> map sample_byte [off..off + n - 1] ! k = sample_byte (off + int k)"
  by (simp add: nth_upto)

lemma sample_zeros: "map sample_byte [8193..12287] = replicate 4095 0"
proof -
  have "map sample_byte [8193..12287] = map (\<lambda>_. 0) [8193..12287]"
    by (intro map_cong refl) (auto simp: sample_byte_def)
  then show ?thesis by (simp add: map_replicate_const)
qed

lemma sample_bitmap: "map sample_byte [8192..12287] = 0x07 # replicate 4095 0"
  using sample_zeros by (subst upto_rec1) (simp_all add: sample_byte_def)

lemma sample_superblock:
  defines "sb \<equiv> map sample_byte [1024..2047]"
  shows "parseExt4Superblock sb 1228800 = Inr sample_geometry"
proof -
  have n: "sb ! k = sample_byte (1024 + int k)" if "k < 1024" for k
    using sample_nth [of k 1024 1024] that by (simp add: sb_def)
  have "Uint16LE sb 0x38 = 0xef53" "Uint32LE sb 0x4C = 1" "Uint32LE sb 0x60 = 0" "Uint32LE sb 0x64 = 0"
    "Uint32LE sb 0x5C = 0" "Uint16LE sb 0x3A = 1" "Uint32LE sb 0x18 = 2" "Uint32LE sb 0x1C = 2" "Uint32LE sb 0x04 = 300"
    "Uint32LE sb 0x14 = 0" "Uint32LE sb 0x20 = 32768" "Uint32LE sb 0x24 = 32768"
    by (simp_all add: Uint32LE_def Uint16LE_def n sample_byte_def)
  then show ?thesis
    by (simp add: parseExt4Superblock_def superblockState_def superblockGeometry_def superblockChecksumSeed_def
        sample_geometry_def sb_def [symmetric] Let_def u64_def)
qed

definition sample_bits :: "octet list" where "sample_bits = 0x07 # replicate 4095 0"

lemma sample_bit_free: "b < 300 \<Longrightarrow> bit_free sample_bits b \<longleftrightarrow> 3 \<le> b"
proof (cases "b < 8")
  case True
  have "bit (0x07 :: octet) b \<longleftrightarrow> b < 3"
    using bit_mask_iff [where 'a = octet, of 3 b] by (simp add: mask_numeral) (auto simp: possible_bit_def)
  then show ?thesis
    using True by (simp add: bit_free_iff sample_bits_def not_less)
next
  case False
  then obtain k where k: "b div 8 = Suc k" by (cases "b div 8") simp_all
  moreover assume "b < 300"
  ultimately have "k < 4095" by linarith
  then show ?thesis
    using k False by (simp add: bit_free_iff sample_bits_def)
qed

lemma sample_runs: "bit_runs (bit_free sample_bits) 300 0 None = [(3, 300)]"
proof -
  have "bit_runs (bit_free sample_bits) 300 0 None = bit_runs (bit_free sample_bits) 300 (0 + 3) None"
    using bit_runs_skip_used [of 3 "bit_free sample_bits" 0 300 None] sample_bit_free by simp
  also have "\<dots> = bit_runs (bit_free sample_bits) 300 (3 + 297) (Some 3)"
    using bit_runs_skip_free [of 297 "bit_free sample_bits" 3 300 None] sample_bit_free by simp
  also have "\<dots> = [(3, 300)]"
    by (simp add: bit_runs_end)
  finally show ?thesis .
qed

lemma sample_count: "countExt4FreeBits sample_bits 300 = 297"
proof -
  have "{b. b < 300 \<and> bit_free sample_bits b} = {3..<300}"
    using sample_bit_free by auto
  then show ?thesis
    by (simp add: count_free_bits sample_bits_def)
qed

lemma sample_group:
  "scanGroup sample_image sample_geometry (map sample_byte [4096..4127]) 0 c = Inr (appendRun 0 4096 3 300 c)"
proof -
  define ds where "ds = map sample_byte [4096..4127]"
  have n: "ds ! k = sample_byte (4096 + int k)" if "k < 32" for k
    using sample_nth [of k 32 4096] that by (simp add: ds_def)
  have len: "length ds = 32" by (simp add: ds_def)
  have d: "descriptor_at sample_geometry ds 0 = ds"
    by (simp add: descriptor_at_def u64_def len)
  have f: "Uint32LE ds 0 = 2" "Uint16LE ds 0x0C = 297"
    by (simp_all add: Uint32LE_def Uint16LE_def n sample_byte_def)
  have r: "ReadAt sample_image 8192 4096 = Some sample_bits"
    using ReadAt_sample [of 8192 4096] sample_bitmap by (simp add: sample_bits_def)
  show ?thesis
    unfolding ds_def [symmetric]
    by (simp add: scanGroup_def d f r Let_def descriptorChecksumValid_def bitmapChecksumValid_def group_uninit_def
        bitmap_block_def descriptor_free_def group_blocks_def u64_def i64_def sample_count
        collectExt4FreeRuns_def scan_bitmap_bit_runs sample_runs)
qed

lemma sample_free_ranges:
  "ext4FreeRanges sample_image 1228800 f = Inr (List.map_filter f [\<lparr>Offset = 12288, Length = 1216512\<rparr>])"
proof -
  have "ReadAt sample_image 1024 1024 = Some (map sample_byte [1024..2047])"
    "ReadAt sample_image 4096 32 = Some (map sample_byte [4096..4127])"
    using ReadAt_sample [of 1024 1024] ReadAt_sample [of 4096 32] by simp_all
  then show ?thesis
    by (simp add: ext4FreeRanges_def sample_superblock sample_group u64_def i64_def appendRun_def collector_add_def
        collector_flush_def List.map_filter_simps split: option.splits)
qed

section \<open>Properties\<close>

text \<open>
  C24: the free ranges are exact. Before shrinking, they are disjoint, ordered,
  maximal byte ranges within the image, and a byte lies in one of them exactly
  when the bitmap of its initialised block group marks its block free; what is
  returned is the kept part of them.
\<close>

theorem ext4FreeRanges_exact:
  assumes "0 \<le> imageBytes" "imageBytes \<le> maxInt64" "ext4FreeRanges img imageBytes keepRange = Inr ranges"
  shows "\<exists>raw. ranges = List.map_filter keepRange raw \<and>
    sorted_wrt (\<lambda>r r'. Offset r + Length r < Offset r') raw \<and>
    (\<forall>r \<in> set raw. 0 \<le> Offset r \<and> 0 < Length r \<and> Offset r + Length r \<le> imageBytes) \<and>
    (\<forall>z. (\<exists>r \<in> set raw. Offset r \<le> z \<and> z < Offset r + Length r) \<longleftrightarrow> ext4_free_byte img imageBytes z)"
proof -
  obtain raw where raw: "ranges = List.map_filter keepRange raw" "ranges_before imageBytes raw"
    "\<Union> (range_bytes ` set raw) = {z. ext4_free_byte img imageBytes z}"
    using free_ranges_exact [OF assms] by blast
  have "(\<exists>r \<in> set raw. Offset r \<le> z \<and> z < Offset r + Length r) \<longleftrightarrow> z \<in> \<Union> (range_bytes ` set raw)" for z
    by (auto simp: range_bytes_def)
  then show ?thesis
    using raw by (auto simp: ranges_before_def)
qed

theorem ext4FreeRanges_exact_witness:
  "\<exists>raw. [\<lparr>Offset = 12288, Length = 1216512\<rparr>] = List.map_filter Some raw \<and>
    sorted_wrt (\<lambda>r r'. Offset r + Length r < Offset r') raw \<and>
    (\<forall>r \<in> set raw. 0 \<le> Offset r \<and> 0 < Length r \<and> Offset r + Length r \<le> 1228800) \<and>
    (\<forall>z. (\<exists>r \<in> set raw. Offset r \<le> z \<and> z < Offset r + Length r) \<longleftrightarrow> ext4_free_byte sample_image 1228800 z)"
  by (rule ext4FreeRanges_exact) (simp_all add: sample_free_ranges List.map_filter_simps)

text \<open>
  C23: a reclaim, whatever it returns and however it ends, leaves every byte of
  every block alone that the image does not mark free, on a host whose hole
  punching changes no byte outside the range it is given.
\<close>

theorem reclaim_preserves_used_bytes:
  assumes "punches_only_range host" "0 \<le> capacityBytes" "capacityBytes \<le> 4611686018427387904"
    and "\<not> ext4_free_byte img capacityBytes z"
  shows "content (snd (reclaimFreeImageBlocks host capacityBytes img)) z = content img z"
proof (cases "ext4FreeRanges img capacityBytes alignWorkspaceReclaimRange")
  case (Inl stop)
  then show ?thesis
    by (cases stop) (simp_all add: reclaimFreeImageBlocks_def allocatedImageBytes_def st_bind_def st_get_def st_fail_def
        st_return_def Let_def)
next
  case (Inr ranges)
  obtain raw where raw: "ranges = List.map_filter alignWorkspaceReclaimRange raw" "ranges_before capacityBytes raw"
    "\<Union> (range_bytes ` set raw) = {z. ext4_free_byte img capacityBytes z}"
    using free_ranges_exact [OF assms(2) _ Inr] assms(3) by auto
  have "range_bytes r' \<subseteq> \<Union> (range_bytes ` set raw)" if r': "r' \<in> set ranges" for r'
  proof -
    obtain r where r: "r \<in> set raw" "alignWorkspaceReclaimRange r = Some r'"
      using r' raw(1) by (auto simp: List.map_filter_def)
    then have "range_bytes r' \<subseteq> range_bytes r"
      using raw(2) assms(3) by (intro align_within(1) [OF _ _ _ r(2)]) (auto simp: ranges_before_def)
    then show ?thesis using r(1) by blast
  qed
  then have "z \<notin> \<Union> (range_bytes ` set ranges)"
    using raw(3) assms(4) by blast
  note punch = punch_preserves [OF assms(1) this]
  then show ?thesis
    using Inr by (simp add: reclaimFreeImageBlocks_def allocatedImageBytes_def st_bind_def st_get_def st_return_def Let_def
        split: prod.splits sum.splits) (metis snd_conv)
qed

text \<open>A host that punches by replacing the range with zero bytes, and always finds it allocated.\<close>

definition zeroing_host :: Host where
  "zeroing_host =
     \<lparr>ctxErr = (\<lambda>_. False), rangeAllocated = (\<lambda>_ _ _. Inr True),
      punchHole = (\<lambda>off len img. (Inr (), img\<lparr>content := (\<lambda>z. if off \<le> z \<and> z < off + len then Some 0 else content img z)\<rparr>))\<rparr>"

theorem reclaim_preserves_used_bytes_witness:
  "content (snd (reclaimFreeImageBlocks zeroing_host 1228800 sample_image)) 8192 = Some 0x07 \<and>
   fst (reclaimFreeImageBlocks zeroing_host 1228800 sample_image) =
     Inr \<lparr>Reason = [], Ranges = 1, PunchedBytes = 1114112, AllocatedBefore = 1228800, AllocatedAfter = 1228800\<rparr>"
proof -
  have host: "punches_only_range zeroing_host"
    by (auto simp: punches_only_range_def zeroing_host_def)
  obtain raw where raw: "[\<lparr>Offset = 12288, Length = 1216512\<rparr>] = List.map_filter Some raw"
    "\<Union> (range_bytes ` set raw) = {z. ext4_free_byte sample_image 1228800 z}"
    using free_ranges_exact [of 1228800 sample_image Some] sample_free_ranges [of Some]
    by (auto simp: List.map_filter_simps)
  then have "\<not> ext4_free_byte sample_image 1228800 8192"
    by (auto simp: List.map_filter_def range_bytes_def set_eq_iff dest: spec [of _ 8192])
  then have "content (snd (reclaimFreeImageBlocks zeroing_host 1228800 sample_image)) 8192 = content sample_image 8192"
    by (intro reclaim_preserves_used_bytes [OF host]) simp_all
  moreover have "alignWorkspaceReclaimRange \<lparr>Offset = 12288, Length = 1216512\<rparr> = Some \<lparr>Offset = 65536, Length = 1114112\<rparr>"
    by code_simp
  then have "fst (reclaimFreeImageBlocks zeroing_host 1228800 sample_image) =
     Inr \<lparr>Reason = [], Ranges = 1, PunchedBytes = 1114112, AllocatedBefore = 1228800, AllocatedAfter = 1228800\<rparr>"
    by (simp add: reclaimFreeImageBlocks_def sample_free_ranges List.map_filter_simps zeroing_host_def st_bind_def st_get_def
        st_return_def allocatedImageBytes_def Let_def i64_def)
  ultimately show ?thesis
    by (simp add: sample_byte_def)
qed

text \<open>
  C25: the scan of a bitmap, which steps over bytes of all used or all free
  blocks at once, collects the same runs in the same order as testing every
  bit, for every bitmap and block count.
\<close>

theorem bitmap_scan_is_bitwise:
  "collectExt4FreeRuns runs bitmap blocks groupStart bytes =
     fold (\<lambda>(x, y). appendRun groupStart bytes x y) (bit_runs (bit_free bitmap) blocks 0 None) runs"
  by (simp add: collectExt4FreeRuns_def scan_bitmap_bit_runs)

text \<open>
  The free count of a bitmap, computed by bytes and a masked last byte, is
  the number of clear bits among its first blocks.
\<close>

lemma countExt4FreeBits_counts:
  assumes "blocks \<le> 8 * length bitmap" "blocks < 18446744073709551616"
  shows "countExt4FreeBits bitmap blocks = int (card {b. b < blocks \<and> bit_free bitmap b})"
  using assms by (rule count_free_bits)

lemma countExt4FreeBits_counts_witness:
  "countExt4FreeBits [0x07, 0xf0, 0xff] 13 = int (card {b. b < 13 \<and> bit_free [0x07, 0xf0, 0xff] b}) \<and>
   countExt4FreeBits [0x07, 0xf0, 0xff] 13 = 9"
proof
  show "countExt4FreeBits [0x07, 0xf0, 0xff] 13 = int (card {b. b < 13 \<and> bit_free [0x07, 0xf0, 0xff] b})"
    by (rule countExt4FreeBits_counts) simp_all
  show "countExt4FreeBits [0x07, 0xf0, 0xff] 13 = 9"
    by code_simp
qed

text \<open>
  C26: aligning a free range yields the largest range of whole 64 KiB units
  inside it: it lies in the free range, every whole unit of the free range lies
  in it, and it is dropped exactly when these units are shorter than 1 MiB.
\<close>

theorem align_is_largest_aligned_part:
  assumes "0 \<le> Offset r" "0 < Length r" "Offset r + Length r \<le> 4611686018427387904"
  shows "case alignWorkspaceReclaimRange r of
      None \<Rightarrow> \<nexists>u n. Offset r \<le> u * workspaceReclaimAlignmentBytes \<and> workspaceReclaimMinimumBytes \<le> n * workspaceReclaimAlignmentBytes \<and>
        (u + n) * workspaceReclaimAlignmentBytes \<le> Offset r + Length r
    | Some r' \<Rightarrow> workspaceReclaimAlignmentBytes dvd Offset r' \<and> workspaceReclaimAlignmentBytes dvd Length r' \<and>
        workspaceReclaimMinimumBytes \<le> Length r' \<and>
        Offset r \<le> Offset r' \<and> Offset r' + Length r' \<le> Offset r + Length r \<and>
        (\<forall>u. Offset r \<le> u * workspaceReclaimAlignmentBytes \<and> (u + 1) * workspaceReclaimAlignmentBytes \<le> Offset r + Length r \<longrightarrow>
           Offset r' \<le> u * workspaceReclaimAlignmentBytes \<and> (u + 1) * workspaceReclaimAlignmentBytes \<le> Offset r' + Length r')"
proof -
  define lo where "lo = (Offset r + 65535) div 65536"
  define hi where "hi = (Offset r + Length r) div 65536"
  have lo: "lo \<le> u \<longleftrightarrow> Offset r \<le> u * 65536" for u
    using int_div_less_iff [of 65536 "Offset r + 65535" "u + 1"] unfolding lo_def [symmetric] by auto
  have hi: "u \<le> hi \<longleftrightarrow> u * 65536 \<le> Offset r + Length r" for u
    unfolding hi_def by (simp add: int_le_div_iff)
  show ?thesis
  proof (cases "(hi - lo) * 65536 < workspaceReclaimMinimumBytes")
    case True
    have False if "Offset r \<le> u * 65536" "1048576 \<le> n * 65536" "(u + n) * 65536 \<le> Offset r + Length r" for u n
    proof -
      have "lo \<le> u" "u + n \<le> hi" using that lo hi by blast+
      then have "n * 65536 \<le> (hi - lo) * 65536"
        by (intro mult_right_mono) simp_all
      then show False using True that(2) by linarith
    qed
    then show ?thesis
      using True by (auto simp: align_facts [OF assms, folded lo_def hi_def])
  next
    case False
    have "lo * 65536 \<le> u * 65536 \<and> (u + 1) * 65536 \<le> hi * 65536"
      if "Offset r \<le> u * 65536" "(u + 1) * 65536 \<le> Offset r + Length r" for u
    proof -
      have "lo \<le> u" "u + 1 \<le> hi" using that lo hi by blast+
      then show ?thesis by (intro conjI mult_right_mono) simp_all
    qed
    moreover have "Offset r \<le> lo * 65536" "hi * 65536 \<le> Offset r + Length r"
      using lo hi by blast+
    moreover have "lo * 65536 + (hi - lo) * 65536 = hi * 65536"
      by (simp add: algebra_simps)
    ultimately show ?thesis
      using False unfolding align_facts [OF assms, folded lo_def hi_def] by (simp del: left_diff_distrib_numeral)
  qed
qed

theorem align_is_largest_aligned_part_witness:
  "case alignWorkspaceReclaimRange \<lparr>Offset = 12288, Length = 1216512\<rparr> of
     None \<Rightarrow> False
   | Some r' \<Rightarrow> 12288 \<le> Offset r' \<and> Offset r' + Length r' \<le> 1228800 \<and> Length r' = 1114112"
proof -
  have "alignWorkspaceReclaimRange \<lparr>Offset = 12288, Length = 1216512\<rparr> = Some \<lparr>Offset = 65536, Length = 1114112\<rparr>"
    by code_simp
  then show ?thesis
    using align_is_largest_aligned_part [of "\<lparr>Offset = 12288, Length = 1216512\<rparr>"] by simp
qed

text \<open>
  A completed reclaim has punched at most 4096 ranges, whatever the image
  holds; it names the punch limit as its reason only when it has used it up.
\<close>

lemma reclaim_punches_bounded:
  assumes "reclaimFreeImageBlocks host capacityBytes img = (Inr result, img')"
  shows "0 \<le> Ranges result \<and> Ranges result \<le> workspaceReclaimMaximumPunches \<and>
    (Reason result = workspaceReclaimPunchLimitReached \<longrightarrow> Ranges result = workspaceReclaimMaximumPunches \<or>
       ext4FreeRanges img capacityBytes alignWorkspaceReclaimRange = Inl (Declined (Reason result)))"
proof (cases "ext4FreeRanges img capacityBytes alignWorkspaceReclaimRange")
  case (Inl stop)
  then show ?thesis
    using assms by (cases stop) (auto simp: reclaimFreeImageBlocks_def allocatedImageBytes_def st_bind_def st_get_def
        st_fail_def st_return_def Let_def split: if_splits)
next
  case (Inr ranges)
  then obtain result0 result1 img1 where
    p: "punchWorkspaceReclaimRanges host ranges workspaceReclaimMaximumPunches result0 img = (Inr result1, img1)"
    "Ranges result0 = 0" "Reason result0 = []" "Ranges result = Ranges result1" "Reason result = Reason result1"
    using assms by (auto simp: reclaimFreeImageBlocks_def allocatedImageBytes_def st_bind_def st_get_def
        st_return_def Let_def split: if_splits prod.splits sum.splits)
  then show ?thesis
    using punch_count [OF p(1)] by auto
qed

lemma reclaim_punches_bounded_witness:
  "\<exists>result img'. reclaimFreeImageBlocks zeroing_host 1228800 sample_image = (Inr result, img') \<and>
     0 \<le> Ranges result \<and> Ranges result \<le> workspaceReclaimMaximumPunches"
proof -
  have "alignWorkspaceReclaimRange \<lparr>Offset = 12288, Length = 1216512\<rparr> = Some \<lparr>Offset = 65536, Length = 1114112\<rparr>"
    by code_simp
  then obtain result img' where r: "reclaimFreeImageBlocks zeroing_host 1228800 sample_image = (Inr result, img')"
    by (simp add: reclaimFreeImageBlocks_def sample_free_ranges List.map_filter_simps zeroing_host_def st_bind_def st_get_def
        st_return_def allocatedImageBytes_def Let_def i64_def)
  then show ?thesis
    using reclaim_punches_bounded [OF r] by blast
qed

end
