(* ===== verification/Workspace_FS.thy ===== *)
theory Workspace_FS
  imports Ext4_Reclaim
begin

text \<open>
  The file system under a WorkspaceStore root (\<open>runner/internal/workspacestore\<close>),
  as the operations of Go's \<open>os\<close> package that \<open>store.go\<close> calls. A path is the
  list of its components below the root. A file holds an image, one of the JSON
  documents the store writes, or bytes that decode as none of them. Every call
  first consults the environment, which may make it fail without effect; so an
  interrupted operation is one whose remaining calls all fail. Descriptors are
  used only while their file keeps its name, so they are paths here.
\<close>

section \<open>Errors\<close>

datatype store_error =
    ErrInvalidID | ErrWorkspaceNotFound | ErrSnapshotNotFound | ErrActiveWriter | ErrStaleGeneration
  | ErrStaleFence | ErrConflictingReplay | ErrRestorePending | ErrSnapshotInUse | ErrStorageIncompatible
  | ErrCorruptState | ErrRelocationSealed
  | ErrNotExist | ErrExist | ErrNotEmpty | ErrIO | ErrCanceled | ErrWouldBlock

section \<open>Documents\<close>

record currentManifest =
  cmFormatVersion :: int
  cmWorkspaceID :: string
  cmGeneration :: int
  cmImage :: string
  cmCapacityBytes :: int
  cmRelocationSealed :: bool

record snapshotManifest =
  smFormatVersion :: int
  smSnapshotID :: string
  smWorkspaceID :: string
  smGeneration :: int
  smCapacityBytes :: int

record stagedRestore =
  srFormatVersion :: int
  srOperationID :: string
  srWorkspaceID :: string
  srSnapshotID :: string
  srExpectedGeneration :: int
  srNextGeneration :: int
  srImage :: string
  srCapacityBytes :: int

record rollbackManifest =
  rmFormatVersion :: int
  rmOperationID :: string
  rmWorkspaceID :: string
  rmSnapshotID :: string
  rmPreviousGeneration :: int
  rmPreviousImage :: string
  rmNextGeneration :: int
  rmNextImage :: string
  rmCapacityBytes :: int

record Receipt =
  rcFormatVersion :: int
  rcKind :: string
  rcOperationID :: string
  rcWorkspaceID :: string
  rcSnapshotID :: string
  rcInputDigest :: string
  rcGeneration :: int
  rcPreviousGeneration :: int
  rcCapacityBytes :: int
  rcChecksum :: string
  rcRecordedAt :: time

datatype file_data =
    Img ImageFile
  | CurrentDoc currentManifest
  | SnapshotDoc snapshotManifest
  | StagedDoc stagedRestore
  | RollbackDoc rollbackManifest
  | ReceiptDoc Receipt
  | Raw "octet list"

datatype node = is_Dir: Dir | Reg (mode: nat) (data: file_data)

section \<open>The disk\<close>

type_synonym path = "string list"

record Disk =
  nodes :: "(path \<times> node) list"
  faults :: "bool list"
  locks :: "string list"
  clock :: time

type_synonym 'a os = "(Disk, store_error, 'a) st"

definition node_at :: "Disk \<Rightarrow> path \<Rightarrow> node option" where
  "node_at d p = (if p = [] then Some Dir else map_of (nodes d) p)"

definition put_node :: "path \<Rightarrow> node \<Rightarrow> Disk \<Rightarrow> Disk" where
  "put_node p n d = d\<lparr>nodes := (p, n) # filter (\<lambda>(q, _). q \<noteq> p) (nodes d)\<rparr>"

definition drop_node :: "path \<Rightarrow> Disk \<Rightarrow> Disk" where
  "drop_node p d = d\<lparr>nodes := filter (\<lambda>(q, _). q \<noteq> p) (nodes d)\<rparr>"

text \<open>The entries of a directory in the order of their names, as \<open>os.ReadDir\<close> returns them.\<close>

definition entries_of :: "Disk \<Rightarrow> path \<Rightarrow> (string \<times> bool) list" where
  "entries_of d dir =
     sort_key fst (map (\<lambda>(p, n). (last p, is_Dir n)) (filter (\<lambda>(p, _). p \<noteq> [] \<and> butlast p = dir) (nodes d)))"

text \<open>\<open>info.Size()\<close>: only images have a size that the store compares with a capacity.\<close>

definition node_size :: "node \<Rightarrow> int" where
  "node_size n = (case n of Reg _ (Img i) \<Rightarrow> imageSize i | Reg _ (Raw bs) \<Rightarrow> int (length bs) | _ \<Rightarrow> 0)"

section \<open>Combinators\<close>

definition corrupt :: "'a os" where
  "corrupt = st_fail (Wrapped (Sentinel ErrCorruptState))"

text \<open>A call whose error is ignored, as the deferred cleanups do.\<close>

definition ignoring :: "unit os \<Rightarrow> unit os" where
  "ignoring m = st_catch m (\<lambda>_. st_return ())"

text \<open>\<open>m\<close> with a deferred cleanup that runs when it fails.\<close>

definition on_failure :: "unit os \<Rightarrow> 'a os \<Rightarrow> 'a os" where
  "on_failure cleanup m = st_catch m (\<lambda>r. case r of
     Inl e \<Rightarrow> st_seq (ignoring cleanup) (st_fail e) | Inr a \<Rightarrow> st_return a)"

section \<open>Calls of the os package\<close>

definition env_fails :: "(Disk, 'e, bool) st" where
  "env_fails d = (case faults d of [] \<Rightarrow> (Inr False, d) | b # bs \<Rightarrow> (Inr b, d\<lparr>faults := bs\<rparr>))"

definition os_call :: "unit os" where
  "os_call = st_bind env_fails (\<lambda>b. if b then st_fail (Sentinel ErrIO) else st_return ())"

definition ctx_Err :: "unit os" where
  "ctx_Err = st_bind env_fails (\<lambda>b. if b then st_fail (Sentinel ErrCanceled) else st_return ())"

definition os_Lstat :: "path \<Rightarrow> node os" where
  "os_Lstat p =
     st_seq os_call (st_bind (st_get (\<lambda>d. node_at d p)) (\<lambda>n.
       case n of None \<Rightarrow> st_fail (Sentinel ErrNotExist) | Some n \<Rightarrow> st_return n))"

definition os_ReadDir :: "path \<Rightarrow> (string \<times> bool) list os" where
  "os_ReadDir p =
     st_bind (os_Lstat p) (\<lambda>n. if is_Dir n then st_get (\<lambda>d. entries_of d p) else st_fail (Sentinel ErrIO))"

definition dir_at :: "Disk \<Rightarrow> path \<Rightarrow> bool" where
  "dir_at d p \<longleftrightarrow> (case node_at d p of None \<Rightarrow> False | Some n \<Rightarrow> is_Dir n)"

definition exists_at :: "Disk \<Rightarrow> path \<Rightarrow> bool" where
  "exists_at d p \<longleftrightarrow> (case node_at d p of None \<Rightarrow> False | Some _ \<Rightarrow> True)"

definition parent_ok :: "path \<Rightarrow> Disk \<Rightarrow> bool" where
  "parent_ok p d \<longleftrightarrow> p \<noteq> [] \<and> dir_at d (butlast p)"

definition os_Mkdir :: "path \<Rightarrow> unit os" where
  "os_Mkdir p =
     st_seq os_call (st_bind (st_get (\<lambda>d. (exists_at d p, parent_ok p d))) (\<lambda>(found, ok).
       if found then st_fail (Sentinel ErrExist)
       else if \<not> ok then st_fail (Sentinel ErrNotExist)
       else st_modify (put_node p Dir)))"

text \<open>One level of \<open>os.MkdirAll\<close>: an existing directory is fine, another file is not.\<close>

definition mkdir_level :: "path \<Rightarrow> unit os" where
  "mkdir_level p =
     st_seq os_call (st_bind (st_get (\<lambda>d. node_at d p)) (\<lambda>n.
       case n of
         None \<Rightarrow> st_modify (put_node p Dir)
       | Some Dir \<Rightarrow> st_return ()
       | Some (Reg _ _) \<Rightarrow> st_fail (Sentinel ErrIO)))"

definition os_MkdirAll :: "path \<Rightarrow> unit os" where
  "os_MkdirAll p = for_each mkdir_level (map (\<lambda>k. take k p) [1..<Suc (length p)])"

definition os_Remove :: "path \<Rightarrow> unit os" where
  "os_Remove p =
     st_bind (os_Lstat p) (\<lambda>n. st_bind (st_get (\<lambda>d. entries_of d p)) (\<lambda>es.
       if p = [] then st_fail (Sentinel ErrIO)
       else if is_Dir n \<and> es \<noteq> [] then st_fail (Sentinel ErrNotEmpty)
       else st_modify (drop_node p)))"

definition os_Rename :: "path \<Rightarrow> path \<Rightarrow> unit os" where
  "os_Rename p q =
     st_bind (os_Lstat p) (\<lambda>n. st_bind (st_get (\<lambda>d. (dir_at d q, parent_ok q d))) (\<lambda>(occupied, ok).
       if is_Dir n \<or> occupied then st_fail (Sentinel ErrIO)
       else if \<not> ok then st_fail (Sentinel ErrNotExist)
       else st_modify (\<lambda>d. put_node q n (drop_node p d))))"

text \<open>Creating a file that must not exist, and opening one that does.\<close>

definition os_Create :: "path \<Rightarrow> nat \<Rightarrow> file_data \<Rightarrow> unit os" where
  "os_Create p m x =
     st_seq os_call (st_bind (st_get (\<lambda>d. (exists_at d p, parent_ok p d))) (\<lambda>(found, ok).
       if found then st_fail (Sentinel ErrExist)
       else if \<not> ok then st_fail (Sentinel ErrNotExist)
       else st_modify (put_node p (Reg m x))))"

definition os_Open :: "path \<Rightarrow> file_data os" where
  "os_Open p = st_bind (os_Lstat p) (\<lambda>n. case n of Dir \<Rightarrow> st_fail (Sentinel ErrIO) | Reg _ x \<Rightarrow> st_return x)"

definition os_Chmod :: "path \<Rightarrow> nat \<Rightarrow> unit os" where
  "os_Chmod p m =
     st_bind (os_Lstat p) (\<lambda>n. case n of Dir \<Rightarrow> st_return () | Reg _ x \<Rightarrow> st_modify (put_node p (Reg m x)))"

definition os_Write :: "path \<Rightarrow> file_data \<Rightarrow> unit os" where
  "os_Write p x =
     st_bind (os_Lstat p) (\<lambda>n. case n of Dir \<Rightarrow> st_fail (Sentinel ErrIO) | Reg m _ \<Rightarrow> st_modify (put_node p (Reg m x)))"

text \<open>\<open>Sync\<close> and \<open>Close\<close> of a descriptor and the sync of a directory have no effect on the names and contents.\<close>

abbreviation os_Sync :: "unit os" where "os_Sync \<equiv> os_call"
abbreviation os_Close :: "unit os" where "os_Close \<equiv> os_call"
abbreviation syncDir :: "path \<Rightarrow> unit os" where "syncDir dir \<equiv> os_call"

text \<open>
  \<open>os.CreateTemp\<close> appends a suffix that makes the name new; here it is longer
  than every name on the disk.
\<close>

definition fresh_suffix :: "Disk \<Rightarrow> string" where
  "fresh_suffix d = replicate (Suc (foldr (\<lambda>(p, _) k. max (foldr (\<lambda>s m. max (length s) m) p 0) k) (nodes d) 0)) CHR ''0''"

definition os_CreateTemp :: "path \<Rightarrow> string \<Rightarrow> path os" where
  "os_CreateTemp dir pattern =
     st_bind (st_get fresh_suffix) (\<lambda>s.
       st_seq (os_Create (dir @ [pattern @ s]) 384 (Raw [])) (st_return (dir @ [pattern @ s])))"

end
