(* ===== verification/Workspace_Store.thy ===== *)
theory Workspace_Store
  imports Workspace_FS
begin

text \<open>
  The parts of \<open>runner/internal/workspacestore/store.go\<close> that its operations
  share: identifiers and paths, digests, image validation, reflink cloning,
  templates, the documents with their validation, receipts, the writer lock and
  \<open>mutate\<close>, which makes every operation replay its receipt.

  The reflink of the file system, the formatter, the ext4 tools and SHA-256 are
  parameters, fields of \<open>Store\<close>.
\<close>

section \<open>Configuration\<close>

text \<open>
  A run of an ext4 tool on an image: its \<open>ExitCode()\<close> (\<open>-1\<close> when a signal killed it),
  none when it could not be run, whether its output says that a fresh check is required, and the image
  it leaves.
\<close>

record ext4_tool_result =
  exitCode :: "int option"
  freshCheckRequired :: bool
  leaves :: file_data

record Store =
  sha256 :: "octet list \<Rightarrow> octet list"
  driverClone :: "file_data \<Rightarrow> file_data option"
  driverFormat :: "int \<Rightarrow> string \<Rightarrow> file_data option"
  tune2fs :: "string \<Rightarrow> file_data \<Rightarrow> ext4_tool_result"
  e2fsck :: "file_data \<Rightarrow> ext4_tool_result"
  deviceOf :: "path \<Rightarrow> nat"
  reclaimHost :: Host

abbreviation privateDirectoryMode :: nat where "privateDirectoryMode \<equiv> 448"
abbreviation writableImageMode :: nat where "writableImageMode \<equiv> 384"
abbreviation snapshotImageMode :: nat where "snapshotImageMode \<equiv> 256"
abbreviation ext4MagicOffset :: int where "ext4MagicOffset \<equiv> 1080"
abbreviation ext4UUIDOffset :: int where "ext4UUIDOffset \<equiv> 1128"
abbreviation minimumExt4Bytes :: int where "minimumExt4Bytes \<equiv> 67108864"
abbreviation legacyMinimumExt4Bytes :: int where "legacyMinimumExt4Bytes \<equiv> 16777216"

abbreviation ReceiptWorkspaceCreate :: string where "ReceiptWorkspaceCreate \<equiv> ''workspace_create''"
abbreviation ReceiptWorkspaceClone :: string where "ReceiptWorkspaceClone \<equiv> ''workspace_clone''"
abbreviation ReceiptGenerationAdvance :: string where "ReceiptGenerationAdvance \<equiv> ''generation_advance''"
abbreviation ReceiptSnapshotCreate :: string where "ReceiptSnapshotCreate \<equiv> ''snapshot_create''"
abbreviation ReceiptSnapshotDelete :: string where "ReceiptSnapshotDelete \<equiv> ''snapshot_delete''"
abbreviation ReceiptRestorePrepare :: string where "ReceiptRestorePrepare \<equiv> ''restore_prepare''"
abbreviation ReceiptRestoreSwap :: string where "ReceiptRestoreSwap \<equiv> ''restore_swap''"
abbreviation ReceiptRestoreFinalize :: string where "ReceiptRestoreFinalize \<equiv> ''restore_finalize''"
abbreviation ReceiptRestoreAbort :: string where "ReceiptRestoreAbort \<equiv> ''restore_abort''"
abbreviation ReceiptWorkspaceDelete :: string where "ReceiptWorkspaceDelete \<equiv> ''workspace_delete''"
abbreviation ReceiptRelocationExport :: string where "ReceiptRelocationExport \<equiv> ''relocation_export''"
abbreviation ReceiptRelocationImport :: string where "ReceiptRelocationImport \<equiv> ''relocation_import''"
abbreviation ReceiptRelocationAbort :: string where "ReceiptRelocationAbort \<equiv> ''relocation_abort''"
abbreviation currentManifestFormatVersion :: int where "currentManifestFormatVersion \<equiv> 1"
abbreviation receiptFormatVersion :: int where "receiptFormatVersion \<equiv> 1"

section \<open>Requests\<close>

record Mutation =
  OperationID :: string
  WorkspaceID :: string
  FencingToken :: "octet list"

record CreateWorkspaceRequest =
  crMutation :: Mutation
  crCapacityBytes :: int

record CloneWorkspaceRequest =
  clMutation :: Mutation
  clSourceSnapshot :: string
  clCapacityBytes :: int

record AdvanceGenerationRequest =
  agMutation :: Mutation
  agExpectedGeneration :: int
  agNextGeneration :: int

record CreateSnapshotRequest =
  csMutation :: Mutation
  csSnapshotID :: string
  csExpectedGeneration :: int

record DeleteSnapshotRequest =
  dsMutation :: Mutation
  dsSnapshotID :: string

text \<open>\<open>PrepareRestoreRequest\<close> and \<open>SwapRestoreRequest\<close> have the same fields and convert into each other.\<close>

record PrepareRestoreRequest =
  prMutation :: Mutation
  prSnapshotID :: string
  prExpectedGeneration :: int
  prNextGeneration :: int

record DeleteWorkspaceRequest =
  dwMutation :: Mutation
  dwExpectedGeneration :: int

section \<open>Text\<close>

definition hex_digit :: "int \<Rightarrow> char" where
  "hex_digit n = ''0123456789abcdef'' ! nat n"

definition hex_EncodeToString :: "octet list \<Rightarrow> string" where
  "hex_EncodeToString bs = concat (map (\<lambda>b. [hex_digit (uint b div 16), hex_digit (uint b mod 16)]) bs)"

definition hex_value :: "char \<Rightarrow> int option" where
  "hex_value c =
     (let n = of_char c in
      if 48 \<le> n \<and> n \<le> 57 then Some (n - 48)
      else if 97 \<le> n \<and> n \<le> 102 then Some (n - 87)
      else if 65 \<le> n \<and> n \<le> 70 then Some (n - 55)
      else None)"

fun hex_DecodeString :: "string \<Rightarrow> octet list option" where
  "hex_DecodeString [] = Some []"
| "hex_DecodeString [_] = None"
| "hex_DecodeString (a # b # s) =
     (case (hex_value a, hex_value b, hex_DecodeString s) of
        (Some x, Some y, Some r) \<Rightarrow> Some (word_of_int (16 * x + y) # r)
      | _ \<Rightarrow> None)"

definition string_bytes :: "string \<Rightarrow> octet list" where
  "string_bytes s = map (\<lambda>c. word_of_int (of_char c)) s"

function digits :: "int \<Rightarrow> string" where
  "digits n = (if n < 10 then [char_of (48 + n)] else digits (n div 10) @ [char_of (48 + n mod 10)])"
  by pat_completeness auto
termination
  by (relation "measure nat") auto

declare digits.simps [simp del]

definition FormatInt :: "int \<Rightarrow> string" where
  "FormatInt n = (if n < 0 then ''-'' @ digits (- n) else digits n)"

text \<open>The verb \<open>%020d\<close>: the sign counts in the width.\<close>

definition zero_padded :: "int \<Rightarrow> string" where
  "zero_padded n =
     (let s = digits \<bar>n\<bar> in
      if n < 0 then ''-'' @ replicate (19 - length s) CHR ''0'' @ s else replicate (20 - length s) CHR ''0'' @ s)"

definition string_HasPrefix :: "string \<Rightarrow> string \<Rightarrow> bool" where
  "string_HasPrefix s p \<longleftrightarrow> take (length p) s = p"

definition string_HasSuffix :: "string \<Rightarrow> string \<Rightarrow> bool" where
  "string_HasSuffix s p \<longleftrightarrow> length p \<le> length s \<and> drop (length s - length p) s = p"

definition TrimSuffix :: "string \<Rightarrow> string \<Rightarrow> string" where
  "TrimSuffix s p = (if string_HasSuffix s p then take (length s - length p) s else s)"

text \<open>\<open>strings.Cut\<close> at the first occurrence of one character.\<close>

definition string_Cut :: "char \<Rightarrow> string \<Rightarrow> (string \<times> string) option" where
  "string_Cut c s =
     (if c \<in> set s then Some (takeWhile (\<lambda>x. x \<noteq> c) s, tl (dropWhile (\<lambda>x. x \<noteq> c) s)) else None)"

text \<open>\<open>filepath.Ext\<close> and \<open>filepath.Base\<close> of a slash-separated name.\<close>

definition filepath_Ext :: "string \<Rightarrow> string" where
  "filepath_Ext s =
     (let e = takeWhile (\<lambda>c. c \<noteq> CHR ''.'' \<and> c \<noteq> CHR ''/'') (rev s); r = drop (length e) (rev s) in
      case r of CHR ''.'' # _ \<Rightarrow> CHR ''.'' # rev e | _ \<Rightarrow> [])"

definition filepath_Base :: "string \<Rightarrow> string" where
  "filepath_Base s =
     (if s = [] then ''.''
      else let t = rev (dropWhile (\<lambda>c. c = CHR ''/'') (rev s)) in
        if t = [] then ''/'' else rev (takeWhile (\<lambda>c. c \<noteq> CHR ''/'') (rev t)))"

fun join_with :: "char \<Rightarrow> string list \<Rightarrow> string" where
  "join_with c [] = []"
| "join_with c [s] = s"
| "join_with c (s # t # ss) = s @ c # join_with c (t # ss)"

section \<open>Identifiers\<close>

definition id_start :: "char \<Rightarrow> bool" where
  "id_start c \<longleftrightarrow>
     (let n = of_char c :: int in 65 \<le> n \<and> n \<le> 90 \<or> 97 \<le> n \<and> n \<le> 122 \<or> 48 \<le> n \<and> n \<le> 57)"

definition id_char :: "char \<Rightarrow> bool" where
  "id_char c \<longleftrightarrow> id_start c \<or> c = CHR ''.'' \<or> c = CHR ''_'' \<or> c = CHR ''-''"

definition valid_id :: "string \<Rightarrow> bool" where
  "valid_id s \<longleftrightarrow>
     (case s of [] \<Rightarrow> False | c # cs \<Rightarrow> id_start c \<and> length cs \<le> 127 \<and> list_all id_char cs) \<and>
     s \<noteq> ''.'' \<and> s \<noteq> ''..''"

definition validateID :: "string \<Rightarrow> unit os" where
  "validateID s = st_guard (valid_id s) (Sentinel ErrInvalidID)"

section \<open>Paths\<close>

definition workspacesRoot :: path where "workspacesRoot = [''workspaces'']"
definition snapshotsRoot :: path where "snapshotsRoot = [''snapshots'']"
definition locksRoot :: path where "locksRoot = [''locks'']"
definition receiptsRoot :: path where "receiptsRoot = [''receipts'']"
definition templatesRoot :: path where "templatesRoot = [''templates'']"
definition ext4TemplatesRoot :: path where "ext4TemplatesRoot = templatesRoot @ [''ext4'']"
definition relocationsRoot :: path where "relocationsRoot = [''relocations'']"

definition ext4TemplatePath :: "int \<Rightarrow> path" where
  "ext4TemplatePath capacityBytes = ext4TemplatesRoot @ [''capacity-'' @ zero_padded capacityBytes @ ''.ext4'']"

definition workspaceDir :: "string \<Rightarrow> path" where "workspaceDir w = workspacesRoot @ [w]"
definition versionsDir :: "string \<Rightarrow> path" where "versionsDir w = workspaceDir w @ [''versions'']"
definition manifestDir :: "string \<Rightarrow> path" where "manifestDir w = workspaceDir w @ [''manifest'']"
definition stagedDir :: "string \<Rightarrow> path" where "stagedDir w = workspaceDir w @ [''staged'']"
definition rollbackDir :: "string \<Rightarrow> path" where "rollbackDir w = workspaceDir w @ [''rollback'']"
definition versionPath :: "string \<Rightarrow> string \<Rightarrow> path" where "versionPath w i = versionsDir w @ [i]"
definition currentManifestPath :: "string \<Rightarrow> path" where
  "currentManifestPath w = manifestDir w @ [''current.json'']"
definition snapshotDir :: "string \<Rightarrow> path" where "snapshotDir s = snapshotsRoot @ [s]"
definition snapshotImagePath :: "string \<Rightarrow> path" where "snapshotImagePath s = snapshotDir s @ [''image.ext4'']"
definition snapshotManifestPath :: "string \<Rightarrow> path" where
  "snapshotManifestPath s = snapshotDir s @ [''snapshot.json'']"
definition stagedImagePath :: "string \<Rightarrow> string \<Rightarrow> path" where
  "stagedImagePath w i = stagedDir w @ [i @ ''.ext4'']"
definition stagedManifestPath :: "string \<Rightarrow> string \<Rightarrow> path" where
  "stagedManifestPath w i = stagedDir w @ [i @ ''.json'']"
definition rollbackPath :: "string \<Rightarrow> string \<Rightarrow> path" where "rollbackPath w i = rollbackDir w @ [i @ ''.json'']"
definition receiptPath :: "Mutation \<Rightarrow> string \<Rightarrow> path" where
  "receiptPath mutation kind = receiptsRoot @ [WorkspaceID mutation, OperationID mutation, kind @ ''.json'']"

definition generationImageName :: "int \<Rightarrow> string \<Rightarrow> string" where
  "generationImageName generation suffix = ''g'' @ zero_padded generation @ ''-'' @ suffix @ ''.ext4''"

definition valid_image_name :: "string \<Rightarrow> bool" where
  "valid_image_name i \<longleftrightarrow>
     \<not> (filepath_Base i \<noteq> i \<or> \<not> string_HasPrefix i ''g'' \<or> \<not> string_HasSuffix i ''.ext4'' \<or> CHR ''/'' \<in> set i)"

definition validatedVersionPath :: "string \<Rightarrow> string \<Rightarrow> path os" where
  "validatedVersionPath w i = (if \<not> valid_image_name i then corrupt else st_return (versionPath w i))"

section \<open>Digests\<close>

definition json_string :: "string \<Rightarrow> string" where
  "json_string s = CHR 0x22 # s @ [CHR 0x22]"

definition base64_char :: "int \<Rightarrow> char" where
  "base64_char n = ''ABCDEFGHIJKLMNOPQRSTUVWXYZabcdefghijklmnopqrstuvwxyz0123456789+/'' ! nat n"

fun base64 :: "octet list \<Rightarrow> string" where
  "base64 [] = []"
| "base64 [a] = (let n = uint a * 16 in [base64_char (n div 64), base64_char (n mod 64), CHR ''='', CHR ''=''])"
| "base64 [a, b] =
     (let n = (uint a * 256 + uint b) * 4 in
      [base64_char (n div 4096), base64_char (n div 64 mod 64), base64_char (n mod 64), CHR ''=''])"
| "base64 (a # b # c # s) =
     (let n = (uint a * 256 + uint b) * 256 + uint c in
      [base64_char (n div 262144), base64_char (n div 4096 mod 64), base64_char (n div 64 mod 64), base64_char (n mod 64)] @
      base64 s)"

text \<open>
  \<open>json.Marshal\<close> of a request: the promoted fields of \<open>Mutation\<close>, then its own.
  The identifiers have been validated, so no character needs an escape.
\<close>

definition json_request :: "Mutation \<Rightarrow> (string \<times> string) list \<Rightarrow> octet list" where
  "json_request m own =
     string_bytes (''{'' @
       concat (map (\<lambda>(k, v). (if k = ''OperationID'' then [] else '','') @ json_string k @ '':'' @ v)
         ([(''OperationID'', json_string (OperationID m)), (''WorkspaceID'', json_string (WorkspaceID m)),
           (''FencingToken'', json_string (base64 (FencingToken m)))] @ own)) @ ''}'')"

definition inputDigest :: "Store \<Rightarrow> octet list \<Rightarrow> octet list \<Rightarrow> string os" where
  "inputDigest store request fencingToken =
     (if length fencingToken < 32 then st_fail (Sentinel ErrStaleFence)
      else st_return (hex_EncodeToString (sha256 store fencingToken) @ '':'' @ hex_EncodeToString (sha256 store request)))"

definition deterministicNamespacedUUID :: "Store \<Rightarrow> string \<Rightarrow> string \<Rightarrow> string" where
  "deterministicNamespacedUUID store namespace value =
     (let digest = sha256 store (string_bytes (namespace @ value));
          bytes = take 16 digest;
          bytes = bytes[6 := (bytes ! 6 AND 0x0f) OR 0x50];
          bytes = bytes[8 := (bytes ! 8 AND 0x3f) OR 0x80];
          e = hex_EncodeToString bytes
      in take 8 e @ ''-'' @ take 4 (drop 8 e) @ ''-'' @ take 4 (drop 12 e) @ ''-'' @ take 4 (drop 16 e) @ ''-'' @
         take 12 (drop 20 e))"

definition deterministicUUID :: "Store \<Rightarrow> string \<Rightarrow> string" where
  "deterministicUUID store w =
     deterministicNamespacedUUID store (''SecondBox WorkspaceStore ext4 UUID'' @ [CHR 0x00]) w"

definition deterministicTemplateUUID :: "Store \<Rightarrow> int \<Rightarrow> string" where
  "deterministicTemplateUUID store capacityBytes =
     deterministicNamespacedUUID store (''SecondBox WorkspaceStore ext4 template UUID'' @ [CHR 0x00]) (FormatInt capacityBytes)"

definition requestNonce :: "Store \<Rightarrow> string list \<Rightarrow> string" where
  "requestNonce store parts =
     hex_EncodeToString (take 16 (sha256 store (string_bytes (join_with (CHR 0x00) parts))))"

section \<open>Image validation\<close>

definition decodeUUID :: "string \<Rightarrow> octet list option" where
  "decodeUUID u =
     (case hex_DecodeString (filter (\<lambda>c. c \<noteq> CHR ''-'') u) of
        None \<Rightarrow> None
      | Some decoded \<Rightarrow> if length decoded \<noteq> 16 then None else Some decoded)"

definition ext4_image_ok :: "node \<Rightarrow> int \<Rightarrow> bool" where
  "ext4_image_ok n capacityBytes =
     (case n of
        Reg _ (Img i) \<Rightarrow> regular i \<and> imageSize i = capacityBytes \<and> ReadAt i ext4MagicOffset 2 = Some [0x53, 0xef]
      | _ \<Rightarrow> False)"

definition ext4_uuid_of :: "node \<Rightarrow> octet list option" where
  "ext4_uuid_of n = (case n of Reg _ (Img i) \<Rightarrow> ReadAt i ext4UUIDOffset 16 | _ \<Rightarrow> None)"

definition validateExt4Image :: "path \<Rightarrow> int \<Rightarrow> unit os" where
  "validateExt4Image p capacityBytes =
     st_bind (wrapping (os_Lstat p)) (\<lambda>n. st_seq (wrapping os_call)
       (if \<not> ext4_image_ok n capacityBytes then corrupt else st_return ()))"

definition validateExt4ImageUUID :: "path \<Rightarrow> int \<Rightarrow> string \<Rightarrow> unit os" where
  "validateExt4ImageUUID p capacityBytes expectedUUID =
     st_seq (validateExt4Image p capacityBytes)
       (case decodeUUID expectedUUID of
          None \<Rightarrow> corrupt
        | Some expected \<Rightarrow>
            st_bind (wrapping (os_Lstat p)) (\<lambda>n.
              case ext4_uuid_of n of
                None \<Rightarrow> corrupt
              | Some actual \<Rightarrow>
                  if hex_EncodeToString actual \<noteq> hex_EncodeToString expected then corrupt else st_return ()))"

definition validateExt4Template :: "path \<Rightarrow> int \<Rightarrow> string \<Rightarrow> unit os" where
  "validateExt4Template p capacityBytes expectedUUID =
     st_bind (wrapping (os_Lstat p)) (\<lambda>n.
       case n of
         Dir \<Rightarrow> corrupt
       | Reg m _ \<Rightarrow> if m \<noteq> snapshotImageMode then corrupt else validateExt4ImageUUID p capacityBytes expectedUUID)"

definition validateImage :: "Store \<Rightarrow> string \<Rightarrow> string \<Rightarrow> int \<Rightarrow> unit os" where
  "validateImage store w i capacityBytes =
     st_bind (validatedVersionPath w i) (\<lambda>p. validateExt4ImageUUID p capacityBytes (deterministicUUID store w))"

definition requirePrivateDirectory :: "path \<Rightarrow> unit os" where
  "requirePrivateDirectory p = st_bind (wrapping (os_Lstat p)) (\<lambda>n. if \<not> is_Dir n then corrupt else st_return ())"

definition removeExactFile :: "path \<Rightarrow> unit os" where
  "removeExactFile p =
     st_bind (st_try (os_Lstat p)) (\<lambda>r. case r of
       Inl e \<Rightarrow> if errors_Is ErrNotExist e then st_return () else st_fail (Wrapped e)
     | Inr n \<Rightarrow> if is_Dir n then corrupt else wrapping (os_Remove p))"

section \<open>Cloning and templates\<close>

definition tool_ok :: "ext4_tool_result \<Rightarrow> bool" where
  "tool_ok r \<longleftrightarrow> exitCode r = Some 0"

text \<open>\<open>tune2fs\<close>, and once more after \<open>e2fsck\<close> when it asks for a check; the check may have corrected errors.\<close>

definition rewriteExt4UUID :: "Store \<Rightarrow> file_data \<Rightarrow> string \<Rightarrow> bool \<times> file_data" where
  "rewriteExt4UUID store workspace u =
     (let r = tune2fs store u workspace in
      if tool_ok r then (True, leaves r)
      else if \<not> freshCheckRequired r then (False, leaves r)
      else let c = e2fsck store (leaves r) in
        if exitCode c \<noteq> Some 0 \<and> (exitCode c = None \<or> the (exitCode c) > 1) then (False, leaves c)
        else let r = tune2fs store u (leaves c) in (tool_ok r, leaves r))"

definition driver_SetUUID :: "Store \<Rightarrow> path \<Rightarrow> string \<Rightarrow> unit os" where
  "driver_SetUUID store p u =
     st_bind (os_Open p) (\<lambda>x. case rewriteExt4UUID store x u of
       (ok, y) \<Rightarrow> st_seq (os_Write p y) (st_guard ok (Wrapped Opaque)))"

definition driver_Clone :: "Store \<Rightarrow> path \<Rightarrow> node \<Rightarrow> unit os" where
  "driver_Clone store destination source =
     (case (case source of Dir \<Rightarrow> None | Reg _ x \<Rightarrow> driverClone store x) of
        None \<Rightarrow> st_fail (Sentinel ErrIO)
      | Some y \<Rightarrow> os_Write destination y)"

definition driver_Format :: "Store \<Rightarrow> path \<Rightarrow> int \<Rightarrow> string \<Rightarrow> unit os" where
  "driver_Format store p capacityBytes u =
     (case driverFormat store capacityBytes u of None \<Rightarrow> st_fail Opaque | Some y \<Rightarrow> os_Write p y)"

text \<open>A file truncated to a size reads as zeros and occupies nothing.\<close>

definition sparse_image :: "int \<Rightarrow> file_data" where
  "sparse_image capacityBytes = Img \<lparr>content = \<lambda>_. Some 0, imageSize = capacityBytes, regular = True, sectors = 0\<rparr>"

definition cloneImage :: "Store \<Rightarrow> path \<Rightarrow> path \<Rightarrow> nat \<Rightarrow> int \<Rightarrow> string \<Rightarrow> string \<Rightarrow> unit os" where
  "cloneImage store sourcePath finalPath m capacityBytes operationID filesystemUUID =
     (let validate = (if filesystemUUID \<noteq> [] then validateExt4ImageUUID finalPath capacityBytes filesystemUUID
                      else validateExt4Image finalPath capacityBytes);
          tempPath = butlast finalPath @ [''.'' @ operationID @ ''.reflinking'']
      in st_seq ctx_Err (st_bind (st_try (os_Lstat finalPath)) (\<lambda>r. case r of
           Inr n \<Rightarrow> if node_size n \<noteq> capacityBytes then st_fail (Sentinel ErrConflictingReplay) else validate
         | Inl e \<Rightarrow>
             if \<not> errors_Is ErrNotExist e then st_fail (Wrapped e)
             else st_bind (wrapping (os_Lstat sourcePath)) (\<lambda>source.
               st_seq (removeExactFile tempPath)
              (st_seq (wrapping (os_Create tempPath writableImageMode (Raw [])))
              (st_seq (on_failure (os_Remove tempPath)
                (st_seq (st_catch (driver_Clone store tempPath source) (\<lambda>c. case c of
                   Inl e \<Rightarrow> st_fail (Wrapped (Joined [Sentinel ErrStorageIncompatible, e])) | Inr _ \<Rightarrow> st_return ()))
                (st_seq (wrapping (os_Chmod tempPath m))
                (st_seq (if filesystemUUID = [] then st_seq (wrapping os_Sync) (wrapping os_Close)
                         else st_seq (wrapping os_Close) (st_seq (driver_SetUUID store tempPath filesystemUUID)
                             (st_seq (wrapping os_Close) (st_seq (wrapping (st_bind (os_Open tempPath) (\<lambda>_. st_return ())))
                             (st_seq (wrapping os_Sync) (wrapping os_Close))))))
                  (wrapping (os_Rename tempPath finalPath))))))
              (st_seq (syncDir (butlast finalPath)) validate)))))))"

definition ensureTemplate :: "Store \<Rightarrow> int \<Rightarrow> path os" where
  "ensureTemplate store capacityBytes =
     (let finalPath = ext4TemplatePath capacityBytes;
          expectedUUID = deterministicTemplateUUID store capacityBytes;
          tempPath = ext4TemplatesRoot @ [''.'' @ last finalPath @ ''.formatting'']
      in st_seq (st_guard (\<not> capacityBytes < minimumExt4Bytes) Opaque) (st_seq ctx_Err
        (st_bind (st_try (os_Lstat finalPath)) (\<lambda>r. case r of
           Inr _ \<Rightarrow> st_seq (validateExt4Template finalPath capacityBytes expectedUUID) (st_return finalPath)
         | Inl e \<Rightarrow>
             if \<not> errors_Is ErrNotExist e then st_fail (Wrapped e)
             else st_seq (removeExactFile tempPath)
              (st_seq (wrapping (os_Create tempPath writableImageMode (Raw [])))
              (st_seq (wrapping (os_Write tempPath (sparse_image capacityBytes)))
              (st_seq (wrapping os_Close)
              (st_seq (wrapping (st_bind (os_Open tempPath) (\<lambda>_. st_return ())))
              (st_seq (driver_Format store tempPath capacityBytes expectedUUID)
              (st_seq (wrapping os_Close)
              (st_seq (wrapping (os_Chmod tempPath snapshotImageMode))
              (st_seq (wrapping os_Sync)
              (st_seq (wrapping os_Close)
              (st_seq (wrapping (os_Rename tempPath finalPath))
              (st_seq (syncDir ext4TemplatesRoot)
              (st_seq (validateExt4Template finalPath capacityBytes expectedUUID)
                (st_return finalPath)))))))))))))))))"

section \<open>Documents\<close>

definition atomicJSON :: "path \<Rightarrow> file_data \<Rightarrow> unit os" where
  "atomicJSON p doc =
     st_bind (os_CreateTemp (butlast p) (''.'' @ last p @ ''.tmp-'')) (\<lambda>tempPath.
       st_seq (on_failure (os_Remove tempPath)
         (st_seq (os_Chmod tempPath writableImageMode)
         (st_seq (os_Write tempPath doc)
         (st_seq os_Sync
         (st_seq os_Close
           (os_Rename tempPath p))))))
       (syncDir (butlast p)))"

definition readJSON :: "(file_data \<Rightarrow> 'a option) \<Rightarrow> path \<Rightarrow> 'a os" where
  "readJSON decode p =
     st_bind (os_Open p) (\<lambda>x. case decode x of None \<Rightarrow> st_fail Opaque | Some v \<Rightarrow> st_return v)"

definition as_current :: "file_data \<Rightarrow> currentManifest option" where
  "as_current x = (case x of CurrentDoc m \<Rightarrow> Some m | _ \<Rightarrow> None)"

definition as_snapshot :: "file_data \<Rightarrow> snapshotManifest option" where
  "as_snapshot x = (case x of SnapshotDoc m \<Rightarrow> Some m | _ \<Rightarrow> None)"

definition as_staged :: "file_data \<Rightarrow> stagedRestore option" where
  "as_staged x = (case x of StagedDoc m \<Rightarrow> Some m | _ \<Rightarrow> None)"

definition as_rollback :: "file_data \<Rightarrow> rollbackManifest option" where
  "as_rollback x = (case x of RollbackDoc m \<Rightarrow> Some m | _ \<Rightarrow> None)"

definition as_receipt :: "file_data \<Rightarrow> Receipt option" where
  "as_receipt x = (case x of ReceiptDoc m \<Rightarrow> Some m | _ \<Rightarrow> None)"

definition ensureWorkspaceLayout :: "string \<Rightarrow> unit os" where
  "ensureWorkspaceLayout w =
     st_seq (for_each (\<lambda>p. st_seq (wrapping (os_MkdirAll p)) (requirePrivateDirectory p))
              [workspaceDir w, versionsDir w, manifestDir w, stagedDir w, rollbackDir w])
       (syncDir (workspaceDir w))"

definition current_manifest_ok :: "string \<Rightarrow> currentManifest \<Rightarrow> bool" where
  "current_manifest_ok w m \<longleftrightarrow>
     \<not> (cmFormatVersion m \<noteq> currentManifestFormatVersion \<or> cmWorkspaceID m \<noteq> w \<or> cmGeneration m < 1 \<or>
        cmCapacityBytes m < legacyMinimumExt4Bytes)"

definition publishCurrentManifest :: "string \<Rightarrow> currentManifest \<Rightarrow> unit os" where
  "publishCurrentManifest w m =
     (if \<not> current_manifest_ok w m then corrupt
      else st_bind (validatedVersionPath w (cmImage m)) (\<lambda>_.
        wrapping (atomicJSON (currentManifestPath w) (CurrentDoc m))))"

definition readCurrentManifest :: "string \<Rightarrow> currentManifest os" where
  "readCurrentManifest w =
     st_bind (st_try (readJSON as_current (currentManifestPath w))) (\<lambda>r. case r of
       Inl e \<Rightarrow> if errors_Is ErrNotExist e then st_fail (Sentinel ErrWorkspaceNotFound) else corrupt
     | Inr m \<Rightarrow>
         if \<not> current_manifest_ok w m then corrupt
         else st_bind (validatedVersionPath w (cmImage m)) (\<lambda>_. st_return m))"

definition readSnapshotManifest :: "string \<Rightarrow> snapshotManifest os" where
  "readSnapshotManifest s =
     st_bind (st_try (readJSON as_snapshot (snapshotManifestPath s))) (\<lambda>r. case r of
       Inl e \<Rightarrow> if errors_Is ErrNotExist e then st_fail (Sentinel ErrSnapshotNotFound) else corrupt
     | Inr m \<Rightarrow>
         if smFormatVersion m \<noteq> currentManifestFormatVersion \<or> smSnapshotID m \<noteq> s \<or> \<not> valid_id (smWorkspaceID m) \<or>
            smGeneration m < 1 \<or> smCapacityBytes m < legacyMinimumExt4Bytes
         then corrupt else st_return m)"

definition readStagedRestore :: "string \<Rightarrow> string \<Rightarrow> stagedRestore os" where
  "readStagedRestore w operationID =
     st_bind (readJSON as_staged (stagedManifestPath w operationID)) (\<lambda>m.
       if srFormatVersion m \<noteq> currentManifestFormatVersion \<or> srWorkspaceID m \<noteq> w \<or> srOperationID m \<noteq> operationID \<or>
          \<not> valid_id (srSnapshotID m) \<or> srNextGeneration m \<noteq> u64 (srExpectedGeneration m + 1) \<or>
          srCapacityBytes m < legacyMinimumExt4Bytes
       then corrupt
       else st_bind (validatedVersionPath w (srImage m)) (\<lambda>_. st_return m))"

definition readRollback :: "string \<Rightarrow> string \<Rightarrow> rollbackManifest os" where
  "readRollback w operationID =
     st_bind (readJSON as_rollback (rollbackPath w operationID)) (\<lambda>m.
       if rmFormatVersion m \<noteq> currentManifestFormatVersion \<or> rmWorkspaceID m \<noteq> w \<or> rmOperationID m \<noteq> operationID \<or>
          rmNextGeneration m \<noteq> u64 (rmPreviousGeneration m + 1) \<or> rmCapacityBytes m < legacyMinimumExt4Bytes
       then corrupt
       else st_bind (validatedVersionPath w (rmPreviousImage m)) (\<lambda>_.
         st_bind (validatedVersionPath w (rmNextImage m)) (\<lambda>_. st_return m)))"

section \<open>Receipts\<close>

definition zeroReceipt :: Receipt where
  "zeroReceipt =
     \<lparr>rcFormatVersion = 0, rcKind = [], rcOperationID = [], rcWorkspaceID = [], rcSnapshotID = [], rcInputDigest = [],
      rcGeneration = 0, rcPreviousGeneration = 0, rcCapacityBytes = 0, rcChecksum = [], rcRecordedAt = 0\<rparr>"

definition receiptKinds :: "string list" where
  "receiptKinds =
     [ReceiptWorkspaceCreate, ReceiptWorkspaceClone, ReceiptGenerationAdvance, ReceiptSnapshotCreate,
      ReceiptSnapshotDelete, ReceiptRestorePrepare, ReceiptRestoreSwap, ReceiptRestoreFinalize, ReceiptRestoreAbort,
      ReceiptWorkspaceDelete, ReceiptRelocationExport, ReceiptRelocationImport, ReceiptRelocationAbort]"

definition validOperationDigest :: "string \<Rightarrow> bool" where
  "validOperationDigest value =
     (case string_Cut (CHR '':'') value of
        None \<Rightarrow> False
      | Some (fenceDigest, requestDigest) \<Rightarrow>
          if length fenceDigest \<noteq> 64 \<or> length requestDigest \<noteq> 64 then False
          else if hex_DecodeString fenceDigest = None then False
          else if hex_DecodeString requestDigest = None then False
          else True)"

definition receipt_ok :: "Receipt \<Rightarrow> bool" where
  "receipt_ok receipt \<longleftrightarrow>
     \<not> (rcFormatVersion receipt \<noteq> receiptFormatVersion \<or> \<not> valid_id (rcOperationID receipt) \<or>
        \<not> valid_id (rcWorkspaceID receipt) \<or> \<not> validOperationDigest (rcInputDigest receipt) \<or> rcRecordedAt receipt = 0) \<and>
     List.member receiptKinds (rcKind receipt) \<and>
     \<not> (rcSnapshotID receipt \<noteq> [] \<and> \<not> valid_id (rcSnapshotID receipt)) \<and>
     \<not> (rcChecksum receipt \<noteq> [] \<and> \<not> string_HasPrefix (rcChecksum receipt) ''sha256:'')"

definition validateReceipt :: "Receipt \<Rightarrow> unit os" where
  "validateReceipt receipt = (if receipt_ok receipt then st_return () else corrupt)"

definition prepareReceiptDirectory :: "Mutation \<Rightarrow> unit os" where
  "prepareReceiptDirectory mutation =
     (let workspaceDirectory = receiptsRoot @ [WorkspaceID mutation];
          operationDirectory = workspaceDirectory @ [OperationID mutation]
      in st_seq (wrapping (os_MkdirAll operationDirectory))
        (st_seq (for_each requirePrivateDirectory [workspaceDirectory, operationDirectory])
        (st_seq (syncDir workspaceDirectory) (syncDir receiptsRoot))))"

definition recordReceipt :: "Receipt \<Rightarrow> bool \<Rightarrow> Receipt os" where
  "recordReceipt receipt parentsDurable =
     st_bind (st_get clock) (\<lambda>now.
       let receipt = receipt\<lparr>rcFormatVersion := receiptFormatVersion, rcRecordedAt := now\<rparr>;
           mutation = \<lparr>OperationID = rcOperationID receipt, WorkspaceID = rcWorkspaceID receipt, FencingToken = []\<rparr>;
           p = receiptPath mutation (rcKind receipt)
       in st_seq (validateReceipt receipt)
         (st_seq (if parentsDurable then requirePrivateDirectory (butlast p) else prepareReceiptDirectory mutation)
         (st_seq (wrapping (atomicJSON p (ReceiptDoc receipt)))
           (st_return receipt))))"

definition loadAnyReceipt :: "Mutation \<Rightarrow> string \<Rightarrow> Receipt option os" where
  "loadAnyReceipt mutation kind =
     st_bind (st_try (readJSON as_receipt (receiptPath mutation kind))) (\<lambda>r. case r of
       Inl e \<Rightarrow> if errors_Is ErrNotExist e then st_return None else corrupt
     | Inr receipt \<Rightarrow>
         st_seq (validateReceipt receipt)
           (if rcKind receipt \<noteq> kind \<or> rcOperationID receipt \<noteq> OperationID mutation \<or>
               rcWorkspaceID receipt \<noteq> WorkspaceID mutation
            then st_fail (Sentinel ErrConflictingReplay)
            else st_return (Some receipt)))"

definition loadReceipt :: "Mutation \<Rightarrow> string \<Rightarrow> string \<Rightarrow> Receipt option os" where
  "loadReceipt mutation digest kind =
     st_bind (loadAnyReceipt mutation kind) (\<lambda>r. case r of
       None \<Rightarrow> st_return None
     | Some receipt \<Rightarrow>
         (case (string_Cut (CHR '':'') (rcInputDigest receipt), string_Cut (CHR '':'') digest) of
            (Some (storedFence, _), Some (replayedFence, _)) \<Rightarrow>
              if storedFence \<noteq> replayedFence then st_fail (Sentinel ErrStaleFence)
              else if rcInputDigest receipt \<noteq> digest then st_fail (Sentinel ErrConflictingReplay)
              else st_return (Some receipt)
          | _ \<Rightarrow> corrupt))"

section \<open>The writer lock\<close>

definition open_or_create :: "path \<Rightarrow> unit os" where
  "open_or_create p =
     st_bind (st_get (\<lambda>d. exists_at d p)) (\<lambda>found.
       if found then st_bind (os_Open p) (\<lambda>_. st_return ()) else os_Create p writableImageMode (Raw []))"

definition TryLock :: "string \<Rightarrow> unit os" where
  "TryLock w =
     st_seq os_call (st_bind (st_get (\<lambda>d. List.member (locks d) w)) (\<lambda>held.
       if held then st_fail (Sentinel ErrWouldBlock) else st_modify (\<lambda>d. d\<lparr>locks := w # locks d\<rparr>)))"

definition lockWorkspace_file :: "string \<Rightarrow> unit os" where
  "lockWorkspace_file w =
     st_seq (validateID w)
    (st_seq (wrapping (open_or_create (locksRoot @ [w @ ''.lock''])))
    (st_catch (TryLock w) (\<lambda>r. case r of
       Inr _ \<Rightarrow> st_return ()
     | Inl e \<Rightarrow> st_bind (st_try os_Close) (\<lambda>c.
         st_fail (Joined ((if errors_Is ErrWouldBlock e then Sentinel ErrActiveWriter else Wrapped e) #
           (case c of Inl closeErr \<Rightarrow> [closeErr] | Inr _ \<Rightarrow> [])))))))"

text \<open>Closing the descriptor releases the lock, whatever \<open>Close\<close> returns.\<close>

definition closeLockedFile :: "string \<Rightarrow> unit os" where
  "closeLockedFile w = st_seq (st_modify (\<lambda>d. d\<lparr>locks := remove1 w (locks d)\<rparr>)) os_Close"

definition of_result :: "(store_error, 'a) result \<Rightarrow> 'a os" where
  "of_result r = (case r of Inl e \<Rightarrow> st_fail e | Inr a \<Rightarrow> st_return a)"

definition with_lock :: "string \<Rightarrow> 'a os \<Rightarrow> 'a os" where
  "with_lock w m =
     st_seq (lockWorkspace_file w) (st_bind (st_try m) (\<lambda>r. st_seq (ignoring (closeLockedFile w)) (of_result r)))"

section \<open>Mutations\<close>

definition validateMutation :: "Mutation \<Rightarrow> unit os" where
  "validateMutation mutation =
     st_seq (validateID (OperationID mutation))
    (st_seq (validateID (WorkspaceID mutation))
    (st_guard (\<not> length (FencingToken mutation) < 32) (Sentinel ErrStaleFence)))"

text \<open>
  \<open>mutate\<close> on the encoded request. The goroutine that prepares the receipt
  directory runs before \<open>apply\<close> here: the two touch different paths, and its
  result is read only after \<open>apply\<close> has returned.
\<close>

definition mutate :: "Store \<Rightarrow> octet list \<Rightarrow> Mutation \<Rightarrow> string \<Rightarrow> Receipt os \<Rightarrow> Receipt os" where
  "mutate store request mutation kind action =
     st_seq ctx_Err
    (st_seq (validateMutation mutation)
    (st_bind (inputDigest store request (FencingToken mutation)) (\<lambda>digest.
     st_bind (loadReceipt mutation digest kind) (\<lambda>found. case found of
       Some receipt \<Rightarrow> st_return receipt
     | None \<Rightarrow> with_lock (WorkspaceID mutation)
         (st_bind (loadReceipt mutation digest kind) (\<lambda>found. case found of
            Some receipt \<Rightarrow> st_return receipt
          | None \<Rightarrow>
              st_bind (if kind \<noteq> ReceiptWorkspaceDelete then st_try (prepareReceiptDirectory mutation)
                       else st_return (Inr ())) (\<lambda>preparation.
              st_bind (st_try action) (\<lambda>r. case r of
                Inl err \<Rightarrow>
                  if kind \<noteq> ReceiptWorkspaceDelete
                  then st_fail (Joined (err # (case preparation of Inl e \<Rightarrow> [e] | Inr _ \<Rightarrow> [])))
                  else st_fail err
              | Inr receipt \<Rightarrow>
                  (case preparation of
                     Inl e \<Rightarrow> st_fail e
                   | Inr _ \<Rightarrow>
                       recordReceipt (receipt\<lparr>rcKind := kind, rcOperationID := OperationID mutation,
                           rcWorkspaceID := WorkspaceID mutation, rcInputDigest := digest\<rparr>)
                         (kind \<noteq> ReceiptWorkspaceDelete))))))))))"

definition replay :: "Store \<Rightarrow> octet list \<Rightarrow> Mutation \<Rightarrow> string \<Rightarrow> Receipt option os" where
  "replay store request mutation kind =
     st_seq ctx_Err
    (st_seq (validateMutation mutation)
    (st_bind (inputDigest store request (FencingToken mutation)) (\<lambda>digest.
       loadReceipt mutation digest kind)))"

end
