(* ===== verification/Workspace_Operations.thy ===== *)
theory Workspace_Operations
  imports Workspace_Store
begin

text \<open>
  The operations of the WorkspaceStore (\<open>runner/internal/workspacestore/store.go\<close>
  and \<open>Attachment.Close\<close> of \<open>types.go\<close>), in the order of the file: creation and
  cloning, attachment, generation advance with block reclaim, Snapshots, the
  restore protocol, deletion, inspection and start-up reconciliation.
\<close>

section \<open>Creation\<close>

definition crRequest :: "CreateWorkspaceRequest \<Rightarrow> octet list" where
  "crRequest r = json_request (crMutation r) [(''CapacityBytes'', FormatInt (crCapacityBytes r))]"

definition ReplayCreate :: "Store \<Rightarrow> CreateWorkspaceRequest \<Rightarrow> Receipt option os" where
  "ReplayCreate store request =
     st_seq (st_guard (\<not> crCapacityBytes request < minimumExt4Bytes) Opaque)
       (replay store (crRequest request) (crMutation request) ReceiptWorkspaceCreate)"

definition generationOneManifest :: "string \<Rightarrow> string \<Rightarrow> int \<Rightarrow> currentManifest" where
  "generationOneManifest w i capacityBytes =
     \<lparr>cmFormatVersion = currentManifestFormatVersion, cmWorkspaceID = w, cmGeneration = 1, cmImage = i,
      cmCapacityBytes = capacityBytes, cmRelocationSealed = False\<rparr>"

definition create_apply :: "Store \<Rightarrow> CreateWorkspaceRequest \<Rightarrow> Receipt os" where
  "create_apply store request =
     (let w = WorkspaceID (crMutation request); capacityBytes = crCapacityBytes request;
          receipt = zeroReceipt\<lparr>rcGeneration := 1, rcCapacityBytes := capacityBytes\<rparr>
      in st_seq (ensureWorkspaceLayout w)
        (st_bind (st_try (readCurrentManifest w)) (\<lambda>r. case r of
           Inr manifest \<Rightarrow>
             if cmGeneration manifest \<noteq> 1 \<or> cmCapacityBytes manifest \<noteq> capacityBytes
             then st_fail (Sentinel ErrConflictingReplay)
             else st_seq (validateImage store w (cmImage manifest) capacityBytes) (st_return receipt)
         | Inl e \<Rightarrow>
             if \<not> errors_Is ErrWorkspaceNotFound e then st_fail e
             else let imageName = generationImageName 1 ''create'' in
               st_bind (ensureTemplate store capacityBytes) (\<lambda>templatePath.
               st_seq (cloneImage store templatePath (versionPath w imageName) writableImageMode capacityBytes
                         (OperationID (crMutation request)) (deterministicUUID store w))
              (st_seq (publishCurrentManifest w (generationOneManifest w imageName capacityBytes))
                (st_return receipt))))))"

definition Create :: "Store \<Rightarrow> CreateWorkspaceRequest \<Rightarrow> Receipt os" where
  "Create store request =
     st_bind (ReplayCreate store request) (\<lambda>found. case found of
       Some receipt \<Rightarrow> st_return receipt
     | None \<Rightarrow> mutate store (crRequest request) (crMutation request) ReceiptWorkspaceCreate (create_apply store request))"

definition clRequest :: "CloneWorkspaceRequest \<Rightarrow> octet list" where
  "clRequest r = json_request (clMutation r)
     [(''SourceSnapshot'', json_string (clSourceSnapshot r)), (''CapacityBytes'', FormatInt (clCapacityBytes r))]"

definition ReplayCloneFromSnapshot :: "Store \<Rightarrow> CloneWorkspaceRequest \<Rightarrow> Receipt option os" where
  "ReplayCloneFromSnapshot store request =
     st_seq (st_guard (\<not> clCapacityBytes request < minimumExt4Bytes) Opaque)
    (st_seq (validateID (clSourceSnapshot request))
       (replay store (clRequest request) (clMutation request) ReceiptWorkspaceClone))"

definition clone_apply :: "Store \<Rightarrow> CloneWorkspaceRequest \<Rightarrow> Receipt os" where
  "clone_apply store request =
     (let w = WorkspaceID (clMutation request); s = clSourceSnapshot request; capacityBytes = clCapacityBytes request;
          receipt = zeroReceipt\<lparr>rcSnapshotID := s, rcGeneration := 1, rcCapacityBytes := capacityBytes\<rparr>
      in st_bind (readSnapshotManifest s) (\<lambda>source.
         if smCapacityBytes source \<noteq> capacityBytes then st_fail (Sentinel ErrStorageIncompatible)
         else st_seq (validateExt4ImageUUID (snapshotImagePath s) capacityBytes (deterministicUUID store (smWorkspaceID source)))
         (st_seq (ensureWorkspaceLayout w)
         (st_bind (st_try (readCurrentManifest w)) (\<lambda>r. case r of
            Inr manifest \<Rightarrow>
              if cmGeneration manifest \<noteq> 1 \<or> cmCapacityBytes manifest \<noteq> capacityBytes
              then st_fail (Sentinel ErrConflictingReplay)
              else st_seq (validateImage store w (cmImage manifest) capacityBytes) (st_return receipt)
          | Inl e \<Rightarrow>
              if \<not> errors_Is ErrWorkspaceNotFound e then st_fail e
              else let imageName = generationImageName 1 ''clone'' in
                st_seq (cloneImage store (snapshotImagePath s) (versionPath w imageName) writableImageMode capacityBytes
                         (OperationID (clMutation request)) (deterministicUUID store w))
               (st_seq (publishCurrentManifest w (generationOneManifest w imageName capacityBytes))
                 (st_return receipt)))))))"

definition CloneFromSnapshot :: "Store \<Rightarrow> CloneWorkspaceRequest \<Rightarrow> Receipt os" where
  "CloneFromSnapshot store request =
     st_bind (ReplayCloneFromSnapshot store request) (\<lambda>found. case found of
       Some receipt \<Rightarrow> st_return receipt
     | None \<Rightarrow> mutate store (clRequest request) (clMutation request) ReceiptWorkspaceClone (clone_apply store request))"

section \<open>Attachment\<close>

fun any_json_file :: "(string \<times> bool) list \<Rightarrow> bool" where
  "any_json_file [] = False"
| "any_json_file ((name, isDir) # entries) = (if \<not> isDir \<and> filepath_Ext name = ''.json'' then True else any_json_file entries)"

definition stagedRestorePending :: "string \<Rightarrow> bool os" where
  "stagedRestorePending w =
     st_bind (st_try (os_ReadDir (stagedDir w))) (\<lambda>r. case r of
       Inl e \<Rightarrow> if errors_Is ErrNotExist e then st_return False else st_fail (Wrapped e)
     | Inr entries \<Rightarrow> st_return (any_json_file entries))"

record WorkspaceHandle =
  whWorkspaceID :: string
  whImage :: string
  whGeneration :: int
  whNonce :: string

text \<open>An attachment: the open image by its path, and whether the lock descriptor is still open.\<close>

record Attachment =
  atHandle :: WorkspaceHandle
  atFile :: "path option"
  atLock :: bool
  atCapacityBytes :: int
  atFilesystemUUID :: string

definition open_locked :: "Store \<Rightarrow> string \<Rightarrow> int \<Rightarrow> Attachment os" where
  "open_locked store w expectedGeneration =
     st_bind (readCurrentManifest w) (\<lambda>manifest.
       if cmGeneration manifest \<noteq> expectedGeneration then st_fail (Sentinel ErrStaleGeneration)
       else if cmRelocationSealed manifest then st_fail (Sentinel ErrRelocationSealed)
       else st_bind (stagedRestorePending w) (\<lambda>pending.
         if pending then st_fail (Sentinel ErrRestorePending)
         else st_bind (validatedVersionPath w (cmImage manifest)) (\<lambda>imagePath.
           st_seq (validateExt4ImageUUID imagePath (cmCapacityBytes manifest) (deterministicUUID store w))
          (st_bind (wrapping (os_Open imagePath)) (\<lambda>_.
             st_return
               \<lparr>atHandle = \<lparr>whWorkspaceID = w, whImage = cmImage manifest, whGeneration = cmGeneration manifest,
                            whNonce = requestNonce store [w, cmImage manifest, FormatInt (cmGeneration manifest)]\<rparr>,
                atFile = Some imagePath, atLock = True, atCapacityBytes = cmCapacityBytes manifest,
                atFilesystemUUID = deterministicUUID store w\<rparr>)))))"

text \<open>\<open>Open\<close> keeps the lock when it succeeds.\<close>

definition Open :: "Store \<Rightarrow> string \<Rightarrow> int \<Rightarrow> Attachment os" where
  "Open store w expectedGeneration =
     st_seq ctx_Err
    (st_seq (validateID w)
    (st_seq (lockWorkspace_file w)
       (on_failure (closeLockedFile w) (open_locked store w expectedGeneration))))"

definition first_error :: "store_error go_error option \<Rightarrow> (store_error, unit) result \<Rightarrow> store_error go_error option" where
  "first_error first r = (case first of Some e \<Rightarrow> Some e | None \<Rightarrow> (case r of Inl e \<Rightarrow> Some e | Inr _ \<Rightarrow> None))"

definition Attachment_Close :: "Attachment \<Rightarrow> (store_error go_error option \<times> Attachment) os" where
  "Attachment_Close attachment =
     st_bind (if atFile attachment \<noteq> None
              then st_bind (st_try os_Sync) (\<lambda>s. st_bind (st_try os_Close) (\<lambda>c.
                     st_return (first_error (first_error None s) c)))
              else st_return None) (\<lambda>first.
     st_bind (if atLock attachment
              then st_bind (st_try (closeLockedFile (whWorkspaceID (atHandle attachment)))) (\<lambda>l.
                     st_return (first_error first l))
              else st_return first) (\<lambda>first.
       st_return (first, attachment\<lparr>atFile := None, atLock := False\<rparr>)))"

section \<open>Generations\<close>

definition reclaim_sentinel :: "reclaim_error \<Rightarrow> store_error" where
  "reclaim_sentinel e = (case e of Canceled \<Rightarrow> ErrCanceled | CorruptState \<Rightarrow> ErrCorruptState | _ \<Rightarrow> ErrIO)"

text \<open>\<open>reclaimFreeImageBlocks\<close> on the open file: what it punched stays punched when it fails.\<close>

definition reclaim_file :: "Store \<Rightarrow> path \<Rightarrow> int \<Rightarrow> unit os" where
  "reclaim_file store p capacityBytes =
     st_bind (wrapping (os_Lstat p)) (\<lambda>n. case n of
       Reg m (Img i) \<Rightarrow>
         (case reclaimFreeImageBlocks (reclaimHost store) capacityBytes i of
            (r, i') \<Rightarrow>
              st_seq (st_modify (put_node p (Reg m (Img i'))))
             (st_bind (st_try os_Close) (\<lambda>c.
                case (r, c) of
                  (Inr _, Inr _) \<Rightarrow> st_return ()
                | (Inl e, Inl ce) \<Rightarrow> st_fail (Joined [map_go_error reclaim_sentinel e, ce])
                | (Inl e, Inr _) \<Rightarrow> st_fail (Joined [map_go_error reclaim_sentinel e])
                | (Inr _, Inl ce) \<Rightarrow> st_fail (Joined [ce]))))
     | Reg _ _ \<Rightarrow> st_bind (st_try os_Close) (\<lambda>_. st_fail (Joined [Wrapped (Sentinel ErrCorruptState)]))
     | Dir \<Rightarrow> st_fail (Wrapped (Sentinel ErrIO)))"

definition reclaimFreeBlocks :: "Store \<Rightarrow> string \<Rightarrow> currentManifest \<Rightarrow> unit os" where
  "reclaimFreeBlocks store w manifest =
     (if cmRelocationSealed manifest then st_return ()
      else st_bind (validatedVersionPath w (cmImage manifest)) (\<lambda>p. reclaim_file store p (cmCapacityBytes manifest)))"

definition agRequest :: "AdvanceGenerationRequest \<Rightarrow> octet list" where
  "agRequest r = json_request (agMutation r)
     [(''ExpectedGeneration'', FormatInt (agExpectedGeneration r)), (''NextGeneration'', FormatInt (agNextGeneration r))]"

definition advance_apply :: "Store \<Rightarrow> AdvanceGenerationRequest \<Rightarrow> Receipt os" where
  "advance_apply store request =
     (let w = WorkspaceID (agMutation request);
          receipt = (\<lambda>manifest. zeroReceipt\<lparr>rcPreviousGeneration := agExpectedGeneration request,
                       rcGeneration := agNextGeneration request, rcCapacityBytes := cmCapacityBytes manifest\<rparr>)
      in st_bind (readCurrentManifest w) (\<lambda>manifest.
         if cmGeneration manifest = agNextGeneration request then st_return (receipt manifest)
         else if cmGeneration manifest \<noteq> agExpectedGeneration request then st_fail (Sentinel ErrStaleGeneration)
         else st_bind (stagedRestorePending w) (\<lambda>pending.
           if pending then st_fail (Sentinel ErrRestorePending)
           else st_seq (reclaimFreeBlocks store w manifest)
            (st_seq (publishCurrentManifest w (manifest\<lparr>cmGeneration := agNextGeneration request\<rparr>))
              (st_return (receipt manifest))))))"

definition AdvanceGeneration :: "Store \<Rightarrow> AdvanceGenerationRequest \<Rightarrow> Receipt os" where
  "AdvanceGeneration store request =
     (if agNextGeneration request \<noteq> u64 (agExpectedGeneration request + 1) then st_fail (Sentinel ErrStaleGeneration)
      else mutate store (agRequest request) (agMutation request) ReceiptGenerationAdvance (advance_apply store request))"

section \<open>Snapshots\<close>

definition csRequest :: "CreateSnapshotRequest \<Rightarrow> octet list" where
  "csRequest r = json_request (csMutation r)
     [(''SnapshotID'', json_string (csSnapshotID r)), (''ExpectedGeneration'', FormatInt (csExpectedGeneration r))]"

definition create_snapshot_apply :: "Store \<Rightarrow> CreateSnapshotRequest \<Rightarrow> Receipt os" where
  "create_snapshot_apply store request =
     (let w = WorkspaceID (csMutation request); s = csSnapshotID request;
          receipt = (\<lambda>manifest. zeroReceipt\<lparr>rcSnapshotID := s, rcGeneration := cmGeneration manifest,
                       rcCapacityBytes := cmCapacityBytes manifest\<rparr>)
      in st_bind (readCurrentManifest w) (\<lambda>manifest.
         if cmGeneration manifest \<noteq> csExpectedGeneration request then st_fail (Sentinel ErrStaleGeneration)
         else st_bind (stagedRestorePending w) (\<lambda>pending.
           if pending then st_fail (Sentinel ErrRestorePending)
           else st_bind (st_try (readSnapshotManifest s)) (\<lambda>r. case r of
             Inr existing \<Rightarrow>
               if smWorkspaceID existing \<noteq> w \<or> smGeneration existing \<noteq> csExpectedGeneration request \<or>
                  smCapacityBytes existing \<noteq> cmCapacityBytes manifest
               then st_fail (Sentinel ErrConflictingReplay)
               else st_seq (validateExt4ImageUUID (snapshotImagePath s) (cmCapacityBytes manifest) (deterministicUUID store w))
                 (st_return (receipt manifest))
           | Inl e \<Rightarrow>
               if \<not> errors_Is ErrSnapshotNotFound e then st_fail e
               else st_seq (st_catch (os_Mkdir (snapshotDir s)) (\<lambda>r. case r of
                      Inl e \<Rightarrow> if \<not> errors_Is ErrExist e then st_fail (Wrapped e) else st_return ()
                    | Inr _ \<Rightarrow> st_return ()))
                (st_bind (validatedVersionPath w (cmImage manifest)) (\<lambda>sourcePath.
                 st_seq (cloneImage store sourcePath (snapshotImagePath s) snapshotImageMode (cmCapacityBytes manifest)
                           (OperationID (csMutation request)) [])
                (st_seq (wrapping (atomicJSON (snapshotManifestPath s) (SnapshotDoc
                           \<lparr>smFormatVersion = currentManifestFormatVersion, smSnapshotID = s, smWorkspaceID = w,
                            smGeneration = cmGeneration manifest, smCapacityBytes = cmCapacityBytes manifest\<rparr>)))
                (st_seq (syncDir (snapshotDir s))
                (st_seq (syncDir snapshotsRoot)
                  (st_return (receipt manifest)))))))))))"

definition CreateSnapshot :: "Store \<Rightarrow> CreateSnapshotRequest \<Rightarrow> Receipt os" where
  "CreateSnapshot store request =
     st_seq (validateID (csSnapshotID request))
       (mutate store (csRequest request) (csMutation request) ReceiptSnapshotCreate (create_snapshot_apply store request))"

fun staged_refers :: "string \<Rightarrow> string \<Rightarrow> (string \<times> bool) list \<Rightarrow> bool os" where
  "staged_refers w s [] = st_return False"
| "staged_refers w s ((name, isDir) # entries) =
     (if isDir \<or> filepath_Ext name \<noteq> ''.json'' then staged_refers w s entries
      else st_bind (readStagedRestore w (TrimSuffix name ''.json'')) (\<lambda>staged.
        if srSnapshotID staged = s then st_return True else staged_refers w s entries))"

definition snapshotReferencedByRestore :: "string \<Rightarrow> string \<Rightarrow> bool os" where
  "snapshotReferencedByRestore w s =
     st_bind (st_try (os_ReadDir (stagedDir w))) (\<lambda>r. case r of
       Inl e \<Rightarrow> if errors_Is ErrNotExist e then st_return False else st_fail e
     | Inr entries \<Rightarrow> staged_refers w s entries)"

text \<open>A call whose failure with \<open>os.ErrNotExist\<close> is no error.\<close>

definition unless_absent :: "unit os \<Rightarrow> unit os" where
  "unless_absent m = st_catch m (\<lambda>r. case r of
     Inl e \<Rightarrow> if \<not> errors_Is ErrNotExist e then st_fail e else st_return () | Inr _ \<Rightarrow> st_return ())"

definition dsRequest :: "DeleteSnapshotRequest \<Rightarrow> octet list" where
  "dsRequest r = json_request (dsMutation r) [(''SnapshotID'', json_string (dsSnapshotID r))]"

definition delete_snapshot_apply :: "DeleteSnapshotRequest \<Rightarrow> Receipt os" where
  "delete_snapshot_apply request =
     (let w = WorkspaceID (dsMutation request); s = dsSnapshotID request
      in st_bind (st_try (readSnapshotManifest s)) (\<lambda>r. case r of
           Inl e \<Rightarrow>
             if errors_Is ErrSnapshotNotFound e then st_return (zeroReceipt\<lparr>rcSnapshotID := s\<rparr>) else st_fail e
         | Inr snapshot \<Rightarrow>
             if smWorkspaceID snapshot \<noteq> w then st_fail (Sentinel ErrConflictingReplay)
             else st_bind (snapshotReferencedByRestore w s) (\<lambda>inUse.
               if inUse then st_fail (Sentinel ErrSnapshotInUse)
               else st_seq (unless_absent (wrapping (os_Chmod (snapshotImagePath s) writableImageMode)))
                (st_seq (removeExactFile (snapshotImagePath s))
                (st_seq (removeExactFile (snapshotManifestPath s))
                (st_seq (unless_absent (wrapping (os_Remove (snapshotDir s))))
                (st_seq (syncDir snapshotsRoot)
                  (st_return (zeroReceipt\<lparr>rcSnapshotID := s, rcGeneration := smGeneration snapshot,
                     rcCapacityBytes := smCapacityBytes snapshot\<rparr>)))))))))"

definition DeleteSnapshot :: "Store \<Rightarrow> DeleteSnapshotRequest \<Rightarrow> Receipt os" where
  "DeleteSnapshot store request =
     st_seq (validateID (dsSnapshotID request))
       (mutate store (dsRequest request) (dsMutation request) ReceiptSnapshotDelete (delete_snapshot_apply request))"

section \<open>The restore protocol\<close>

fun first_restore_operation :: "(string \<times> bool) list \<Rightarrow> string os" where
  "first_restore_operation [] = st_return []"
| "first_restore_operation ((name, isDir) # entries) =
     (if isDir \<or> filepath_Ext name \<noteq> ''.json'' then first_restore_operation entries
      else if \<not> valid_id (TrimSuffix name ''.json'') then corrupt
      else st_return (TrimSuffix name ''.json''))"

fun pending_in :: "path list \<Rightarrow> string os" where
  "pending_in [] = st_return []"
| "pending_in (dir # dirs) =
     st_bind (st_try (os_ReadDir dir)) (\<lambda>r. case r of
       Inl e \<Rightarrow> if errors_Is ErrNotExist e then pending_in dirs else st_fail (Wrapped e)
     | Inr entries \<Rightarrow>
         st_bind (first_restore_operation entries) (\<lambda>operationID.
           if operationID \<noteq> [] then st_return operationID else pending_in dirs))"

definition pendingRestoreOperation :: "string \<Rightarrow> string os" where
  "pendingRestoreOperation w = pending_in [stagedDir w, rollbackDir w]"

definition restorePending :: "string \<Rightarrow> bool os" where
  "restorePending w = st_bind (pendingRestoreOperation w) (\<lambda>operationID. st_return (operationID \<noteq> []))"

definition validateRestoreRequest :: "Mutation \<Rightarrow> string \<Rightarrow> int \<Rightarrow> int \<Rightarrow> unit os" where
  "validateRestoreRequest mutation s expectedGeneration nextGeneration =
     st_seq (validateMutation mutation)
    (st_seq (validateID s)
    (st_guard (\<not> (expectedGeneration < 1 \<or> nextGeneration \<noteq> u64 (expectedGeneration + 1))) (Sentinel ErrStaleGeneration)))"

definition stagedMatches :: "stagedRestore \<Rightarrow> PrepareRestoreRequest \<Rightarrow> bool" where
  "stagedMatches staged request \<longleftrightarrow>
     srOperationID staged = OperationID (prMutation request) \<and> srWorkspaceID staged = WorkspaceID (prMutation request) \<and>
     srSnapshotID staged = prSnapshotID request \<and> srExpectedGeneration staged = prExpectedGeneration request \<and>
     srNextGeneration staged = prNextGeneration request"

definition prRequest :: "PrepareRestoreRequest \<Rightarrow> octet list" where
  "prRequest r = json_request (prMutation r)
     [(''SnapshotID'', json_string (prSnapshotID r)), (''ExpectedGeneration'', FormatInt (prExpectedGeneration r)),
      (''NextGeneration'', FormatInt (prNextGeneration r))]"

definition restore_receipt :: "string \<Rightarrow> int \<Rightarrow> int \<Rightarrow> int \<Rightarrow> Receipt" where
  "restore_receipt s previousGeneration generation capacityBytes =
     zeroReceipt\<lparr>rcSnapshotID := s, rcPreviousGeneration := previousGeneration, rcGeneration := generation,
       rcCapacityBytes := capacityBytes\<rparr>"

definition prepare_apply :: "Store \<Rightarrow> PrepareRestoreRequest \<Rightarrow> Receipt os" where
  "prepare_apply store request =
     (let w = WorkspaceID (prMutation request); op = OperationID (prMutation request); s = prSnapshotID request
      in st_bind (readCurrentManifest w) (\<lambda>manifest.
         let receipt = restore_receipt s (prExpectedGeneration request) (prNextGeneration request) (cmCapacityBytes manifest) in
         if cmGeneration manifest \<noteq> prExpectedGeneration request then st_fail (Sentinel ErrStaleGeneration)
         else st_bind (readSnapshotManifest s) (\<lambda>snapshot.
           if smWorkspaceID snapshot \<noteq> w \<or> smCapacityBytes snapshot \<noteq> cmCapacityBytes manifest
           then st_fail (Sentinel ErrConflictingReplay)
           else st_seq (st_catch (validateExt4ImageUUID (snapshotImagePath s) (smCapacityBytes snapshot)
                                    (deterministicUUID store w)) (\<lambda>r. case r of
                  Inl e \<Rightarrow> if errors_Is ErrNotExist e then st_fail (Sentinel ErrSnapshotNotFound) else st_fail e
                | Inr _ \<Rightarrow> st_return ()))
           (st_bind (pendingRestoreOperation w) (\<lambda>pending.
             if pending \<noteq> [] \<and> pending \<noteq> op then st_fail (Sentinel ErrRestorePending)
             else st_bind (st_try (readStagedRestore w op)) (\<lambda>r. case r of
               Inr staged \<Rightarrow>
                 if \<not> stagedMatches staged request then st_fail (Sentinel ErrConflictingReplay)
                 else st_seq (validateExt4ImageUUID (stagedImagePath w op) (cmCapacityBytes manifest) (deterministicUUID store w))
                   (st_return receipt)
             | Inl e \<Rightarrow>
                 if \<not> errors_Is ErrNotExist e then st_fail e
                 else st_seq (cloneImage store (snapshotImagePath s) (stagedImagePath w op) writableImageMode
                               (cmCapacityBytes manifest) op [])
                  (st_seq (wrapping (atomicJSON (stagedManifestPath w op) (StagedDoc
                      \<lparr>srFormatVersion = currentManifestFormatVersion, srOperationID = op, srWorkspaceID = w,
                       srSnapshotID = s, srExpectedGeneration = prExpectedGeneration request,
                       srNextGeneration = prNextGeneration request,
                       srImage = generationImageName (prNextGeneration request) (''restore-'' @ op),
                       srCapacityBytes = cmCapacityBytes manifest\<rparr>)))
                  (st_seq (syncDir (stagedDir w))
                    (st_return receipt)))))))))"

definition PrepareRestore :: "Store \<Rightarrow> PrepareRestoreRequest \<Rightarrow> Receipt os" where
  "PrepareRestore store request =
     st_seq (validateRestoreRequest (prMutation request) (prSnapshotID request) (prExpectedGeneration request)
               (prNextGeneration request))
       (mutate store (prRequest request) (prMutation request) ReceiptRestorePrepare (prepare_apply store request))"

definition swap_apply :: "Store \<Rightarrow> PrepareRestoreRequest \<Rightarrow> Receipt os" where
  "swap_apply store request =
     (let w = WorkspaceID (prMutation request); op = OperationID (prMutation request); s = prSnapshotID request
      in st_bind (st_catch (readStagedRestore w op) (\<lambda>r. case r of Inl _ \<Rightarrow> corrupt | Inr m \<Rightarrow> st_return m)) (\<lambda>staged.
         if \<not> stagedMatches staged request then st_fail (Sentinel ErrConflictingReplay)
         else st_bind (readCurrentManifest w) (\<lambda>manifest.
           if cmGeneration manifest = prNextGeneration request \<and> cmImage manifest = srImage staged
           then st_bind (st_try (readRollback w op)) (\<lambda>r. case r of
                  Inl _ \<Rightarrow> corrupt
                | Inr rollback \<Rightarrow> st_return (restore_receipt s (rmPreviousGeneration rollback)
                    (rmNextGeneration rollback) (rmCapacityBytes rollback)))
           else if cmGeneration manifest \<noteq> prExpectedGeneration request then st_fail (Sentinel ErrStaleGeneration)
           else let targetPath = versionPath w (srImage staged) in
             st_bind (st_try (os_Lstat targetPath)) (\<lambda>r.
             st_seq (case r of
                Inl e \<Rightarrow>
                  if errors_Is ErrNotExist e
                  then st_seq (wrapping (os_Rename (stagedImagePath w op) targetPath))
                    (st_seq (syncDir (stagedDir w)) (syncDir (versionsDir w)))
                  else st_fail (Wrapped e)
              | Inr _ \<Rightarrow> st_return ())
            (st_seq (validateExt4ImageUUID targetPath (cmCapacityBytes manifest) (deterministicUUID store w))
            (st_seq (wrapping (atomicJSON (rollbackPath w op) (RollbackDoc
                \<lparr>rmFormatVersion = currentManifestFormatVersion, rmOperationID = op, rmWorkspaceID = w, rmSnapshotID = s,
                 rmPreviousGeneration = cmGeneration manifest, rmPreviousImage = cmImage manifest,
                 rmNextGeneration = prNextGeneration request, rmNextImage = srImage staged,
                 rmCapacityBytes = cmCapacityBytes manifest\<rparr>)))
            (st_seq (syncDir (rollbackDir w))
            (st_seq (publishCurrentManifest w
                \<lparr>cmFormatVersion = currentManifestFormatVersion, cmWorkspaceID = w,
                 cmGeneration = prNextGeneration request, cmImage = srImage staged,
                 cmCapacityBytes = cmCapacityBytes manifest, cmRelocationSealed = False\<rparr>)
              (st_return (restore_receipt s (prExpectedGeneration request) (prNextGeneration request)
                (cmCapacityBytes manifest)))))))))))"

definition SwapRestore :: "Store \<Rightarrow> PrepareRestoreRequest \<Rightarrow> Receipt os" where
  "SwapRestore store request =
     st_seq (validateRestoreRequest (prMutation request) (prSnapshotID request) (prExpectedGeneration request)
               (prNextGeneration request))
       (mutate store (prRequest request) (prMutation request) ReceiptRestoreSwap (swap_apply store request))"

definition finalize_apply :: "Mutation \<Rightarrow> Receipt os" where
  "finalize_apply mutation =
     (let w = WorkspaceID mutation; op = OperationID mutation
      in st_bind (st_try (readRollback w op)) (\<lambda>r. case r of
           Inl e \<Rightarrow>
             if errors_Is ErrNotExist e
             then st_bind (loadAnyReceipt mutation ReceiptRestoreSwap) (\<lambda>found. case found of
               None \<Rightarrow> corrupt
             | Some swapReceipt \<Rightarrow>
                 st_return (restore_receipt (rcSnapshotID swapReceipt) (rcPreviousGeneration swapReceipt)
                   (rcGeneration swapReceipt) (rcCapacityBytes swapReceipt)))
             else st_fail e
         | Inr rollback \<Rightarrow>
             st_bind (readCurrentManifest w) (\<lambda>manifest.
             if cmGeneration manifest \<noteq> rmNextGeneration rollback \<or> cmImage manifest \<noteq> rmNextImage rollback
             then st_fail (Sentinel ErrStaleGeneration)
             else st_bind (validatedVersionPath w (rmPreviousImage rollback)) (\<lambda>previousPath.
               if previousPath = versionPath w (cmImage manifest) then corrupt
               else st_seq (for_each removeExactFile
                      [previousPath, stagedImagePath w op, stagedManifestPath w op, rollbackPath w op])
                (st_seq (for_each (\<lambda>dir. syncDir dir) [versionsDir w, stagedDir w, rollbackDir w])
                  (st_return (restore_receipt (rmSnapshotID rollback) (rmPreviousGeneration rollback)
                    (rmNextGeneration rollback) (rmCapacityBytes rollback))))))))"

definition FinalizeRestore :: "Store \<Rightarrow> Mutation \<Rightarrow> Receipt os" where
  "FinalizeRestore store mutation =
     mutate store (json_request mutation []) mutation ReceiptRestoreFinalize (finalize_apply mutation)"

definition abort_apply :: "Mutation \<Rightarrow> Receipt os" where
  "abort_apply mutation =
     (let w = WorkspaceID mutation; op = OperationID mutation
      in st_bind (st_try (readRollback w op)) (\<lambda>r. case r of
           Inr _ \<Rightarrow> st_fail (Sentinel ErrRestorePending)
         | Inl e \<Rightarrow>
             if \<not> errors_Is ErrNotExist e then st_fail e
             else st_bind (st_try (readStagedRestore w op)) (\<lambda>r. case r of
               Inl e \<Rightarrow> if errors_Is ErrNotExist e then st_return zeroReceipt else st_fail e
             | Inr staged \<Rightarrow>
                 st_seq (for_each removeExactFile [stagedImagePath w op, stagedManifestPath w op])
                (st_seq (syncDir (stagedDir w))
                  (st_return (restore_receipt (srSnapshotID staged) (srExpectedGeneration staged)
                    (srNextGeneration staged) (srCapacityBytes staged)))))))"

definition AbortRestore :: "Store \<Rightarrow> Mutation \<Rightarrow> Receipt os" where
  "AbortRestore store mutation =
     mutate store (json_request mutation []) mutation ReceiptRestoreAbort (abort_apply mutation)"

section \<open>Deletion\<close>

definition deleteWorkspaceSnapshots :: "string \<Rightarrow> unit os" where
  "deleteWorkspaceSnapshots w =
     st_bind (os_ReadDir snapshotsRoot) (\<lambda>entries.
       st_seq (for_each (\<lambda>(name, isDir).
           if \<not> isDir \<or> \<not> valid_id name then corrupt
           else st_bind (readSnapshotManifest name) (\<lambda>manifest.
             if smWorkspaceID manifest \<noteq> w then st_return ()
             else st_seq (unless_absent (os_Chmod (snapshotImagePath name) writableImageMode))
              (st_seq (removeExactFile (snapshotImagePath name))
              (st_seq (removeExactFile (snapshotManifestPath name))
                (os_Remove (snapshotDir name)))))) entries)
         (syncDir snapshotsRoot))"

definition removeWorkspaceTree :: "string \<Rightarrow> unit os" where
  "removeWorkspaceTree w =
     st_seq (for_each (\<lambda>dir.
         st_bind (st_try (os_ReadDir dir)) (\<lambda>r. case r of
           Inl e \<Rightarrow> if errors_Is ErrNotExist e then st_return () else st_fail e
         | Inr entries \<Rightarrow>
             st_seq (for_each (\<lambda>(name, isDir). if isDir then corrupt else removeExactFile (dir @ [name])) entries)
               (unless_absent (os_Remove dir))))
         [versionsDir w, manifestDir w, stagedDir w, rollbackDir w])
       (unless_absent (os_Remove (workspaceDir w)))"

definition deleteWorkspaceReceipts :: "string \<Rightarrow> unit os" where
  "deleteWorkspaceReceipts w =
     (let workspaceReceipts = receiptsRoot @ [w]
      in st_seq (validateID w)
        (st_bind (st_try (os_ReadDir workspaceReceipts)) (\<lambda>r. case r of
           Inl e \<Rightarrow> if errors_Is ErrNotExist e then st_return () else st_fail e
         | Inr operationEntries \<Rightarrow>
             st_seq (for_each (\<lambda>(op, isDir).
                 if \<not> isDir \<or> \<not> valid_id op then corrupt
                 else let operationReceipts = workspaceReceipts @ [op] in
                   st_bind (os_ReadDir operationReceipts) (\<lambda>receiptEntries.
                     st_seq (for_each (\<lambda>(name, isDir).
                         if isDir \<or> filepath_Ext name \<noteq> ''.json'' \<or> filepath_Base name \<noteq> name then corrupt
                         else removeExactFile (operationReceipts @ [name])) receiptEntries)
                       (os_Remove operationReceipts))) operationEntries)
            (st_seq (unless_absent (os_Remove workspaceReceipts))
              (syncDir receiptsRoot)))))"

definition dwRequest :: "DeleteWorkspaceRequest \<Rightarrow> octet list" where
  "dwRequest r = json_request (dwMutation r) [(''ExpectedGeneration'', FormatInt (dwExpectedGeneration r))]"

definition delete_workspace_apply :: "DeleteWorkspaceRequest \<Rightarrow> Receipt os" where
  "delete_workspace_apply request =
     (let w = WorkspaceID (dwMutation request);
          remove = st_seq (deleteWorkspaceSnapshots w) (st_seq (removeWorkspaceTree w) (syncDir workspacesRoot))
      in st_bind (st_try (readCurrentManifest w)) (\<lambda>r. case r of
           Inl e \<Rightarrow>
             if errors_Is ErrWorkspaceNotFound e
             then st_bind (st_try (os_Lstat (workspaceDir w))) (\<lambda>stat.
               st_seq (case stat of
                  Inr _ \<Rightarrow> remove
                | Inl statErr \<Rightarrow> if \<not> errors_Is ErrNotExist statErr then st_fail (Wrapped statErr) else st_return ())
              (st_seq (deleteWorkspaceReceipts w)
                (st_return (zeroReceipt\<lparr>rcGeneration := dwExpectedGeneration request\<rparr>))))
             else st_fail e
         | Inr manifest \<Rightarrow>
             if cmGeneration manifest \<noteq> dwExpectedGeneration request then st_fail (Sentinel ErrStaleGeneration)
             else st_bind (restorePending w) (\<lambda>pending.
               if pending then st_fail (Sentinel ErrRestorePending)
               else st_seq remove
                (st_seq (deleteWorkspaceReceipts w)
                  (st_return (zeroReceipt\<lparr>rcGeneration := cmGeneration manifest,
                     rcCapacityBytes := cmCapacityBytes manifest\<rparr>))))))"

definition DeleteWorkspace :: "Store \<Rightarrow> DeleteWorkspaceRequest \<Rightarrow> Receipt os" where
  "DeleteWorkspace store request =
     mutate store (dwRequest request) (dwMutation request) ReceiptWorkspaceDelete (delete_workspace_apply request)"

section \<open>Inspection\<close>

record WorkspaceInspection =
  wiWorkspaceID :: string
  wiGeneration :: int
  wiCapacityBytes :: int
  wiFormatted :: bool
  wiRestorePending :: bool
  wiActiveWriter :: bool
  wiRelocationSealed :: bool

definition inspectLocked :: "Store \<Rightarrow> string \<Rightarrow> WorkspaceInspection os" where
  "inspectLocked store w =
     st_bind (readCurrentManifest w) (\<lambda>manifest.
     st_bind (validatedVersionPath w (cmImage manifest)) (\<lambda>imagePath.
     st_bind (st_try (validateExt4ImageUUID imagePath (cmCapacityBytes manifest) (deterministicUUID store w))) (\<lambda>formatted.
     st_bind (restorePending w) (\<lambda>pending.
       st_return \<lparr>wiWorkspaceID = w, wiGeneration = cmGeneration manifest, wiCapacityBytes = cmCapacityBytes manifest,
         wiFormatted = (case formatted of Inl _ \<Rightarrow> False | Inr _ \<Rightarrow> True), wiRestorePending = pending,
         wiActiveWriter = False, wiRelocationSealed = cmRelocationSealed manifest\<rparr>))))"

definition Inspect :: "Store \<Rightarrow> string \<Rightarrow> WorkspaceInspection os" where
  "Inspect store w = st_seq ctx_Err (st_seq (validateID w) (with_lock w (inspectLocked store w)))"

record ReconcileReport =
  Workspaces :: "WorkspaceInspection list"
  Receipts :: "Receipt list"

definition reconcile_workspace :: "Store \<Rightarrow> string \<times> bool \<Rightarrow> WorkspaceInspection os" where
  "reconcile_workspace store entry = (case entry of (name, isDir) \<Rightarrow>
     st_seq ctx_Err
      (if \<not> isDir then corrupt
       else if \<not> valid_id name then corrupt
       else st_bind (st_try (lockWorkspace_file name)) (\<lambda>r.
         let activeWriter = (case r of Inl e \<Rightarrow> errors_Is ErrActiveWriter e | Inr _ \<Rightarrow> False) in
         case r of
           Inl e \<Rightarrow>
             if \<not> activeWriter then st_fail e
             else st_bind (inspectLocked store name) (\<lambda>inspection. st_return (inspection\<lparr>wiActiveWriter := True\<rparr>))
         | Inr _ \<Rightarrow>
             st_bind (st_try (inspectLocked store name)) (\<lambda>inspection.
             st_bind (st_try (closeLockedFile name)) (\<lambda>closed.
               case inspection of
                 Inl e \<Rightarrow> st_fail e
               | Inr i \<Rightarrow> (case closed of Inl e \<Rightarrow> st_fail e | Inr _ \<Rightarrow> st_return i))))))"

definition reconcile_receipt :: "string \<Rightarrow> string \<Rightarrow> string \<times> bool \<Rightarrow> Receipt os" where
  "reconcile_receipt w op entry = (case entry of (name, isDir) \<Rightarrow>
     if isDir \<or> filepath_Ext name \<noteq> ''.json'' then corrupt
     else st_bind (readJSON as_receipt (receiptsRoot @ [w, op, name])) (\<lambda>receipt.
       st_seq (validateReceipt receipt)
         (if rcWorkspaceID receipt \<noteq> w \<or> rcOperationID receipt \<noteq> op \<or> TrimSuffix name ''.json'' \<noteq> rcKind receipt
          then corrupt else st_return receipt)))"

definition reconcile_operation :: "string \<Rightarrow> string \<times> bool \<Rightarrow> Receipt list os" where
  "reconcile_operation w entry = (case entry of (op, isDir) \<Rightarrow>
     if \<not> isDir \<or> \<not> valid_id op then corrupt
     else st_bind (os_ReadDir (receiptsRoot @ [w, op])) (\<lambda>entries. map_each (reconcile_receipt w op) entries))"

definition reconcile_receipts :: "string \<times> bool \<Rightarrow> Receipt list os" where
  "reconcile_receipts entry = (case entry of (w, isDir) \<Rightarrow>
     if \<not> isDir \<or> \<not> valid_id w then corrupt
     else st_bind (os_ReadDir (receiptsRoot @ [w])) (\<lambda>entries.
       st_bind (map_each (reconcile_operation w) entries) (\<lambda>rs. st_return (concat rs))))"

definition Reconcile :: "Store \<Rightarrow> ReconcileReport os" where
  "Reconcile store =
     st_bind (wrapping (os_ReadDir workspacesRoot)) (\<lambda>workspaceEntries.
     st_bind (map_each (reconcile_workspace store) workspaceEntries) (\<lambda>ws.
     st_bind (wrapping (os_ReadDir receiptsRoot)) (\<lambda>receiptEntries.
     st_bind (map_each reconcile_receipts receiptEntries) (\<lambda>rs.
       st_return \<lparr>Workspaces = sort_key wiWorkspaceID ws,
         Receipts = sort_key (\<lambda>r. (rcWorkspaceID r, rcOperationID r)) (concat rs)\<rparr>))))"

section \<open>Start\<close>

definition incompatible :: "'a os \<Rightarrow> 'a os" where
  "incompatible m = st_catch m (\<lambda>r. case r of
     Inl _ \<Rightarrow> st_fail (Wrapped (Sentinel ErrStorageIncompatible)) | Inr a \<Rightarrow> st_return a)"

text \<open>\<open>m\<close> with a deferred removal of the probe file.\<close>

definition then_remove :: "path \<Rightarrow> unit os \<Rightarrow> unit os" where
  "then_remove p m = st_bind (st_try m) (\<lambda>r. st_seq (ignoring (os_Remove p)) (of_result r))"

definition write_first :: "octet \<Rightarrow> file_data \<Rightarrow> file_data" where
  "write_first b x = (case x of Raw (_ # bs) \<Rightarrow> Raw (b # bs) | Raw [] \<Rightarrow> Raw [b] | y \<Rightarrow> y)"

definition probeReflink :: "Store \<Rightarrow> unit os" where
  "probeReflink store =
     (let sourceBytes = string_bytes ''secondbox-reflink-source'' in
      st_seq ctx_Err
     (st_bind (incompatible (os_CreateTemp workspacesRoot ''.secondbox-reflink-source-'')) (\<lambda>sourcePath.
      then_remove sourcePath
       (st_seq (incompatible (os_Chmod sourcePath writableImageMode))
       (st_seq (incompatible (os_Write sourcePath (Raw sourceBytes)))
       (st_seq (incompatible os_Sync)
       (st_bind (incompatible (os_CreateTemp snapshotsRoot ''.secondbox-reflink-destination-'')) (\<lambda>destinationPath.
        then_remove destinationPath
         (st_seq (incompatible (os_Chmod destinationPath writableImageMode))
         (st_seq (incompatible os_call)
         (st_seq (incompatible os_call)
         (if deviceOf store sourcePath \<noteq> deviceOf store destinationPath
          then st_fail (Wrapped (Sentinel ErrStorageIncompatible))
          else st_bind (incompatible (os_Lstat sourcePath)) (\<lambda>source.
           st_seq (incompatible (driver_Clone store destinationPath source))
          (st_bind (incompatible (os_Open destinationPath)) (\<lambda>x.
           st_seq (incompatible (os_Write destinationPath (write_first 0x44 x)))
          (st_seq (incompatible os_Sync)
          (st_bind (incompatible (os_Open sourcePath)) (\<lambda>actual.
            st_guard (case actual of Raw bs \<Rightarrow> bs = sourceBytes | _ \<Rightarrow> False) (Wrapped (Sentinel ErrStorageIncompatible))))))))))))))))))))"

lemma doubling_in_range:
  assumes "1 \<le> c" "\<not> c > t div 2" "in_i64 t"
  shows "i64 (c * 2) = c * 2"
  using assms by (intro i64_id) (auto simp: in_i64_def)

text \<open>
  The capacities whose templates are prepared: doublings below the configured
  maximum. The loop starts at \<open>minimumExt4Bytes\<close> and the maximum is an \<open>int64\<close>;
  outside that range the list is empty.
\<close>

function prewarm_capacities :: "int \<Rightarrow> int \<Rightarrow> int list" where
  "prewarm_capacities capacity templateCapacityBytes =
     (if capacity < 1 \<or> \<not> in_i64 templateCapacityBytes then []
      else if \<not> capacity < templateCapacityBytes then []
      else capacity # (if capacity > templateCapacityBytes div 2 then []
                       else prewarm_capacities (i64 (capacity * 2)) templateCapacityBytes))"
  by pat_completeness auto

termination
  by (relation "measure (\<lambda>(c, t). nat (t - c))") (auto simp: doubling_in_range)

declare prewarm_capacities.simps [simp del]

definition initialize :: "Store \<Rightarrow> int \<Rightarrow> unit os" where
  "initialize store templateCapacityBytes =
     st_seq (for_each (\<lambda>p. st_seq (wrapping (os_MkdirAll p)) (requirePrivateDirectory p))
              [[], workspacesRoot, snapshotsRoot, locksRoot, receiptsRoot, templatesRoot, ext4TemplatesRoot, relocationsRoot])
    (st_seq (probeReflink store)
    (st_seq (if templateCapacityBytes > 0
             then for_each (\<lambda>capacity. st_bind (ensureTemplate store capacity) (\<lambda>_. st_return ()))
                    (prewarm_capacities minimumExt4Bytes templateCapacityBytes @ [templateCapacityBytes])
             else st_return ())
      (syncDir [])))"

section \<open>The mutating operations of the port\<close>

datatype store_command =
    CreateCommand CreateWorkspaceRequest
  | CloneCommand CloneWorkspaceRequest
  | AdvanceCommand AdvanceGenerationRequest
  | SnapshotCommand CreateSnapshotRequest
  | DeleteSnapshotCommand DeleteSnapshotRequest
  | PrepareCommand PrepareRestoreRequest
  | SwapCommand PrepareRestoreRequest
  | FinalizeCommand Mutation
  | AbortCommand Mutation
  | DeleteCommand DeleteWorkspaceRequest

definition command_mutation :: "store_command \<Rightarrow> Mutation" where
  "command_mutation c = (case c of
     CreateCommand r \<Rightarrow> crMutation r | CloneCommand r \<Rightarrow> clMutation r | AdvanceCommand r \<Rightarrow> agMutation r
   | SnapshotCommand r \<Rightarrow> csMutation r | DeleteSnapshotCommand r \<Rightarrow> dsMutation r | PrepareCommand r \<Rightarrow> prMutation r
   | SwapCommand r \<Rightarrow> prMutation r | FinalizeCommand m \<Rightarrow> m | AbortCommand m \<Rightarrow> m | DeleteCommand r \<Rightarrow> dwMutation r)"

definition command_kind :: "store_command \<Rightarrow> string" where
  "command_kind c = (case c of
     CreateCommand _ \<Rightarrow> ReceiptWorkspaceCreate | CloneCommand _ \<Rightarrow> ReceiptWorkspaceClone
   | AdvanceCommand _ \<Rightarrow> ReceiptGenerationAdvance | SnapshotCommand _ \<Rightarrow> ReceiptSnapshotCreate
   | DeleteSnapshotCommand _ \<Rightarrow> ReceiptSnapshotDelete | PrepareCommand _ \<Rightarrow> ReceiptRestorePrepare
   | SwapCommand _ \<Rightarrow> ReceiptRestoreSwap | FinalizeCommand _ \<Rightarrow> ReceiptRestoreFinalize
   | AbortCommand _ \<Rightarrow> ReceiptRestoreAbort | DeleteCommand _ \<Rightarrow> ReceiptWorkspaceDelete)"

definition command_request :: "store_command \<Rightarrow> octet list" where
  "command_request c = (case c of
     CreateCommand r \<Rightarrow> crRequest r | CloneCommand r \<Rightarrow> clRequest r | AdvanceCommand r \<Rightarrow> agRequest r
   | SnapshotCommand r \<Rightarrow> csRequest r | DeleteSnapshotCommand r \<Rightarrow> dsRequest r | PrepareCommand r \<Rightarrow> prRequest r
   | SwapCommand r \<Rightarrow> prRequest r | FinalizeCommand m \<Rightarrow> json_request m [] | AbortCommand m \<Rightarrow> json_request m []
   | DeleteCommand r \<Rightarrow> dwRequest r)"

definition run_command :: "Store \<Rightarrow> store_command \<Rightarrow> Receipt os" where
  "run_command store c = (case c of
     CreateCommand r \<Rightarrow> Create store r | CloneCommand r \<Rightarrow> CloneFromSnapshot store r
   | AdvanceCommand r \<Rightarrow> AdvanceGeneration store r | SnapshotCommand r \<Rightarrow> CreateSnapshot store r
   | DeleteSnapshotCommand r \<Rightarrow> DeleteSnapshot store r | PrepareCommand r \<Rightarrow> PrepareRestore store r
   | SwapCommand r \<Rightarrow> SwapRestore store r | FinalizeCommand m \<Rightarrow> FinalizeRestore store m
   | AbortCommand m \<Rightarrow> AbortRestore store m | DeleteCommand r \<Rightarrow> DeleteWorkspace store r)"

end
