(* ===== verification/Workspace_Frame.thy ===== *)
theory Workspace_Frame
  imports Workspace_Operations
begin

text \<open>
  Which paths an operation of the WorkspaceStore can touch, whatever fails on
  the way: a set of paths is unchanged between two disks, every call of the
  \<open>os\<close> package keeps every set its argument is not in, and so do the routines
  built from them.
\<close>

named_theorems frame "operations that leave a set of paths unchanged"
named_theorems path_defs "the paths of the store, component by component"

section \<open>Results that a following step depends on\<close>

definition returns :: "('a \<Rightarrow> bool) \<Rightarrow> ('s, 'e, 'a) st \<Rightarrow> bool" where
  "returns P m \<longleftrightarrow> (\<forall>s a s'. m s = (Inr a, s') \<longrightarrow> P a)"

context kept_relation
begin

lemma keeps_bind_returns:
  "keeps R m \<Longrightarrow> returns P m \<Longrightarrow> (\<And>a. P a \<Longrightarrow> keeps R (f a)) \<Longrightarrow> keeps R (st_bind m f)"
  unfolding keeps_def returns_def st_bind_def
  by (auto split: prod.splits sum.splits intro: trans) (metis snd_conv trans)+

end

section \<open>The relation\<close>

definition unchanged :: "path set \<Rightarrow> Disk \<Rightarrow> Disk \<Rightarrow> bool" where
  "unchanged S d d' \<longleftrightarrow> (\<forall>p \<in> S. node_at d' p = node_at d p)"

definition under :: "path \<Rightarrow> path set" where
  "under q = {p. take (length q) p = q}"

interpretation frame: kept_relation "unchanged S" for S
  by unfold_locales (auto simp: unchanged_def)

lemmas frame_combinators =
  keeps_cases frame.keeps_return frame.keeps_fail frame.keeps_get frame.keeps_catch frame.keeps_bind frame.keeps_seq
  frame.keeps_try frame.keeps_wrapping frame.keeps_for_each frame.keeps_map_each frame.keeps_guard

declare frame_combinators [frame]

lemma frame_node [frame]:
  "keeps R m \<Longrightarrow> (\<And>k x. n = Reg k x \<Longrightarrow> keeps R (f k x)) \<Longrightarrow> keeps R (case n of Dir \<Rightarrow> m | Reg k x \<Rightarrow> f k x)"
  by (cases n) simp_all

lemma node_at_put: "node_at (put_node p n d) q = (if q = p \<and> p \<noteq> [] then Some n else node_at d q)"
proof -
  have "map_of (filter (\<lambda>(q, _). q \<noteq> p) xs) q = map_of xs q" if "q \<noteq> p" for xs :: "(path \<times> node) list"
    using that by (induction xs) auto
  then show ?thesis
    by (auto simp: node_at_def put_node_def)
qed

lemma node_at_drop: "node_at (drop_node p d) q = (if q = p \<and> p \<noteq> [] then None else node_at d q)"
proof -
  have "map_of (filter (\<lambda>(q, _). q \<noteq> p) xs) q = (if q = p then None else map_of xs q)" for xs :: "(path \<times> node) list"
    by (induction xs) auto
  then show ?thesis
    by (auto simp: node_at_def drop_node_def)
qed

lemma node_at_more [simp]:
  "node_at (d\<lparr>faults := fs\<rparr>) p = node_at d p"
  "node_at (d\<lparr>locks := ls\<rparr>) p = node_at d p"
  by (simp_all add: node_at_def)

section \<open>Calls\<close>

lemma frame_modify [frame]: "(\<And>d. unchanged S d (f d)) \<Longrightarrow> keeps (unchanged S) (st_modify f)"
  by (simp add: keeps_def st_modify_def)

lemma frame_put [frame]: "p \<notin> S \<Longrightarrow> unchanged S d (put_node p n d)"
  by (auto simp: unchanged_def node_at_put)

lemma frame_drop [frame]: "p \<notin> S \<Longrightarrow> unchanged S d (drop_node p d)"
  by (auto simp: unchanged_def node_at_drop)

lemma frame_move [frame]: "p \<notin> S \<Longrightarrow> q \<notin> S \<Longrightarrow> unchanged S d (put_node q n (drop_node p d))"
  by (auto simp: unchanged_def node_at_put node_at_drop)

lemma frame_locks [frame]: "unchanged S d (d\<lparr>locks := ls\<rparr>)"
  by (simp add: unchanged_def)

lemma frame_env [frame]: "keeps (unchanged S) env_fails"
  by (auto simp: keeps_def env_fails_def unchanged_def split: list.splits)

lemma frame_call [frame]: "keeps (unchanged S) os_call" "keeps (unchanged S) ctx_Err"
  unfolding os_call_def ctx_Err_def by (intro frame)+

lemma frame_corrupt [frame]: "keeps (unchanged S) corrupt"
  unfolding corrupt_def by (intro frame)

lemma frame_ignoring [frame]: "keeps (unchanged S) m \<Longrightarrow> keeps (unchanged S) (ignoring m)"
  unfolding ignoring_def by (intro frame)

lemma frame_on_failure [frame]:
  "keeps (unchanged S) c \<Longrightarrow> keeps (unchanged S) m \<Longrightarrow> keeps (unchanged S) (on_failure c m)"
  unfolding on_failure_def by (intro frame)

lemma frame_reads [frame]:
  "keeps (unchanged S) (os_Lstat p)" "keeps (unchanged S) (os_ReadDir p)" "keeps (unchanged S) (os_Open p)"
  unfolding os_ReadDir_def os_Open_def os_Lstat_def by (intro frame)+

lemma frame_Mkdir [frame]: "p \<notin> S \<Longrightarrow> keeps (unchanged S) (os_Mkdir p)"
  unfolding os_Mkdir_def by (intro frame)

lemma frame_MkdirAll [frame]:
  assumes "list_all (\<lambda>q. q \<notin> S) (map (\<lambda>k. take k p) [1..<Suc (length p)])"
  shows "keeps (unchanged S) (os_MkdirAll p)"
  unfolding os_MkdirAll_def mkdir_level_def using assms by (intro frame) (auto simp: list_all_iff)

lemma frame_Remove [frame]: "p \<notin> S \<Longrightarrow> keeps (unchanged S) (os_Remove p)"
  unfolding os_Remove_def by (intro frame)

lemma frame_Rename [frame]: "p \<notin> S \<Longrightarrow> q \<notin> S \<Longrightarrow> keeps (unchanged S) (os_Rename p q)"
  unfolding os_Rename_def by (intro frame)

lemma frame_Create [frame]: "p \<notin> S \<Longrightarrow> keeps (unchanged S) (os_Create p m x)"
  unfolding os_Create_def by (intro frame)

lemma frame_Chmod [frame]: "p \<notin> S \<Longrightarrow> keeps (unchanged S) (os_Chmod p m)"
  unfolding os_Chmod_def by (intro frame)

lemma frame_Write [frame]: "p \<notin> S \<Longrightarrow> keeps (unchanged S) (os_Write p x)"
  unfolding os_Write_def by (intro frame)

lemma frame_CreateTemp: "(\<And>s. dir @ [pattern @ s] \<notin> S) \<Longrightarrow> keeps (unchanged S) (os_CreateTemp dir pattern)"
  unfolding os_CreateTemp_def by (intro frame)

lemma returns_CreateTemp: "returns (\<lambda>p. \<exists>s. p = dir @ [pattern @ s]) (os_CreateTemp dir pattern)"
  by (auto simp: returns_def os_CreateTemp_def st_bind_def st_seq_def st_get_def st_return_def split: prod.splits sum.splits)

lemma frame_temp [frame]:
  assumes "\<And>s. dir @ [pattern @ s] \<notin> S" "\<And>s. keeps (unchanged S) (f (dir @ [pattern @ s]))"
  shows "keeps (unchanged S) (st_bind (os_CreateTemp dir pattern) f)"
  using assms by (intro frame.keeps_bind_returns [OF frame_CreateTemp returns_CreateTemp]) auto

lemma frame_versionPath [frame]:
  assumes "valid_image_name i \<Longrightarrow> keeps (unchanged S) (f (versionPath w i))"
  shows "keeps (unchanged S) (st_bind (validatedVersionPath w i) f)"
proof -
  have r: "returns (\<lambda>p. p = versionPath w i \<and> valid_image_name i) (validatedVersionPath w i)"
    by (simp add: returns_def validatedVersionPath_def corrupt_def st_fail_def st_return_def)
  have k: "keeps (unchanged S) (validatedVersionPath w i)"
    unfolding validatedVersionPath_def by (intro frame)
  show ?thesis
    by (rule frame.keeps_bind_returns [OF k r]) (use assms in simp)
qed

section \<open>Routines\<close>

lemma frame_validate [frame]:
  "keeps (unchanged S) (validateExt4Image p c)" "keeps (unchanged S) (validateExt4ImageUUID p c u)"
  "keeps (unchanged S) (validateExt4Template p c u)" "keeps (unchanged S) (validateImage store w i c)"
  "keeps (unchanged S) (requirePrivateDirectory p)" "keeps (unchanged S) (validateID x)"
  "keeps (unchanged S) (validateMutation mutation)" "keeps (unchanged S) (inputDigest store r t)"
  "keeps (unchanged S) (validateReceipt receipt)"
  unfolding validateImage_def validateExt4Template_def validateExt4ImageUUID_def validateExt4Image_def
    requirePrivateDirectory_def validateMutation_def validateID_def inputDigest_def validateReceipt_def
  by (intro frame)+

lemma frame_documents [frame]:
  "keeps (unchanged S) (readJSON decode p)" "keeps (unchanged S) (readCurrentManifest w)"
  "keeps (unchanged S) (readSnapshotManifest s)" "keeps (unchanged S) (readStagedRestore w op)"
  "keeps (unchanged S) (readRollback w op)" "keeps (unchanged S) (loadAnyReceipt mutation kind)"
  "keeps (unchanged S) (loadReceipt mutation digest kind)"
  unfolding loadReceipt_def loadAnyReceipt_def readRollback_def readStagedRestore_def readSnapshotManifest_def
    readCurrentManifest_def readJSON_def
  by (intro frame)+

lemma frame_removeExactFile [frame]: "p \<notin> S \<Longrightarrow> keeps (unchanged S) (removeExactFile p)"
  unfolding removeExactFile_def by (intro frame)

lemma frame_atomicJSON [frame]:
  "p \<notin> S \<Longrightarrow> (\<And>s. butlast p @ [(''.'' @ last p @ ''.tmp-'') @ s] \<notin> S) \<Longrightarrow> keeps (unchanged S) (atomicJSON p doc)"
  unfolding atomicJSON_def by (intro frame)

lemma frame_drivers [frame]:
  "p \<notin> S \<Longrightarrow> keeps (unchanged S) (driver_Clone store p n)"
  "p \<notin> S \<Longrightarrow> keeps (unchanged S) (driver_SetUUID store p u)"
  "p \<notin> S \<Longrightarrow> keeps (unchanged S) (driver_Format store p c u)"
  unfolding driver_Clone_def driver_SetUUID_def driver_Format_def by (intro frame; assumption)+

lemma frame_cloneImage [frame]:
  "p \<notin> S \<Longrightarrow> butlast p @ [''.'' @ op @ ''.reflinking''] \<notin> S \<Longrightarrow> keeps (unchanged S) (cloneImage store src p m c op u)"
  unfolding cloneImage_def by (intro frame)

lemma frame_ensureTemplate [frame]:
  "S \<inter> under ext4TemplatesRoot = {} \<Longrightarrow> keeps (unchanged S) (ensureTemplate store c)"
  unfolding ensureTemplate_def by (intro frame) (auto simp: under_def ext4TemplatePath_def)

lemma frame_publish [frame]:
  "currentManifestPath w \<notin> S \<Longrightarrow> (\<And>s. manifestDir w @ [''.current.json.tmp-'' @ s] \<notin> S) \<Longrightarrow>
     keeps (unchanged S) (publishCurrentManifest w m)"
  unfolding publishCurrentManifest_def by (intro frame) (auto simp: currentManifestPath_def)

section \<open>Mutations\<close>

text \<open>The paths that \<open>mutate\<close> itself writes, and those of a Workspace's own tree.\<close>

definition mutation_paths :: "string \<Rightarrow> path set" where
  "mutation_paths w = {receiptsRoot, locksRoot @ [w @ ''.lock'']} \<union> under (receiptsRoot @ [w])"

definition workspace_paths :: "string \<Rightarrow> path set" where
  "workspace_paths w = {workspacesRoot} \<union> under (workspaceDir w)"

lemmas path_simps =
  under_def mutation_paths_def workspace_paths_def receiptPath_def receiptsRoot_def locksRoot_def workspacesRoot_def
  snapshotsRoot_def templatesRoot_def ext4TemplatesRoot_def workspaceDir_def versionsDir_def manifestDir_def
  stagedDir_def rollbackDir_def versionPath_def currentManifestPath_def snapshotDir_def snapshotImagePath_def
  snapshotManifestPath_def stagedImagePath_def stagedManifestPath_def rollbackPath_def

lemma outside: "p \<in> A \<Longrightarrow> S \<inter> A = {} \<Longrightarrow> p \<notin> S"
  by auto

lemma mutation_paths_mem:
  "receiptsRoot \<in> mutation_paths w" "locksRoot @ [w @ ''.lock''] \<in> mutation_paths w"
  "receiptsRoot @ w # p \<in> mutation_paths w"
  by (auto simp: path_simps)

lemma workspace_paths_mem: "workspacesRoot \<in> workspace_paths w" "workspaceDir w @ p \<in> workspace_paths w"
  by (auto simp: path_simps)

lemma frame_prepareReceiptDirectory:
  assumes "S \<inter> mutation_paths (WorkspaceID mutation) = {}"
  shows "keeps (unchanged S) (prepareReceiptDirectory mutation)"
proof -
  have "list_all (\<lambda>q. q \<notin> S)
      (map (\<lambda>k. take k ((receiptsRoot @ [WorkspaceID mutation]) @ [OperationID mutation]))
        [1..<Suc (length ((receiptsRoot @ [WorkspaceID mutation]) @ [OperationID mutation]))])"
    using assms by (auto simp: path_simps)
  then show ?thesis
    unfolding prepareReceiptDirectory_def by (intro frame)
qed

lemma frame_recordReceipt:
  assumes "S \<inter> mutation_paths (rcWorkspaceID receipt) = {}"
  shows "keeps (unchanged S) (recordReceipt receipt b)"
  unfolding recordReceipt_def
  by (intro frame frame_prepareReceiptDirectory) (use assms in \<open>auto simp: path_simps\<close>)

lemma frame_lock:
  assumes "S \<inter> mutation_paths w = {}"
  shows "keeps (unchanged S) (lockWorkspace_file w)" "keeps (unchanged S) (closeLockedFile w)"
  unfolding lockWorkspace_file_def open_or_create_def TryLock_def closeLockedFile_def
  by (intro frame outside [OF mutation_paths_mem(2) assms])+

lemma frame_of_result [frame]: "keeps (unchanged S) (of_result r)"
  unfolding of_result_def by (intro frame)

lemma frame_with_lock:
  "S \<inter> mutation_paths w = {} \<Longrightarrow> keeps (unchanged S) m \<Longrightarrow> keeps (unchanged S) (with_lock w m)"
  unfolding with_lock_def by (intro frame frame_lock)

lemma frame_mutate [frame]:
  assumes "S \<inter> mutation_paths (WorkspaceID mutation) = {}" "keeps (unchanged S) m"
  shows "keeps (unchanged S) (mutate store request mutation kind m)"
  unfolding mutate_def
  by (intro frame frame_with_lock frame_prepareReceiptDirectory frame_recordReceipt) (use assms in simp_all)

lemma frame_replay [frame]: "keeps (unchanged S) (replay store request mutation kind)"
  unfolding replay_def by (intro frame)

section \<open>Operations\<close>

lemma frame_pending [frame]:
  "keeps (unchanged S) (stagedRestorePending w)" "keeps (unchanged S) (pendingRestoreOperation w)"
  "keeps (unchanged S) (restorePending w)"
proof -
  have ops: "keeps (unchanged S) (first_restore_operation es)" for es
    by (induction es rule: first_restore_operation.induct) (auto intro!: frame)
  have pending: "keeps (unchanged S) (pending_in dirs)" for dirs
  proof (induction dirs)
    case (Cons dir dirs)
    show ?case
      unfolding pending_in.simps by (intro frame ops Cons)
  qed (simp add: frame)
  show "keeps (unchanged S) (pendingRestoreOperation w)" "keeps (unchanged S) (restorePending w)"
    unfolding restorePending_def pendingRestoreOperation_def by (intro frame pending)+
  show "keeps (unchanged S) (stagedRestorePending w)"
    unfolding stagedRestorePending_def by (intro frame)
qed

lemma frame_referenced [frame]: "keeps (unchanged S) (snapshotReferencedByRestore w s)"
proof -
  have refers: "keeps (unchanged S) (staged_refers w s es)" for es
    by (induction w s es rule: staged_refers.induct) (auto intro!: frame)
  show ?thesis
    unfolding snapshotReferencedByRestore_def by (intro frame refers)
qed

lemma frame_unless_absent [frame]: "keeps (unchanged S) m \<Longrightarrow> keeps (unchanged S) (unless_absent m)"
  unfolding unless_absent_def by (intro frame)

lemma frame_layout:
  "S \<inter> workspace_paths w = {} \<Longrightarrow> keeps (unchanged S) (ensureWorkspaceLayout w)"
  unfolding ensureWorkspaceLayout_def by (intro frame) (auto simp: path_simps)

lemma frame_create_apply:
  assumes "S \<inter> workspace_paths (WorkspaceID (crMutation r)) = {}" "S \<inter> under ext4TemplatesRoot = {}"
  shows "keeps (unchanged S) (create_apply store r)"
  unfolding create_apply_def
  by (intro frame frame_layout assms) (use assms(1) in \<open>auto simp: path_simps\<close>)

lemma frame_clone_apply:
  assumes "S \<inter> workspace_paths (WorkspaceID (clMutation r)) = {}"
  shows "keeps (unchanged S) (clone_apply store r)"
  unfolding clone_apply_def
  by (intro frame frame_layout assms) (use assms(1) in \<open>auto simp: path_simps\<close>)

lemma frame_reclaim [frame]: "versionPath w (cmImage m) \<notin> S \<Longrightarrow> keeps (unchanged S) (reclaimFreeBlocks store w m)"
  unfolding reclaimFreeBlocks_def reclaim_file_def
  by (intro frame) (auto split: file_data.splits intro!: frame)

lemma frame_advance_apply:
  assumes "S \<inter> workspace_paths (WorkspaceID (agMutation r)) = {}"
  shows "keeps (unchanged S) (advance_apply store r)"
  unfolding advance_apply_def by (intro frame) (use assms in \<open>auto simp: path_simps\<close>)

lemma frame_create_snapshot_apply:
  assumes "S \<inter> under (snapshotDir (csSnapshotID r)) = {}"
  shows "keeps (unchanged S) (create_snapshot_apply store r)"
  unfolding create_snapshot_apply_def by (intro frame) (use assms in \<open>auto simp: path_simps\<close>)

lemma frame_delete_snapshot_apply:
  assumes "S \<inter> under (snapshotDir (dsSnapshotID r)) = {}"
  shows "keeps (unchanged S) (delete_snapshot_apply r)"
  unfolding delete_snapshot_apply_def by (intro frame) (use assms in \<open>auto simp: path_simps\<close>)

lemma frame_prepare_apply:
  assumes "S \<inter> under (stagedDir (WorkspaceID (prMutation r))) = {}"
  shows "keeps (unchanged S) (prepare_apply store r)"
  unfolding prepare_apply_def by (intro frame) (use assms in \<open>auto simp: path_simps\<close>)

lemma frame_swap_apply:
  assumes "S \<inter> workspace_paths (WorkspaceID (prMutation r)) = {}"
  shows "keeps (unchanged S) (swap_apply store r)"
  unfolding swap_apply_def by (intro frame) (use assms in \<open>auto simp: path_simps\<close>)

lemma frame_finalize_apply:
  assumes "S \<inter> workspace_paths (WorkspaceID m) = {}"
  shows "keeps (unchanged S) (finalize_apply m)"
  unfolding finalize_apply_def by (intro frame) (use assms in \<open>auto simp: path_simps\<close>)

lemma frame_abort_apply:
  assumes "S \<inter> under (stagedDir (WorkspaceID m)) = {}"
  shows "keeps (unchanged S) (abort_apply m)"
  unfolding abort_apply_def by (intro frame) (use assms in \<open>auto simp: path_simps\<close>)

lemma frame_deleteWorkspaceSnapshots:
  "S \<inter> under snapshotsRoot = {} \<Longrightarrow> keeps (unchanged S) (deleteWorkspaceSnapshots w)"
  unfolding deleteWorkspaceSnapshots_def by (intro frame) (auto simp: path_simps)

lemma frame_removeWorkspaceTree:
  "S \<inter> workspace_paths w = {} \<Longrightarrow> keeps (unchanged S) (removeWorkspaceTree w)"
  unfolding removeWorkspaceTree_def by (intro frame) (auto simp: path_simps)

lemma frame_deleteWorkspaceReceipts:
  "S \<inter> mutation_paths w = {} \<Longrightarrow> keeps (unchanged S) (deleteWorkspaceReceipts w)"
  unfolding deleteWorkspaceReceipts_def by (intro frame) (auto simp: path_simps)

lemma frame_delete_workspace_apply:
  assumes "S \<inter> mutation_paths (WorkspaceID (dwMutation r)) = {}" "S \<inter> workspace_paths (WorkspaceID (dwMutation r)) = {}"
    "S \<inter> under snapshotsRoot = {}"
  shows "keeps (unchanged S) (delete_workspace_apply r)"
  unfolding delete_workspace_apply_def Let_def
  by (intro frame frame_deleteWorkspaceSnapshots frame_removeWorkspaceTree frame_deleteWorkspaceReceipts assms)

lemmas frame_apply =
  frame_create_apply frame_clone_apply frame_advance_apply frame_create_snapshot_apply frame_delete_snapshot_apply
  frame_prepare_apply frame_swap_apply frame_finalize_apply frame_abort_apply frame_delete_workspace_apply

lemma frame_validateRestoreRequest [frame]: "keeps (unchanged S) (validateRestoreRequest m s e n)"
  unfolding validateRestoreRequest_def by (intro frame)

lemma frame_replays [frame]:
  "keeps (unchanged S) (ReplayCreate store r)" "keeps (unchanged S) (ReplayCloneFromSnapshot store q)"
  unfolding ReplayCreate_def ReplayCloneFromSnapshot_def by (intro frame)+

end
