(* ===== verification/Workspace_Atomic.thy ===== *)
theory Workspace_Atomic
  imports Workspace_Frame
begin

text \<open>
  How the calls of the WorkspaceStore behave under failures: what a read
  returns, that a document is replaced atomically, and the rules for keeping
  the selection of the current manifest, which always names an image of its
  capacity.
\<close>

section \<open>Reading\<close>

lemma wp_env: "(\<And>b fs. Q b (d\<lparr>faults := fs\<rparr>)) \<Longrightarrow> Q False d \<Longrightarrow> wp env_fails Q E d"
  by (auto simp: wp_def env_fails_def split: list.splits)

lemma wp_os_call:
  "Q () d \<Longrightarrow> (\<And>fs. Q () (d\<lparr>faults := fs\<rparr>)) \<Longrightarrow> (\<And>fs. E (Sentinel ErrIO) (d\<lparr>faults := fs\<rparr>)) \<Longrightarrow> wp os_call Q E d"
  unfolding os_call_def by (auto simp: wp_simps wp_return_fun wp_fail split: if_splits intro!: wp_env)

text \<open>A disk that differs only in what the environment still has in store.\<close>

definition same_nodes :: "Disk \<Rightarrow> Disk \<Rightarrow> bool" where
  "same_nodes d d' \<longleftrightarrow> nodes d' = nodes d \<and> locks d' = locks d \<and> clock d' = clock d"

interpretation same: kept_relation same_nodes
  by unfold_locales (auto simp: same_nodes_def)

lemmas same_combinators =
  keeps_cases same.keeps_return same.keeps_fail same.keeps_get same.keeps_catch same.keeps_bind same.keeps_seq
  same.keeps_try same.keeps_wrapping same.keeps_for_each same.keeps_map_each same.keeps_guard

lemma same_node [intro]:
  "keeps R m \<Longrightarrow> (\<And>k x. n = Reg k x \<Longrightarrow> keeps R (f k x)) \<Longrightarrow> keeps R (case n of Dir \<Rightarrow> m | Reg k x \<Rightarrow> f k x)"
  by (cases n) simp_all

lemma same_env: "keeps same_nodes env_fails"
  by (auto simp: keeps_def env_fails_def same_nodes_def split: list.splits)

lemma same_calls:
  "keeps same_nodes os_call" "keeps same_nodes ctx_Err" "keeps same_nodes corrupt" "keeps same_nodes (os_Lstat p)"
  "keeps same_nodes (os_ReadDir p)" "keeps same_nodes (os_Open p)"
  unfolding os_ReadDir_def os_Open_def os_Lstat_def os_call_def ctx_Err_def corrupt_def
  by (intro same_combinators same_env same_node)+

lemma same_node_at: "same_nodes d d' \<Longrightarrow> node_at d' p = node_at d p"
  by (simp add: same_nodes_def node_at_def)

lemma same_reads:
  "keeps same_nodes (validateExt4Image p c)" "keeps same_nodes (validateExt4ImageUUID p c u)"
  "keeps same_nodes (readJSON decode p)" "keeps same_nodes (readCurrentManifest w)"
  unfolding readCurrentManifest_def readJSON_def validateExt4ImageUUID_def validateExt4Image_def validatedVersionPath_def
  by (intro same_combinators same_calls same_node)+

lemma wp_keeps: "keeps R m \<Longrightarrow> (\<And>r d'. m d = (r, d') \<Longrightarrow> R d d' \<Longrightarrow> (case r of Inr a \<Rightarrow> Q a d' | Inl e \<Rightarrow> E e d')) \<Longrightarrow> wp m Q E d"
  unfolding wp_run by (auto dest: keepsD)

lemma Lstat_result:
  assumes "os_Lstat p d = (r, d')"
  shows "case r of Inr n \<Rightarrow> node_at d p = Some n | Inl e \<Rightarrow> (errors_Is ErrNotExist e \<longrightarrow> node_at d p = None)"
proof -
  have "wp (os_Lstat p) (\<lambda>n _. node_at d p = Some n) (\<lambda>e _. errors_Is ErrNotExist e \<longrightarrow> node_at d p = None) d"
    unfolding os_Lstat_def
    by (auto simp: wp_simps wp_return_fun wp_fail split: option.splits intro!: wp_os_call)
  then show ?thesis
    using assms by (auto simp: wp_run split: sum.splits)
qed

lemma wp_Lstat:
  assumes "\<And>n d'. same_nodes d d' \<Longrightarrow> node_at d p = Some n \<Longrightarrow> Q n d'"
    and "\<And>e d'. same_nodes d d' \<Longrightarrow> (errors_Is ErrNotExist e \<Longrightarrow> node_at d p = None) \<Longrightarrow> E e d'"
  shows "wp (os_Lstat p) Q E d"
  by (rule wp_keeps [OF same_calls(4)]) (use assms in \<open>auto dest!: Lstat_result split: sum.splits\<close>)

section \<open>Writing\<close>

lemma root_dir: "node_at d p = Some (Reg m x) \<Longrightarrow> p \<noteq> []"
  by (auto simp: node_at_def)


lemma wp_Chmod:
  assumes "\<And>d'. unchanged (- {p}) d d' \<Longrightarrow> (\<exists>x. node_at d' p = Some (Reg m x)) \<or> node_at d' p = Some Dir \<Longrightarrow> Q () d'"
    and "\<And>e d'. same_nodes d d' \<Longrightarrow> E e d'"
  shows "wp (os_Chmod p m) Q E d"
  unfolding os_Chmod_def wp_bind
proof (rule wp_Lstat)
  fix n d' assume d: "same_nodes d d'" "node_at d p = Some n"
  have "Q () (put_node p (Reg m x) d')" if "n = Reg k x" for k x
    using that d by (intro assms(1)) (auto simp: unchanged_def node_at_put same_node_at root_dir)
  moreover have "Q () d'" if "n = Dir"
    using that d by (intro assms(1)) (auto simp: unchanged_def same_node_at)
  ultimately show "wp (case n of Dir \<Rightarrow> st_return () | Reg _ x \<Rightarrow> st_modify (put_node p (Reg m x))) Q E d'"
    by (simp add: wp_simps split: node.splits)
qed (simp add: assms(2))

lemma wp_Write:
  assumes "\<And>d' m y. node_at d p = Some (Reg m y) \<Longrightarrow> unchanged (- {p}) d d' \<Longrightarrow> node_at d' p = Some (Reg m x) \<Longrightarrow> Q () d'"
    and "\<And>e d'. same_nodes d d' \<Longrightarrow> E e d'"
  shows "wp (os_Write p x) Q E d"
  unfolding os_Write_def wp_bind
proof (rule wp_Lstat)
  fix n d' assume d: "same_nodes d d'" "node_at d p = Some n"
  show "wp (case n of Dir \<Rightarrow> st_fail (Sentinel ErrIO) | Reg m _ \<Rightarrow> st_modify (put_node p (Reg m x))) Q E d'"
  proof (cases n)
    case (Reg m y)
    then have "p \<noteq> []"
      using d(2) by (auto simp: node_at_def)
    then have "Q () (put_node p (Reg m x) d')"
      using Reg d by (intro assms(1)) (auto simp: unchanged_def node_at_put same_node_at)
    then show ?thesis
      by (simp add: Reg wp_simps)
  qed (use d in \<open>simp add: wp_simps assms(2)\<close>)
qed (simp add: assms(2))

lemma wp_Rename:
  assumes "\<And>d' n. node_at d p = Some n \<Longrightarrow> \<not> is_Dir n \<Longrightarrow> unchanged (- {p, q}) d d' \<Longrightarrow> node_at d' q = Some n \<Longrightarrow> Q () d'"
    and "\<And>e d'. same_nodes d d' \<Longrightarrow> E e d'"
  shows "wp (os_Rename p q) Q E d"
  unfolding os_Rename_def wp_bind
proof (rule wp_Lstat)
  fix n d' assume d: "same_nodes d d'" "node_at d p = Some n"
  have "Q () (put_node q n (drop_node p d'))" if "\<not> is_Dir n" "parent_ok q d'"
    using that d by (intro assms(1)) (auto simp: parent_ok_def unchanged_def node_at_put node_at_drop same_node_at)
  then show "wp (st_get (\<lambda>d. (dir_at d q, parent_ok q d))) (\<lambda>a. wp (case a of (occupied, ok) \<Rightarrow>
      if is_Dir n \<or> occupied then st_fail (Sentinel ErrIO)
      else if \<not> ok then st_fail (Sentinel ErrNotExist)
      else st_modify (\<lambda>d. put_node q n (drop_node p d))) Q E) E d'"
    using d(1) by (simp add: wp_simps assms(2))
qed (simp add: assms(2))

lemma unchanged_mono: "unchanged S d d' \<Longrightarrow> T \<subseteq> S \<Longrightarrow> unchanged T d d'"
  by (auto simp: unchanged_def)

lemma unchanged_trans: "unchanged S d d' \<Longrightarrow> unchanged S d' d'' \<Longrightarrow> unchanged S d d''"
  by (simp add: unchanged_def)

lemma same_unchanged: "same_nodes d d' \<Longrightarrow> unchanged S d d'"
  by (simp add: unchanged_def same_node_at)

lemma unchangedD: "unchanged S d d' \<Longrightarrow> p \<in> S \<Longrightarrow> node_at d' p = node_at d p"
  by (simp add: unchanged_def)

text \<open>Writing a temporary file and renaming it over the document.\<close>

lemma wp_replace:
  assumes "t \<noteq> p"
  shows "wp (st_seq (os_Chmod t m) (st_seq (os_Write t x) (st_seq os_Sync (st_seq os_Close (os_Rename t p)))))
    (\<lambda>_ d'. node_at d' p = Some (Reg m x)) (\<lambda>_ d'. node_at d' p = node_at d p) d"
  unfolding wp_seq
proof (rule wp_Chmod)
  fix d1 assume d1: "unchanged (- {t}) d d1" "(\<exists>y. node_at d1 t = Some (Reg m y)) \<or> node_at d1 t = Some Dir"
  then have p1: "node_at d1 p = node_at d p"
    using assms by (simp add: unchanged_def)
  show "wp (os_Write t x) (\<lambda>_. wp os_Sync (\<lambda>_. wp os_Close (\<lambda>_. wp (os_Rename t p) (\<lambda>_ d'. node_at d' p = Some (Reg m x))
      (\<lambda>_ d'. node_at d' p = node_at d p)) (\<lambda>_ d'. node_at d' p = node_at d p)) (\<lambda>_ d'. node_at d' p = node_at d p))
      (\<lambda>_ d'. node_at d' p = node_at d p) d1"
  proof (rule wp_Write)
    fix d2 k y assume d2: "node_at d1 t = Some (Reg k y)" "unchanged (- {t}) d1 d2" "node_at d2 t = Some (Reg k x)"
    then have p2: "node_at d2 p = node_at d p" and t2: "node_at d2 t = Some (Reg m x)"
      using assms p1 d1(2) by (auto simp: unchanged_def)
    have r: "wp (os_Rename t p) (\<lambda>_ d'. node_at d' p = Some (Reg m x)) (\<lambda>_ d'. node_at d' p = node_at d p) d'"
      if "node_at d' = node_at d2" for d'
      by (rule wp_Rename) (use that p2 t2 in \<open>auto simp: same_node_at\<close>)
    show "wp os_Sync (\<lambda>_. wp os_Close (\<lambda>_. wp (os_Rename t p) (\<lambda>_ d'. node_at d' p = Some (Reg m x))
      (\<lambda>_ d'. node_at d' p = node_at d p)) (\<lambda>_ d'. node_at d' p = node_at d p)) (\<lambda>_ d'. node_at d' p = node_at d p) d2"
      by (intro wp_os_call r) (simp_all add: p2 fun_eq_iff)
  qed (simp add: same_node_at p1)
qed (simp add: same_node_at)

lemma wp_on_failure_frame:
  assumes "keeps (unchanged S) c" "wp m Q E d" "\<And>e d' d''. E e d' \<Longrightarrow> unchanged S d' d'' \<Longrightarrow> E' e d''"
  shows "wp (on_failure c m) Q E' d"
proof -
  have c: "keeps (unchanged S) (ignoring c)"
    using assms(1) by (intro frame)
  have "wp (ignoring c) (\<lambda>_. E' e) E'' d'" if "E e d'" for e d' E''
    unfolding ignoring_def wp_catch
    by (rule wp_mono [OF keeps_wp [OF assms(1)]]) (use that assms(3) in \<open>auto simp: wp_return\<close>)
  then show ?thesis
    unfolding on_failure_def wp_catch
    by (intro wp_mono [OF assms(2)]) (auto simp: wp_return wp_seq wp_fail [abs_def])
qed

lemma wp_frame:
  assumes "keeps (unchanged S) m" "\<And>a d'. unchanged S d d' \<Longrightarrow> Q a d'" "\<And>e d'. unchanged S d d' \<Longrightarrow> E e d'"
  shows "wp m Q E d"
  by (rule wp_mono [OF keeps_wp [OF assms(1)]]) (use assms(2,3) in auto)

text \<open>Whatever fails, a document afterwards is the old one or the new one.\<close>

lemma atomicJSON_atomic:
  assumes "p \<noteq> []"
  shows "wp (atomicJSON p doc) (\<lambda>_ d'. node_at d' p = Some (Reg 384 doc))
    (\<lambda>_ d'. node_at d' p = node_at d p \<or> node_at d' p = Some (Reg 384 doc)) d"
proof -
  let ?new = "\<lambda>_ d'. node_at d' p = Some (Reg 384 doc)"
  let ?old = "\<lambda>_ d'. node_at d' p = node_at d p \<or> node_at d' p = Some (Reg 384 doc)"
  have t: "butlast p @ [(''.'' @ last p @ ''.tmp-'') @ s] \<noteq> p" for s
  proof
    assume "butlast p @ [(''.'' @ last p @ ''.tmp-'') @ s] = p"
    then have "last p = (''.'' @ last p @ ''.tmp-'') @ s"
      by (metis last_snoc)
    then have "length (last p) = length ((''.'' @ last p @ ''.tmp-'') @ s)"
      by simp
    then show False
      by simp
  qed
  have create: "wp (os_CreateTemp (butlast p) (''.'' @ last p @ ''.tmp-''))
      (\<lambda>t d'. t \<noteq> p \<and> node_at d' p = node_at d p) (\<lambda>_ d'. node_at d' p = node_at d p) d"
  proof (rule wp_keeps)
    show "keeps (unchanged {p}) (os_CreateTemp (butlast p) (''.'' @ last p @ ''.tmp-''))"
      by (rule frame_CreateTemp) (use t in auto)
    fix r d' assume run: "os_CreateTemp (butlast p) (''.'' @ last p @ ''.tmp-'') d = (r, d')" "unchanged {p} d d'"
    have "q \<noteq> p" if "r = Inr q" for q
      using returns_CreateTemp [of "butlast p" "''.'' @ last p @ ''.tmp-''"] run(1) that t unfolding returns_def by metis
    then show "case r of Inr t \<Rightarrow> t \<noteq> p \<and> node_at d' p = node_at d p | Inl _ \<Rightarrow> node_at d' p = node_at d p"
      using run(2) by (auto simp: unchanged_def split: sum.splits)
  qed
  have body: "wp (st_seq (on_failure (os_Remove t)
      (st_seq (os_Chmod t 384) (st_seq (os_Write t doc) (st_seq os_Sync (st_seq os_Close (os_Rename t p))))))
      (syncDir (butlast p))) ?new ?old d1" if "t \<noteq> p" "node_at d1 p = node_at d p" for t d1
    unfolding wp_seq [of "on_failure _ _"]
  proof (rule wp_mono [OF wp_on_failure_frame [OF _ wp_replace [OF that(1)]]])
    show "keeps (unchanged {p}) (os_Remove t)"
      by (rule frame) (use that in auto)
    show "wp (syncDir (butlast p)) ?new ?old d'" if "node_at d' p = Some (Reg 384 doc)" for d'
      by (rule wp_os_call) (use that in auto)
  qed (use that in \<open>auto simp: unchanged_def\<close>)
  show ?thesis
    unfolding atomicJSON_def wp_bind by (rule wp_mono [OF create]) (use body in auto)
qed

section \<open>The selected image\<close>

definition fits :: "node option \<Rightarrow> int \<Rightarrow> bool" where
  "fits n capacityBytes = (case n of Some (Reg _ (Img i)) \<Rightarrow> imageSize i = capacityBytes | _ \<Rightarrow> False)"

definition current_ok :: "string \<Rightarrow> Disk \<Rightarrow> bool" where
  "current_ok w d = (case node_at d (currentManifestPath w) of
     Some (Reg _ (CurrentDoc m)) \<Rightarrow> fits (node_at d (versionPath w (cmImage m))) (cmCapacityBytes m)
   | _ \<Rightarrow> True)"

definition selects :: "string \<Rightarrow> currentManifest \<Rightarrow> Disk \<Rightarrow> bool" where
  "selects w m d \<longleftrightarrow>
     (\<exists>k. node_at d (currentManifestPath w) = Some (Reg k (CurrentDoc m))) \<and>
     fits (node_at d (versionPath w (cmImage m))) (cmCapacityBytes m)"

abbreviation selected_paths :: "string \<Rightarrow> currentManifest \<Rightarrow> path set" where
  "selected_paths w m \<equiv> {currentManifestPath w, versionPath w (cmImage m)}"

lemma selects_current_ok: "selects w m d \<Longrightarrow> current_ok w d"
  by (auto simp: selects_def current_ok_def)

lemma selects_unchanged: "selects w m d \<Longrightarrow> unchanged (selected_paths w m) d d' \<Longrightarrow> selects w m d'"
  by (auto simp: selects_def unchanged_def)

text \<open>The files of a Workspace, as against its directories.\<close>

definition workspace_files :: "string \<Rightarrow> path set" where
  "workspace_files w = {workspaceDir w @ [a, b] | a b. True}"

lemma current_ok_unchanged:
  assumes "current_ok w d" "unchanged (workspace_files w) d d'"
  shows "current_ok w d'"
proof -
  have m: "node_at d' (currentManifestPath w) = node_at d (currentManifestPath w)"
    by (rule unchangedD [OF assms(2)]) (simp add: path_simps workspace_files_def)
  have v: "node_at d' (versionPath w i) = node_at d (versionPath w i)" for i
    by (rule unchangedD [OF assms(2)]) (simp add: path_simps workspace_files_def)
  show ?thesis
    using assms(1) unfolding current_ok_def m v .
qed

lemma seq_success: "st_seq m n d = (Inr a, d') \<Longrightarrow> \<exists>d1. m d = (Inr (), d1) \<and> n d1 = (Inr a, d')"
  by (auto simp: st_seq_def st_bind_def split: prod.splits sum.splits)

lemma validate_image_fits:
  assumes "validateExt4Image p c d = (Inr x, d')"
  shows "fits (node_at d p) c"
proof -
  have "wp (validateExt4Image p c) (\<lambda>_ _. fits (node_at d p) c) (\<lambda>_ _. True) d"
    unfolding validateExt4Image_def wp_seq wp_bind wp_wrapping
    by (rule wp_Lstat)
      (auto simp: wp_simps wp_return_fun corrupt_def wp_fail fits_def ext4_image_ok_def
        split: node.splits file_data.splits intro!: wp_os_call)
  then show ?thesis
    using assms by (simp add: wp_run)
qed

lemma validate_fits:
  assumes "validateExt4ImageUUID p c u d = (Inr x, d')"
  shows "fits (node_at d p) c"
  using assms unfolding validateExt4ImageUUID_def by (auto dest!: seq_success dest: validate_image_fits)

section \<open>Keeping the selection\<close>

definition safe :: "string \<Rightarrow> 'a os \<Rightarrow> Disk \<Rightarrow> bool" where
  "safe w m d \<longleftrightarrow> current_ok w (snd (m d))"

lemma safe_return: "current_ok w d \<Longrightarrow> safe w (st_return a) d" "current_ok w d \<Longrightarrow> safe w (st_fail e) d"
  "current_ok w d \<Longrightarrow> safe w corrupt d"
  by (simp_all add: safe_def st_return_def st_fail_def corrupt_def)

lemma safe_if: "(b \<Longrightarrow> safe w m d) \<Longrightarrow> (\<not> b \<Longrightarrow> safe w n d) \<Longrightarrow> safe w (if b then m else n) d"
  by simp

lemma safe_bind:
  assumes "current_ok w (snd (m d))" "\<And>a d'. m d = (Inr a, d') \<Longrightarrow> safe w (f a) d'"
  shows "safe w (st_bind m f) d"
  using assms by (auto simp: safe_def st_bind_def split: prod.splits sum.splits)

lemma safe_seq_return: "safe w m d \<Longrightarrow> safe w (st_seq m (st_return a)) d"
  unfolding st_seq_def by (rule safe_bind) (auto simp: safe_def st_return_def)

lemma safe_frame:
  assumes "current_ok w d" "keeps (unchanged (workspace_files w)) m"
  shows "safe w m d"
  using assms unfolding safe_def keeps_def by (blast intro: current_ok_unchanged)

lemma sel_frame: "selects w cm d \<Longrightarrow> keeps (unchanged (selected_paths w cm)) m \<Longrightarrow> selects w cm (snd (m d))"
  unfolding keeps_def by (blast intro: selects_unchanged)

lemma sel_bind:
  assumes "selects w cm d" "keeps (unchanged (selected_paths w cm)) m"
    and "\<And>a d'. m d = (Inr a, d') \<Longrightarrow> selects w cm d' \<Longrightarrow> safe w (f a) d'"
  shows "safe w (st_bind m f) d"
proof (rule safe_bind)
  show "current_ok w (snd (m d))"
    using sel_frame [OF assms(1,2)] by (rule selects_current_ok)
  show "safe w (f a) d'" if "m d = (Inr a, d')" for a d'
    using sel_frame [OF assms(1,2)] that by (intro assms(3)) auto
qed

lemma sel_seq:
  assumes "selects w cm d" "keeps (unchanged (selected_paths w cm)) m"
    and "\<And>d'. m d = (Inr (), d') \<Longrightarrow> selects w cm d' \<Longrightarrow> safe w n d'"
  shows "safe w (st_seq m n) d"
  unfolding st_seq_def by (rule sel_bind [OF assms(1,2)]) (use assms(3) in auto)

lemma readJSON_result:
  assumes "readJSON decode p d = (r, d')"
  shows "case r of Inr v \<Rightarrow> (\<exists>k x. node_at d p = Some (Reg k x) \<and> decode x = Some v)
    | Inl e \<Rightarrow> errors_Is ErrNotExist e \<longrightarrow> node_at d p = None"
proof -
  have "wp (readJSON decode p) (\<lambda>v _. \<exists>k x. node_at d p = Some (Reg k x) \<and> decode x = Some v)
      (\<lambda>e _. errors_Is ErrNotExist e \<longrightarrow> node_at d p = None) d"
    unfolding readJSON_def os_Open_def wp_bind
    by (rule wp_Lstat) (auto simp: wp_simps split: node.splits option.splits)
  then show ?thesis
    using assms by (auto simp: wp_run split: sum.splits)
qed

lemma decoded [simp]:
  "as_current x = Some cm \<longleftrightarrow> x = CurrentDoc cm" "as_snapshot x = Some sm \<longleftrightarrow> x = SnapshotDoc sm"
  "as_staged x = Some sr \<longleftrightarrow> x = StagedDoc sr" "as_rollback x = Some rm \<longleftrightarrow> x = RollbackDoc rm"
  "as_receipt x = Some rc \<longleftrightarrow> x = ReceiptDoc rc"
  by (cases x; simp add: as_current_def as_snapshot_def as_staged_def as_rollback_def as_receipt_def)+

lemma wp_readCurrentManifest:
  assumes "\<And>m d'. same_nodes d d' \<Longrightarrow> (\<exists>k. node_at d (currentManifestPath w) = Some (Reg k (CurrentDoc m))) \<Longrightarrow>
      current_manifest_ok w m \<Longrightarrow> valid_image_name (cmImage m) \<Longrightarrow> Q m d'"
    and "\<And>e d'. same_nodes d d' \<Longrightarrow>
      (errors_Is ErrWorkspaceNotFound e \<Longrightarrow> node_at d (currentManifestPath w) = None) \<Longrightarrow> E e d'"
  shows "wp (readCurrentManifest w) Q E d"
  unfolding readCurrentManifest_def wp_bind wp_try
proof (rule wp_keeps [OF same_reads(3)])
  fix r d' assume r: "readJSON as_current (currentManifestPath w) d = (r, d')" "same_nodes d d'"
  show "case r of
      Inl e \<Rightarrow> wp (case Inl e of Inl e \<Rightarrow> if errors_Is ErrNotExist e then st_fail (Sentinel ErrWorkspaceNotFound) else corrupt
        | Inr m \<Rightarrow> if \<not> current_manifest_ok w m then corrupt
            else st_bind (validatedVersionPath w (cmImage m)) (\<lambda>_. st_return m)) Q E d'
    | Inr m \<Rightarrow> wp (case Inr m of Inl e \<Rightarrow> if errors_Is ErrNotExist e then st_fail (Sentinel ErrWorkspaceNotFound) else corrupt
        | Inr m \<Rightarrow> if \<not> current_manifest_ok w m then corrupt
            else st_bind (validatedVersionPath w (cmImage m)) (\<lambda>_. st_return m)) Q E d'"
    using readJSON_result [OF r(1)] r(2)
    by (auto simp: wp_simps wp_return_fun wp_return_fun [abs_def] corrupt_def validatedVersionPath_def
        split: sum.splits intro!: assms)
qed

lemma read_selects:
  assumes "current_ok w d"
    and "\<And>m d'. selects w m d' \<Longrightarrow> current_manifest_ok w m \<Longrightarrow> safe w (f m) d'"
  shows "safe w (st_bind (readCurrentManifest w) f) d"
proof (rule safe_bind)
  show "current_ok w (snd (readCurrentManifest w d))"
    using safe_frame [OF assms(1) frame_documents(2)] by (simp add: safe_def)
  fix m d' assume m: "readCurrentManifest w d = (Inr m, d')"
  have "wp (readCurrentManifest w) (\<lambda>m d'. selects w m d' \<and> current_manifest_ok w m) (\<lambda>_ _. True) d"
    by (rule wp_readCurrentManifest) (use assms(1) in \<open>auto simp: selects_def current_ok_def same_node_at\<close>)
  then show "safe w (f m) d'"
    using m assms(2) by (simp add: wp_run)
qed

lemma safe_bind_frame:
  assumes "current_ok w d" "keeps (unchanged (workspace_files w)) m"
    and "\<And>a d'. m d = (Inr a, d') \<Longrightarrow> current_ok w d' \<Longrightarrow> safe w (f a) d'"
  shows "safe w (st_bind m f) d"
proof (rule safe_bind)
  show ok: "current_ok w (snd (m d))"
    using safe_frame [OF assms(1,2)] by (simp add: safe_def)
  show "safe w (f a) d'" if "m d = (Inr a, d')" for a d'
    using ok that by (intro assms(3)) auto
qed

lemma safe_seq_frame:
  assumes "current_ok w d" "keeps (unchanged (workspace_files w)) m" "\<And>d'. current_ok w d' \<Longrightarrow> safe w n d'"
  shows "safe w (st_seq m n) d"
  unfolding st_seq_def by (rule safe_bind_frame [OF assms(1,2)]) (rule assms(3))

lemma sel_safe: "selects w cm d \<Longrightarrow> keeps (unchanged (selected_paths w cm)) m \<Longrightarrow> safe w m d"
  unfolding safe_def by (rule selects_current_ok) (rule sel_frame)

lemma sel_seq_fits:
  assumes "selects w cm d" "fits (node_at d q) c" "keeps (unchanged (insert q (selected_paths w cm))) m"
    and "\<And>d'. selects w cm d' \<Longrightarrow> fits (node_at d' q) c \<Longrightarrow> safe w n d'"
  shows "safe w (st_seq m n) d"
proof (rule sel_seq [OF assms(1)])
  show "keeps (unchanged (selected_paths w cm)) m"
    using assms(3) by (auto simp: keeps_def unchanged_def)
  show "safe w n d'" if "m d = (Inr (), d')" "selects w cm d'" for d'
    using that assms(2) keepsD [OF assms(3) that(1)] by (intro assms(4)) (simp_all add: unchanged_def)
qed

text \<open>A Workspace without a current manifest.\<close>

abbreviation absent :: "string \<Rightarrow> Disk \<Rightarrow> bool" where
  "absent w d \<equiv> node_at d (currentManifestPath w) = None"

lemma absent_current_ok: "absent w d \<Longrightarrow> current_ok w d"
  by (simp add: current_ok_def)

lemma absent_bind:
  assumes "absent w d" "keeps (unchanged {currentManifestPath w}) m"
    and "\<And>a d'. m d = (Inr a, d') \<Longrightarrow> absent w d' \<Longrightarrow> safe w (f a) d'"
  shows "safe w (st_bind m f) d"
proof (rule safe_bind)
  have abs: "absent w (snd (m d))"
    using assms(1,2) by (auto simp: keeps_def unchanged_def)
  then show "current_ok w (snd (m d))"
    by (rule absent_current_ok)
  show "safe w (f a) d'" if "m d = (Inr a, d')" for a d'
    using abs that by (intro assms(3)) auto
qed

lemma absent_seq:
  assumes "absent w d" "keeps (unchanged {currentManifestPath w}) m"
    and "\<And>d'. m d = (Inr (), d') \<Longrightarrow> absent w d' \<Longrightarrow> safe w n d'"
  shows "safe w (st_seq m n) d"
  unfolding st_seq_def by (rule absent_bind [OF assms(1,2)]) (use assms(3) in auto)

lemma try_selects:
  assumes "current_ok w d"
    and "\<And>m d'. selects w m d' \<Longrightarrow> current_manifest_ok w m \<Longrightarrow> safe w (f (Inr m)) d'"
    and "\<And>e d'. current_ok w d' \<Longrightarrow> (errors_Is ErrWorkspaceNotFound e \<Longrightarrow> absent w d') \<Longrightarrow> safe w (f (Inl e)) d'"
  shows "safe w (st_bind (st_try (readCurrentManifest w)) f) d"
proof -
  have "wp (readCurrentManifest w) (\<lambda>m. safe w (f (Inr m))) (\<lambda>e. safe w (f (Inl e))) d"
  proof (rule wp_readCurrentManifest)
    fix e d' assume "same_nodes d d'" "errors_Is ErrWorkspaceNotFound e \<Longrightarrow> absent w d"
    then show "safe w (f (Inl e)) d'"
      by (intro assms(3) current_ok_unchanged [OF assms(1)] same_unchanged) (simp_all add: same_node_at)
  qed (use assms(1) in \<open>auto simp: selects_def current_ok_def same_node_at intro!: assms(2)\<close>)
  then show ?thesis
    by (auto simp: safe_def wp_def st_bind_def st_try_def st_catch_def st_return_def split: prod.splits sum.splits)
qed

end
