(* ===== verification/Workspace_Safety.thy ===== *)
theory Workspace_Safety
  imports Workspace_Atomic
begin

text \<open>
  What the WorkspaceStore promises whatever call fails and whenever it is
  interrupted: a command touches only its own paths, the current manifest
  always selects an image of its capacity, and a repeated command replays its
  receipt.
\<close>

section \<open>Publication\<close>

lemma safe_publish:
  assumes "current_ok w d" "fits (node_at d (versionPath w (cmImage m))) (cmCapacityBytes m)"
  shows "safe w (publishCurrentManifest w m) d"
proof -
  let ?Q = "\<lambda>_ d'. node_at d' (currentManifestPath w) = node_at d (currentManifestPath w) \<or>
    node_at d' (currentManifestPath w) = Some (Reg 384 (CurrentDoc m))"
  have "wp (publishCurrentManifest w m) ?Q ?Q d"
    unfolding publishCurrentManifest_def validatedVersionPath_def
    by (auto simp: wp_simps wp_return_fun corrupt_def intro!: wp_mono [OF atomicJSON_atomic])
      (auto simp: path_simps)
  then have pub: "?Q () (snd (publishCurrentManifest w m d))"
    by (auto simp: wp_def split: prod.splits sum.splits)
  have "keeps (unchanged (under (versionsDir w))) (publishCurrentManifest w m)"
    by (intro frame) (auto simp: path_simps)
  then have v: "node_at (snd (publishCurrentManifest w m d)) (versionPath w i) = node_at d (versionPath w i)" for i
    unfolding keeps_def by (intro unchangedD [of "under (versionsDir w)"]) (auto simp: path_simps)
  show ?thesis
    using pub assms unfolding safe_def current_ok_def v by auto
qed

lemma sel_publish:
  "selects w cm d \<Longrightarrow> cmImage m = cmImage cm \<Longrightarrow> cmCapacityBytes m = cmCapacityBytes cm \<Longrightarrow>
     safe w (publishCurrentManifest w m) d"
  by (rule safe_publish) (simp_all add: selects_current_ok, simp add: selects_def)

section \<open>Each command keeps the selection\<close>

text \<open>Punching a hole keeps the size of the file, as \<open>FALLOC_FL_KEEP_SIZE\<close> says.\<close>

definition punch_keeps_size :: "Host \<Rightarrow> bool" where
  "punch_keeps_size host \<longleftrightarrow> (\<forall>off len img. imageSize (snd (punchHole host off len img)) = imageSize img)"

lemma punches_keep_size:
  assumes "punch_keeps_size host"
  shows "imageSize (snd (punchWorkspaceReclaimRanges host ranges limit result img)) = imageSize img"
proof (induction ranges arbitrary: result img)
  case (Cons free ranges)
  have "imageSize img' = imageSize img" if "punchHole host (Offset free) (Length free) img = (r, img')" for r img'
    using assms that unfolding punch_keeps_size_def by (metis snd_conv)
  then show ?case
    using Cons by (simp split: sum.splits prod.splits)
qed simp

interpretation same_size: kept_relation "\<lambda>i i'. imageSize i' = imageSize i"
  by unfold_locales simp_all

lemma reclaim_keeps_size:
  assumes "punch_keeps_size host"
  shows "imageSize (snd (reclaimFreeImageBlocks host c img)) = imageSize img"
proof -
  let ?R = "\<lambda>i i'. imageSize i' = imageSize i"
  have a: "keeps ?R (allocatedImageBytes c)"
    by (simp add: keeps_def allocatedImageBytes_def)
  have p: "keeps ?R (punchWorkspaceReclaimRanges host ranges limit result)" for ranges limit result
    by (simp add: keeps_def punches_keep_size [OF assms])
  have "keeps ?R (reclaimFreeImageBlocks host c)"
    unfolding reclaimFreeImageBlocks_def
    by (intro keeps_cases same_size.keeps_bind same_size.keeps_get same_size.keeps_return a p)
      (auto split: reclaim_stop.splits intro: same_size.keeps_fail same_size.keeps_return)
  then show ?thesis
    by (simp add: keeps_def)
qed

lemma sel_reclaim:
  assumes "selects w cm d" "punch_keeps_size (reclaimHost store)"
  shows "selects w cm (snd (reclaimFreeBlocks store w cm d))"
proof -
  let ?Q = "\<lambda>_ d'. selects w cm d'"
  have stable: "selects w cm d'" if "same_nodes d d'" for d'
    using assms(1) by (rule selects_unchanged) (rule same_unchanged [OF that])
  have on_image: "wp (reclaim_file store (versionPath w (cmImage cm)) c) ?Q ?Q d" for c
    unfolding reclaim_file_def wp_bind wp_wrapping
  proof (rule wp_Lstat, goal_cases)
    case (1 n d')
    obtain k i where n: "n = Reg k (Img i)" "imageSize i = cmCapacityBytes cm"
      using assms(1) 1(2) by (auto simp: selects_def fits_def split: node.splits file_data.splits)
    define i' where "i' = snd (reclaimFreeImageBlocks (reclaimHost store) c i)"
    have "selects w cm (put_node (versionPath w (cmImage cm)) (Reg k (Img i')) d')"
      using stable [OF 1(1)] n(2) reclaim_keeps_size [OF assms(2), of c i]
      by (auto simp: selects_def node_at_put fits_def i'_def path_simps)
    then show ?case
      unfolding n(1) by (auto simp: i'_def wp_simps wp_return_fun selects_def split: prod.splits sum.splits intro!: wp_os_call)
  qed (rule stable)
  have "wp (reclaimFreeBlocks store w cm) ?Q ?Q d"
    unfolding reclaimFreeBlocks_def validatedVersionPath_def
    using on_image assms(1) by (auto simp: wp_simps wp_return_fun corrupt_def)
  then show ?thesis
    by (auto simp: wp_def split: prod.splits sum.splits)
qed

lemma versionPath_result: "validatedVersionPath w i d = (Inr p, d') \<Longrightarrow> p = versionPath w i"
  by (auto simp: validatedVersionPath_def corrupt_def st_fail_def st_return_def split: if_splits)

lemma frame_validatedVersionPath: "keeps (unchanged S) (validatedVersionPath w i)"
  unfolding validatedVersionPath_def by (intro frame)

lemma safe_advance:
  assumes "current_ok (WorkspaceID (agMutation r)) d" "punch_keeps_size (reclaimHost store)"
  shows "safe (WorkspaceID (agMutation r)) (advance_apply store r) d"
  unfolding advance_apply_def Let_def
proof (rule read_selects [OF assms(1)], goal_cases)
  let ?w = "WorkspaceID (agMutation r)"
  case (1 m d1)
  have publish: "safe ?w (st_seq (reclaimFreeBlocks store ?w m)
      (st_seq (publishCurrentManifest ?w (m\<lparr>cmGeneration := agNextGeneration r\<rparr>)) (st_return x))) d2"
    if sel: "selects ?w m d2" for d2 x
    unfolding st_seq_def [of "reclaimFreeBlocks store ?w m"]
  proof (rule safe_bind)
    note kept = sel_reclaim [OF sel assms(2)]
    show "current_ok ?w (snd (reclaimFreeBlocks store ?w m d2))"
      using kept by (rule selects_current_ok)
    fix a d3 assume "reclaimFreeBlocks store ?w m d2 = (Inr a, d3)"
    with kept have "selects ?w m d3"
      by simp
    then show "safe ?w (st_seq (publishCurrentManifest ?w (m\<lparr>cmGeneration := agNextGeneration r\<rparr>)) (st_return x)) d3"
      by (intro safe_seq_return sel_publish) simp_all
  qed
  show ?case
    by (intro safe_if safe_return selects_current_ok [OF 1(1)] sel_bind [OF 1(1) frame_pending(1)] publish)
      (auto intro: selects_current_ok)
qed

lemma safe_finalize:
  assumes "current_ok (WorkspaceID m) d"
  shows "safe (WorkspaceID m) (finalize_apply m) d"
  unfolding finalize_apply_def Let_def
proof (rule safe_bind_frame [OF assms], goal_cases)
  case 1
  show ?case
    by (intro frame)
next
  let ?w = "WorkspaceID m" and ?op = "OperationID m"
  case (2 r d1)
  have rest: "safe ?w (st_seq (for_each removeExactFile
      [p, stagedImagePath ?w ?op, stagedManifestPath ?w ?op, rollbackPath ?w ?op])
      (st_seq (for_each (\<lambda>dir. syncDir dir) [versionsDir ?w, stagedDir ?w, rollbackDir ?w]) (st_return x))) d3"
    if "selects ?w cm d3" "p = versionPath ?w i" "p \<noteq> versionPath ?w (cmImage cm)" for cm p i d3 x
    by (rule sel_safe [OF that(1)], intro frame) (use that(2,3) in \<open>auto simp: path_simps\<close>)
  show ?case
  proof (cases r)
    case (Inl e)
    then show ?thesis
      by (simp, intro safe_frame [OF 2(2)] frame conjI impI)
  next
    case (Inr rb)
    show ?thesis
      unfolding Inr sum.case
      by (intro read_selects [OF 2(2)] safe_if safe_return selects_current_ok)
        (auto intro!: sel_bind [OF _ frame_validatedVersionPath] safe_if safe_return rest
          intro: selects_current_ok dest: versionPath_result)
  qed
qed

text \<open>Only the last step matters for what a successful sequence has established.\<close>

abbreviation ensures :: "'a os \<Rightarrow> ('a \<Rightarrow> Disk \<Rightarrow> bool) \<Rightarrow> bool" where
  "ensures m Q \<equiv> \<forall>d. wp m Q (\<lambda>_ _. True) d"

lemma ensuresD:
  assumes "ensures m Q" "m d = (Inr a, d')"
  shows "Q a d'"
  using assms(1) [rule_format, of d] assms(2) by (simp add: wp_def)

lemma ensures_bind: "(\<And>a. ensures (f a) Q) \<Longrightarrow> ensures (st_bind m f) Q"
  by (simp add: wp_bind) (simp add: wp_def split: prod.splits sum.splits)

lemma ensures_seq: "ensures n Q \<Longrightarrow> ensures (st_seq m n) Q"
  by (simp add: st_seq_def ensures_bind)

lemma ensures_fail: "ensures (st_fail e) Q"
  by (simp add: wp_fail)

lemma ensures_cases:
  "(b \<Longrightarrow> ensures m Q) \<Longrightarrow> (\<not> b \<Longrightarrow> ensures n Q) \<Longrightarrow> ensures (if b then m else n) Q"
  "(\<And>a. ensures (f a) Q) \<Longrightarrow> (\<And>a. ensures (g a) Q) \<Longrightarrow> ensures (case x of Inl a \<Rightarrow> f a | Inr a \<Rightarrow> g a) Q"
  by (simp_all split: sum.splits)

lemma ensures_validate:
  "ensures (validateExt4Image p c) (\<lambda>_ d'. fits (node_at d' p) c)"
  "ensures (validateExt4ImageUUID p c u) (\<lambda>_ d'. fits (node_at d' p) c)"
proof -
  have "wp (validateExt4Image p c) (\<lambda>_ d'. fits (node_at d p) c) (\<lambda>_ _. True) d" for d
    using validate_image_fits by (auto simp: wp_run split: sum.splits)
  moreover have "wp (validateExt4ImageUUID p c u) (\<lambda>_ d'. fits (node_at d p) c) (\<lambda>_ _. True) d" for d
    using validate_fits by (auto simp: wp_run split: sum.splits)
  ultimately show "ensures (validateExt4Image p c) (\<lambda>_ d'. fits (node_at d' p) c)"
    "ensures (validateExt4ImageUUID p c u) (\<lambda>_ d'. fits (node_at d' p) c)"
    using same_reads(1,2) [THEN keepsD] by (fastforce simp: wp_run same_node_at split: sum.splits)+
qed

lemma clone_fits:
  assumes "cloneImage store src p m c op u d = (Inr x, d')"
  shows "fits (node_at d' p) c"
proof -
  have "ensures (cloneImage store src p m c op u) (\<lambda>_ d'. fits (node_at d' p) c)"
    unfolding cloneImage_def Let_def
    by (intro ensures_seq ensures_bind ensures_cases ensures_fail ensures_validate)
  from ensuresD [OF this assms] show ?thesis .
qed

lemma safe_first_generation:
  assumes "absent w d"
  shows "safe w (st_seq (cloneImage store src (versionPath w i) m c op u)
    (st_seq (publishCurrentManifest w (generationOneManifest w i c)) (st_return x))) d"
proof (rule absent_seq [OF assms])
  show "keeps (unchanged {currentManifestPath w}) (cloneImage store src (versionPath w i) m c op u)"
    by (intro frame) (auto simp: path_simps)
  fix d' assume "cloneImage store src (versionPath w i) m c op u d = (Inr (), d')" "absent w d'"
  then show "safe w (st_seq (publishCurrentManifest w (generationOneManifest w i c)) (st_return x)) d'"
    by (intro safe_seq_return safe_publish absent_current_ok)
      (auto simp: generationOneManifest_def dest: clone_fits)
qed

lemma files_templates: "workspace_files w \<inter> under ext4TemplatesRoot = {}" "{currentManifestPath w} \<inter> under ext4TemplatesRoot = {}"
  by (auto simp: path_simps workspace_files_def)

lemma layout_files: "keeps (unchanged (workspace_files w)) (ensureWorkspaceLayout w)"
  unfolding ensureWorkspaceLayout_def by (intro frame) (auto simp: path_simps workspace_files_def)

lemma safe_create:
  assumes "current_ok (WorkspaceID (crMutation r)) d"
  shows "safe (WorkspaceID (crMutation r)) (create_apply store r) d"
  unfolding create_apply_def Let_def
proof (rule safe_seq_frame [OF assms layout_files], rule try_selects, assumption, goal_cases)
  case (1 d1 m d2)
  then show ?case
    by simp (intro conjI impI safe_return sel_safe [OF 1(2)] frame selects_current_ok [OF 1(2)])
next
  case (2 d1 e d2)
  show ?case
    unfolding sum.case
  proof (intro safe_if safe_return 2(2))
    assume "\<not> \<not> errors_Is ErrWorkspaceNotFound e"
    then have "absent (WorkspaceID (crMutation r)) d2"
      using 2(3) by simp
    then show "safe (WorkspaceID (crMutation r)) (st_bind (ensureTemplate store (crCapacityBytes r)) (\<lambda>t.
        st_seq (cloneImage store t (versionPath (WorkspaceID (crMutation r)) (generationImageName 1 ''create''))
          writableImageMode (crCapacityBytes r) (OperationID (crMutation r)) (deterministicUUID store (WorkspaceID (crMutation r))))
        (st_seq (publishCurrentManifest (WorkspaceID (crMutation r)) (generationOneManifest (WorkspaceID (crMutation r))
          (generationImageName 1 ''create'') (crCapacityBytes r)))
          (st_return (zeroReceipt\<lparr>rcGeneration := 1, rcCapacityBytes := crCapacityBytes r\<rparr>))))) d2"
      by (rule absent_bind) (intro frame files_templates, rule safe_first_generation)
  qed
qed

lemma safe_clone:
  assumes "current_ok (WorkspaceID (clMutation r)) d"
  shows "safe (WorkspaceID (clMutation r)) (clone_apply store r) d"
  unfolding clone_apply_def Let_def
proof (rule safe_bind_frame [OF assms frame_documents(3)], rule safe_if, goal_cases)
  case (1 sm d1)
  then show ?case
    by (intro safe_return)
next
  case (2 sm d1)
  show ?case
  proof (rule safe_seq_frame [OF 2(2) frame_validate(2)], rule safe_seq_frame [OF _ layout_files], assumption,
      rule try_selects, assumption, goal_cases)
    case (1 d2 d3 m d4)
    then show ?case
      by simp (intro conjI impI safe_return sel_safe [OF 1(3)] frame selects_current_ok [OF 1(3)])
  next
    case (2 d2 d3 e d4)
    then show ?case
      by (simp only: sum.case) (intro safe_if safe_return safe_first_generation, simp_all)
  qed
qed

lemma safe_swap_target:
  assumes "selects w cm d1" "cmImage m = i" "cmCapacityBytes m = cmCapacityBytes cm"
  shows "safe w (st_bind (st_try (os_Lstat (versionPath w i))) (\<lambda>q.
      st_seq (case q of
         Inl e \<Rightarrow> if errors_Is ErrNotExist e
           then st_seq (wrapping (os_Rename (stagedImagePath w op) (versionPath w i)))
             (st_seq (syncDir (stagedDir w)) (syncDir (versionsDir w)))
           else st_fail (Wrapped e)
       | Inr _ \<Rightarrow> st_return ())
      (st_seq (validateExt4ImageUUID (versionPath w i) (cmCapacityBytes cm) u)
      (st_seq (wrapping (atomicJSON (rollbackPath w op) doc))
      (st_seq (syncDir (rollbackDir w))
      (st_seq (publishCurrentManifest w m) (st_return x))))))) d1"
proof (rule sel_bind [OF assms(1)], goal_cases)
  case 1
  show ?case
    by (intro frame)
next
  case (2 q d2)
  have "versionPath w i \<noteq> versionPath w (cmImage cm)" if "q = Inl e" "errors_Is ErrNotExist e" for e
    using 2(1) that assms(1) Lstat_result [of "versionPath w i" d1 q d2]
    by (auto simp: st_try_def st_catch_def st_return_def selects_def fits_def split: prod.splits)
  then have rename: "keeps (unchanged (selected_paths w cm)) (case q of
      Inl e \<Rightarrow> if errors_Is ErrNotExist e
        then st_seq (wrapping (os_Rename (stagedImagePath w op) (versionPath w i)))
          (st_seq (syncDir (stagedDir w)) (syncDir (versionsDir w)))
        else st_fail (Wrapped e)
    | Inr _ \<Rightarrow> st_return ())"
    by (intro frame) (auto simp: path_simps)
  have published: "safe w (st_seq (wrapping (atomicJSON (rollbackPath w op) doc))
      (st_seq (syncDir (rollbackDir w)) (st_seq (publishCurrentManifest w m) (st_return x)))) d3"
    if "selects w cm d3" "fits (node_at d3 (versionPath w i)) (cmCapacityBytes cm)" for d3
    by (rule sel_seq_fits [OF that], intro frame) (auto simp: path_simps assms(2,3)
      intro!: frame safe_seq_return safe_publish intro: selects_current_ok elim!: sel_seq_fits)
  show ?case
    by (rule sel_seq [OF 2(2) rename], rule sel_seq [OF _ frame_validate(2)], assumption)
      (auto intro!: published dest: ensuresD [OF ensures_validate(2)])
qed

lemma safe_swap:
  assumes "current_ok (WorkspaceID (prMutation r)) d"
  shows "safe (WorkspaceID (prMutation r)) (swap_apply store r) d"
  unfolding swap_apply_def Let_def
proof (rule safe_bind_frame [OF assms], goal_cases)
  case (2 staged d1)
  show ?case
    by (intro safe_if safe_return 2(2) read_selects [OF 2(2)] safe_swap_target)
      (auto intro: selects_current_ok intro!: sel_safe frame)
qed (intro frame)

section \<open>Commands\<close>

abbreviation keeps_selection :: "string \<Rightarrow> Disk \<Rightarrow> Disk \<Rightarrow> bool" where
  "keeps_selection w d d' \<equiv> current_ok w d \<longrightarrow> current_ok w d'"

interpretation selection: kept_relation "keeps_selection w" for w
  by unfold_locales auto

lemmas selection_combinators =
  keeps_cases selection.keeps_return selection.keeps_fail selection.keeps_catch selection.keeps_bind
  selection.keeps_seq selection.keeps_try

lemma selection_frame: "keeps (unchanged (workspace_files w)) m \<Longrightarrow> keeps (keeps_selection w) m"
  unfolding keeps_def by (blast intro: current_ok_unchanged)

lemma selection_safe: "(\<And>d. current_ok w d \<Longrightarrow> safe w m d) \<Longrightarrow> keeps (keeps_selection w) m"
  by (simp add: keeps_def safe_def)

lemma files_mutation_paths: "workspace_files w \<inter> mutation_paths v = {}"
  by (auto simp: path_simps workspace_files_def)

lemma selection_mutate:
  assumes "keeps (keeps_selection w) m"
  shows "keeps (keeps_selection w) (mutate store request mutation kind m)"
proof -
  note f = files_mutation_paths [of w]
  have steps: "keeps (keeps_selection w) ctx_Err" "keeps (keeps_selection w) (validateMutation mutation)"
    "keeps (keeps_selection w) (inputDigest store q t)" "keeps (keeps_selection w) (loadReceipt mutation digest kind)"
    "keeps (keeps_selection w) (lockWorkspace_file v)" "keeps (keeps_selection w) (ignoring (closeLockedFile v))"
    "keeps (keeps_selection w) (prepareReceiptDirectory mutation)" "keeps (keeps_selection w) (recordReceipt receipt b)"
    "keeps (keeps_selection w) (of_result x)" for q t digest v receipt b and x :: "(store_error, Receipt) result"
    by (intro selection_frame frame frame_lock frame_prepareReceiptDirectory frame_recordReceipt f)+
  show ?thesis
    unfolding mutate_def with_lock_def by (intro selection_combinators steps assms)
qed

end
