(* ===== verification/Workspace_System.thy ===== *)
theory Workspace_System
  imports Workspace_Safety
begin

text \<open>
  The properties of the WorkspaceStore as a whole, over its ten mutating
  operations (\<open>run_command\<close>): isolation, the selection of the current image
  under interruption, replay, fencing by the writer lock and by generation, and
  what a successful command has published.
\<close>

section \<open>Which paths a command may change\<close>

definition command_snapshots :: "store_command \<Rightarrow> path set" where
  "command_snapshots c = (case c of
     SnapshotCommand r \<Rightarrow> under (snapshotDir (csSnapshotID r))
   | DeleteSnapshotCommand r \<Rightarrow> under (snapshotDir (dsSnapshotID r))
   | DeleteCommand _ \<Rightarrow> under snapshotsRoot
   | _ \<Rightarrow> {})"

definition command_paths :: "store_command \<Rightarrow> path set" where
  "command_paths c = mutation_paths (WorkspaceID (command_mutation c)) \<union> workspace_paths (WorkspaceID (command_mutation c)) \<union>
     command_snapshots c \<union> (case c of CreateCommand _ \<Rightarrow> under ext4TemplatesRoot | _ \<Rightarrow> {})"

lemma staged_in_workspace: "under (stagedDir w) \<subseteq> workspace_paths w"
proof
  fix p assume "p \<in> under (stagedDir w)"
  then have "take (Suc (Suc (Suc 0))) p = stagedDir w"
    by (simp add: path_simps)
  then have "take (Suc (Suc 0)) (take (Suc (Suc (Suc 0))) p) = take (Suc (Suc 0)) (stagedDir w)"
    by simp
  then show "p \<in> workspace_paths w"
    by (simp add: path_simps)
qed

lemmas operation_defs =
  Create_def CloneFromSnapshot_def AdvanceGeneration_def CreateSnapshot_def DeleteSnapshot_def PrepareRestore_def
  SwapRestore_def FinalizeRestore_def AbortRestore_def DeleteWorkspace_def

lemma frame_run_command:
  assumes "S \<inter> command_paths c = {}"
  shows "keeps (unchanged S) (run_command store c)"
proof -
  have m: "S \<inter> mutation_paths (WorkspaceID (command_mutation c)) = {}"
    and w: "S \<inter> workspace_paths (WorkspaceID (command_mutation c)) = {}"
    and s: "S \<inter> under (stagedDir (WorkspaceID (command_mutation c))) = {}"
    using assms staged_in_workspace by (auto simp: command_paths_def)
  show ?thesis
    using m w s assms
    by (cases c) (auto simp: run_command_def command_mutation_def command_paths_def command_snapshots_def Int_Un_distrib
      operation_defs intro!: frame frame_apply)
qed


section \<open>The current manifest selects an image\<close>

lemma files_snapshots: "workspace_files w \<inter> command_snapshots c = {}" "workspace_files w \<inter> under (snapshotDir s) = {}"
  by (auto simp: command_snapshots_def path_simps workspace_files_def split: store_command.splits)

lemma selection_guarded:
  assumes "keeps (unchanged (workspace_files w)) g" "keeps (keeps_selection w) m"
  shows "keeps (keeps_selection w) (st_seq g m)"
  by (intro selection.keeps_seq selection_frame assms)

lemma selection_replayed:
  assumes "keeps (unchanged (workspace_files w)) g" "keeps (keeps_selection w) m"
  shows "keeps (keeps_selection w) (st_bind g (\<lambda>found. case found of Some x \<Rightarrow> st_return x | None \<Rightarrow> m))"
  by (intro selection_combinators selection_frame assms)

lemma selection_apply:
  "punch_keeps_size (reclaimHost store) \<Longrightarrow> keeps (keeps_selection (WorkspaceID (agMutation a))) (advance_apply store a)"
  "keeps (keeps_selection (WorkspaceID (crMutation b))) (create_apply store b)"
  "keeps (keeps_selection (WorkspaceID (clMutation e))) (clone_apply store e)"
  "keeps (keeps_selection (WorkspaceID (prMutation f))) (swap_apply store f)"
  "keeps (keeps_selection (WorkspaceID m)) (finalize_apply m)"
  by (intro selection_safe safe_advance safe_create safe_clone safe_swap safe_finalize; assumption)+

lemma selection_staged:
  assumes "keeps (unchanged ({currentManifestPath w} \<union> {versionPath w i | i. True})) m"
  shows "keeps (keeps_selection w) m"
  unfolding keeps_def
proof (intro allI impI)
  fix d assume ok: "current_ok w d"
  have m: "node_at (snd (m d)) (currentManifestPath w) = node_at d (currentManifestPath w)"
    using assms by (auto simp: keeps_def unchanged_def)
  have v: "node_at (snd (m d)) (versionPath w i) = node_at d (versionPath w i)" for i
    using assms by (auto simp: keeps_def unchanged_def)
  show "current_ok w (snd (m d))"
    using ok unfolding current_ok_def m v .
qed

lemma selection_own:
  assumes "punch_keeps_size (reclaimHost store)" "\<nexists>r. c = DeleteCommand r"
  shows "keeps (keeps_selection (WorkspaceID (command_mutation c))) (run_command store c)"
proof -
  have snapshots: "keeps (keeps_selection w) (create_snapshot_apply store r)" "keeps (keeps_selection w) (delete_snapshot_apply q)"
    for w r q by (intro selection_frame frame_apply files_snapshots)+
  have staged: "keeps (keeps_selection (WorkspaceID (prMutation r))) (prepare_apply store r)"
    "keeps (keeps_selection (WorkspaceID m)) (abort_apply m)" for r m
    by (intro selection_staged frame_apply; auto simp: path_simps)+
  show ?thesis
    using assms(2)
    by (cases c) (auto simp: run_command_def command_mutation_def operation_defs
      intro!: selection_replayed selection_guarded selection_mutate selection_apply snapshots staged assms(1)
        selection.keeps_fail frame)
qed

lemma selection_other:
  assumes "w \<noteq> WorkspaceID (command_mutation c)"
  shows "keeps (keeps_selection w) (run_command store c)"
proof (intro selection_frame frame_run_command)
  have "workspace_files w \<inter> workspace_paths (WorkspaceID (command_mutation c)) = {}"
    using assms by (auto simp: path_simps workspace_files_def)
  then show "workspace_files w \<inter> command_paths c = {}"
    using files_mutation_paths files_snapshots files_templates
    by (auto simp: command_paths_def Int_Un_distrib split: store_command.splits)
qed

text \<open>
  The states a store can be in, as far as Workspace \<open>w\<close> is concerned: it starts
  without a manifest; commands run, each possibly interrupted, and none of them
  deletes \<open>w\<close>; in between the clock, the locks and the failures to come are
  arbitrary, and a guest writes into an image without changing its size.
\<close>

definition guest_writes :: "path \<Rightarrow> (int \<Rightarrow> octet option) \<Rightarrow> int \<Rightarrow> Disk \<Rightarrow> Disk" where
  "guest_writes p bytes held d = (case node_at d p of
     Some (Reg m (Img i)) \<Rightarrow> put_node p (Reg m (Img (i\<lparr>content := bytes, sectors := held\<rparr>))) d
   | _ \<Rightarrow> d)"

inductive store_reachable :: "Store \<Rightarrow> string \<Rightarrow> Disk \<Rightarrow> bool" for store w where
  start: "absent w d \<Longrightarrow> store_reachable store w d"
| command: "store_reachable store w d \<Longrightarrow> (\<And>r. c = DeleteCommand r \<Longrightarrow> WorkspaceID (dwMutation r) \<noteq> w) \<Longrightarrow>
    run_command store c d = (r, d') \<Longrightarrow> store_reachable store w d'"
| environment: "store_reachable store w d \<Longrightarrow> store_reachable store w (d\<lparr>faults := fs, locks := ls, clock := t\<rparr>)"
| guest: "store_reachable store w d \<Longrightarrow> store_reachable store w (guest_writes p bytes held d)"

lemma current_ok_guest: "current_ok w d \<Longrightarrow> current_ok w (guest_writes p bytes held d)"
  by (auto simp: guest_writes_def current_ok_def node_at_put fits_def split: option.splits node.splits file_data.splits)


section \<open>Replay\<close>

definition digest_of :: "Store \<Rightarrow> octet list \<Rightarrow> Mutation \<Rightarrow> string" where
  "digest_of store request mutation =
     hex_EncodeToString (sha256 store (FencingToken mutation)) @ '':'' @ hex_EncodeToString (sha256 store request)"

text \<open>The receipt of an operation, as \<open>loadReceipt\<close> accepts it.\<close>

definition stored :: "Mutation \<Rightarrow> string \<Rightarrow> string \<Rightarrow> Receipt \<Rightarrow> Disk \<Rightarrow> bool" where
  "stored mutation kind digest r d \<longleftrightarrow>
     (\<exists>k. node_at d (receiptPath mutation kind) = Some (Reg k (ReceiptDoc r))) \<and> receipt_ok r \<and> rcKind r = kind \<and>
     rcOperationID r = OperationID mutation \<and> rcWorkspaceID r = WorkspaceID mutation \<and> rcInputDigest r = digest"

lemma stored_cong: "nodes d' = nodes d \<Longrightarrow> stored mutation kind digest r d \<Longrightarrow> stored mutation kind digest r d'"
  using node_at_def by (auto simp: stored_def)

definition mutation_ok :: "Mutation \<Rightarrow> bool" where
  "mutation_ok m \<longleftrightarrow> valid_id (OperationID m) \<and> valid_id (WorkspaceID m) \<and> 32 \<le> length (FencingToken m)"

lemma bind_success: "st_bind m f d = (Inr b, d') \<Longrightarrow> \<exists>a d1. m d = (Inr a, d1) \<and> f a d1 = (Inr b, d')"
  by (auto simp: st_bind_def split: prod.splits sum.splits)

lemma bind_successE:
  assumes "st_bind m f d = (Inr b, d')"
  obtains a d1 where "m d = (Inr a, d1)" "f a d1 = (Inr b, d')"
  using bind_success [OF assms] by blast

lemma seq_successE:
  assumes "st_seq m n d = (Inr b, d')"
  obtains d1 where "m d = (Inr (), d1)" "n d1 = (Inr b, d')"
  using seq_success [OF assms] by blast

lemma calm [simp]:
  assumes "faults d = []"
  shows "os_call d = (Inr (), d)" "ctx_Err d = (Inr (), d)"
    "os_Lstat p d = (case node_at d p of None \<Rightarrow> (Inl (Sentinel ErrNotExist), d) | Some n \<Rightarrow> (Inr n, d))"
  using assms by (auto simp: os_call_def ctx_Err_def os_Lstat_def env_fails_def st_bind_def st_seq_def st_return_def
      st_get_def st_fail_def split: option.splits)

lemma validateMutation_run:
  "validateMutation m d = (if \<not> valid_id (OperationID m) \<or> \<not> valid_id (WorkspaceID m) then (Inl (Sentinel ErrInvalidID), d)
     else if length (FencingToken m) < 32 then (Inl (Sentinel ErrStaleFence), d) else (Inr (), d))"
  by (simp add: validateMutation_def validateID_def st_seq_def st_bind_def st_guard_def st_return_def st_fail_def)

lemma inputDigest_run:
  "\<not> length (FencingToken m) < 32 \<Longrightarrow> inputDigest store request (FencingToken m) d = (Inr (digest_of store request m), d)"
  by (simp add: inputDigest_def digest_of_def st_return_def)

lemma same_loads: "keeps same_nodes (loadReceipt mutation digest kind)"
  unfolding loadReceipt_def loadAnyReceipt_def validateReceipt_def
  by (intro same_combinators same_calls same_reads)

lemma loadAnyReceipt_some:
  assumes "loadAnyReceipt mutation kind d = (Inr (Some r), d')"
  shows "stored mutation kind (rcInputDigest r) r d"
proof -
  have "wp (loadAnyReceipt mutation kind) (\<lambda>x _. \<forall>r. x = Some r \<longrightarrow> stored mutation kind (rcInputDigest r) r d) (\<lambda>_ _. True) d"
    unfolding loadAnyReceipt_def wp_bind wp_try
  proof (rule wp_keeps [OF same_reads(3)], goal_cases)
    case (1 r d')
    then show ?case
      using readJSON_result [OF 1(1)]
      by (auto simp: wp_simps wp_return_fun corrupt_def validateReceipt_def stored_def split: sum.splits)
  qed
  then show ?thesis
    using assms by (auto simp: wp_def)
qed

lemma loadReceipt_some:
  assumes "loadReceipt mutation digest kind d = (Inr (Some r), d')"
  shows "stored mutation kind digest r d'"
proof -
  obtain x d1 where x: "loadAnyReceipt mutation kind d = (Inr x, d1)"
    using assms unfolding loadReceipt_def by (auto dest: bind_success)
  have "x = Some r \<and> rcInputDigest r = digest"
    using assms unfolding loadReceipt_def
    by (auto simp: st_bind_def x st_return_def st_fail_def corrupt_def split: option.splits prod.splits if_splits)
  then have "stored mutation kind digest r d"
    using loadAnyReceipt_some x by auto
  then show ?thesis
    using keepsD [OF same_loads assms] by (simp add: stored_def same_node_at)
qed

lemma loadReceipt_stored:
  assumes "stored mutation kind digest r d" "faults d = []"
  shows "loadReceipt mutation digest kind d = (Inr (Some r), d)"
proof -
  have "validOperationDigest digest"
    using assms(1) by (auto simp: stored_def receipt_ok_def)
  then obtain f q where "string_Cut (CHR '':'') digest = Some (f, q)"
    by (auto simp: validOperationDigest_def split: option.splits)
  then show ?thesis
    using assms
    by (auto simp: loadReceipt_def loadAnyReceipt_def readJSON_def os_Open_def stored_def validateReceipt_def
        st_bind_def st_seq_def st_try_def st_catch_def st_return_def as_receipt_def)
qed

lemma recordReceipt_stores:
  assumes "recordReceipt receipt b d = (Inr r, d')" "rcOperationID receipt = OperationID mutation"
    "rcWorkspaceID receipt = WorkspaceID mutation"
  shows "stored mutation (rcKind receipt) (rcInputDigest receipt) r d'"
proof -
  define r' where "r' = receipt\<lparr>rcFormatVersion := receiptFormatVersion, rcRecordedAt := clock d\<rparr>"
  define p where "p = receiptPath \<lparr>OperationID = rcOperationID r', WorkspaceID = rcWorkspaceID r', FencingToken = []\<rparr> (rcKind r')"
  obtain n where run: "st_seq (validateReceipt r') (st_seq n (st_seq (wrapping (atomicJSON p (ReceiptDoc r'))) (st_return r'))) d
      = (Inr r, d')"
    using assms(1) unfolding recordReceipt_def Let_def st_bind_def [of "st_get clock"] st_get_def
    by (simp add: p_def r'_def)
  then obtain d1 d2 d3 where steps: "validateReceipt r' d = (Inr (), d1)"
    "wrapping (atomicJSON p (ReceiptDoc r')) d2 = (Inr (), d3)" "(st_return r' :: Receipt os) d3 = (Inr r, d')"
    by (elim seq_successE) (rule that)
  have ok: "receipt_ok r'"
    using steps(1) by (auto simp: validateReceipt_def corrupt_def st_fail_def split: if_splits)
  have r: "r = r'" "d' = d3"
    using steps(3) by (auto simp: st_return_def)
  have "p \<noteq> []"
    by (simp add: p_def receiptPath_def)
  then have "wp (wrapping (atomicJSON p (ReceiptDoc r'))) (\<lambda>_ d'. node_at d' p = Some (Reg 384 (ReceiptDoc r'))) (\<lambda>_ _. True) d2"
    unfolding wp_wrapping by (rule wp_mono [OF atomicJSON_atomic]) simp_all
  then have "node_at d3 p = Some (Reg 384 (ReceiptDoc r'))"
    using steps(2) by (simp add: wp_def)
  then show ?thesis
    using assms(2,3) ok r by (simp add: stored_def receiptPath_def p_def r'_def)
qed

lemma with_lock_success:
  fixes m :: "'a os"
  assumes "with_lock w m d = (Inr a, d')"
  shows "\<exists>d1 d2. m d1 = (Inr a, d2) \<and> nodes d' = nodes d2"
proof -
  obtain d1 r d2 d3 where m: "(st_try m :: (store_error, 'a) result os) d1 = (Inr r, d2)"
    and close: "ignoring (closeLockedFile w) d2 = (Inr (), d3)" "of_result r d3 = (Inr a, d')"
    using assms unfolding with_lock_def by (elim seq_successE bind_successE) (rule that)
  have "wp (ignoring (closeLockedFile w)) (\<lambda>_ d. nodes d = nodes d2) (\<lambda>_ d. nodes d = nodes d2) d2"
    unfolding ignoring_def closeLockedFile_def by (auto simp: wp_simps wp_return_fun wp_modify intro!: wp_os_call)
  then have "nodes d3 = nodes d2"
    using close(1) by (simp add: wp_def)
  moreover have "r = Inr a" "d' = d3"
    using close(2) by (auto simp: of_result_def st_return_def st_fail_def split: sum.splits)
  moreover have "m d1 = (Inr a, d2)"
    using m \<open>r = Inr a\<close> by (auto simp: st_try_def st_catch_def st_return_def split: prod.splits)
  ultimately show ?thesis
    by auto
qed

definition first_run :: "Mutation \<Rightarrow> string \<Rightarrow> string \<Rightarrow> Receipt os \<Rightarrow> Receipt os" where
  "first_run mutation kind digest m =
     st_bind (loadReceipt mutation digest kind) (\<lambda>found. case found of
       Some receipt \<Rightarrow> st_return receipt
     | None \<Rightarrow>
         st_bind (if kind \<noteq> ReceiptWorkspaceDelete then st_try (prepareReceiptDirectory mutation) else st_return (Inr ()))
           (\<lambda>preparation. st_bind (st_try m) (\<lambda>r. case r of
              Inl err \<Rightarrow>
                if kind \<noteq> ReceiptWorkspaceDelete
                then st_fail (Joined (err # (case preparation of Inl e \<Rightarrow> [e] | Inr _ \<Rightarrow> [])))
                else st_fail err
            | Inr receipt \<Rightarrow>
                (case preparation of
                   Inl e \<Rightarrow> st_fail e
                 | Inr _ \<Rightarrow>
                     recordReceipt (receipt\<lparr>rcKind := kind, rcOperationID := OperationID mutation,
                         rcWorkspaceID := WorkspaceID mutation, rcInputDigest := digest\<rparr>)
                       (kind \<noteq> ReceiptWorkspaceDelete)))))"

lemma first_run_stores:
  assumes "first_run mutation kind digest m d = (Inr r, d')"
  shows "stored mutation kind digest r d'"
proof -
  obtain found d1 where f: "loadReceipt mutation digest kind d = (Inr found, d1)"
    using assms unfolding first_run_def by (auto dest: bind_success)
  show ?thesis
  proof (cases found)
    case (Some x)
    then show ?thesis
      using assms f loadReceipt_some unfolding first_run_def by (auto simp: st_bind_def st_return_def)
  next
    case None
    then obtain x d2 where "recordReceipt (x\<lparr>rcKind := kind, rcOperationID := OperationID mutation,
        rcWorkspaceID := WorkspaceID mutation, rcInputDigest := digest\<rparr>) (kind \<noteq> ReceiptWorkspaceDelete) d2 = (Inr r, d')"
      using assms f unfolding first_run_def
      by (auto simp: st_fail_def dest!: bind_success split: option.splits sum.splits if_splits)
    from recordReceipt_stores [OF this] show ?thesis
      by simp
  qed
qed

lemma mutate_success:
  assumes "mutate store request mutation kind m d = (Inr r, d')"
  shows "mutation_ok mutation" "stored mutation kind (digest_of store request mutation) r d'"
proof -
  obtain d1 where v: "validateMutation mutation d1 = (Inr (), d1)"
      "st_bind (inputDigest store request (FencingToken mutation)) (\<lambda>digest.
         st_bind (loadReceipt mutation digest kind) (\<lambda>found. case found of
           Some receipt \<Rightarrow> st_return receipt
         | None \<Rightarrow> with_lock (WorkspaceID mutation) (first_run mutation kind digest m))) d1 = (Inr r, d')"
    using assms unfolding mutate_def first_run_def
    by (auto simp: validateMutation_run dest!: seq_success split: if_splits)
  show ok: "mutation_ok mutation"
    using v(1) by (auto simp: validateMutation_run mutation_ok_def split: if_splits)
  let ?g = "digest_of store request mutation"
  obtain found d2 where f: "loadReceipt mutation ?g kind d1 = (Inr found, d2)"
      "(case found of Some receipt \<Rightarrow> st_return receipt
        | None \<Rightarrow> with_lock (WorkspaceID mutation) (first_run mutation kind ?g m)) d2 = (Inr r, d')"
    using v(2) ok by (auto simp: mutation_ok_def inputDigest_run st_bind_def [of "inputDigest _ _ _"] dest!: bind_success)
  show "stored mutation kind ?g r d'"
  proof (cases found)
    case None
    then obtain d3 d4 where "first_run mutation kind ?g m d3 = (Inr r, d4)" "nodes d' = nodes d4"
      using f(2) by (auto dest: with_lock_success)
    then show ?thesis
      by (blast intro: stored_cong first_run_stores)
  next
    case (Some x)
    then show ?thesis
      using f loadReceipt_some by (auto simp: st_return_def)
  qed
qed

lemma replay_success:
  assumes "replay store request mutation kind d = (Inr (Some r), d')"
  shows "stored mutation kind (digest_of store request mutation) r d'"
proof -
  obtain d1 where "validateMutation mutation d1 = (Inr (), d1)"
    "st_bind (inputDigest store request (FencingToken mutation)) (\<lambda>digest. loadReceipt mutation digest kind) d1 = (Inr (Some r), d')"
    using assms unfolding replay_def by (auto simp: validateMutation_run elim!: seq_successE split: if_splits)
  then show ?thesis
    by (auto simp: validateMutation_run inputDigest_run st_bind_def loadReceipt_some split: if_splits)
qed

lemma mutate_replays:
  assumes "mutation_ok mutation" "stored mutation kind (digest_of store request mutation) r d" "faults d = []"
  shows "mutate store request mutation kind m d = (Inr r, d)"
    "replay store request mutation kind d = (Inr (Some r), d)"
  using assms loadReceipt_stored [OF assms(2,3)]
  by (simp_all add: mutate_def replay_def st_seq_def st_bind_def validateMutation_run mutation_ok_def inputDigest_run
      st_return_def not_less)

text \<open>The checks on the request alone, before the store looks at the disk.\<close>

definition command_admitted :: "store_command \<Rightarrow> bool" where
  "command_admitted c = (case c of
     CreateCommand r \<Rightarrow> \<not> crCapacityBytes r < minimumExt4Bytes
   | CloneCommand r \<Rightarrow> \<not> clCapacityBytes r < minimumExt4Bytes \<and> valid_id (clSourceSnapshot r)
   | AdvanceCommand r \<Rightarrow> agNextGeneration r = u64 (agExpectedGeneration r + 1)
   | SnapshotCommand r \<Rightarrow> valid_id (csSnapshotID r)
   | DeleteSnapshotCommand r \<Rightarrow> valid_id (dsSnapshotID r)
   | PrepareCommand r \<Rightarrow> valid_id (prSnapshotID r) \<and>
       \<not> (prExpectedGeneration r < 1 \<or> prNextGeneration r \<noteq> u64 (prExpectedGeneration r + 1))
   | SwapCommand r \<Rightarrow> valid_id (prSnapshotID r) \<and>
       \<not> (prExpectedGeneration r < 1 \<or> prNextGeneration r \<noteq> u64 (prExpectedGeneration r + 1))
   | _ \<Rightarrow> True)"

lemma validateID_run: "validateID s d = (if valid_id s then (Inr (), d) else (Inl (Sentinel ErrInvalidID), d))"
  by (simp add: validateID_def st_guard_def st_return_def st_fail_def)

lemma guard_run: "st_guard b e d = (if b then (Inr (), d) else (Inl e, d))"
  by (simp add: st_guard_def st_return_def st_fail_def)

lemma seq_run: "st_seq m n d = (case m d of (Inl e, d') \<Rightarrow> (Inl e, d') | (Inr _, d') \<Rightarrow> n d')"
  by (auto simp: st_seq_def st_bind_def split: prod.splits sum.splits)

lemmas admission_defs =
  run_command_def command_admitted_def command_mutation_def command_kind_def command_request_def operation_defs
  validateRestoreRequest_def ReplayCreate_def ReplayCloneFromSnapshot_def

lemma restore_guard_run:
  "validateRestoreRequest m s e n d =
     (if \<not> valid_id (OperationID m) \<or> \<not> valid_id (WorkspaceID m) then (Inl (Sentinel ErrInvalidID), d)
      else if length (FencingToken m) < 32 then (Inl (Sentinel ErrStaleFence), d)
      else if \<not> valid_id s then (Inl (Sentinel ErrInvalidID), d)
      else if e < 1 \<or> n \<noteq> u64 (e + 1) then (Inl (Sentinel ErrStaleGeneration), d) else (Inr (), d))"
  by (simp add: validateRestoreRequest_def seq_run validateMutation_run validateID_run guard_run)

lemma replay_or_mutate_success:
  assumes "st_bind (replay store q m k) (\<lambda>found. case found of Some x \<Rightarrow> st_return x | None \<Rightarrow> mutate store q m k n) d = (Inr r, d')"
  shows "mutation_ok m \<and> stored m k (digest_of store q m) r d'"
proof -
  obtain found d2 where f: "replay store q m k d = (Inr found, d2)"
    "(case found of Some x \<Rightarrow> st_return x | None \<Rightarrow> mutate store q m k n) d2 = (Inr r, d')"
    using assms by (rule bind_successE)
  have "mutation_ok m"
    using f(1) unfolding replay_def
    by (auto simp: seq_run validateMutation_run mutation_ok_def split: prod.splits sum.splits if_splits)
  then show ?thesis
    using f mutate_success replay_success by (cases found) (auto simp: st_return_def)
qed

lemma command_success:
  assumes "run_command store c d = (Inr r, d')"
  shows "command_admitted c" "mutation_ok (command_mutation c)"
    "stored (command_mutation c) (command_kind c) (digest_of store (command_request c) (command_mutation c)) r d'"
proof -
  have "command_admitted c \<and> mutation_ok (command_mutation c) \<and>
    stored (command_mutation c) (command_kind c) (digest_of store (command_request c) (command_mutation c)) r d'"
    using assms
    by (cases c) (auto simp: run_command_def command_admitted_def command_mutation_def command_kind_def command_request_def
        operation_defs restore_guard_run ReplayCreate_def ReplayCloneFromSnapshot_def seq_run validateID_run guard_run st_fail_def
        st_bind_def [of "st_seq _ _"] replay_or_mutate_success [unfolded st_bind_def]
        split: if_splits prod.splits sum.splits dest: mutate_success)
  then show "command_admitted c" "mutation_ok (command_mutation c)"
    "stored (command_mutation c) (command_kind c) (digest_of store (command_request c) (command_mutation c)) r d'"
    by simp_all
qed

text \<open>
  C28: a command that has succeeded is idempotent: as long as its receipt is on
  the disk, the same command returns the same receipt and changes nothing,
  whatever else has happened in between and even while a writer holds the lock.
\<close>

theorem commands_idempotent:
  assumes "run_command store c d = (Inr r, d1)" "faults d2 = []"
    and "node_at d2 (receiptPath (command_mutation c) (command_kind c)) =
      node_at d1 (receiptPath (command_mutation c) (command_kind c))"
  shows "run_command store c d2 = (Inr r, d2)"
proof -
  note s = command_success [OF assms(1)]
  have "stored (command_mutation c) (command_kind c) (digest_of store (command_request c) (command_mutation c)) r d2"
    using s(3) assms(3) by (simp add: stored_def)
  note replays = mutate_replays [OF s(2) this assms(2)]
  show ?thesis
    using s(1,2) replays
    by (cases c) (simp_all add: run_command_def command_admitted_def command_mutation_def command_kind_def command_request_def
        operation_defs restore_guard_run ReplayCreate_def ReplayCloneFromSnapshot_def seq_run validateID_run guard_run
        st_bind_def [of "st_seq _ _"] st_return_def mutation_ok_def not_less)
qed

section \<open>Conflicting replays\<close>

lemma hex_digit_value:
  assumes "0 \<le> n" "n < 16"
  shows "hex_value (hex_digit n) = Some n"
proof -
  have "list_all (\<lambda>n. hex_value (hex_digit n) = Some n) [0..15]"
    by code_simp
  then show ?thesis
    using assms by (simp add: list_all_iff)
qed

lemma octet_halves:
  fixes b :: octet
  shows "0 \<le> uint b div 16" "uint b div 16 < 16" "0 \<le> uint b mod 16" "uint b mod 16 < 16"
proof -
  have b: "0 \<le> uint b" "uint b < 256"
    using unsigned_greater_eq [of b] unsigned_less [of b, where 'a = int] by simp_all
  show "0 \<le> uint b div 16"
    using b(1) by (simp add: pos_imp_zdiv_nonneg_iff)
  show m: "0 \<le> uint b mod 16" "uint b mod 16 < 16"
    by simp_all
  have "16 * (uint b div 16) + uint b mod 16 = uint b"
    by (rule mult_div_mod_eq)
  then show "uint b div 16 < 16"
    using b(2) m(1) by linarith
qed

text \<open>Decoding inverts encoding, so a digest determines the bytes.\<close>

lemma hex_round_trip: "hex_DecodeString (hex_EncodeToString bs) = Some bs"
proof (induction bs)
  case (Cons b bs)
  have "16 * (uint b div 16) + uint b mod 16 = uint b"
    by (rule mult_div_mod_eq)
  then show ?case
    using Cons by (simp add: hex_EncodeToString_def hex_digit_value octet_halves)
qed (simp add: hex_EncodeToString_def)

lemma hex_inj: "hex_EncodeToString a = hex_EncodeToString b \<longleftrightarrow> a = b"
  using hex_round_trip by (metis option.inject)

lemma hex_no_colon: "CHR '':'' \<notin> set (hex_EncodeToString bs)"
proof -
  have colon: "CHR '':'' \<noteq> hex_digit n" if "0 \<le> n" "n < 16" for n
  proof
    assume "CHR '':'' = hex_digit n"
    then have "hex_value (CHR '':'') = Some n"
      using hex_digit_value [OF that] by simp
    then show False
      by (simp add: hex_value_def)
  qed
  show ?thesis
    by (auto simp: hex_EncodeToString_def colon octet_halves)
qed

lemma cut_digest:
  "string_Cut (CHR '':'') (hex_EncodeToString a @ '':'' @ hex_EncodeToString b) = Some (hex_EncodeToString a, hex_EncodeToString b)"
  using hex_no_colon [of a] by (auto simp: string_Cut_def takeWhile_append dropWhile_append)

lemma loadReceipt_conflict:
  assumes "stored m0 kind (digest_of store q0 m0) r d" "faults d = []" "OperationID m = OperationID m0"
    "WorkspaceID m = WorkspaceID m0" "digest_of store q m \<noteq> digest_of store q0 m0"
  shows "loadReceipt m (digest_of store q m) kind d =
    (Inl (Sentinel (if sha256 store (FencingToken m) = sha256 store (FencingToken m0) then ErrConflictingReplay else ErrStaleFence)), d)"
proof -
  have p: "receiptPath m kind = receiptPath m0 kind"
    using assms(3,4) by (simp add: receiptPath_def)
  show ?thesis
    using assms
    by (auto simp: loadReceipt_def loadAnyReceipt_def readJSON_def os_Open_def stored_def validateReceipt_def p
        st_bind_def st_seq_def st_try_def st_catch_def st_return_def st_fail_def as_receipt_def digest_of_def cut_digest
        [simplified] hex_inj)
qed


end
