(* ===== verification/Workspace_Fencing.thy ===== *)
theory Workspace_Fencing
  imports Workspace_System
begin

text \<open>
  What keeps a command out of a WorkspaceStore: the writer lock of an open
  attachment and the generation of the current manifest; and what a command
  that got in has published.
\<close>

section \<open>The writer lock\<close>

definition lockPath :: "string \<Rightarrow> path" where
  "lockPath w = locksRoot @ [w @ ''.lock'']"

definition writer_holds :: "string \<Rightarrow> Disk \<Rightarrow> bool" where
  "writer_holds w d \<longleftrightarrow> w \<in> set (locks d) \<and> (\<exists>k x. node_at d (lockPath w) = Some (Reg k x))"

lemma lockPath_nonempty: "lockPath w \<noteq> []"
  by (simp add: lockPath_def)

lemma wp_Create:
  assumes "\<And>d'. node_at d' p = Some (Reg m x) \<Longrightarrow> Q () d'" "\<And>e d'. E e d'"
  shows "wp (os_Create p m x) Q E d"
  unfolding os_Create_def
  by (auto simp: wp_simps wp_get parent_ok_def node_at_put split: prod.splits intro!: wp_os_call assms)

lemma ensures_open_or_create: "ensures (open_or_create p) (\<lambda>_ d'. \<exists>k x. node_at d' p = Some (Reg k x))"
proof
  fix d
  have "wp (os_Open p) (\<lambda>_ d'. \<exists>k x. node_at d' p = Some (Reg k x)) (\<lambda>_ _. True) d"
    unfolding os_Open_def wp_bind
    by (rule wp_Lstat) (auto simp: wp_simps same_node_at split: node.splits)
  then show "wp (open_or_create p) (\<lambda>_ d'. \<exists>k x. node_at d' p = Some (Reg k x)) (\<lambda>_ _. True) d"
    unfolding open_or_create_def by (auto simp: wp_simps wp_return_fun intro!: wp_Create)
qed

lemma lockWorkspace_file_holds:
  assumes "lockWorkspace_file w d = (Inr u, d')"
  shows "writer_holds w d'"
proof -
  obtain d1 d2 where steps: "wrapping (open_or_create (lockPath w)) d1 = (Inr (), d2)" "TryLock w d2 = (Inr (), d')"
    using assms unfolding lockWorkspace_file_def lockPath_def
    by (auto simp: st_catch_def st_return_def st_bind_def st_fail_def split: prod.splits sum.splits elim!: seq_successE)
  have ensures_wrapped: "ensures (wrapping (open_or_create (lockPath w))) (\<lambda>_ d'. \<exists>k x. node_at d' (lockPath w) = Some (Reg k x))"
    using ensures_open_or_create by (simp add: wp_wrapping)
  have "\<exists>k x. node_at d2 (lockPath w) = Some (Reg k x)"
    using ensures_wrapped steps(1) by (rule ensuresD)
  then have "wp (TryLock w) (\<lambda>_. writer_holds w) (\<lambda>_ _. True) d2"
    unfolding TryLock_def by (auto simp: wp_simps wp_get writer_holds_def intro!: wp_os_call)
  then show ?thesis
    using steps(2) by (simp add: wp_def)
qed

lemma same_open_locked: "keeps same_nodes (open_locked store w g)"
proof -
  have "keeps same_nodes (stagedRestorePending w)"
    unfolding stagedRestorePending_def by (intro same_combinators same_calls)
  then show ?thesis
    unfolding open_locked_def validatedVersionPath_def by (intro same_combinators same_calls same_reads)
qed

lemma on_failure_success:
  assumes "on_failure c m d = (Inr a, d')"
  shows "m d = (Inr a, d')"
proof (cases "m d")
  case (Pair r d1)
  have "st_seq n (st_fail e) d1 \<noteq> (Inr a, d')" for n e
    by (auto simp: seq_run st_fail_def split: prod.splits sum.splits)
  then show ?thesis
    using assms by (cases r) (auto simp: Pair on_failure_def st_catch_def st_return_def)
qed

lemma Open_holds:
  assumes "Open store w g d = (Inr a, d')"
  shows "writer_holds w d'"
proof -
  obtain d1 d2 where lock: "lockWorkspace_file w d1 = (Inr (), d2)"
    "on_failure (closeLockedFile w) (open_locked store w g) d2 = (Inr a, d')"
    using assms unfolding Open_def by (elim seq_successE) (rule that)
  have "open_locked store w g d2 = (Inr a, d')"
    using lock(2) by (rule on_failure_success)
  then have same: "same_nodes d2 d'"
    by (rule keepsD [OF same_open_locked])
  then have "locks d' = locks d2"
    by (simp add: same_nodes_def)
  with lockWorkspace_file_holds [OF lock(1)] same_node_at [OF same] show ?thesis
    by (simp add: writer_holds_def)
qed

lemma busy_lock:
  assumes "writer_holds w d" "valid_id w" "faults d = []"
  shows "lockWorkspace_file w d = (Inl (Joined [Sentinel ErrActiveWriter]), d)"
  using assms
  by (auto simp: lockWorkspace_file_def writer_holds_def lockPath_def seq_run validateID_run open_or_create_def exists_at_def
      TryLock_def os_Open_def wrapping_def st_catch_def st_bind_def st_get_def st_try_def st_return_def st_fail_def)

lemma no_receipt:
  assumes "node_at d (receiptPath mutation kind) = None" "faults d = []"
  shows "loadReceipt mutation digest kind d = (Inr None, d)"
  using assms
  by (simp add: loadReceipt_def loadAnyReceipt_def readJSON_def os_Open_def st_bind_def st_try_def st_catch_def st_return_def)


section \<open>The generation fence\<close>

text \<open>The generations a command accepts in the current manifest.\<close>

definition accepts_generation :: "store_command \<Rightarrow> int \<Rightarrow> bool" where
  "accepts_generation c g = (case c of
     AdvanceCommand r \<Rightarrow> g = agExpectedGeneration r \<or> g = agNextGeneration r
   | SnapshotCommand r \<Rightarrow> g = csExpectedGeneration r
   | PrepareCommand r \<Rightarrow> g = prExpectedGeneration r
   | SwapCommand r \<Rightarrow> g = prExpectedGeneration r \<or> g = prNextGeneration r
   | DeleteCommand r \<Rightarrow> g = dwExpectedGeneration r
   | _ \<Rightarrow> True)"

abbreviation refused :: "'a os \<Rightarrow> Disk \<Rightarrow> bool" where
  "refused m d \<equiv> wp m (\<lambda>_ _. False) (\<lambda>_ d'. same_nodes d d') d"

lemma wp_current:
  assumes "node_at d (currentManifestPath w) = Some (Reg k (CurrentDoc cm))"
    and "\<And>d'. same_nodes d d' \<Longrightarrow> Q cm d'" "\<And>e d'. same_nodes d d' \<Longrightarrow> \<not> errors_Is ErrWorkspaceNotFound e \<Longrightarrow> E e d'"
  shows "wp (readCurrentManifest w) Q E d"
  by (rule wp_readCurrentManifest) (use assms in auto)

lemma refused_read:
  assumes "node_at d (currentManifestPath w) = Some (Reg k (CurrentDoc cm))"
    and "f cm = st_fail e"
  shows "refused (st_bind (readCurrentManifest w) f) d"
  unfolding wp_bind by (rule wp_current [OF assms(1)]) (simp_all add: assms(2) wp_fail)

lemma same_staged: "keeps same_nodes (readStagedRestore w op)"
  unfolding readStagedRestore_def validatedVersionPath_def by (intro same_combinators same_calls same_reads)

lemma refused_swap:
  assumes "node_at d (currentManifestPath (WorkspaceID (prMutation r))) = Some (Reg k (CurrentDoc cm))"
    and "cmGeneration cm \<noteq> prExpectedGeneration r" "cmGeneration cm \<noteq> prNextGeneration r"
  shows "refused (swap_apply store r) d"
  unfolding swap_apply_def Let_def wp_bind [of "st_catch _ _"]
proof (rule wp_rel [where R = same_nodes], goal_cases)
  case 1
  show ?case
    by (intro same_combinators same_staged same_calls)
next
  case (2 staged d')
  then have m: "node_at d' (currentManifestPath (WorkspaceID (prMutation r))) = Some (Reg k (CurrentDoc cm))"
    using assms(1) by (simp add: same_node_at)
  show ?case
    unfolding wp_if wp_bind [of "readCurrentManifest _"]
    using assms(2,3) same.trans [OF 2] 2 by (auto simp: wp_fail intro!: wp_current [OF m])
qed

lemma refused_apply:
  assumes "node_at d (currentManifestPath (WorkspaceID (command_mutation c))) = Some (Reg k (CurrentDoc cm))"
    and "\<not> accepts_generation c (cmGeneration cm)"
  shows "case c of AdvanceCommand r \<Rightarrow> refused (advance_apply store r) d
    | SnapshotCommand r \<Rightarrow> refused (create_snapshot_apply store r) d
    | PrepareCommand r \<Rightarrow> refused (prepare_apply store r) d
    | SwapCommand r \<Rightarrow> refused (swap_apply store r) d
    | DeleteCommand r \<Rightarrow> refused (delete_workspace_apply r) d
    | _ \<Rightarrow> True"
proof (cases c)
  case (AdvanceCommand r)
  then show ?thesis
    using assms by (simp add: advance_apply_def Let_def refused_read command_mutation_def accepts_generation_def)
next
  case (SnapshotCommand r)
  then show ?thesis
    using assms by (simp add: create_snapshot_apply_def Let_def refused_read command_mutation_def accepts_generation_def)
next
  case (PrepareCommand r)
  then show ?thesis
    using assms by (simp add: prepare_apply_def Let_def refused_read command_mutation_def accepts_generation_def)
next
  case (SwapCommand r)
  then show ?thesis
    using assms by (simp add: refused_swap command_mutation_def accepts_generation_def)
next
  case (DeleteCommand r)
  then show ?thesis
    using assms unfolding delete_workspace_apply_def Let_def
    by (auto simp: wp_bind wp_try wp_fail command_mutation_def accepts_generation_def intro!: wp_current)
qed simp_all

lemma load_absent:
  assumes "node_at d (receiptPath mutation kind) = None"
  shows "wp (loadReceipt mutation digest kind) (\<lambda>x d'. x = None \<and> same_nodes d d') (\<lambda>_. same_nodes d) d"
proof (rule wp_keeps [OF same_loads])
  fix r d' assume r: "loadReceipt mutation digest kind d = (r, d')" "same_nodes d d'"
  then show "case r of Inr x \<Rightarrow> x = None \<and> same_nodes d d' | Inl e \<Rightarrow> same_nodes d d'"
    using assms loadReceipt_some [of mutation digest kind d]
    by (cases r; cases "projr r") (auto simp: stored_def same_node_at)
qed

lemma frame_lock_only: "keeps (unchanged (- {lockPath w})) (lockWorkspace_file w)"
  unfolding lockWorkspace_file_def open_or_create_def TryLock_def by (intro frame) (simp_all add: lockPath_def)

text \<open>A command whose action is refused on the disk it finds fails, and only touches the paths of \<open>mutate\<close>.\<close>

lemma first_run_refused:
  assumes "S \<inter> mutation_paths (WorkspaceID mutation) = {}" "unchanged S d d1"
    and "node_at d1 (receiptPath mutation kind) = None" "\<And>d2. unchanged S d d2 \<Longrightarrow> refused m d2"
  shows "wp (first_run mutation kind digest m) (\<lambda>_ _. False) (\<lambda>_. unchanged S d) d1"
  unfolding first_run_def wp_bind [of "loadReceipt _ _ _"]
proof (rule wp_mono [OF load_absent [OF assms(3)]], goal_cases)
  case (1 x d2)
  then have d2: "unchanged S d d2"
    using assms(2) same_unchanged unchanged_trans by blast
  have "keeps (unchanged S) (if kind \<noteq> ReceiptWorkspaceDelete then st_try (prepareReceiptDirectory mutation) else st_return (Inr ()))"
    by (intro frame frame_prepareReceiptDirectory assms(1))
  then show ?case
    unfolding conjunct1 [OF 1] option.case wp_bind [of "if _ then _ else _"] wp_bind [of "st_try m"] wp_try
  proof (rule wp_rel, goal_cases)
    case (1 p d3)
    then have d3: "unchanged S d d3"
      by (rule unchanged_trans [OF d2])
    show ?case
      by (rule wp_mono [OF assms(4) [OF d3]]) (auto simp: wp_fail dest: same_unchanged intro: unchanged_trans [OF d3])
  qed (rule unchanged_trans [OF d2])
qed (use assms(2) same_unchanged unchanged_trans in blast)

lemma mutate_refused:
  assumes "S = - mutation_paths (WorkspaceID mutation)" "node_at d (receiptPath mutation kind) = None"
    and "\<And>d1. unchanged S d d1 \<Longrightarrow> refused m d1"
  shows "wp (mutate store request mutation kind m) (\<lambda>_ _. False) (\<lambda>_. unchanged S d) d"
proof -
  let ?w = "WorkspaceID mutation"
  have disjoint: "S \<inter> mutation_paths ?w = {}" and lock: "S \<subseteq> - {lockPath ?w}" "receiptPath mutation kind \<noteq> lockPath ?w"
    using assms(1) by (auto simp: mutation_paths_def lockPath_def receiptPath_def path_simps)
  have locked: "wp (with_lock ?w (first_run mutation kind digest m)) (\<lambda>_ _. False) (\<lambda>_. unchanged S d) d1"
    if "same_nodes d d1" for digest d1
    unfolding with_lock_def wp_seq [of "lockWorkspace_file _"] wp_bind wp_try
  proof (rule wp_rel [OF frame_lock_only], goal_cases)
    case (1 u d2)
    then have d2: "unchanged S d d2" "node_at d2 (receiptPath mutation kind) = None"
      using lock assms(2) that by (auto simp: unchanged_def same_node_at)
    have "wp (st_seq (ignoring (closeLockedFile ?w)) (of_result (Inl e))) (\<lambda>_ _. False) (\<lambda>_. unchanged S d) d3"
      if "unchanged S d d3" for e d3
      unfolding wp_seq of_result_def
      by (rule wp_rel [where R = "unchanged S"]) (intro frame frame_lock disjoint, auto simp: wp_fail intro: unchanged_trans [OF that])
    then show ?case
      by (intro wp_mono [OF first_run_refused [OF disjoint d2 assms(3)]]) auto
  next
    case (2 e d2)
    then show ?case
      using lock that by (auto simp: unchanged_def same_node_at)
  qed
  have loaded: "wp (st_bind (loadReceipt mutation digest kind) (\<lambda>found. case found of Some receipt \<Rightarrow> st_return receipt
      | None \<Rightarrow> with_lock ?w (first_run mutation kind digest m))) (\<lambda>_ _. False) (\<lambda>_. unchanged S d) d1"
    if "same_nodes d d1" for digest d1
    unfolding wp_bind
    by (rule wp_mono [OF load_absent]) (use that assms(2) locked in \<open>auto simp: same_node_at dest: same_unchanged same.trans [OF that]\<close>)
  show ?thesis
    unfolding mutate_def first_run_def [symmetric] wp_seq [of ctx_Err]
    by (rule wp_rel [OF same_calls(2)])
      (auto simp: wp_seq wp_bind [of "inputDigest _ _ _"] wp_def [of "validateMutation _"] wp_def [of "inputDigest _ _ _"]
        validateMutation_run inputDigest_run loaded same_unchanged)
qed


section \<open>What a successful command has published\<close>

definition published :: "string \<Rightarrow> int \<Rightarrow> Disk \<Rightarrow> bool" where
  "published w g d \<longleftrightarrow> (\<exists>k m. node_at d (currentManifestPath w) = Some (Reg k (CurrentDoc m)) \<and> cmGeneration m = g)"

lemma publish_publishes: "ensures (publishCurrentManifest w m) (\<lambda>_. published w (cmGeneration m))"
proof -
  have "wp (atomicJSON (currentManifestPath w) (CurrentDoc m)) (\<lambda>_. published w (cmGeneration m)) (\<lambda>_ _. True) d" for d
    by (rule wp_mono [OF atomicJSON_atomic]) (auto simp: published_def currentManifestPath_def)
  then show ?thesis
    unfolding publishCurrentManifest_def validatedVersionPath_def
    by (auto simp: wp_simps wp_return_fun corrupt_def)
qed

lemma read_publishes:
  assumes "readCurrentManifest w d = (Inr m, d')"
  shows "published w (cmGeneration m) d'"
proof -
  have "wp (readCurrentManifest w) (\<lambda>m. published w (cmGeneration m)) (\<lambda>_ _. True) d"
    by (rule wp_readCurrentManifest) (auto simp: published_def same_node_at)
  then show ?thesis
    using assms by (simp add: wp_def)
qed

lemma published_frame:
  "keeps (unchanged {currentManifestPath w}) m \<Longrightarrow> m d = (r, d') \<Longrightarrow> published w g d \<Longrightarrow> published w g d'"
  using keepsD [of "unchanged {currentManifestPath w}"] by (fastforce simp: published_def unchanged_def)

lemma published_return: "(st_return x :: 'a os) d = (Inr y, d') \<Longrightarrow> d' = d"
  by (simp add: st_return_def)

lemma try_result: "(st_try m :: (store_error, 'a) result os) d = (Inr r, d') \<Longrightarrow> m d = (r, d')"
  by (auto simp: st_try_def st_catch_def st_return_def split: prod.splits)

lemma advance_publishes:
  assumes "advance_apply store r d = (Inr x, d')"
  shows "published (WorkspaceID (agMutation r)) (agNextGeneration r) d'"
  using assms unfolding advance_apply_def Let_def
  by (auto simp: st_fail_def elim!: bind_successE seq_successE split: if_splits
      dest!: published_return read_publishes ensuresD [OF publish_publishes])

lemma read_then_rollback:
  assumes "readRollback w op d1 = (r, d')" "readCurrentManifest w d = (Inr m, d1)" "cmGeneration m = g"
  shows "published w g d'"
  using published_frame [OF frame_documents(5) assms(1)] read_publishes [OF assms(2)] assms(3) by simp

lemma swap_publishes:
  assumes "swap_apply store r d = (Inr x, d')"
  shows "published (WorkspaceID (prMutation r)) (prNextGeneration r) d'"
  using assms unfolding swap_apply_def Let_def
  by (auto simp: st_fail_def corrupt_def elim!: bind_successE seq_successE split: if_splits sum.splits
      dest!: published_return ensuresD [OF publish_publishes] try_result)
    (rule read_then_rollback, assumption+)

lemma first_generation_publishes:
  assumes "st_bind (st_try (readCurrentManifest w)) (\<lambda>r. case r of
      Inr manifest \<Rightarrow> if cmGeneration manifest \<noteq> 1 \<or> cmCapacityBytes manifest \<noteq> c then st_fail e
        else st_seq (validateImage store w (cmImage manifest) c) (st_return x)
    | Inl e \<Rightarrow> if \<not> errors_Is ErrWorkspaceNotFound e then st_fail e else n) d = (Inr y, d')"
    and "\<And>d d' y. n d = (Inr y, d') \<Longrightarrow> published w 1 d'"
  shows "published w 1 d'"
proof -
  obtain r d1 where r: "readCurrentManifest w d = (r, d1)"
    and run: "(case r of
      Inr manifest \<Rightarrow> if cmGeneration manifest \<noteq> 1 \<or> cmCapacityBytes manifest \<noteq> c then st_fail e
        else st_seq (validateImage store w (cmImage manifest) c) (st_return x)
    | Inl e \<Rightarrow> if \<not> errors_Is ErrWorkspaceNotFound e then st_fail e else n) d1 = (Inr y, d')"
    using assms(1) by (auto elim!: bind_successE dest: try_result)
  show ?thesis
  proof (cases r)
    case (Inl e)
    then show ?thesis
      using run assms(2) by (auto simp: st_fail_def split: if_splits)
  next
    case (Inr m)
    then have "published w 1 d1" if "cmGeneration m = 1"
      using r read_publishes that by metis
    then show ?thesis
      using run Inr
      by (auto simp: st_fail_def elim!: seq_successE split: if_splits dest!: published_return
          dest: published_frame [OF frame_validate(4)])
  qed
qed

lemma publish_generation_one:
  assumes "st_seq (publishCurrentManifest w (generationOneManifest w i c)) (st_return x) d = (Inr y, d')"
  shows "published w 1 d'"
  using assms by (auto simp: generationOneManifest_def elim!: seq_successE
      dest!: published_return ensuresD [OF publish_publishes])

lemma if_successE:
  assumes "(if b then st_fail e else n) d = (Inr x, d')"
  obtains "n d = (Inr x, d')"
  using assms by (auto simp: st_fail_def split: if_splits)

lemma create_publishes:
  assumes "create_apply store r d = (Inr x, d')"
  shows "published (WorkspaceID (crMutation r)) 1 d'"
  using assms unfolding create_apply_def Let_def
  by (elim seq_successE first_generation_publishes) (elim bind_successE seq_successE publish_generation_one)

lemma clone_publishes:
  assumes "clone_apply store r d = (Inr x, d')"
  shows "published (WorkspaceID (clMutation r)) 1 d'"
  using assms unfolding clone_apply_def Let_def
  by (elim first_generation_publishes publish_generation_one bind_successE if_successE seq_successE)

lemma ensures_try_bind:
  assumes "\<And>x d d'. m d = (Inr x, d') \<Longrightarrow> wp (f (Inr x)) Q (\<lambda>_ _. True) d'" "\<And>e. ensures (f (Inl e)) Q"
  shows "ensures (st_bind (st_try m) f) Q"
  unfolding wp_bind wp_try using assms by (auto simp: wp_def [of m] split: prod.splits sum.splits)

lemma record_keeps_manifest: "keeps (unchanged {currentManifestPath w}) (recordReceipt receipt b)"
  by (rule frame_recordReceipt) (auto simp: path_simps)

lemma first_run_publishes:
  assumes "\<And>x d d'. m d = (Inr x, d') \<Longrightarrow> published w g d'" "node_at d (receiptPath mutation kind) = None"
  shows "wp (first_run mutation kind digest m) (\<lambda>_. published w g) (\<lambda>_ _. True) d"
proof -
  have recorded: "wp (recordReceipt receipt b) (\<lambda>_. published w g) (\<lambda>_ _. True) d1" if "published w g d1" for receipt b d1
    by (rule wp_rel [OF record_keeps_manifest [of w]]) (use that in \<open>auto simp: published_def unchanged_def\<close>)
  have tail: "ensures (st_bind (st_try m) (\<lambda>r. case r of
      Inl err \<Rightarrow> if kind \<noteq> ReceiptWorkspaceDelete then st_fail (J err) else st_fail err
    | Inr receipt \<Rightarrow> (case p of Inl e \<Rightarrow> st_fail e | Inr _ \<Rightarrow> recordReceipt (F receipt) b))) (\<lambda>_. published w g)"
    for p :: "(store_error, unit) result" and F b J
    by (rule ensures_try_bind) (auto simp: wp_fail split: sum.splits intro: recorded assms(1))
  show ?thesis
    unfolding first_run_def wp_bind [of "loadReceipt _ _ _"]
  proof (rule wp_mono [OF load_absent [OF assms(2)]], goal_cases)
    case (1 x d1)
    show ?case
      unfolding conjunct1 [OF 1] option.case by (rule ensures_bind [rule_format]) (rule tail [rule_format])
  qed simp
qed

lemma replay_absent:
  assumes "node_at d (receiptPath mutation kind) = None"
  shows "wp (replay store request mutation kind) (\<lambda>x d'. x = None \<and> same_nodes d d') (\<lambda>_ _. True) d"
  unfolding replay_def wp_seq [of ctx_Err]
proof (rule wp_rel [OF same_calls(2)], goal_cases)
  case (1 u d1)
  then have "wp (loadReceipt mutation digest kind) (\<lambda>x d'. x = None \<and> same_nodes d d') (\<lambda>_ _. True) d1" for digest
    using assms by (intro wp_mono [OF load_absent]) (auto simp: same_node_at intro: same.trans [OF 1])
  then show ?case
    by (auto simp: wp_seq wp_bind wp_def [of "validateMutation _"] wp_def [of "inputDigest _ _ _"]
        validateMutation_run inputDigest_run)
qed simp

lemma mutate_publishes:
  assumes "\<And>x d d'. m d = (Inr x, d') \<Longrightarrow> published w g d'" "node_at d (receiptPath mutation kind) = None"
  shows "wp (mutate store request mutation kind m) (\<lambda>_. published w g) (\<lambda>_ _. True) d"
proof -
  let ?v = "WorkspaceID mutation"
  have locked: "wp (with_lock ?v (first_run mutation kind digest m)) (\<lambda>_. published w g) (\<lambda>_ _. True) d1"
    if "same_nodes d d1" for digest d1
    unfolding with_lock_def wp_seq [of "lockWorkspace_file _"] wp_bind wp_try
  proof (rule wp_rel [OF frame_lock_only], goal_cases)
    case (1 u d2)
    then have "node_at d2 (receiptPath mutation kind) = None"
      using assms(2) that by (auto simp: unchanged_def same_node_at lockPath_def path_simps)
    have close: "wp (st_seq (ignoring (closeLockedFile ?v)) (of_result r)) (\<lambda>_. published w g) (\<lambda>_ _. True) d3"
      if "\<And>x. r = Inr x \<Longrightarrow> published w g d3" for r :: "(store_error, Receipt) result" and d3
      unfolding wp_seq of_result_def
      by (rule wp_rel [where R = "unchanged {currentManifestPath w}"], intro frame frame_lock)
        (use that in \<open>auto simp: path_simps wp_fail wp_return published_def unchanged_def split: sum.splits\<close>)
    show ?case
      by (rule wp_mono [OF first_run_publishes [OF assms(1) \<open>node_at d2 _ = None\<close>]]) (auto intro: close)
  qed simp
  have loaded: "wp (st_bind (loadReceipt mutation digest kind) (\<lambda>found. case found of Some receipt \<Rightarrow> st_return receipt
      | None \<Rightarrow> with_lock ?v (first_run mutation kind digest m))) (\<lambda>_. published w g) (\<lambda>_ _. True) d1"
    if "same_nodes d d1" for digest d1
    unfolding wp_bind
    by (rule wp_mono [OF load_absent]) (use that assms(2) locked in \<open>auto simp: same_node_at dest: same.trans [OF that]\<close>)
  show ?thesis
    unfolding mutate_def first_run_def [symmetric] wp_seq [of ctx_Err]
    by (rule wp_rel [OF same_calls(2)])
      (auto simp: wp_seq wp_bind [of "inputDigest _ _ _"] wp_def [of "validateMutation _"] wp_def [of "inputDigest _ _ _"]
        validateMutation_run inputDigest_run loaded)
qed

lemma first_creation:
  assumes "wp h (\<lambda>x d'. x = None \<and> same_nodes d d') (\<lambda>_ _. True) d"
    and "\<And>x d d'. n d = (Inr x, d') \<Longrightarrow> published w g d'" "node_at d (receiptPath m k) = None"
  shows "wp (st_bind h (\<lambda>found. case found of Some x \<Rightarrow> st_return x | None \<Rightarrow> mutate store q m k n))
    (\<lambda>_. published w g) (\<lambda>_ _. True) d"
  unfolding wp_bind
proof (rule wp_mono [OF assms(1)], goal_cases)
  case (1 x d1)
  then have "node_at d1 (receiptPath m k) = None"
    using assms(3) same_node_at by metis
  then show ?case
    unfolding conjunct1 [OF 1] option.case using assms(2) by (intro mutate_publishes)
qed simp

definition target_generation :: "store_command \<Rightarrow> int option" where
  "target_generation c = (case c of
     CreateCommand _ \<Rightarrow> Some 1 | CloneCommand _ \<Rightarrow> Some 1
   | AdvanceCommand r \<Rightarrow> Some (agNextGeneration r) | SwapCommand r \<Rightarrow> Some (prNextGeneration r)
   | _ \<Rightarrow> None)"

text \<open>
  C33: when a creation, a clone, a generation advance or the swap of a restore
  succeeds for the first time, the current manifest of its Workspace is at the
  generation the command asked for.
\<close>

theorem success_publishes_generation:
  assumes "run_command store c d = (Inr r, d')" "node_at d (receiptPath (command_mutation c) (command_kind c)) = None"
    and "target_generation c = Some g"
  shows "published (WorkspaceID (command_mutation c)) g d'"
proof -
  have "wp (run_command store c) (\<lambda>_. published (WorkspaceID (command_mutation c)) g) (\<lambda>_ _. True) d"
  proof (cases c)
    case (CreateCommand r)
    then show ?thesis
      using assms(2,3) by (auto simp: run_command_def Create_def ReplayCreate_def wp_seq wp_guard command_mutation_def
          command_kind_def target_generation_def intro!: first_creation replay_absent dest: create_publishes)
  next
    case (CloneCommand r)
    then show ?thesis
      using assms(2,3) by (auto simp: run_command_def CloneFromSnapshot_def ReplayCloneFromSnapshot_def wp_seq wp_guard
          validateID_def command_mutation_def command_kind_def target_generation_def
          intro!: first_creation replay_absent dest: clone_publishes)
  next
    case (AdvanceCommand r)
    then show ?thesis
      using assms(2,3) by (auto simp: run_command_def AdvanceGeneration_def wp_fail command_mutation_def command_kind_def
          target_generation_def intro!: mutate_publishes dest: advance_publishes)
  next
    case (SwapCommand r)
    then show ?thesis
      using assms(2,3) by (auto simp: run_command_def SwapRestore_def wp_seq wp_def [of "validateRestoreRequest _ _ _ _"]
          restore_guard_run command_mutation_def command_kind_def
          target_generation_def intro!: mutate_publishes dest: swap_publishes)
  qed (use assms(3) in \<open>simp_all add: target_generation_def\<close>)
  then show ?thesis
    using assms(1) by (simp add: wp_def)
qed

section \<open>Templates prepared at start\<close>

lemma doublings_insert:
  fixes c t :: int
  assumes "c < t"
  shows "{c * 2 ^ k | k. c * 2 ^ k < t} = insert c {c * 2 * 2 ^ k | k. c * 2 * 2 ^ k < t}"
proof (intro set_eqI iffI)
  fix x assume "x \<in> {c * 2 ^ k | k. c * 2 ^ k < t}"
  then obtain k where "x = c * 2 ^ k" "c * 2 ^ k < t"
    by blast
  then show "x \<in> insert c {c * 2 * 2 ^ k | k. c * 2 * 2 ^ k < t}"
    by (cases k) (auto intro!: exI [of _ "k - 1"])
next
  fix x assume "x \<in> insert c {c * 2 * 2 ^ k | k. c * 2 * 2 ^ k < t}"
  then show "x \<in> {c * 2 ^ k | k. c * 2 ^ k < t}"
    using assms by (auto intro: exI [of _ 0] exI [of _ "Suc _"])
qed

lemma prewarm_set:
  assumes "1 \<le> c" "in_i64 t"
  shows "set (prewarm_capacities c t) = {c * 2 ^ k | k. c * 2 ^ k < t}"
  using assms
proof (induction c t rule: prewarm_capacities.induct)
  case (1 c t)
  have grow: "c \<le> c * 2 ^ k" for k
    using 1(2) by simp
  consider "\<not> c < t" | "c < t" "c > t div 2" | "c < t" "\<not> c > t div 2"
    by blast
  then show ?case
  proof cases
    case 1
    then have "\<not> c * 2 ^ k < t" for k
      using grow [of k] by linarith
    then show ?thesis
      using 1 by (simp add: prewarm_capacities.simps [of c t])
  next
    case 2
    have "\<not> c * 2 ^ Suc k < t" for k
    proof -
      have "t \<le> 2 * c"
        using 2(2) by linarith
      also have "\<dots> \<le> c * 2 ^ Suc k"
        using grow [of k] by simp
      finally show ?thesis
        by simp
    qed
    then have one: "(2 :: int) ^ k = 1" if "c * 2 ^ k < t" for k
      using that by (cases k) simp_all
    then show ?thesis
      using 2 1(2,3) by (auto simp: prewarm_capacities.simps [of c t] one intro: exI [of _ 0])
  next
    case 3
    have "set (prewarm_capacities (c * 2) t) = {c * 2 * 2 ^ k | k. c * 2 * 2 ^ k < t}"
      using 1(1) 3 1(2,3) by (simp add: doubling_in_range)
    moreover have "{c * 2 ^ k | k. c * 2 ^ k < t} = insert c {c * 2 * 2 ^ k | k. c * 2 * 2 ^ k < t}"
      using 3(1) by (rule doublings_insert)
    ultimately show ?thesis
      using 3 1(2,3) by (simp add: prewarm_capacities.simps [of c t] doubling_in_range)
  qed
qed

text \<open>
  The start-up loop over template capacities ends, never overflows an
  \<open>int64\<close>, and prepares exactly the doublings of 64 MiB below the configured
  maximum.
\<close>

lemma prewarm_capacities_exact:
  assumes "in_i64 templateCapacityBytes"
  shows "set (prewarm_capacities minimumExt4Bytes templateCapacityBytes) =
    {minimumExt4Bytes * 2 ^ k | k. minimumExt4Bytes * 2 ^ k < templateCapacityBytes}"
  by (rule prewarm_set [OF _ assms]) simp

lemma prewarm_capacities_exact_witness:
  "268435456 \<in> set (prewarm_capacities minimumExt4Bytes maxInt64)"
proof -
  have "in_i64 maxInt64"
    by (simp add: in_i64_bounds)
  from prewarm_capacities_exact [OF this] show ?thesis
    by (auto intro: exI [of _ 2])
qed

end
