(* ===== verification/Workspace_Relocation.thy ===== *)
theory Workspace_Relocation
  imports Workspace_Operations
begin

text \<open>
  Moving a Workspace between Runners (\<open>runner/internal/workspacestore/relocation.go\<close>):
  the source is sealed and read under its writer lock, the target assembles the
  image from sequential chunks in a staging directory, without writing the zero
  blocks, and publishes it once size and checksum agree.
\<close>

section \<open>Requests and paths\<close>

record RelocationExportRequest =
  reMutation :: Mutation
  reExpectedGeneration :: int

record RelocationImportRequest =
  riMutation :: Mutation
  riGeneration :: int
  riCapacityBytes :: int

definition reRequest :: "RelocationExportRequest \<Rightarrow> octet list" where
  "reRequest r = json_request (reMutation r) [(''ExpectedGeneration'', FormatInt (reExpectedGeneration r))]"

definition riRequest :: "RelocationImportRequest \<Rightarrow> octet list" where
  "riRequest r = json_request (riMutation r)
     [(''Generation'', FormatInt (riGeneration r)), (''CapacityBytes'', FormatInt (riCapacityBytes r))]"

definition relocationDir :: "string \<Rightarrow> string \<Rightarrow> path" where
  "relocationDir w operationID = relocationsRoot @ [w, operationID]"

definition relocationImagePath :: "string \<Rightarrow> string \<Rightarrow> path" where
  "relocationImagePath w operationID = relocationDir w operationID @ [''image.ext4'']"

section \<open>Export\<close>

text \<open>An export: the open image by its path and read position, and whether the lock descriptor is still open.\<close>

record relocationExport =
  exWorkspaceID :: string
  exFile :: "(path \<times> int) option"
  exLock :: bool
  exSize :: int
  exReceipt :: Receipt

definition seal_apply :: "RelocationExportRequest \<Rightarrow> Receipt os" where
  "seal_apply request =
     (let w = WorkspaceID (reMutation request) in
      st_bind (readCurrentManifest w) (\<lambda>manifest.
        if cmGeneration manifest \<noteq> reExpectedGeneration request then st_fail (Sentinel ErrStaleGeneration)
        else st_bind (restorePending w) (\<lambda>pending.
          if pending then st_fail (Sentinel ErrRestorePending)
          else st_seq (publishCurrentManifest w (manifest\<lparr>cmRelocationSealed := True\<rparr>))
            (st_return (zeroReceipt\<lparr>rcGeneration := cmGeneration manifest, rcCapacityBytes := cmCapacityBytes manifest\<rparr>)))))"

definition export_locked :: "Store \<Rightarrow> RelocationExportRequest \<Rightarrow> Receipt \<Rightarrow> relocationExport os" where
  "export_locked store request receipt =
     (let w = WorkspaceID (reMutation request) in
      st_bind (readCurrentManifest w) (\<lambda>manifest.
        if cmGeneration manifest \<noteq> reExpectedGeneration request \<or> \<not> cmRelocationSealed manifest
        then st_fail (Sentinel ErrStaleGeneration)
        else st_bind (validatedVersionPath w (cmImage manifest)) (\<lambda>imagePath.
          st_seq (validateExt4ImageUUID imagePath (cmCapacityBytes manifest) (deterministicUUID store w))
         (st_bind (wrapping (os_Open imagePath)) (\<lambda>_.
            st_return \<lparr>exWorkspaceID = w, exFile = Some (imagePath, 0), exLock = True,
                       exSize = cmCapacityBytes manifest, exReceipt = receipt\<rparr>)))))"

definition OpenRelocationExport :: "Store \<Rightarrow> RelocationExportRequest \<Rightarrow> relocationExport os" where
  "OpenRelocationExport store request =
     st_bind (mutate store (reRequest request) (reMutation request) ReceiptRelocationExport (seal_apply request)) (\<lambda>receipt.
     st_seq (lockWorkspace_file (WorkspaceID (reMutation request)))
       (on_failure (closeLockedFile (WorkspaceID (reMutation request))) (export_locked store request receipt)))"

text \<open>
  A read returns the next bytes of the image, at most as many as the host
  delivers (\<open>available\<close>) and as fit into the buffer; none at the end of the file.
\<close>

definition export_Read :: "nat \<Rightarrow> nat \<Rightarrow> relocationExport \<Rightarrow> (octet list \<times> relocationExport) os" where
  "export_Read buffer available export =
     (case exFile export of
        None \<Rightarrow> st_fail (Sentinel ErrIO)
      | Some (p, position) \<Rightarrow>
          st_bind (os_Open p) (\<lambda>x. case x of
            Img i \<Rightarrow>
              let n = min (int (min buffer available)) (imageSize i - position) in
              (case ReadAt i position (max 0 n) of
                 None \<Rightarrow> st_fail (Sentinel ErrIO)
               | Some bs \<Rightarrow> st_return (bs, export\<lparr>exFile := Some (p, position + max 0 n)\<rparr>))
          | _ \<Rightarrow> st_fail (Sentinel ErrIO)))"

definition error_of :: "(store_error, 'a) result \<Rightarrow> store_error go_error option" where
  "error_of r = (case r of Inl e \<Rightarrow> Some e | Inr _ \<Rightarrow> None)"

definition export_Close :: "relocationExport \<Rightarrow> (store_error go_error option \<times> relocationExport) os" where
  "export_Close export =
     st_bind (if exFile export \<noteq> None then st_bind (st_try os_Close) (\<lambda>c. st_return (error_of c)) else st_return None) (\<lambda>result.
     st_bind (if exLock export
              then st_bind (st_try (closeLockedFile (exWorkspaceID export))) (\<lambda>l. st_return (errors_Join [result, error_of l]))
              else st_return result) (\<lambda>result.
       st_return (result, export\<lparr>exFile := None, exLock := False\<rparr>)))"

definition unseal_apply :: "RelocationExportRequest \<Rightarrow> Receipt os" where
  "unseal_apply request =
     (let w = WorkspaceID (reMutation request) in
      st_bind (readCurrentManifest w) (\<lambda>manifest.
        if cmGeneration manifest \<noteq> reExpectedGeneration request then st_fail (Sentinel ErrStaleGeneration)
        else st_seq (publishCurrentManifest w (manifest\<lparr>cmRelocationSealed := False\<rparr>))
          (st_return (zeroReceipt\<lparr>rcGeneration := cmGeneration manifest, rcCapacityBytes := cmCapacityBytes manifest\<rparr>))))"

definition AbortRelocation :: "Store \<Rightarrow> RelocationExportRequest \<Rightarrow> Receipt os" where
  "AbortRelocation store request =
     mutate store (reRequest request) (reMutation request) ReceiptRelocationAbort (unseal_apply request)"

section \<open>Import\<close>

text \<open>
  An import: the open staging image by its path, whether the lock descriptor is
  open, the bytes given to the hash, and what \<open>Complete\<close> has reached.
\<close>

record relocationImport =
  imRequest :: RelocationImportRequest
  imDigest :: string
  imFile :: "path option"
  imLock :: bool
  imHashed :: "octet list"
  imWritten :: int
  imReceipt :: Receipt
  imCreated :: bool

definition relocationSparseBlockBytes :: int where
  "relocationSparseBlockBytes = 4096"

definition import_valid :: "RelocationImportRequest \<Rightarrow> bool" where
  "import_valid request \<longleftrightarrow> \<not> (riGeneration request = 0 \<or> riCapacityBytes request < legacyMinimumExt4Bytes)"

text \<open>A recorded import must still have its image.\<close>

definition imported_image :: "Store \<Rightarrow> RelocationImportRequest \<Rightarrow> unit os" where
  "imported_image store request =
     (let w = WorkspaceID (riMutation request) in
      st_bind (st_try (readCurrentManifest w)) (\<lambda>r. case r of
        Inl _ \<Rightarrow> corrupt
      | Inr manifest \<Rightarrow>
          if cmGeneration manifest \<noteq> riGeneration request \<or> cmCapacityBytes manifest \<noteq> riCapacityBytes request \<or>
             cmRelocationSealed manifest
          then corrupt
          else validateImage store w (cmImage manifest) (riCapacityBytes request)))"

definition ReplayRelocationImport :: "Store \<Rightarrow> RelocationImportRequest \<Rightarrow> Receipt option os" where
  "ReplayRelocationImport store request =
     st_seq ctx_Err
    (st_seq (st_guard (import_valid request) (Sentinel ErrStorageIncompatible))
    (st_seq (validateMutation (riMutation request))
    (st_bind (inputDigest store (riRequest request) (FencingToken (riMutation request))) (\<lambda>digest.
     st_bind (loadReceipt (riMutation request) digest ReceiptRelocationImport) (\<lambda>found. case found of
       None \<Rightarrow> st_return None
     | Some receipt \<Rightarrow> st_seq (imported_image store request) (st_return (Some receipt)))))))"

definition new_import :: "RelocationImportRequest \<Rightarrow> string \<Rightarrow> path option \<Rightarrow> Receipt \<Rightarrow> relocationImport" where
  "new_import request digest staged receipt =
     \<lparr>imRequest = request, imDigest = digest, imFile = staged, imLock = (staged \<noteq> None), imHashed = [], imWritten = 0,
      imReceipt = receipt, imCreated = False\<rparr>"

text \<open>
  \<open>ResetSparse\<close> of the Linux driver punches the whole capacity, which then reads
  as zeros; the size is kept. The staging file is a clone of a template, so an
  image.
\<close>

definition driver_ResetSparse :: "path \<Rightarrow> int \<Rightarrow> unit os" where
  "driver_ResetSparse p capacityBytes =
     (if capacityBytes < legacyMinimumExt4Bytes then st_fail (Sentinel ErrStorageIncompatible)
      else st_catch (st_bind (os_Open p) (\<lambda>x. case x of
          Img i \<Rightarrow> os_Write p (Img (i\<lparr>content := \<lambda>k. if 0 \<le> k \<and> k < capacityBytes then Some 0 else content i k, sectors := 0\<rparr>))
        | _ \<Rightarrow> st_fail (Sentinel ErrIO)))
       (\<lambda>r. case r of
          Inl e \<Rightarrow> st_fail (Wrapped (Joined [Sentinel ErrStorageIncompatible, e]))
        | Inr _ \<Rightarrow> st_return ()))"

definition stage_image :: "Store \<Rightarrow> RelocationImportRequest \<Rightarrow> path \<Rightarrow> unit os" where
  "stage_image store request imagePath =
     st_bind (ensureTemplate store (riCapacityBytes request)) (\<lambda>templatePath.
     st_bind (wrapping (os_Open templatePath)) (\<lambda>template.
     st_seq (on_failure os_Close (wrapping (os_Create imagePath writableImageMode (Raw []))))
       (on_failure (st_seq (ignoring os_Close) (removeExactFile imagePath))
         (st_seq (st_catch (driver_Clone store imagePath (Reg snapshotImageMode template)) (\<lambda>c. case c of
            Inl e \<Rightarrow> st_seq (ignoring os_Close) (st_fail (Wrapped (Joined [Sentinel ErrStorageIncompatible, e])))
          | Inr _ \<Rightarrow> st_return ()))
         (st_seq os_Close
           (driver_ResetSparse imagePath (riCapacityBytes request)))))))"

definition begin_locked :: "Store \<Rightarrow> RelocationImportRequest \<Rightarrow> string \<Rightarrow> relocationImport os" where
  "begin_locked store request digest =
     (let w = WorkspaceID (riMutation request); operationID = OperationID (riMutation request);
          imageName = generationImageName (riGeneration request) (''relocation-'' @ operationID);
          stagingDir = relocationDir w operationID; imagePath = relocationImagePath w operationID
      in st_bind (loadReceipt (riMutation request) digest ReceiptRelocationImport) (\<lambda>found. case found of
           Some receipt \<Rightarrow>
             st_seq (imported_image store request)
            (st_seq (ignoring (closeLockedFile w)) (st_return (new_import request digest None receipt)))
         | None \<Rightarrow>
             st_seq (st_bind (st_try (readCurrentManifest w)) (\<lambda>r. case r of
                 Inr manifest \<Rightarrow>
                   if cmImage manifest \<noteq> imageName \<or> cmGeneration manifest \<noteq> riGeneration request \<or>
                      cmCapacityBytes manifest \<noteq> riCapacityBytes request
                   then st_fail (Sentinel ErrConflictingReplay)
                   else removeWorkspaceTree w
               | Inl e \<Rightarrow> if \<not> errors_Is ErrWorkspaceNotFound e then st_fail e else st_return ()))
            (st_seq (prepareReceiptDirectory (riMutation request))
            (st_seq (wrapping (os_MkdirAll stagingDir))
            (st_seq (requirePrivateDirectory stagingDir)
            (st_seq (removeExactFile imagePath)
            (st_seq (stage_image store request imagePath)
              (st_return (new_import request digest (Some imagePath) zeroReceipt)))))))))"

definition BeginRelocationImport :: "Store \<Rightarrow> RelocationImportRequest \<Rightarrow> relocationImport os" where
  "BeginRelocationImport store request =
     st_seq ctx_Err
    (st_seq (st_guard (import_valid request) (Sentinel ErrStorageIncompatible))
    (st_seq (validateMutation (riMutation request))
    (st_bind (inputDigest store (riRequest request) (FencingToken (riMutation request))) (\<lambda>digest.
     st_bind (loadReceipt (riMutation request) digest ReceiptRelocationImport) (\<lambda>found. case found of
       Some receipt \<Rightarrow>
         st_seq (imported_image store request) (st_return (new_import request digest None receipt))
     | None \<Rightarrow>
         st_seq (lockWorkspace_file (WorkspaceID (riMutation request)))
           (on_failure (closeLockedFile (WorkspaceID (riMutation request))) (begin_locked store request digest)))))))"

definition CompletedReceipt :: "relocationImport \<Rightarrow> Receipt option" where
  "CompletedReceipt relocation = (if rcRecordedAt (imReceipt relocation) \<noteq> 0 then Some (imReceipt relocation) else None)"

section \<open>Chunks\<close>

text \<open>A write at a position of an open image extends it when it ends behind it.\<close>

definition overwrite :: "int \<Rightarrow> octet list \<Rightarrow> ImageFile \<Rightarrow> ImageFile" where
  "overwrite position bs i =
     i\<lparr>content := \<lambda>k. if position \<le> k \<and> k < position + int (length bs) then Some (bs ! nat (k - position)) else content i k,
       imageSize := max (imageSize i) (position + int (length bs))\<rparr>"

definition file_Write :: "path \<Rightarrow> int \<Rightarrow> octet list \<Rightarrow> unit os" where
  "file_Write p position bs =
     st_bind (os_Open p) (\<lambda>x. case x of
       Img i \<Rightarrow> os_Write p (Img (overwrite position bs i))
     | _ \<Rightarrow> st_fail (Sentinel ErrIO))"

definition allZero :: "octet list \<Rightarrow> bool" where
  "allZero bs = list_all (\<lambda>b. b = 0) bs"

text \<open>The closure \<open>flush\<close>: it returns the file position after the run.\<close>

definition flush_run :: "path \<Rightarrow> octet list \<Rightarrow> nat \<Rightarrow> bool \<Rightarrow> bool \<Rightarrow> nat \<Rightarrow> int \<Rightarrow> int os" where
  "flush_run p bs runStart runZero haveRun stop position =
     (if \<not> haveRun \<or> stop = runStart then st_return position
      else if runZero then st_seq (wrapping os_call) (st_return (position + int (stop - runStart)))
      else st_seq (wrapping (file_Write p position (take (stop - runStart) (drop runStart bs))))
        (st_return (position + int (stop - runStart))))"

definition segment_bytes :: "int \<Rightarrow> nat \<Rightarrow> nat \<Rightarrow> nat" where
  "segment_bytes offset position len =
     (let absolute = u64 (offset + int position);
          segmentBytes = nat (relocationSparseBlockBytes - absolute mod relocationSparseBlockBytes)
      in if len - position < segmentBytes then len - position else segmentBytes)"

lemma segment_positive: "position < len \<Longrightarrow> 0 < segment_bytes offset position len"
proof -
  have "0 \<le> u64 (offset + int position) mod 4096" "u64 (offset + int position) mod 4096 < 4096" by simp_all
  then show "position < len \<Longrightarrow> 0 < segment_bytes offset position len"
    by (simp add: segment_bytes_def relocationSparseBlockBytes_def Let_def)
qed

lemma segment_progress: "position < len \<Longrightarrow> len - (position + segment_bytes offset position len) < len - position"
  using segment_positive by (simp add: diff_less_mono2)

function sparse_runs ::
  "path \<Rightarrow> int \<Rightarrow> octet list \<Rightarrow> nat \<Rightarrow> nat \<Rightarrow> bool \<Rightarrow> bool \<Rightarrow> int \<Rightarrow> unit os" where
  "sparse_runs p offset bs position runStart runZero haveRun filePosition =
     (if position < length bs
      then let stop = position + segment_bytes offset position (length bs);
               segmentZero = allZero (take (stop - position) (drop position bs))
        in if \<not> haveRun then sparse_runs p offset bs stop position segmentZero True filePosition
           else if segmentZero \<noteq> runZero
           then st_bind (flush_run p bs runStart runZero haveRun position filePosition) (\<lambda>filePosition.
             sparse_runs p offset bs stop position segmentZero haveRun filePosition)
           else sparse_runs p offset bs stop runStart runZero haveRun filePosition
      else st_bind (flush_run p bs runStart runZero haveRun (length bs) filePosition) (\<lambda>_. st_return ()))"
  by pat_completeness auto
termination
  by (relation "measure (\<lambda>(p, offset, bs, position, _). length bs - position)")
    (auto simp: Let_def segment_progress)

declare sparse_runs.simps [simp del]

definition writeSparseRelocationChunk :: "path \<Rightarrow> int \<Rightarrow> octet list \<Rightarrow> unit os" where
  "writeSparseRelocationChunk p offset bs =
     st_seq (wrapping os_call) (sparse_runs p offset bs 0 0 False False (i64 offset))"

definition WriteChunk :: "int \<Rightarrow> octet list \<Rightarrow> relocationImport \<Rightarrow> relocationImport os" where
  "WriteChunk offset bs relocation =
     (case imFile relocation of
        None \<Rightarrow> st_fail (Sentinel ErrConflictingReplay)
      | Some p \<Rightarrow>
          if offset \<noteq> imWritten relocation \<or> bs = [] then st_fail (Sentinel ErrConflictingReplay)
          else if u64 (imWritten relocation + int (length bs)) > u64 (riCapacityBytes (imRequest relocation))
          then st_fail (Sentinel ErrStorageIncompatible)
          else st_seq (writeSparseRelocationChunk p offset bs)
            (st_return (relocation\<lparr>imHashed := imHashed relocation @ bs,
                                   imWritten := u64 (imWritten relocation + int (length bs))\<rparr>)))"

section \<open>Completion\<close>

definition file_Truncate :: "path \<Rightarrow> int \<Rightarrow> unit os" where
  "file_Truncate p n =
     st_bind (os_Open p) (\<lambda>x. case x of
       Img i \<Rightarrow> os_Write p (Img (i\<lparr>imageSize := n,
         content := \<lambda>k. if imageSize i \<le> k \<and> k < n then Some 0 else content i k\<rparr>))
     | _ \<Rightarrow> st_fail (Sentinel ErrIO))"

definition cleanupStaging :: "RelocationImportRequest \<Rightarrow> unit os" where
  "cleanupStaging request =
     (let w = WorkspaceID (riMutation request); operationID = OperationID (riMutation request);
          operationDir = relocationDir w operationID
      in st_seq (removeExactFile (relocationImagePath w operationID))
        (st_seq (st_catch (os_Remove operationDir) (\<lambda>r. case r of
            Inl e \<Rightarrow> if \<not> errors_Is ErrNotExist e then st_fail (Wrapped e) else st_return () | Inr _ \<Rightarrow> st_return ()))
        (st_seq (st_catch (os_Remove (butlast operationDir)) (\<lambda>r. case r of
            Inl e \<Rightarrow> if \<not> errors_Is ErrNotExist e \<and> \<not> errors_Is ErrNotEmpty e then st_fail (Wrapped e) else st_return ()
          | Inr _ \<Rightarrow> st_return ()))
          (syncDir relocationsRoot))))"

definition import_manifest :: "RelocationImportRequest \<Rightarrow> currentManifest" where
  "import_manifest request =
     \<lparr>cmFormatVersion = currentManifestFormatVersion, cmWorkspaceID = WorkspaceID (riMutation request),
      cmGeneration = riGeneration request,
      cmImage = generationImageName (riGeneration request) (''relocation-'' @ OperationID (riMutation request)),
      cmCapacityBytes = riCapacityBytes request, cmRelocationSealed = False\<rparr>"

definition publish_import :: "relocationImport \<Rightarrow> string \<Rightarrow> Receipt os" where
  "publish_import relocation actualChecksum =
     (let request = imRequest relocation; w = WorkspaceID (riMutation request);
          operationID = OperationID (riMutation request)
      in st_seq (ensureWorkspaceLayout w)
        (st_seq (wrapping (os_Rename (relocationImagePath w operationID)
             (versionPath w (generationImageName (riGeneration request) (''relocation-'' @ operationID)))))
        (st_seq (syncDir (versionsDir w))
        (st_seq (publishCurrentManifest w (import_manifest request))
          (recordReceipt (zeroReceipt\<lparr>rcFormatVersion := receiptFormatVersion, rcKind := ReceiptRelocationImport,
              rcOperationID := operationID, rcWorkspaceID := w, rcInputDigest := imDigest relocation,
              rcGeneration := riGeneration request, rcCapacityBytes := riCapacityBytes request,
              rcChecksum := actualChecksum\<rparr>) True)))))"

definition checksum_of :: "Store \<Rightarrow> octet list \<Rightarrow> string" where
  "checksum_of store bs = ''sha256:'' @ hex_EncodeToString (sha256 store bs)"

text \<open>
  \<open>Complete\<close> updates the import also when it fails, for \<open>Abort\<close> to undo.
  \<open>CompactSparse\<close> of the Linux driver does nothing.
\<close>

definition finish_file :: "path \<Rightarrow> int \<Rightarrow> unit os" where
  "finish_file p capacityBytes =
     st_seq (wrapping (file_Truncate p capacityBytes)) (st_seq (wrapping os_Sync) (wrapping os_Close))"

definition release_import ::
  "Receipt \<Rightarrow> relocationImport \<Rightarrow> ((store_error, Receipt) result \<times> relocationImport) os" where
  "release_import receipt relocation =
     (let request = imRequest relocation in
      st_bind (st_try (cleanupStaging request)) (\<lambda>stagingErr.
      st_bind (st_try (closeLockedFile (WorkspaceID (riMutation request)))) (\<lambda>lockErr.
      let relocation = relocation\<lparr>imReceipt := receipt, imLock := False\<rparr> in
      st_return (case errors_Join [error_of stagingErr, error_of lockErr] of
          Some e \<Rightarrow> (Inl e, relocation)
        | None \<Rightarrow> (Inr receipt, relocation)))))"

definition complete_staged ::
  "Store \<Rightarrow> relocationImport \<Rightarrow> ((store_error, Receipt) result \<times> relocationImport) os" where
  "complete_staged store relocation =
     (let request = imRequest relocation; w = WorkspaceID (riMutation request);
          staged = relocationImagePath w (OperationID (riMutation request))
      in st_bind (st_try (validateExt4ImageUUID staged (riCapacityBytes request) (deterministicUUID store w))) (\<lambda>r. case r of
           Inl e \<Rightarrow> st_return (Inl e, relocation)
         | Inr _ \<Rightarrow>
             let relocation = relocation\<lparr>imCreated := True\<rparr> in
             st_bind (st_try (publish_import relocation (checksum_of store (imHashed relocation)))) (\<lambda>r. case r of
               Inl e \<Rightarrow> st_return (Inl e, relocation)
             | Inr receipt \<Rightarrow> release_import receipt relocation)))"

definition Complete ::
  "Store \<Rightarrow> int \<Rightarrow> string \<Rightarrow> relocationImport \<Rightarrow> ((store_error, Receipt) result \<times> relocationImport) os" where
  "Complete store sizeBytes checksum relocation =
     (case (CompletedReceipt relocation, imFile relocation) of
        (Some receipt, _) \<Rightarrow> st_return (Inr receipt, relocation)
      | (None, None) \<Rightarrow> st_return (Inl (Sentinel ErrStorageIncompatible), relocation)
      | (None, Some p) \<Rightarrow>
          let capacityBytes = riCapacityBytes (imRequest relocation) in
          if sizeBytes \<noteq> imWritten relocation \<or> sizeBytes \<noteq> u64 capacityBytes
          then st_return (Inl (Sentinel ErrStorageIncompatible), relocation)
          else if checksum \<noteq> checksum_of store (imHashed relocation)
          then st_return (Inl (Wrapped (Sentinel ErrCorruptState)), relocation)
          else st_bind (st_try (finish_file p capacityBytes)) (\<lambda>r. case r of
            Inl e \<Rightarrow> st_return (Inl e, relocation)
          | Inr _ \<Rightarrow> complete_staged store (relocation\<lparr>imFile := None\<rparr>)))"

definition Abort :: "relocationImport \<Rightarrow> (store_error go_error option \<times> relocationImport) os" where
  "Abort relocation =
     (let request = imRequest relocation; w = WorkspaceID (riMutation request) in
      if rcRecordedAt (imReceipt relocation) \<noteq> 0 then st_return (None, relocation)
      else
        st_bind (if imFile relocation \<noteq> None then st_bind (st_try os_Close) (\<lambda>c. st_return (error_of c))
                 else st_return None) (\<lambda>result.
        st_bind (if imCreated relocation
                 then st_bind (st_try (removeWorkspaceTree w)) (\<lambda>t. st_bind (st_try (syncDir workspacesRoot)) (\<lambda>y.
                   st_return (errors_Join [result, error_of t, error_of y])))
                 else st_return result) (\<lambda>result.
        st_bind (st_try (cleanupStaging request)) (\<lambda>c.
        let result = errors_Join [result, error_of c] in
        st_bind (if imLock relocation
                 then st_bind (st_try (closeLockedFile w)) (\<lambda>l. st_return (errors_Join [result, error_of l]))
                 else st_return result) (\<lambda>result.
          st_return (result, relocation\<lparr>imFile := None, imCreated := False, imLock := False\<rparr>))))))"

end
