(* ===== verification/Workspace_Transfer.thy ===== *)
theory Workspace_Transfer
  imports Workspace_Fencing Workspace_Relocation
begin

text \<open>
  What a relocation delivers: the sparse writes of any sequence of chunks assemble
  exactly the bytes that were sent, the completed import publishes them under the
  requested generation, and a sealed source refuses every writer.
\<close>

section \<open>Writing into an open image\<close>

lemma Open_success:
  assumes "os_Open p d = (Inr x, d')"
  shows "\<exists>m. node_at d p = Some (Reg m x)" "same_nodes d d'"
proof -
  have "wp (os_Open p) (\<lambda>x _. \<exists>m. node_at d p = Some (Reg m x)) (\<lambda>_ _. True) d"
    unfolding os_Open_def wp_bind by (rule wp_Lstat) (auto simp: wp_simps split: node.splits)
  with assms show "\<exists>m. node_at d p = Some (Reg m x)" by (simp add: wp_def)
  show "same_nodes d d'" using keepsD [OF same_calls(6) assms] .
qed

lemma Write_success:
  assumes "os_Write p x d = (Inr u, d')" "node_at d p = Some (Reg m y)"
  shows "node_at d' p = Some (Reg m x)"
proof -
  have "wp (os_Write p x) (\<lambda>_ d'. node_at d' p = Some (Reg m x)) (\<lambda>_ _. True) d"
    by (rule wp_Write) (use assms(2) in auto)
  with assms(1) show ?thesis by (simp add: wp_def)
qed

text \<open>A successful edit of the image at a path.\<close>

lemma edit_success:
  assumes "st_bind (os_Open p) (\<lambda>x. case x of Img i \<Rightarrow> os_Write p (Img (f i)) | _ \<Rightarrow> st_fail e) d = (Inr u, d')"
  shows "\<exists>m i. node_at d p = Some (Reg m (Img i)) \<and> node_at d' p = Some (Reg m (Img (f i)))"
proof -
  from assms obtain x d1 where x: "os_Open p d = (Inr x, d1)"
    "(case x of Img i \<Rightarrow> os_Write p (Img (f i)) | _ \<Rightarrow> st_fail e) d1 = (Inr u, d')"
    by (rule bind_successE)
  from Open_success [OF x(1)] obtain m where m: "node_at d p = Some (Reg m x)" "node_at d1 p = Some (Reg m x)"
    by (auto simp: same_node_at)
  from x(2) obtain i where "x = Img i" "os_Write p (Img (f i)) d1 = (Inr u, d')"
    by (auto simp: st_fail_def split: file_data.splits)
  with m Write_success show ?thesis by metis
qed

lemma wrapping_success: "wrapping m d = (Inr a, d') \<Longrightarrow> m d = (Inr a, d')"
  by (auto simp: wrapping_def st_catch_def st_fail_def st_return_def split: prod.splits sum.splits)

lemma os_call_success: "os_call d = (Inr u, d') \<Longrightarrow> same_nodes d d'"
  using keepsD [OF same_calls(1)] .

lemma wrapped_call_success: "wrapping os_call d = (Inr u, d') \<Longrightarrow> same_nodes d d'"
  using wrapping_success [of os_call d u d'] os_call_success by simp

text \<open>The image at a path, by its bytes and size; the mode does not matter.\<close>

definition image_at :: "Disk \<Rightarrow> path \<Rightarrow> ImageFile \<Rightarrow> bool" where
  "image_at d p i \<longleftrightarrow> (\<exists>m. node_at d p = Some (Reg m (Img i)))"

lemma image_at_same: "same_nodes d d' \<Longrightarrow> image_at d p i \<Longrightarrow> image_at d' p i"
  by (simp add: image_at_def same_node_at)

lemma file_Write_success:
  assumes "file_Write p position bs d = (Inr u, d')" "image_at d p i"
  shows "image_at d' p (overwrite position bs i)"
  using edit_success [OF assms(1) [unfolded file_Write_def]] assms(2) by (auto simp: image_at_def)

section \<open>Sparse runs\<close>

text \<open>
  The bytes of a chunk lie in the image up to a position, the rest of the chunk's
  range still reads as zeros, and nothing else has changed; a byte that is not
  zero lies within the size.
\<close>

definition chunk_upto :: "int \<Rightarrow> octet list \<Rightarrow> nat \<Rightarrow> ImageFile \<Rightarrow> ImageFile \<Rightarrow> bool" where
  "chunk_upto offset bs n i i' \<longleftrightarrow>
     (\<forall>k. content i' k =
        (if offset \<le> k \<and> k < offset + int (length bs)
         then Some (if k < offset + int n then bs ! nat (k - offset) else 0) else content i k)) \<and>
     imageSize i \<le> imageSize i' \<and>
     (\<forall>k. offset \<le> k \<and> k < offset + int n \<and> content i' k \<noteq> Some 0 \<longrightarrow> k < imageSize i')"

lemma slice_nth:
  assumes "offset + int n \<le> k" "k < offset + int m" "m \<le> length bs"
  shows "take (m - n) (drop n bs) ! nat (k - (offset + int n)) = bs ! nat (k - offset)"
    "nat (k - (offset + int n)) < m - n"
proof -
  have "nat (k - offset) = n + nat (k - (offset + int n))" using assms(1) by linarith
  moreover show "nat (k - (offset + int n)) < m - n" using assms(1,2) by linarith
  ultimately show "take (m - n) (drop n bs) ! nat (k - (offset + int n)) = bs ! nat (k - offset)"
    using assms(3) by simp
qed

lemma chunk_write:
  assumes "chunk_upto offset bs n i i'" "n \<le> m" "m \<le> length bs"
  shows "chunk_upto offset bs m i (overwrite (offset + int n) (take (m - n) (drop n bs)) i')"
  using assms slice_nth(1) [of offset n _ m bs] by (auto simp: chunk_upto_def overwrite_def)

lemma chunk_skip:
  assumes "chunk_upto offset bs n i i'" "n \<le> m" "m \<le> length bs" "allZero (take (m - n) (drop n bs))"
  shows "chunk_upto offset bs m i i'"
proof -
  have "bs ! nat (k - offset) = 0" if "offset + int n \<le> k" "k < offset + int m" for k
    using slice_nth [OF that assms(3)] assms(3,4) by (auto simp: allZero_def list_all_length)
  with assms show ?thesis
    by (auto simp: chunk_upto_def)
qed

lemma flush_success:
  assumes "flush_run p bs runStart runZero haveRun stop (offset + int runStart) d = (Inr position, d')"
    "image_at d p i'" "chunk_upto offset bs runStart i i'" "runStart \<le> stop" "stop \<le> length bs" "haveRun \<or> stop = runStart"
    "runZero \<Longrightarrow> allZero (take (stop - runStart) (drop runStart bs))"
  shows "position = offset + int stop" "\<exists>i''. image_at d' p i'' \<and> chunk_upto offset bs stop i i''"
proof -
  have "position = offset + int stop \<and> (\<exists>i''. image_at d' p i'' \<and> chunk_upto offset bs stop i i'')"
  proof (cases "stop = runStart")
    case True
    then show ?thesis using assms by (auto simp: flush_run_def st_return_def)
  next
    case False
    then have run: haveRun using assms(6) by simp
    show ?thesis
    proof (cases runZero)
      case True
      with run False assms(1) obtain d1 where "wrapping os_call d = (Inr (), d1)" "position = offset + int stop" "d' = d1"
        using assms(4) by (auto simp: flush_run_def st_return_def elim!: seq_successE)
      then show ?thesis
        using chunk_skip [OF assms(3,4,5)] assms(2,7) True image_at_same [OF wrapped_call_success] by blast
    next
      case nonzero: False
      with run False assms(1,4) obtain d1 where
        "wrapping (file_Write p (offset + int runStart) (take (stop - runStart) (drop runStart bs))) d = (Inr (), d1)"
        "position = offset + int stop" "d' = d1"
        by (auto simp: flush_run_def st_return_def elim!: seq_successE)
      from file_Write_success [OF wrapping_success [OF this(1)] assms(2)] show ?thesis
        using chunk_write [OF assms(3,4,5)] \<open>position = _\<close> \<open>d' = d1\<close> by blast
    qed
  qed
  then show "position = offset + int stop" "\<exists>i''. image_at d' p i'' \<and> chunk_upto offset bs stop i i''" by simp_all
qed

lemma segment_within: "position < len \<Longrightarrow> position + segment_bytes offset position len \<le> len"
  by (auto simp: segment_bytes_def Let_def)

lemma allZero_append:
  assumes "allZero (take (n - k) (drop k bs))" "allZero (take (m - n) (drop n bs))" "k \<le> n" "n \<le> m"
  shows "allZero (take (m - k) (drop k bs))"
proof -
  have m: "m - k = (n - k) + (m - n)" using assms(3,4) by simp
  have "take (m - k) (drop k bs) = take (n - k) (drop k bs) @ take (m - n) (drop n bs)"
    unfolding m take_add using assms(3) by simp
  with assms(1,2) show ?thesis by (simp add: allZero_def)
qed

lemma sparse_runs_success:
  assumes "sparse_runs p offset bs position runStart runZero haveRun filePosition d = (Inr u, d')"
    "filePosition = offset + int runStart" "image_at d p i'" "chunk_upto offset bs runStart i i'"
    "runStart \<le> position" "position \<le> length bs" "haveRun \<or> position = runStart"
    "runZero \<Longrightarrow> allZero (take (position - runStart) (drop runStart bs))"
  shows "\<exists>i''. image_at d' p i'' \<and> chunk_upto offset bs (length bs) i i''"
  using assms
proof (induction p offset bs position runStart runZero haveRun filePosition arbitrary: d i' rule: sparse_runs.induct)
  case (1 p offset bs position runStart runZero haveRun filePosition)
  note run = "1.prems"(1) [unfolded sparse_runs.simps [of p offset bs position]]
  show ?case
  proof (cases "position < length bs")
    case False
    then obtain q d1 where "flush_run p bs runStart runZero haveRun (length bs) filePosition d = (Inr q, d1)" "d' = d1"
      using run by (auto simp: st_return_def elim!: bind_successE)
    then show ?thesis
      using flush_success(2) [of p bs runStart runZero haveRun "length bs" offset d q d' i' i] "1.prems"(2-) False by auto
  next
    case True
    let ?stop = "position + segment_bytes offset position (length bs)"
    let ?zero = "allZero (take (?stop - position) (drop position bs))"
    have stop: "position \<le> ?stop" "?stop \<le> length bs" using segment_within [OF True] by simp_all
    consider (first) "\<not> haveRun" | (turn) haveRun "?zero \<noteq> runZero" | (more) haveRun "?zero = runZero" by blast
    then show ?thesis
    proof cases
      case first
      then have here: "runStart = position" using "1.prems"(7) by simp
      have "sparse_runs p offset bs ?stop position ?zero True filePosition d = (Inr u, d')"
        using run True first by (simp add: Let_def)
      from "1.IH"(1) [OF True refl refl first this] show ?thesis
        using "1.prems"(2-4) here stop by simp
    next
      case turn
      then obtain q d1 where "flush_run p bs runStart runZero haveRun position filePosition d = (Inr q, d1)"
        "sparse_runs p offset bs ?stop position ?zero haveRun q d1 = (Inr u, d')"
        using run True by (auto simp: Let_def elim!: bind_successE)
      moreover from this(1) flush_success [of p bs runStart runZero haveRun position offset d q d1 i' i] "1.prems"(2-) turn(1)
      obtain i'' where "q = offset + int position" "image_at d1 p i''" "chunk_upto offset bs position i i''" by auto
      moreover have "\<not> \<not> haveRun" using turn(1) by simp
      ultimately show ?thesis
        using "1.IH"(2) [OF True refl refl _ turn(2)] turn(1) stop by blast
    next
      case more
      have "allZero (take (?stop - runStart) (drop runStart bs))" if runZero
        using allZero_append [OF "1.prems"(8) [OF that] _ "1.prems"(5) stop(1)] more(2) that by blast
      moreover have "sparse_runs p offset bs ?stop runStart runZero haveRun filePosition d = (Inr u, d')"
        using run True more by (simp add: Let_def)
      moreover have "\<not> \<not> haveRun" "\<not> ?zero \<noteq> runZero" using more by simp_all
      ultimately show ?thesis
        using "1.IH"(3) [OF True refl refl _ _ _ "1.prems"(2-4)] more(1) order_trans [OF "1.prems"(5) stop(1)] stop(2) by blast
    qed
  qed
qed


lemma chunk_success:
  assumes "writeSparseRelocationChunk p offset bs d = (Inr u, d')" "image_at d p i" "i64 offset = offset"
    "\<forall>k. offset \<le> k \<and> k < offset + int (length bs) \<longrightarrow> content i k = Some 0"
  shows "\<exists>i'. image_at d' p i' \<and> chunk_upto offset bs (length bs) i i'"
proof -
  from assms(1,3) obtain d1 where d1: "wrapping os_call d = (Inr (), d1)"
    "sparse_runs p offset bs 0 0 False False offset d1 = (Inr u, d')"
    by (auto simp: writeSparseRelocationChunk_def elim!: seq_successE)
  have "chunk_upto offset bs 0 i i" using assms(4) by (auto simp: chunk_upto_def)
  with sparse_runs_success [OF d1(2) _ image_at_same [OF wrapped_call_success [OF d1(1)] assms(2)]] show ?thesis by simp
qed

section \<open>Sequences of chunks\<close>

primrec write_chunks :: "(int \<times> octet list) list \<Rightarrow> relocationImport \<Rightarrow> relocationImport os" where
  "write_chunks [] relocation = st_return relocation"
| "write_chunks (c # cs) relocation =
     st_bind (WriteChunk (fst c) (snd c) relocation) (write_chunks cs)"

text \<open>An import in progress: the staged image holds the bytes hashed so far and reads as zeros behind them.\<close>

definition staging :: "relocationImport \<Rightarrow> Disk \<Rightarrow> bool" where
  "staging r d \<longleftrightarrow> (\<exists>p i. imFile r = Some p \<and> image_at d p i \<and>
     imWritten r = int (length (imHashed r)) \<and> imWritten r \<le> riCapacityBytes (imRequest r) \<and>
     (\<forall>k. 0 \<le> k \<and> k < riCapacityBytes (imRequest r) \<longrightarrow>
        content i k = Some (if k < imWritten r then imHashed r ! nat k else 0) \<and>
        (content i k \<noteq> Some 0 \<longrightarrow> k < imageSize i)))"

lemma WriteChunk_cases:
  assumes "WriteChunk offset bs r d = (Inr r', d')"
  obtains p d1 where "imFile r = Some p" "offset = imWritten r" "bs \<noteq> []"
    "u64 (imWritten r + int (length bs)) \<le> u64 (riCapacityBytes (imRequest r))"
    "writeSparseRelocationChunk p offset bs d = (Inr (), d')"
    "r' = r\<lparr>imHashed := imHashed r @ bs, imWritten := u64 (imWritten r + int (length bs))\<rparr>"
  using assms
  by (auto simp: WriteChunk_def st_fail_def st_return_def elim!: seq_successE split: option.splits if_splits)

lemma chunk_range:
  assumes "staging r d" "in_i64 (riCapacityBytes (imRequest r))" "int (length bs) < 2 ^ 63"
    "u64 (imWritten r + int (length bs)) \<le> u64 (riCapacityBytes (imRequest r))"
  shows "imWritten r + int (length bs) \<le> riCapacityBytes (imRequest r)" "i64 (imWritten r) = imWritten r"
    "u64 (imWritten r + int (length bs)) = imWritten r + int (length bs)"
proof -
  have b: "0 \<le> imWritten r" "imWritten r \<le> riCapacityBytes (imRequest r)" "riCapacityBytes (imRequest r) < 2 ^ 63"
    using assms(1,2) by (auto simp: staging_def in_i64_def)
  then show "u64 (imWritten r + int (length bs)) = imWritten r + int (length bs)"
    using assms(3) by (intro u64_id) auto
  moreover have "u64 (riCapacityBytes (imRequest r)) = riCapacityBytes (imRequest r)" using b by (intro u64_id) auto
  ultimately show "imWritten r + int (length bs) \<le> riCapacityBytes (imRequest r)" using assms(4) by simp
  show "i64 (imWritten r) = imWritten r" using b by (intro i64_id) (simp add: in_i64_def)
qed

lemma WriteChunk_success:
  assumes "WriteChunk offset bs r d = (Inr r', d')" "staging r d" "in_i64 (riCapacityBytes (imRequest r))"
    "int (length bs) < 2 ^ 63"
  shows "staging r' d'" "r' = r\<lparr>imHashed := imHashed r @ bs, imWritten := imWritten r + int (length bs)\<rparr>"
proof -
  from assms(1) obtain p where w: "imFile r = Some p" "offset = imWritten r"
    "u64 (imWritten r + int (length bs)) \<le> u64 (riCapacityBytes (imRequest r))"
    "writeSparseRelocationChunk p offset bs d = (Inr (), d')"
    "r' = r\<lparr>imHashed := imHashed r @ bs, imWritten := u64 (imWritten r + int (length bs))\<rparr>"
    by (rule WriteChunk_cases)
  note range = chunk_range [OF assms(2-4) w(3)]
  show r': "r' = r\<lparr>imHashed := imHashed r @ bs, imWritten := imWritten r + int (length bs)\<rparr>"
    using w(5) range(3) by simp
  from assms(2) w(1) obtain i where i: "image_at d p i" "imWritten r = int (length (imHashed r))"
    "\<And>k. 0 \<le> k \<Longrightarrow> k < riCapacityBytes (imRequest r) \<Longrightarrow>
        content i k = Some (if k < imWritten r then imHashed r ! nat k else 0) \<and> (content i k \<noteq> Some 0 \<longrightarrow> k < imageSize i)"
    by (auto simp: staging_def)
  have "\<forall>k. offset \<le> k \<and> k < offset + int (length bs) \<longrightarrow> content i k = Some 0"
    using i(2,3) range(1) w(2) by auto
  with chunk_success [OF w(4) i(1)] range(2) w(2) obtain i' where i': "image_at d' p i'" "chunk_upto offset bs (length bs) i i'"
    by auto
  have "content i' k = Some (if k < imWritten r' then imHashed r' ! nat k else 0) \<and> (content i' k \<noteq> Some 0 \<longrightarrow> k < imageSize i')"
    if "0 \<le> k" "k < riCapacityBytes (imRequest r)" for k
    using i(3) [OF that] i'(2) that w(2) i(2) unfolding r' chunk_upto_def by (auto simp: nth_append nat_diff_distrib)
  then show "staging r' d'"
    using w(1) i'(1) i(2) range(1) unfolding staging_def r' by auto
qed

lemma write_chunks_success:
  assumes "write_chunks cs r d = (Inr r', d')" "staging r d" "in_i64 (riCapacityBytes (imRequest r))"
    "\<forall>c \<in> set cs. int (length (snd c)) < 2 ^ 63"
  shows "staging r' d' \<and> (\<exists>n. r' = r\<lparr>imHashed := imHashed r @ concat (map snd cs), imWritten := n\<rparr>)"
  using assms
proof (induction cs arbitrary: r d)
  case (Cons c cs)
  from Cons.prems(1) obtain r1 d1 where run: "WriteChunk (fst c) (snd c) r d = (Inr r1, d1)" "write_chunks cs r1 d1 = (Inr r', d')"
    by (auto elim: bind_successE)
  from WriteChunk_success [OF run(1) Cons.prems(2,3)] Cons.prems(4)
  have r1: "staging r1 d1" "r1 = r\<lparr>imHashed := imHashed r @ snd c, imWritten := imWritten r + int (length (snd c))\<rparr>" by auto
  with Cons.IH [OF run(2)] Cons.prems(3,4) show ?case by auto
next
  case Nil
  then show ?case by (auto simp: st_return_def intro!: exI [of _ "imWritten r"])
qed

section \<open>Begin\<close>

lemma ResetSparse_blank:
  assumes "driver_ResetSparse p c d = (Inr u, d')"
  shows "\<exists>i. image_at d' p i \<and> (\<forall>k. 0 \<le> k \<and> k < c \<longrightarrow> content i k = Some 0)"
proof -
  from assms have "st_bind (os_Open p) (\<lambda>x. case x of
          Img i \<Rightarrow> os_Write p (Img (i\<lparr>content := \<lambda>k. if 0 \<le> k \<and> k < c then Some 0 else content i k, sectors := 0\<rparr>))
        | _ \<Rightarrow> st_fail (Sentinel ErrIO)) d = (Inr u, d')"
    unfolding driver_ResetSparse_def
    by (auto simp: st_catch_def st_fail_def st_return_def split: if_splits prod.splits sum.splits)
  from edit_success [OF this] show ?thesis by (auto simp: image_at_def)
qed

lemma stage_image_blank:
  assumes "stage_image store request p d = (Inr u, d')"
  shows "\<exists>i. image_at d' p i \<and> (\<forall>k. 0 \<le> k \<and> k < riCapacityBytes request \<longrightarrow> content i k = Some 0)"
  using assms unfolding stage_image_def
  by (elim bind_successE seq_successE) (auto dest!: on_failure_success elim!: seq_successE intro: ResetSparse_blank)

abbreviation staged_path :: "RelocationImportRequest \<Rightarrow> path" where
  "staged_path request \<equiv> relocationImagePath (WorkspaceID (riMutation request)) (OperationID (riMutation request))"

lemma recorded_completed:
  "loadReceipt m digest kind d = (Inr (Some receipt), d') \<Longrightarrow> CompletedReceipt (new_import request digest f receipt) \<noteq> None"
  using loadReceipt_some by (fastforce simp: stored_def receipt_ok_def CompletedReceipt_def new_import_def)

lemma new_import_staging:
  assumes "image_at d (staged_path request) i" "\<forall>k. 0 \<le> k \<and> k < riCapacityBytes request \<longrightarrow> content i k = Some 0"
    "0 \<le> riCapacityBytes request"
  shows "staging (new_import request digest (Some (staged_path request)) zeroReceipt) d"
  using assms unfolding staging_def new_import_def by auto

lemma begin_locked_success:
  assumes "begin_locked store request digest d = (Inr r, d')" "CompletedReceipt r = None" "0 \<le> riCapacityBytes request"
  shows "r = new_import request digest (Some (staged_path request)) zeroReceipt \<and> staging r d'"
proof -
  let ?load = "loadReceipt (riMutation request) digest ReceiptRelocationImport"
  have "(\<exists>receipt d1. ?load d = (Inr (Some receipt), d1) \<and> r = new_import request digest None receipt) \<or>
    (\<exists>d1. stage_image store request (staged_path request) d1 = (Inr (), d') \<and>
       r = new_import request digest (Some (staged_path request)) zeroReceipt)"
    using assms(1) unfolding begin_locked_def Let_def
    by (elim bind_successE) (auto simp: st_return_def split: option.splits elim!: seq_successE)
  then show ?thesis
    using recorded_completed assms(2) stage_image_blank new_import_staging [OF _ _ assms(3)] by blast
qed

lemma Begin_success:
  assumes "BeginRelocationImport store request d = (Inr r, d')" "CompletedReceipt r = None"
  shows "\<exists>digest. r = new_import request digest (Some (staged_path request)) zeroReceipt" "staging r d'"
proof -
  let ?w = "WorkspaceID (riMutation request)"
  have "(\<exists>digest. r = new_import request digest (Some (staged_path request)) zeroReceipt) \<and> staging r d'"
  proof -
    from assms(1) obtain digest found d1 d2 where valid: "import_valid request"
      and found: "loadReceipt (riMutation request) digest ReceiptRelocationImport d1 = (Inr found, d2)"
      and rest: "(case found of
         Some receipt \<Rightarrow> st_seq (imported_image store request) (st_return (new_import request digest None receipt))
       | None \<Rightarrow> st_seq (lockWorkspace_file ?w) (on_failure (closeLockedFile ?w) (begin_locked store request digest))) d2 = (Inr r, d')"
      unfolding BeginRelocationImport_def
      by (elim seq_successE bind_successE) (auto simp: st_guard_def st_fail_def split: if_splits)
    show ?thesis
    proof (cases found)
      case None
      with rest obtain d3 where "begin_locked store request digest d3 = (Inr r, d')"
        by (auto elim!: seq_successE dest: on_failure_success)
      from begin_locked_success [OF this assms(2)] valid show ?thesis by (auto simp: import_valid_def)
    next
      case (Some receipt)
      with rest have "r = new_import request digest None receipt" by (auto simp: st_return_def elim!: seq_successE)
      with recorded_completed found Some assms(2) show ?thesis by metis
    qed
  qed
  then show "\<exists>digest. r = new_import request digest (Some (staged_path request)) zeroReceipt" "staging r d'" by auto
qed

section \<open>Completion\<close>

definition holds_bytes :: "Disk \<Rightarrow> path \<Rightarrow> octet list \<Rightarrow> bool" where
  "holds_bytes d p bs \<longleftrightarrow> (\<exists>i. image_at d p i \<and> imageSize i = int (length bs) \<and>
     (\<forall>k < length bs. content i (int k) = Some (bs ! k)))"

lemma holds_unchanged: "unchanged S d d' \<Longrightarrow> p \<in> S \<Longrightarrow> holds_bytes d p bs \<Longrightarrow> holds_bytes d' p bs"
  by (simp add: holds_bytes_def image_at_def unchangedD)

lemma finish_success:
  assumes "finish_file p c d = (Inr u, d')" "staging r d" "imFile r = Some p" "imWritten r = c"
    "riCapacityBytes (imRequest r) = c"
  shows "holds_bytes d' p (imHashed r)"
proof -
  from assms(1) obtain d1 d2 where run: "wrapping (file_Truncate p c) d = (Inr (), d1)" "wrapping os_Sync d1 = (Inr (), d2)"
    "wrapping os_Close d2 = (Inr u, d')"
    unfolding finish_file_def by (elim seq_successE)
  from edit_success [OF wrapping_success [OF run(1), unfolded file_Truncate_def]] obtain i where i: "image_at d p i"
    "image_at d1 p (i\<lparr>imageSize := c, content := \<lambda>k. if imageSize i \<le> k \<and> k < c then Some 0 else content i k\<rparr>)"
    by (auto simp: image_at_def)
  have "\<forall>k < length (imHashed r). content i (int k) = Some (imHashed r ! k) \<and> (imHashed r ! k \<noteq> 0 \<longrightarrow> int k < imageSize i)"
    "c = int (length (imHashed r))"
    using assms(2-5) i(1) by (force simp: staging_def image_at_def)+
  with i(2) have "holds_bytes d1 p (imHashed r)"
    unfolding holds_bytes_def by (intro exI [of _ "i\<lparr>imageSize := c, content := \<lambda>k. if imageSize i \<le> k \<and> k < c then Some 0 else content i k\<rparr>"]) auto
  then show ?thesis
    using holds_unchanged [OF same_unchanged [of _ _ UNIV]] wrapped_call_success [OF run(2)] wrapped_call_success [OF run(3)]
    by blast
qed


lemma Rename_success:
  assumes "os_Rename p q d = (Inr u, d')"
  shows "node_at d' q = node_at d p"
proof -
  have "wp (os_Rename p q) (\<lambda>_ d'. node_at d' q = node_at d p) (\<lambda>_ _. True) d" by (rule wp_Rename) auto
  with assms show ?thesis by (simp add: wp_def)
qed

lemma publish_success:
  assumes "publishCurrentManifest w m d = (Inr u, d')"
  shows "node_at d' (currentManifestPath w) = Some (Reg 384 (CurrentDoc m))"
proof -
  have "wp (atomicJSON (currentManifestPath w) (CurrentDoc m))
      (\<lambda>_ d'. node_at d' (currentManifestPath w) = Some (Reg 384 (CurrentDoc m))) (\<lambda>_ _. True) d1" for d1
    by (rule wp_mono [OF atomicJSON_atomic]) (auto simp: currentManifestPath_def)
  then have "ensures (publishCurrentManifest w m) (\<lambda>_ d'. node_at d' (currentManifestPath w) = Some (Reg 384 (CurrentDoc m)))"
    unfolding publishCurrentManifest_def validatedVersionPath_def by (auto simp: wp_simps wp_return_fun corrupt_def)
  from ensuresD [OF this assms] show ?thesis .
qed

lemmas relocation_paths = relocationDir_def relocationImagePath_def relocationsRoot_def

text \<open>What a published import leaves: the manifest, the image's bytes and the receipt.\<close>

definition imported :: "RelocationImportRequest \<Rightarrow> string \<Rightarrow> octet list \<Rightarrow> Receipt \<Rightarrow> Disk \<Rightarrow> bool" where
  "imported request digest bs receipt d \<longleftrightarrow>
     (let w = WorkspaceID (riMutation request) in
      node_at d (currentManifestPath w) = Some (Reg 384 (CurrentDoc (import_manifest request))) \<and>
      holds_bytes d (versionPath w (cmImage (import_manifest request))) bs \<and>
      stored (riMutation request) ReceiptRelocationImport digest receipt d)"

lemma imported_unchanged:
  assumes "unchanged S d d'" "imported request digest bs receipt d"
    "{currentManifestPath (WorkspaceID (riMutation request)), receiptPath (riMutation request) ReceiptRelocationImport,
      versionPath (WorkspaceID (riMutation request)) (cmImage (import_manifest request))} \<subseteq> S"
  shows "imported request digest bs receipt d'"
proof -
  note at = unchangedD [OF assms(1)]
  have "holds_bytes d' (versionPath (WorkspaceID (riMutation request)) (cmImage (import_manifest request))) bs"
    using holds_unchanged [OF assms(1)] assms(2,3) by (auto simp: imported_def Let_def)
  with assms(2,3) at show ?thesis by (auto simp: imported_def Let_def stored_def)
qed

lemma publish_import_success:
  assumes "publish_import r checksum d = (Inr receipt, d')" "holds_bytes d (staged_path (imRequest r)) bs"
  shows "imported (imRequest r) (imDigest r) bs receipt d'"
proof -
  let ?q = "imRequest r" let ?w = "WorkspaceID (riMutation ?q)" let ?op = "OperationID (riMutation ?q)"
  let ?v = "versionPath ?w (cmImage (import_manifest ?q))"
  let ?receipt = "zeroReceipt\<lparr>rcFormatVersion := receiptFormatVersion, rcKind := ReceiptRelocationImport,
    rcOperationID := ?op, rcWorkspaceID := ?w, rcInputDigest := imDigest r, rcGeneration := riGeneration ?q,
    rcCapacityBytes := riCapacityBytes ?q, rcChecksum := checksum\<rparr>"
  from assms(1) obtain d1 d2 d3 d4 where run: "ensureWorkspaceLayout ?w d = (Inr (), d1)"
    "wrapping (os_Rename (staged_path ?q) ?v) d1 = (Inr (), d2)" "syncDir (versionsDir ?w) d2 = (Inr (), d3)"
    "publishCurrentManifest ?w (import_manifest ?q) d3 = (Inr (), d4)" "recordReceipt ?receipt True d4 = (Inr receipt, d')"
    unfolding publish_import_def Let_def import_manifest_def by (elim seq_successE) (simp add: import_manifest_def)
  have "holds_bytes d1 (staged_path ?q) bs"
    by (rule holds_unchanged [OF keepsD [OF frame_layout [of "{staged_path ?q}" ?w] run(1)] _ assms(2)])
      (auto simp: path_simps relocation_paths)
  then have "holds_bytes d2 ?v bs"
    using Rename_success [OF wrapping_success [OF run(2)]] by (simp add: holds_bytes_def image_at_def)
  then have "holds_bytes d3 ?v bs"
    using holds_unchanged [OF same_unchanged [OF os_call_success [OF run(3)], of UNIV]] by simp
  moreover have "keeps (unchanged {?v}) (publishCurrentManifest ?w (import_manifest ?q))"
    by (rule frame_publish) (auto simp: path_simps)
  from keepsD [OF this run(4)] have "unchanged {?v} d3 d4" .
  ultimately have v: "holds_bytes d4 ?v bs"
    using holds_unchanged by blast
  note m = publish_success [OF run(4)]
  have keep: "unchanged {?v, currentManifestPath ?w} d4 d'"
    by (rule keepsD [OF frame_recordReceipt run(5)]) (auto simp: path_simps)
  have "stored (riMutation ?q) ReceiptRelocationImport (imDigest r) receipt d'"
    using recordReceipt_stores [OF run(5), of "riMutation ?q"] by simp
  then show ?thesis
    using holds_unchanged [OF keep _ v] unchangedD [OF keep] m by (simp add: imported_def Let_def)
qed

lemma frame_cleanup:
  assumes "S \<inter> under relocationsRoot = {}"
  shows "keeps (unchanged S) (cleanupStaging request)"
  unfolding cleanupStaging_def Let_def by (intro frame) (use assms in \<open>auto simp: under_def relocation_paths\<close>)


lemma try_bind_success:
  fixes m :: "'a os" and f :: "(store_error, 'a) result \<Rightarrow> 'b os"
  assumes "st_bind (st_try m) f d = (Inr b, d')"
  obtains r d1 where "m d = (r, d1)" "f r d1 = (Inr b, d')"
  using assms by (auto elim!: bind_successE dest!: try_result)

lemma try_or_success:
  fixes m :: "'a os" and f :: "'a \<Rightarrow> ((store_error, 'c) result \<times> 'b) os"
  assumes "st_bind (st_try m) (\<lambda>r. case r of Inl e \<Rightarrow> st_return (Inl e, x) | Inr a \<Rightarrow> f a) d = (Inr (Inr c, y), d')"
  obtains a d1 where "m d = (Inr a, d1)" "f a d1 = (Inr (Inr c, y), d')"
  using assms by (rule try_bind_success) (auto simp: st_return_def split: sum.splits)

lemma release_steps:
  assumes "release_import receipt r d = (Inr (Inr x, r'), d')"
  obtains d1 where "x = receipt" "cleanupStaging (imRequest r) d = (Inr (), d1)"
    "closeLockedFile (WorkspaceID (riMutation (imRequest r))) d1 = (Inr (), d')"
proof -
  from assms obtain a b d1 where "cleanupStaging (imRequest r) d = (a, d1)"
    "closeLockedFile (WorkspaceID (riMutation (imRequest r))) d1 = (b, d')"
    "errors_Join [error_of a, error_of b] = None" "x = receipt"
    unfolding release_import_def Let_def
    by (elim try_bind_success) (auto simp: st_return_def split: option.splits)
  then show thesis
    using that by (auto simp: errors_Join_None error_of_def split: sum.splits)
qed

text \<open>The steps of a completion that returned a receipt.\<close>

lemma Complete_steps:
  assumes "Complete store n checksum r d = (Inr (Inr receipt, r'), d')" "CompletedReceipt r = None" "imFile r = Some p"
  obtains d1 d2 d3 d4 where "n = imWritten r" "n = u64 (riCapacityBytes (imRequest r))" "checksum = checksum_of store (imHashed r)"
    "finish_file p (riCapacityBytes (imRequest r)) d = (Inr (), d1)"
    "validateExt4ImageUUID (staged_path (imRequest r)) (riCapacityBytes (imRequest r))
       (deterministicUUID store (WorkspaceID (riMutation (imRequest r)))) d1 = (Inr (), d2)"
    "publish_import (r\<lparr>imFile := None, imCreated := True\<rparr>) (checksum_of store (imHashed r)) d2 = (Inr receipt, d3)"
    "cleanupStaging (imRequest r) d3 = (Inr (), d4)" "closeLockedFile (WorkspaceID (riMutation (imRequest r))) d4 = (Inr (), d')"
proof -
  have guards: "n = imWritten r" "n = u64 (riCapacityBytes (imRequest r))" "checksum = checksum_of store (imHashed r)"
    using assms by (auto simp: Complete_def Let_def st_return_def split: if_splits)
  with assms have "st_bind (st_try (finish_file p (riCapacityBytes (imRequest r)))) (\<lambda>f. case f of
      Inl e \<Rightarrow> st_return (Inl e, r) | Inr _ \<Rightarrow> complete_staged store (r\<lparr>imFile := None\<rparr>)) d = (Inr (Inr receipt, r'), d')"
    by (simp add: Complete_def Let_def)
  then obtain d1 where d1: "finish_file p (riCapacityBytes (imRequest r)) d = (Inr (), d1)"
    "complete_staged store (r\<lparr>imFile := None\<rparr>) d1 = (Inr (Inr receipt, r'), d')"
    by (rule try_or_success) simp
  from d1(2) obtain d2 d3 x where d3: "validateExt4ImageUUID (staged_path (imRequest r)) (riCapacityBytes (imRequest r))
       (deterministicUUID store (WorkspaceID (riMutation (imRequest r)))) d1 = (Inr (), d2)"
    "publish_import (r\<lparr>imFile := None, imCreated := True\<rparr>) (checksum_of store (imHashed r)) d2 = (Inr x, d3)"
    "release_import x (r\<lparr>imFile := None, imCreated := True\<rparr>) d3 = (Inr (Inr receipt, r'), d')"
    unfolding complete_staged_def Let_def by (elim try_or_success) simp
  from release_steps [OF d3(3)] obtain d4 where "receipt = x" "cleanupStaging (imRequest r) d3 = (Inr (), d4)"
    "closeLockedFile (WorkspaceID (riMutation (imRequest r))) d4 = (Inr (), d')" by auto
  with guards d1(1) d3(1,2) show thesis by (intro that) simp_all
qed

lemma Complete_success:
  assumes "Complete store n checksum r d = (Inr (Inr receipt, r'), d')" "CompletedReceipt r = None" "staging r d"
    "imFile r = Some (staged_path (imRequest r))" "in_i64 (riCapacityBytes (imRequest r))"
  shows "int (length (imHashed r)) = riCapacityBytes (imRequest r)"
    "checksum = checksum_of store (imHashed r)" "imported (imRequest r) (imDigest r) (imHashed r) receipt d'"
proof -
  let ?q = "imRequest r" let ?w = "WorkspaceID (riMutation ?q)" let ?c = "riCapacityBytes ?q"
  obtain d1 d2 d3 d4 where size: "n = imWritten r" "n = u64 ?c"
    and sum: "checksum = checksum_of store (imHashed r)"
    and run: "finish_file (staged_path ?q) ?c d = (Inr (), d1)"
    "validateExt4ImageUUID (staged_path ?q) ?c (deterministicUUID store ?w) d1 = (Inr (), d2)"
    "publish_import (r\<lparr>imFile := None, imCreated := True\<rparr>) (checksum_of store (imHashed r)) d2 = (Inr receipt, d3)"
    "cleanupStaging ?q d3 = (Inr (), d4)" "closeLockedFile ?w d4 = (Inr (), d')"
    by (rule Complete_steps [OF assms(1,2,4)])
  have written: "imWritten r = int (length (imHashed r))" "imWritten r \<le> ?c"
    using assms(3) by (auto simp: staging_def)
  then have cap: "u64 ?c = ?c" using assms(5) by (intro u64_id) (auto simp: in_i64_def)
  with size written show "int (length (imHashed r)) = ?c" "checksum = checksum_of store (imHashed r)"
    using sum by simp_all
  have "imWritten r = ?c" using size cap by simp
  from finish_success [OF run(1) assms(3,4) this refl] have "holds_bytes d1 (staged_path ?q) (imHashed r)" .
  then have "holds_bytes d2 (staged_path ?q) (imHashed r)"
    by (rule holds_unchanged [OF same_unchanged [OF keepsD [OF same_reads(2) run(2)]] UNIV_I])
  then have d3: "imported ?q (imDigest r) (imHashed r) receipt d3"
    using publish_import_success [OF run(3)] by simp
  have "unchanged (- under relocationsRoot) d3 d4"
    by (rule keepsD [OF frame_cleanup run(4)]) auto
  from imported_unchanged [OF this d3] have d4: "imported ?q (imDigest r) (imHashed r) receipt d4"
    by (simp add: path_simps relocation_paths)
  have "keeps (unchanged UNIV) (closeLockedFile ?w)"
    unfolding closeLockedFile_def by (intro frame)
  from imported_unchanged [OF keepsD [OF this run(5)] d4] show "imported ?q (imDigest r) (imHashed r) receipt d'"
    by simp
qed

text \<open>
  The whole transfer on the target: an import that was begun, received its chunks
  and completed has published exactly the bytes that were sent.
\<close>

lemma relocation_transfers_image:
  assumes "BeginRelocationImport store request d0 = (Inr r0, d1)" "CompletedReceipt r0 = None"
    "write_chunks chunks r0 d1 = (Inr r1, d2)" "Complete store n checksum r1 d2 = (Inr (Inr receipt, r2), d3)"
    "in_i64 (riCapacityBytes request)" "\<forall>c \<in> set chunks. int (length (snd c)) < 2 ^ 63"
  shows "int (length (concat (map snd chunks))) = riCapacityBytes request"
    "checksum = checksum_of store (concat (map snd chunks))"
    "\<exists>digest. imported request digest (concat (map snd chunks)) receipt d3"
proof -
  from Begin_success [OF assms(1,2)] obtain digest where
    r0: "r0 = new_import request digest (Some (staged_path request)) zeroReceipt" "staging r0 d1" by blast
  then have q: "imRequest r0 = request" "imHashed r0 = []" "imFile r0 = Some (staged_path request)" "imReceipt r0 = zeroReceipt"
    by (simp_all add: new_import_def)
  from write_chunks_success [OF assms(3) r0(2)] assms(5,6) q obtain k where
    r1: "staging r1 d2" "r1 = r0\<lparr>imHashed := concat (map snd chunks), imWritten := k\<rparr>" by auto
  then have "imRequest r1 = request" "imHashed r1 = concat (map snd chunks)" "imFile r1 = Some (staged_path request)"
    "CompletedReceipt r1 = None"
    using q assms(2) by (simp_all add: CompletedReceipt_def zeroReceipt_def)
  with Complete_success [OF assms(4) _ r1(1)] assms(5) show "int (length (concat (map snd chunks))) = riCapacityBytes request"
    "checksum = checksum_of store (concat (map snd chunks))"
    "\<exists>digest. imported request digest (concat (map snd chunks)) receipt d3" by auto
qed

text \<open>
  C34: the sparse writes of a relocation assemble the image that was sent. From a
  staged image that reads as zeros, as \<open>BeginRelocationImport\<close> leaves it, any
  sequence of accepted chunks, however the image is cut into chunks and wherever
  its zero blocks are skipped, leaves exactly the bytes of the chunks in their
  order followed by zeros up to the capacity, and exactly these bytes hashed.
\<close>

theorem chunks_assemble_image:
  assumes "staging r d" "imHashed r = []" "write_chunks chunks r d = (Inr r', d')"
    "in_i64 (riCapacityBytes (imRequest r))" "\<forall>c \<in> set chunks. int (length (snd c)) < 2 ^ 63"
  shows "imHashed r' = concat (map snd chunks) \<and> imWritten r' = int (length (concat (map snd chunks))) \<and>
    (\<exists>p i. imFile r' = Some p \<and> image_at d' p i \<and>
       (\<forall>k. 0 \<le> k \<and> k < riCapacityBytes (imRequest r) \<longrightarrow> content i k =
          Some (if k < int (length (concat (map snd chunks))) then concat (map snd chunks) ! nat k else 0)))"
proof -
  from write_chunks_success [OF assms(3,1,4,5)] assms(2) obtain n where
    r': "staging r' d'" "r' = r\<lparr>imHashed := concat (map snd chunks), imWritten := n\<rparr>" by auto
  then have "imHashed r' = concat (map snd chunks)" "imRequest r' = imRequest r" by simp_all
  with r'(1) show ?thesis unfolding staging_def by metis
qed

section \<open>The sealed source\<close>

lemma read_manifest:
  assumes "readCurrentManifest w d = (Inr m, d')"
  shows "\<exists>k. node_at d (currentManifestPath w) = Some (Reg k (CurrentDoc m))" "same_nodes d d'"
proof -
  have "wp (readCurrentManifest w) (\<lambda>m _. \<exists>k. node_at d (currentManifestPath w) = Some (Reg k (CurrentDoc m))) (\<lambda>_ _. True) d"
    by (rule wp_readCurrentManifest) auto
  with assms show "\<exists>k. node_at d (currentManifestPath w) = Some (Reg k (CurrentDoc m))" by (simp add: wp_def)
  show "same_nodes d d'" using keepsD [OF same_reads(4) assms] .
qed

definition sealed_at :: "string \<Rightarrow> int \<Rightarrow> Disk \<Rightarrow> bool" where
  "sealed_at w g d \<longleftrightarrow> (\<exists>k m. node_at d (currentManifestPath w) = Some (Reg k (CurrentDoc m)) \<and>
     cmRelocationSealed m \<and> cmGeneration m = g)"

lemma sealed_Open: "sealed_at w g d \<Longrightarrow> Open store w h d \<noteq> (Inr a, d')"
proof
  assume seal: "sealed_at w g d" and run: "Open store w h d = (Inr a, d')"
  obtain d1 d2 d3 where d: "ctx_Err d = (Inr (), d1)" "validateID w d1 = (Inr (), d2)" "lockWorkspace_file w d2 = (Inr (), d3)"
    "on_failure (closeLockedFile w) (open_locked store w h) d3 = (Inr a, d')"
    using run unfolding Open_def by (elim seq_successE) (rule that)
  have "unchanged {currentManifestPath w} d d1" "unchanged {currentManifestPath w} d1 d2"
    using keepsD [OF frame_call(2) d(1)] keepsD [OF frame_validate(6) d(2)] by auto
  moreover have "unchanged {currentManifestPath w} d2 d3"
    by (rule keepsD [OF frame_lock(1) d(3)]) (auto simp: path_simps)
  ultimately have "sealed_at w g d3" using seal by (simp add: sealed_at_def unchanged_def)
  moreover from on_failure_success [OF d(4)] obtain m d4 where m: "readCurrentManifest w d3 = (Inr m, d4)"
    "\<not> cmRelocationSealed m"
    unfolding open_locked_def by (auto simp: st_fail_def elim!: bind_successE split: if_splits)
  ultimately show False using read_manifest(1) [OF m(1)] by (auto simp: sealed_at_def)
qed

lemma export_locked_sealed:
  assumes "export_locked store request receipt d = (Inr ex, d')"
  shows "sealed_at (WorkspaceID (reMutation request)) (reExpectedGeneration request) d'" "same_nodes d d'"
proof -
  have same: "keeps same_nodes (export_locked store request receipt)"
    unfolding export_locked_def Let_def validatedVersionPath_def by (intro same_combinators same_calls same_reads)
  show s: "same_nodes d d'" by (rule keepsD [OF same assms])
  from assms obtain m d1 where "readCurrentManifest (WorkspaceID (reMutation request)) d = (Inr m, d1)"
    "cmGeneration m = reExpectedGeneration request" "cmRelocationSealed m"
    unfolding export_locked_def Let_def by (auto simp: st_fail_def elim!: bind_successE split: if_splits)
  with read_manifest(1) [OF this(1)] show "sealed_at (WorkspaceID (reMutation request)) (reExpectedGeneration request) d'"
    by (auto simp: sealed_at_def same_node_at [OF s])
qed

text \<open>
  C35: an exported Workspace has no writer. Once an export is open, whatever
  failed on the way, the source is sealed at the exported generation and its
  writer lock is held by the export; and at every later moment with the same
  manifest no attachment can be opened, also after the lock was released.
\<close>

theorem export_seals_source:
  assumes "OpenRelocationExport store request d = (Inr ex, d')"
    "node_at later (currentManifestPath w) = node_at d' (currentManifestPath w)" "w = WorkspaceID (reMutation request)"
  shows "sealed_at w (reExpectedGeneration request) d' \<and> writer_holds w d' \<and>
    (\<forall>g a after. Open store w g later \<noteq> (Inr a, after))"
proof -
  from assms(1) obtain receipt d1 d2 where run: "lockWorkspace_file (WorkspaceID (reMutation request)) d1 = (Inr (), d2)"
    "on_failure (closeLockedFile (WorkspaceID (reMutation request))) (export_locked store request receipt) d2 = (Inr ex, d')"
    unfolding OpenRelocationExport_def by (elim bind_successE seq_successE)
  note ex = export_locked_sealed [OF on_failure_success [OF run(2)]]
  have "writer_holds w d'"
    using lockWorkspace_file_holds [OF run(1)] ex(2) same_node_at [OF ex(2)] by (simp add: writer_holds_def same_nodes_def assms(3))
  moreover have "sealed_at w (reExpectedGeneration request) later"
    using ex(1) assms(2,3) by (simp add: sealed_at_def)
  ultimately show ?thesis using ex(1) sealed_Open assms(3) by blast
qed

text \<open>
  The seal does not survive a restore: \<open>PrepareRestore\<close> and \<open>SwapRestore\<close> do not
  look at it, and the manifest that a swap publishes is not sealed.
\<close>

lemma swap_drops_seal:
  assumes "swap_apply store request d = (Inr receipt, d')" "sealed_at (WorkspaceID (prMutation request)) g d"
    "prExpectedGeneration request = g" "prNextGeneration request \<noteq> g"
  shows "\<exists>k m. node_at d' (currentManifestPath (WorkspaceID (prMutation request))) = Some (Reg k (CurrentDoc m)) \<and>
    cmGeneration m = prNextGeneration request \<and> \<not> cmRelocationSealed m"
proof -
  let ?w = "WorkspaceID (prMutation request)" let ?op = "OperationID (prMutation request)"
  let ?new = "\<lambda>staged manifest. \<lparr>cmFormatVersion = currentManifestFormatVersion, cmWorkspaceID = ?w,
    cmGeneration = prNextGeneration request, cmImage = srImage staged, cmCapacityBytes = cmCapacityBytes manifest,
    cmRelocationSealed = False\<rparr>"
  have "\<exists>staged manifest d1 d2.
      st_catch (readStagedRestore ?w ?op) (\<lambda>r. case r of Inl _ \<Rightarrow> corrupt | Inr m \<Rightarrow> st_return m) d = (Inr staged, d1) \<and>
      readCurrentManifest ?w d1 = (Inr manifest, d2) \<and>
      (cmGeneration manifest = prNextGeneration request \<or> (\<exists>d3. publishCurrentManifest ?w (?new staged manifest) d3 = (Inr (), d')))"
    using assms(1) unfolding swap_apply_def Let_def
    by (auto simp: st_fail_def st_return_def elim!: bind_successE seq_successE split: if_splits)
  then obtain staged manifest d1 d2 where d1:
    "st_catch (readStagedRestore ?w ?op) (\<lambda>r. case r of Inl _ \<Rightarrow> corrupt | Inr m \<Rightarrow> st_return m) d = (Inr staged, d1)"
    "readCurrentManifest ?w d1 = (Inr manifest, d2)"
    and last: "cmGeneration manifest = prNextGeneration request \<or> (\<exists>d3. publishCurrentManifest ?w (?new staged manifest) d3 = (Inr (), d'))"
    by blast
  have "keeps (unchanged {currentManifestPath ?w})
      (st_catch (readStagedRestore ?w ?op) (\<lambda>r. case r of Inl _ \<Rightarrow> corrupt | Inr m \<Rightarrow> st_return m))"
    by (intro frame)
  from keepsD [OF this d1(1)] have "cmGeneration manifest = g"
    using assms(2) read_manifest(1) [OF d1(2)] by (auto simp: sealed_at_def unchanged_def)
  with last assms(4) obtain d3 where "publishCurrentManifest ?w (?new staged manifest) d3 = (Inr (), d')" by auto
  from publish_success [OF this] show ?thesis by simp
qed

end
