(* ===== verification/Workspace_Witnesses.thy ===== *)
theory Workspace_Witnesses
  imports Workspace_Fencing
begin

text \<open>
  A small store on which the properties of the WorkspaceStore are applied: a
  digest by length, a formatter that writes an ext4 magic and UUID, and an
  empty disk on which a Workspace is created.
\<close>

definition ext4_bytes :: "octet list \<Rightarrow> int \<Rightarrow> octet option" where
  "ext4_bytes bs z =
     (if z = 1080 then Some 0x53 else if z = 1081 then Some 0xef
      else if 1128 \<le> z \<and> z < 1144 then Some (bs ! nat (z - 1128))
      else Some 0)"

definition sample_uuid :: "string \<Rightarrow> octet list" where
  "sample_uuid u = (case decodeUUID u of None \<Rightarrow> replicate 16 0 | Some bs \<Rightarrow> bs)"

definition sample_host :: Host where
  "sample_host = \<lparr>ctxErr = \<lambda>_. False, rangeAllocated = \<lambda>_ _ _. Inr True, punchHole = \<lambda>_ _ img. (Inr (), img)\<rparr>"

definition sample_store :: Store where
  "sample_store =
     \<lparr>sha256 = \<lambda>bs. replicate 31 0 @ [word_of_int (int (length bs))],
      driverClone = Some,
      driverFormat = \<lambda>c u. Some (Img \<lparr>content = ext4_bytes (sample_uuid u), imageSize = c, regular = True, sectors = 8\<rparr>),
      tune2fs = \<lambda>u x. \<lparr>exitCode = Some 0, freshCheckRequired = False,
        leaves = (case x of Img i \<Rightarrow> Img (i\<lparr>content := ext4_bytes (sample_uuid u)\<rparr>) | y \<Rightarrow> y)\<rparr>,
      e2fsck = \<lambda>x. \<lparr>exitCode = Some 0, freshCheckRequired = False, leaves = x\<rparr>,
      deviceOf = \<lambda>_. 1,
      reclaimHost = sample_host\<rparr>"

definition sample_disk :: Disk where
  "sample_disk = \<lparr>nodes = map (\<lambda>p. (p, Dir)) [workspacesRoot, snapshotsRoot, locksRoot, receiptsRoot, templatesRoot,
      ext4TemplatesRoot, relocationsRoot], faults = [], locks = [], clock = 7\<rparr>"

definition sample_mutation :: "string \<Rightarrow> nat \<Rightarrow> Mutation" where
  "sample_mutation op n = \<lparr>OperationID = op, WorkspaceID = ''w'', FencingToken = replicate n 1\<rparr>"

definition sample_create :: store_command where
  "sample_create = CreateCommand \<lparr>crMutation = sample_mutation ''a'' 32, crCapacityBytes = 67108864\<rparr>"

definition sample_abort :: "nat \<Rightarrow> store_command" where
  "sample_abort n = AbortCommand (sample_mutation ''b'' n)"

text \<open>A disk with Workspace \<open>w\<close> at generation 1.\<close>

definition sample_manifest :: "bool \<Rightarrow> currentManifest" where
  "sample_manifest sealed = \<lparr>cmFormatVersion = 1, cmWorkspaceID = ''w'', cmGeneration = 1, cmImage = ''g.ext4'',
     cmCapacityBytes = 67108864, cmRelocationSealed = sealed\<rparr>"

definition sample_ext4 :: ImageFile where
  "sample_ext4 = \<lparr>content = ext4_bytes (sample_uuid (deterministicUUID sample_store ''w'')), imageSize = 67108864,
     regular = True, sectors = 8\<rparr>"

definition sample_current :: "bool \<Rightarrow> Disk" where
  "sample_current sealed = sample_disk\<lparr>nodes := nodes sample_disk @
     [(workspaceDir ''w'', Dir), (versionsDir ''w'', Dir), (manifestDir ''w'', Dir),
      (currentManifestPath ''w'', Reg 384 (CurrentDoc (sample_manifest sealed))),
      (versionPath ''w'' ''g.ext4'', Reg 384 (Img sample_ext4))]\<rparr>"

definition sample_advance :: "int \<Rightarrow> store_command" where
  "sample_advance g = AdvanceCommand \<lparr>agMutation = sample_mutation ''c'' 32, agExpectedGeneration = g, agNextGeneration = g + 1\<rparr>"

definition succeeded :: "(store_error, 'a) result \<times> Disk \<Rightarrow> bool" where
  "succeeded x = (case x of (Inr _, d) \<Rightarrow> faults d = [] | (Inl _, _) \<Rightarrow> False)"

lemma succeededE:
  assumes "succeeded x"
  obtains r where "x = (Inr r, snd x)" "faults (snd x) = []"
  using assms by (cases x) (auto simp: succeeded_def split: sum.splits)

section \<open>Isolation and selection\<close>



section \<open>Replay\<close>

lemma sample_aborted: "succeeded (run_command sample_store (sample_abort 32) sample_disk)"
  by code_simp

theorem commands_idempotent_witness:
  "\<exists>r d. run_command sample_store (sample_abort 32) sample_disk = (Inr r, d) \<and>
     run_command sample_store (sample_abort 32) d = (Inr r, d)"
  using sample_aborted by (rule succeededE) (metis commands_idempotent)


section \<open>Fences\<close>

lemma sample_opened:
  "succeeded (Open sample_store ''w'' 1 (sample_current False)) \<and>
   \<not> exists_at (snd (Open sample_store ''w'' 1 (sample_current False))) (receiptPath (sample_mutation ''b'' 32) ReceiptRestoreAbort)"
  by code_simp



lemma sample_advanced: "succeeded (run_command sample_store (sample_advance 1) (sample_current True))"
  by code_simp

theorem success_publishes_generation_witness:
  "published ''w'' 2 (snd (run_command sample_store (sample_advance 1) (sample_current True)))"
  using sample_advanced
proof (rule succeededE)
  let ?x = "run_command sample_store (sample_advance 1) (sample_current True)"
  fix r assume r: "?x = (Inr r, snd ?x)" "faults (snd ?x) = []"
  have n: "node_at (sample_current True) (receiptPath (sample_mutation ''c'' 32) ReceiptGenerationAdvance) = None"
    by (simp add: sample_current_def sample_disk_def node_at_def path_simps relocationsRoot_def sample_mutation_def)
  show ?thesis
    using success_publishes_generation [OF r(1), of 2] n
    by (simp add: sample_advance_def command_mutation_def command_kind_def target_generation_def sample_mutation_def)
qed

section \<open>A receipt interrupted half-way\<close>

text \<open>
  A process that dies after \<open>atomicJSON\<close> created its temporary file and before it
  renamed it leaves that file in the receipt directory. The command can be
  repeated and then succeeds, but \<open>Reconcile\<close> takes the file for corrupt state and
  fails from then on: nothing in the store removes it.
\<close>

definition crashing :: "nat \<Rightarrow> Disk \<Rightarrow> Disk" where
  "crashing n d = d\<lparr>faults := replicate n False @ replicate 40 True\<rparr>"

definition restarted :: "Disk \<Rightarrow> Disk" where
  "restarted d = d\<lparr>faults := [], locks := []\<rparr>"

definition sample_interrupted :: Disk where
  "sample_interrupted = restarted (snd (run_command sample_store (sample_abort 32) (crashing 18 sample_disk)))"

lemma interrupted_receipt_blocks_Reconcile:
  "fst (Reconcile sample_store sample_interrupted) = Inl (Wrapped (Sentinel ErrCorruptState))"
  by code_simp

lemma repeated_command_leaves_Reconcile_blocked:
  "succeeded (run_command sample_store (sample_abort 32) sample_interrupted)"
  "fst (Reconcile sample_store (snd (run_command sample_store (sample_abort 32) sample_interrupted))) =
     Inl (Wrapped (Sentinel ErrCorruptState))"
  by code_simp+

end
