(* ===== verification/Workspace_Transfer_Witnesses.thy ===== *)
theory Workspace_Transfer_Witnesses
  imports Workspace_Transfer Workspace_Witnesses
begin

text \<open>
  Relocations of the sample Workspace: a transfer in three chunks with a skipped
  run of zeros, and an export whose seal receipt is already on disk.
\<close>

definition sample_transfer :: relocationImport where
  "sample_transfer = new_import \<lparr>riMutation = sample_mutation ''m'' 32, riGeneration = 3, riCapacityBytes = 9000\<rparr> []
     (Some [''image'']) zeroReceipt"

definition sample_staging :: Disk where
  "sample_staging = \<lparr>nodes = [([''image''], Reg 384 (sparse_image 9000))], faults = [], locks = [], clock = 7\<rparr>"

definition sample_chunks :: "(int \<times> octet list) list" where
  "sample_chunks = [(0, [7, 0, 9]), (3, [0, 0]), (5, [1])]"

lemma sample_written: "succeeded (write_chunks sample_chunks sample_transfer sample_staging)"
  by code_simp

theorem chunks_assemble_image_witness:
  "\<exists>r d i. write_chunks sample_chunks sample_transfer sample_staging = (Inr r, d) \<and> imHashed r = [7, 0, 9, 0, 0, 1] \<and>
     image_at d [''image''] i \<and> content i 2 = Some 9 \<and> content i 4 = Some 0 \<and> content i 8999 = Some 0"
  using sample_written
proof (rule succeededE)
  let ?x = "write_chunks sample_chunks sample_transfer sample_staging"
  fix r assume r: "?x = (Inr r, snd ?x)" "faults (snd ?x) = []"
  have start: "staging sample_transfer sample_staging" "imHashed sample_transfer = []"
    by (auto simp: staging_def sample_transfer_def sample_staging_def new_import_def sparse_image_def image_at_def node_at_def)
  have "imFile r = Some [''image'']" 
    using write_chunks_success [OF r(1) start(1)] 
    by (auto simp: sample_transfer_def new_import_def in_i64_def sample_chunks_def)
  with chunks_assemble_image [OF start r(1)] r(1) show ?thesis
    by (fastforce simp: sample_transfer_def new_import_def in_i64_def sample_chunks_def nth_Cons' )
qed

definition sample_export :: RelocationExportRequest where
  "sample_export = \<lparr>reMutation = sample_mutation ''e'' 32, reExpectedGeneration = 1\<rparr>"

definition sample_seal_receipt :: Receipt where
  "sample_seal_receipt = zeroReceipt\<lparr>rcFormatVersion := receiptFormatVersion, rcKind := ReceiptRelocationExport,
     rcOperationID := ''e'', rcWorkspaceID := ''w'', rcGeneration := 1, rcCapacityBytes := 67108864, rcRecordedAt := 5,
     rcInputDigest := digest_of sample_store (reRequest sample_export) (reMutation sample_export)\<rparr>"

definition sample_sealed :: Disk where
  "sample_sealed = (sample_current True)\<lparr>nodes := nodes (sample_current True) @
     [(receiptsRoot @ [''w''], Dir), (receiptsRoot @ [''w'', ''e''], Dir),
      (receiptPath (reMutation sample_export) ReceiptRelocationExport, Reg 384 (ReceiptDoc sample_seal_receipt))]\<rparr>"

lemma sample_exported: "succeeded (OpenRelocationExport sample_store sample_export sample_sealed)"
  by code_simp

theorem export_seals_source_witness:
  "\<exists>ex d. OpenRelocationExport sample_store sample_export sample_sealed = (Inr ex, d) \<and> sealed_at ''w'' 1 d \<and>
     (\<forall>a after. Open sample_store ''w'' 1 (d\<lparr>locks := []\<rparr>) \<noteq> (Inr a, after))"
  using sample_exported
proof (rule succeededE)
  let ?x = "OpenRelocationExport sample_store sample_export sample_sealed"
  fix ex assume ex: "?x = (Inr ex, snd ?x)" "faults (snd ?x) = []"
  have w: "''w'' = WorkspaceID (reMutation sample_export)" "reExpectedGeneration sample_export = 1"
    by (simp_all add: sample_export_def sample_mutation_def)
  have "sealed_at ''w'' 1 (snd ?x) \<and> (\<forall>g a after. Open sample_store ''w'' g ((snd ?x)\<lparr>locks := []\<rparr>) \<noteq> (Inr a, after))"
    using export_seals_source [OF ex(1) _ w(1), of "(snd ?x)\<lparr>locks := []\<rparr>"] w(2) by simp
  with ex(1) show ?thesis by blast
qed

end
