(* ===== verification/Netip.thy ===== *)
theory Netip
  imports Prelude
begin

text \<open>
  The part of Go's \<open>net/netip\<close> and \<open>strings\<close> packages that the egress policy
  uses: addresses, prefixes, their parsers, and the trimming and lowering of
  ASCII names. An IPv4 address is a 32-bit word, an IPv6 address a 128-bit word
  with a zone. The lemmas describe \<open>Contains\<close> as equality of leading bits, from
  which two prefixes share an address exactly when one contains the base of the
  other.
\<close>

unbundle bit_operations_syntax

named_theorems netip "evaluation of the address predicates"

section \<open>Addresses\<close>

datatype Addr = ZeroAddr | IPv4 "32 word" | IPv6 "128 word" string

fun IsValid :: "Addr \<Rightarrow> bool" where
  "IsValid ZeroAddr = False"
| "IsValid _ = True"

fun Is4 :: "Addr \<Rightarrow> bool" where
  "Is4 (IPv4 _) = True"
| "Is4 _ = False"

fun Is6 :: "Addr \<Rightarrow> bool" where
  "Is6 (IPv6 _ _) = True"
| "Is6 _ = False"

fun Is4In6 :: "Addr \<Rightarrow> bool" where
  "Is4In6 (IPv6 a _) = (drop_bit 32 a = 0xffff)"
| "Is4In6 _ = False"

text \<open>\<open>Unmap\<close> also forgets the zone of a mapped address.\<close>

fun Unmap :: "Addr \<Rightarrow> Addr" where
  "Unmap (IPv6 a z) = (if drop_bit 32 a = 0xffff then IPv4 (ucast a) else IPv6 a z)"
| "Unmap x = x"

fun BitLen :: "Addr \<Rightarrow> int" where
  "BitLen ZeroAddr = 0"
| "BitLen (IPv4 _) = 32"
| "BitLen (IPv6 _ _) = 128"

fun hasZone :: "Addr \<Rightarrow> bool" where
  "hasZone (IPv6 _ z) = (z \<noteq> [])"
| "hasZone _ = False"

text \<open>\<open>Compare\<close> orders by bit length, then by value, then by zone.\<close>

fun addr_key :: "Addr \<Rightarrow> int \<times> int \<times> string" where
  "addr_key ZeroAddr = (0, 0, [])"
| "addr_key (IPv4 a) = (32, uint a, [])"
| "addr_key (IPv6 a z) = (128, uint a, z)"

lemma addr_key_inject [simp]: "addr_key a = addr_key b \<longleftrightarrow> a = b"
  by (cases a; cases b) (auto simp: word_uint_eq_iff)

instantiation Addr :: linorder
begin

definition less_eq_Addr :: "Addr \<Rightarrow> Addr \<Rightarrow> bool" where
  "less_eq_Addr a b = (addr_key a \<le> addr_key b)"

definition less_Addr :: "Addr \<Rightarrow> Addr \<Rightarrow> bool" where
  "less_Addr a b = (addr_key a < addr_key b)"

instance
  by intro_classes
    (simp_all add: less_eq_Addr_def less_Addr_def less_le_not_le order.trans linear)

end

section \<open>Prefixes\<close>

text \<open>
  A prefix is a base address and a number of leading bits, \<open>-1\<close> for an invalid
  one. The fields are private to the package: every prefix of the program comes
  from \<open>PrefixFrom\<close>, a parser or the zero value, which is what \<open>wf_prefix\<close> says.
\<close>

datatype Prefix = Prefix (prefix_Addr: Addr) (Bits: int)

definition NoPrefix :: Prefix where
  "NoPrefix = Prefix ZeroAddr (- 1)"

fun withoutZone :: "Addr \<Rightarrow> Addr" where
  "withoutZone (IPv6 a _) = IPv6 a []"
| "withoutZone x = x"

definition PrefixFrom :: "Addr \<Rightarrow> int \<Rightarrow> Prefix" where
  "PrefixFrom ip bits =
     Prefix (withoutZone ip) (if IsValid ip \<and> 0 \<le> bits \<and> bits \<le> BitLen ip then bits else - 1)"

definition Prefix_IsValid :: "Prefix \<Rightarrow> bool" where
  "Prefix_IsValid p \<longleftrightarrow> 0 \<le> Bits p"

definition wf_prefix :: "Prefix \<Rightarrow> bool" where
  "wf_prefix p \<longleftrightarrow> p = PrefixFrom (prefix_Addr p) (Bits p)"

fun Contains :: "Prefix \<Rightarrow> Addr \<Rightarrow> bool" where
  "Contains (Prefix (IPv4 p) bits) (IPv4 a) = (0 \<le> bits \<and> drop_bit (nat (32 - bits)) (a XOR p) = 0)"
| "Contains (Prefix (IPv6 p _) bits) (IPv6 a z) =
     (0 \<le> bits \<and> z = [] \<and> drop_bit (nat (128 - bits)) (a XOR p) = 0)"
| "Contains _ _ = False"

fun Masked :: "Prefix \<Rightarrow> Prefix" where
  "Masked (Prefix (IPv4 p) bits) =
     (if 0 \<le> bits then Prefix (IPv4 (push_bit (nat (32 - bits)) (drop_bit (nat (32 - bits)) p))) bits
      else NoPrefix)"
| "Masked (Prefix (IPv6 p z) bits) =
     (if 0 \<le> bits then Prefix (IPv6 (push_bit (nat (128 - bits)) (drop_bit (nat (128 - bits)) p)) []) bits
      else NoPrefix)"
| "Masked (Prefix ZeroAddr bits) = NoPrefix"

section \<open>Parsers\<close>

definition octet_of :: "char \<Rightarrow> int" where
  "octet_of c = of_char c"

definition is_digit :: "char \<Rightarrow> bool" where
  "is_digit c \<longleftrightarrow> 48 \<le> octet_of c \<and> octet_of c \<le> 57"

text \<open>
  \<open>parseIPv4Fields\<close>: the arguments are the octets already closed, the value and
  the number of digits of the current one.
\<close>

fun parse_octets :: "int list \<Rightarrow> int \<Rightarrow> int \<Rightarrow> string \<Rightarrow> int list option" where
  "parse_octets closed val digLen [] =
     (if length closed < 3 \<or> digLen = 0 then None else Some (closed @ [val]))"
| "parse_octets closed val digLen (c # cs) =
     (if is_digit c
      then if digLen = 1 \<and> val = 0 then None
           else let v = val * 10 + (octet_of c - 48) in
             if v > 255 then None else parse_octets closed v (digLen + 1) cs
      else if c = CHR ''.''
      then if digLen = 0 \<or> cs = [] \<or> length closed = 3 then None
           else parse_octets (closed @ [val]) 0 0 cs
      else None)"

definition parseIPv4Fields :: "string \<Rightarrow> int list option" where
  "parseIPv4Fields s = parse_octets [] 0 0 s"

definition of_octets :: "int list \<Rightarrow> int" where
  "of_octets os = fold (\<lambda>b acc. acc * 256 + b) os 0"

definition parseIPv4 :: "string \<Rightarrow> Addr option" where
  "parseIPv4 s = map_option (\<lambda>os. IPv4 (word_of_int (of_octets os))) (parseIPv4Fields s)"

definition hex_value :: "char \<Rightarrow> int option" where
  "hex_value c = (let n = octet_of c in
     if 48 \<le> n \<and> n \<le> 57 then Some (n - 48)
     else if 97 \<le> n \<and> n \<le> 102 then Some (n - 87)
     else if 65 \<le> n \<and> n \<le> 70 then Some (n - 55)
     else None)"

text \<open>One hexadecimal field of at most four digits: its value and what follows.\<close>

fun hex_field :: "nat \<Rightarrow> int \<Rightarrow> string \<Rightarrow> (nat \<times> int \<times> string) option" where
  "hex_field off acc [] = Some (off, acc, [])"
| "hex_field off acc (c # cs) =
     (case hex_value c of
        None \<Rightarrow> Some (off, acc, c # cs)
      | Some v \<Rightarrow> if off > 3 then None else hex_field (off + 1) (acc * 16 + v) cs)"

text \<open>
  The loop of \<open>parseIPv6\<close> over the at most eight fields: the bytes read so far,
  the position of the ellipsis, and the rest of the text. It returns the bytes,
  the ellipsis and the unread rest.
\<close>

fun parse_fields :: "nat \<Rightarrow> int list \<Rightarrow> nat option \<Rightarrow> string \<Rightarrow> (int list \<times> nat option \<times> string) option" where
  "parse_fields 0 ip ellipsis s = Some (ip, ellipsis, s)"
| "parse_fields (Suc n) ip ellipsis s =
     (if length ip \<ge> 16 then Some (ip, ellipsis, s) else
      case hex_field 0 0 s of
        None \<Rightarrow> None
      | Some (off, acc, rest) \<Rightarrow>
          if off = 0 then None
          else if rest \<noteq> [] \<and> hd rest = CHR ''.''
          then if ellipsis = None \<and> length ip \<noteq> 12 \<or> length ip + 4 > 16 then None
               else map_option (\<lambda>os. (ip @ os, ellipsis, [])) (parseIPv4Fields s)
          else let ip = ip @ [acc div 256, acc mod 256] in
            if rest = [] then Some (ip, ellipsis, [])
            else if hd rest \<noteq> CHR '':'' \<or> tl rest = [] then None
            else if hd (tl rest) = CHR '':''
            then if ellipsis \<noteq> None then None
                 else if tl (tl rest) = [] then Some (ip, Some (length ip), [])
                 else parse_fields n ip (Some (length ip)) (tl (tl rest))
            else parse_fields n ip ellipsis (tl rest))"

definition parseIPv6 :: "string \<Rightarrow> Addr option" where
  "parseIPv6 text =
     (let s = takeWhile (\<lambda>c. c \<noteq> CHR ''%'') text;
          zone = drop (length s + 1) text;
          leading = take 2 s = ''::''
      in if CHR ''%'' \<in> set text \<and> zone = [] then None
         else if leading \<and> length s = 2 then Some (IPv6 0 zone)
         else case parse_fields 8 [] (if leading then Some 0 else None) (if leading then drop 2 s else s) of
           None \<Rightarrow> None
         | Some (ip, ellipsis, rest) \<Rightarrow>
             if rest \<noteq> [] then None
             else if length ip < 16
             then case ellipsis of
                 None \<Rightarrow> None
               | Some e \<Rightarrow> Some (IPv6 (word_of_int (of_octets
                   (take e ip @ replicate (16 - length ip) 0 @ drop e ip))) zone)
             else if ellipsis \<noteq> None then None
             else Some (IPv6 (word_of_int (of_octets ip)) zone))"

text \<open>\<open>ParseAddr\<close> looks for the first dot, colon or percent sign.\<close>

definition ParseAddr :: "string \<Rightarrow> Addr option" where
  "ParseAddr s =
     (case dropWhile (\<lambda>c. c \<notin> set ''.:%'') s of
        [] \<Rightarrow> None
      | c # _ \<Rightarrow> if c = CHR ''.'' then parseIPv4 s else if c = CHR '':'' then parseIPv6 s else None)"

fun decimal :: "int \<Rightarrow> string \<Rightarrow> int option" where
  "decimal acc [] = Some acc"
| "decimal acc (c # cs) = (if is_digit c then decimal (acc * 10 + (octet_of c - 48)) cs else None)"

definition ParsePrefix :: "string \<Rightarrow> Prefix option" where
  "ParsePrefix s =
     (if CHR ''/'' \<notin> set s then None
      else let bitsStr = rev (takeWhile (\<lambda>c. c \<noteq> CHR ''/'') (rev s));
               address = take (length s - length bitsStr - 1) s
       in case ParseAddr address of
            None \<Rightarrow> None
          | Some ip \<Rightarrow>
              if hasZone ip \<or> bitsStr = [] \<or> length bitsStr > 1 \<and> (\<not> is_digit (hd bitsStr) \<or> hd bitsStr = CHR ''0'')
              then None
              else case decimal 0 bitsStr of
                  None \<Rightarrow> None
                | Some bits \<Rightarrow> if bits > (if Is6 ip then 128 else 32) then None else Some (PrefixFrom ip bits))"

text \<open>\<open>MustParsePrefix\<close> panics on a text that does not parse; it is only applied to literals.\<close>

definition MustParsePrefix :: "string \<Rightarrow> Prefix" where
  "MustParsePrefix s = (case ParsePrefix s of Some p \<Rightarrow> p | None \<Rightarrow> NoPrefix)"

section \<open>Names\<close>

text \<open>
  \<open>strings.TrimSpace\<close>, \<open>strings.TrimSuffix\<close>, \<open>strings.ToLower\<close> and \<open>strings.Split\<close>
  on ASCII text.
\<close>

definition is_space :: "char \<Rightarrow> bool" where
  "is_space c \<longleftrightarrow> octet_of c = 32 \<or> 9 \<le> octet_of c \<and> octet_of c \<le> 13"

definition TrimSpace :: "string \<Rightarrow> string" where
  "TrimSpace s = rev (dropWhile is_space (rev (dropWhile is_space s)))"

definition TrimSuffix_dot :: "string \<Rightarrow> string" where
  "TrimSuffix_dot s = (if s \<noteq> [] \<and> last s = CHR ''.'' then butlast s else s)"

definition lower :: "char \<Rightarrow> char" where
  "lower c = (if 65 \<le> octet_of c \<and> octet_of c \<le> 90 then char_of (octet_of c + 32) else c)"

definition ToLower :: "string \<Rightarrow> string" where
  "ToLower s = map lower s"

fun Split :: "char \<Rightarrow> string \<Rightarrow> string list" where
  "Split sep [] = [[]]"
| "Split sep (c # cs) =
     (if c = sep then [] # Split sep cs
      else case Split sep cs of [] \<Rightarrow> [[c]] | w # ws \<Rightarrow> (c # w) # ws)"

section \<open>Prefixes as sets of addresses\<close>

lemma xor_zero_iff: "a XOR b = 0 \<longleftrightarrow> a = (b :: 'a::len word)"
  by (metis xor.assoc xor.left_neutral xor_self_eq)

lemma drop_bit_xor_zero: "drop_bit k (a XOR b) = 0 \<longleftrightarrow> drop_bit k a = drop_bit k (b :: 'a::len word)"
  by (simp add: xor_zero_iff)

lemma drop_bit_masked: "drop_bit k (push_bit k (drop_bit k a)) = drop_bit k (a :: 'a::len word)"
  by (rule bit_eqI) (auto simp: bit_simps dest: bit_imp_le_length)

lemma drop_bit_coarser:
  "drop_bit k a = drop_bit k b \<Longrightarrow> k \<le> l \<Longrightarrow> drop_bit l a = drop_bit l (b :: 'a::len word)"
  by (metis drop_bit_drop_bit le_add_diff_inverse2)

lemma drop_bit_shared:
  "drop_bit k a = drop_bit k p \<Longrightarrow> drop_bit l a = drop_bit l q \<Longrightarrow> l \<le> k \<Longrightarrow>
     drop_bit k q = drop_bit k (p :: 'a::len word)"
  by (metis drop_bit_coarser)

text \<open>Of two prefixes with a common address, the shorter contains the base of the longer.\<close>

lemma Contains_nested:
  assumes "Contains p a" "Contains q a" "Bits p \<le> Bits q" "wf_prefix q"
  shows "Contains p (prefix_Addr q)"
  using assms
  by (cases p; cases q; cases "prefix_Addr p"; cases "prefix_Addr q"; cases a)
    (auto simp: drop_bit_xor_zero wf_prefix_def PrefixFrom_def
      simp del: drop_bit_xor elim!: drop_bit_shared split: if_splits)

lemma Contains_base: "Prefix_IsValid p \<Longrightarrow> wf_prefix p \<Longrightarrow> Contains p (prefix_Addr p)"
  by (cases p; cases "prefix_Addr p") (auto simp: Prefix_IsValid_def wf_prefix_def PrefixFrom_def)

lemma Contains_Masked: "wf_prefix p \<Longrightarrow> Contains (Masked p) a = Contains p a"
  by (cases p; cases "prefix_Addr p"; cases a)
    (auto simp: NoPrefix_def drop_bit_xor_zero drop_bit_masked wf_prefix_def PrefixFrom_def simp del: drop_bit_xor)

lemma wf_Masked: "wf_prefix p \<Longrightarrow> wf_prefix (Masked p)"
  by (cases p; cases "prefix_Addr p")
    (auto simp: wf_prefix_def PrefixFrom_def NoPrefix_def split: if_splits)

lemma Contains_bitlen: "Contains p a \<Longrightarrow> BitLen (prefix_Addr p) = BitLen a \<and> IsValid a \<and> \<not> hasZone a \<and> Prefix_IsValid p"
  by (cases p; cases "prefix_Addr p"; cases a) (auto simp: Prefix_IsValid_def)

lemma wf_PrefixFrom: "wf_prefix (PrefixFrom a n)"
  by (cases a) (auto simp: wf_prefix_def PrefixFrom_def)

lemma Contains_host:
  "IsValid a \<Longrightarrow> Contains (PrefixFrom a (if Is4 a then 32 else 128)) b \<longleftrightarrow> b = withoutZone a"
  by (cases a; cases b) (auto simp: PrefixFrom_def xor_zero_iff)

end
