(* ===== verification/Network_Policy.thy ===== *)
theory Network_Policy
  imports Netip Contracts "HOL-Library.AList"
begin

text \<open>
  The Runner's egress policy: \<open>runner/internal/networkpolicy\<close> and
  \<open>runner/networkpolicycontract\<close>. A resolved policy is compiled against the
  Runner's protected destinations and the gateways of one egress context; the
  compiled policy admits direct addresses by its CIDR rules and resolved ones by
  the DNS answers it has pinned. A Go map is an association list with distinct
  keys: its order stands for one iteration order of the map.
\<close>

section \<open>Types\<close>

abbreviation ModeDenyAll :: string where "ModeDenyAll \<equiv> ''deny_all''"
abbreviation ModeAllowList :: string where "ModeAllowList \<equiv> ''allow_list''"

abbreviation ProtocolTCP :: string where "ProtocolTCP \<equiv> ''tcp''"
abbreviation ProtocolHTTP :: string where "ProtocolHTTP \<equiv> ''http''"
abbreviation ProtocolHTTPS :: string where "ProtocolHTTPS \<equiv> ''https''"

definition maximumPinAddresses :: nat where
  "maximumPinAddresses = 64"

datatype Reason =
    ReasonAllowedCIDR
  | ReasonAllowedDomain
  | ReasonAllowedRunnerGateway
  | ReasonAllowedPinnedDNS
  | ReasonPolicyDenyAll
  | ReasonNoMatchingRule
  | ReasonProtectedDestination
  | ReasonProtectedDNSAnswer
  | ReasonInvalidDNSAnswer
  | ReasonDNSPinMissing
  | ReasonDNSPinExpired
  | ReasonDNSRebinding
  | ReasonPinCapacityExhausted

record Destination =
  Protocol :: string
  Domain :: string
  DestPrefix :: Prefix
  Port :: "16 word"

record Policy =
  PolicyMode :: string
  PolicyDestinations :: "Destination list"

record CompileOptions =
  MaximumPins :: int
  MaximumTTL :: duration
  RunnerAddresses :: "Addr list"
  ManagementPrefixes :: "Prefix list"
  ProtectedAddresses :: "Addr list"
  RunnerGateways :: "(string \<times> Addr) list"

record PolicyDecision =
  Allowed :: bool
  DecisionReason :: Reason

record DNSPin =
  PinDomain :: string
  Addresses :: "Addr list"
  ExpiresAt :: time

record RunnerGatewayDestination =
  GatewayDestination :: Destination
  GatewayAddress :: Addr

record pinKey =
  key_protocol :: string
  key_domain :: string
  key_port :: "16 word"
  key_family :: int

record CompiledPolicy =
  mode :: string
  destinations :: "Destination list"
  maximumPins :: int
  maximumTTL :: duration
  runnerAddresses :: "Addr list"
  managementPrefixes :: "Prefix list"
  protectedAddresses :: "Addr list"
  runnerGateways :: "(string \<times> Addr) list"
  pins :: "(pinKey \<times> DNSPin) list"

datatype domain_error =
    DomainLength
  | DomainNotExact string
  | DomainIsAddress string
  | DomainLabel string
  | DomainNotASCII string

datatype prefix_error = CIDRInvalid | CIDRMapped

datatype destination_error =
    ProtocolUnsupported string
  | PortNotPositive
  | PortReserved "16 word"
  | TargetNotUnique
  | TargetDomain domain_error
  | TargetPrefix prefix_error
  | CIDRProtected Prefix Prefix
  | CIDRContainsProtected Prefix Addr

datatype policy_error =
    MaximumPinsNotPositive
  | MaximumTTLNotPositive
  | TooManyDestinations
  | DenyAllWithDestinations
  | ModeUnsupported string
  | RunnerAddressInvalid
  | ManagementPrefixInvalid prefix_error
  | ProtectedAddressInvalid
  | DestinationInvalid nat destination_error
  | GatewayDomainInvalid domain_error
  | GatewayAddressInvalid string
  | GatewayNotProtected string Addr
  | GatewayDuplicated string

section \<open>Logical names\<close>

definition label_char :: "char \<Rightarrow> bool" where
  "label_char c \<longleftrightarrow> is_lower_alnum c \<or> c = CHR ''-''"

definition label_error :: "string \<Rightarrow> string \<Rightarrow> domain_error option" where
  "label_error raw label =
     (if label = [] \<or> length label > 63 \<or> hd label = CHR ''-'' \<or> last label = CHR ''-''
      then Some (DomainLabel raw)
      else if \<not> list_all label_char label then Some (DomainNotASCII raw)
      else None)"

definition NormalizeLogicalGatewayName :: "string \<Rightarrow> domain_error + string" where
  "NormalizeLogicalGatewayName raw =
     (let domain = TrimSuffix_dot (ToLower (TrimSpace raw)) in
      if domain = [] \<or> length domain > 253 then Inl DomainLength
      else if list_ex (\<lambda>c. c \<in> set ''*:/'') domain then Inl (DomainNotExact raw)
      else if ParseAddr domain \<noteq> None then Inl (DomainIsAddress raw)
      else case List.map_filter (label_error raw) (Split CHR ''.'' domain) of
          e # _ \<Rightarrow> Inl e
        | [] \<Rightarrow> Inr domain)"

text \<open>\<open>path.Clean\<close> of a rooted path.\<close>

definition path_Clean :: "string \<Rightarrow> string" where
  "path_Clean p =
     (case fold (\<lambda>c acc. if c = [] \<or> c = ''.'' then acc else if c = ''..'' then tl acc else c # acc)
             (Split CHR ''/'' p) [] of
        [] \<Rightarrow> ''/''
      | parts \<Rightarrow> concat (map (\<lambda>c. CHR ''/'' # c) (rev parts)))"

definition ValidateAttributedGatewaySocket :: "string \<Rightarrow> bool" where
  "ValidateAttributedGatewaySocket socketPath \<longleftrightarrow>
     socketPath \<noteq> [] \<and> hd socketPath = CHR ''/'' \<and> path_Clean socketPath = socketPath \<and>
     socketPath \<noteq> ''/'' \<and> length socketPath \<le> 107 \<and>
     list_all (\<lambda>c. octet_of c \<noteq> 0 \<and> octet_of c \<noteq> 13 \<and> octet_of c \<noteq> 10) socketPath"

text \<open>The first occurrence of every element, in order.\<close>

fun keep_first :: "'a list \<Rightarrow> 'a list \<Rightarrow> 'a list" where
  "keep_first seen [] = []"
| "keep_first seen (x # xs) =
     (if x \<in> set seen then keep_first seen xs else x # keep_first (x # seen) xs)"

section \<open>Normalisation and protected destinations\<close>

definition normalizeDomain :: "string \<Rightarrow> domain_error + string" where
  "normalizeDomain raw = NormalizeLogicalGatewayName raw"

definition normalizeAddress :: "Addr \<Rightarrow> Addr" where
  "normalizeAddress address = (if Is4In6 address then Unmap address else address)"

definition normalizePrefix :: "Prefix \<Rightarrow> prefix_error + Prefix" where
  "normalizePrefix prefix =
     (if \<not> Prefix_IsValid prefix then Inl CIDRInvalid
      else if Is4In6 (prefix_Addr prefix) then Inl CIDRMapped
      else Inr (Masked prefix))"

definition prefixesOverlap :: "Prefix \<Rightarrow> Prefix \<Rightarrow> bool" where
  "prefixesOverlap left right \<longleftrightarrow>
     BitLen (prefix_Addr left) = BitLen (prefix_Addr right) \<and>
     (Contains left (prefix_Addr right) \<or> Contains right (prefix_Addr left))"

definition protectedPrefixes :: "Prefix list" where
  "protectedPrefixes = map MustParsePrefix
     [''0.0.0.0/8'', ''10.0.0.0/8'', ''100.64.0.0/10'', ''127.0.0.0/8'', ''169.254.0.0/16'',
      ''172.16.0.0/12'', ''192.0.0.0/24'', ''192.0.2.0/24'', ''192.88.99.0/24'', ''192.168.0.0/16'',
      ''198.18.0.0/15'', ''198.51.100.0/24'', ''203.0.113.0/24'', ''224.0.0.0/4'', ''240.0.0.0/4'',
      ''::/128'', ''::1/128'', ''100::/64'', ''2001:db8::/32'', ''fc00::/7'', ''fe80::/10'', ''ff00::/8'']"

definition isProtectedAddress :: "Addr \<Rightarrow> Addr list \<Rightarrow> Prefix list \<Rightarrow> Addr list \<Rightarrow> bool" where
  "isProtectedAddress address runners management protected \<longleftrightarrow>
     \<not> IsValid address \<or> address \<in> set runners \<or> address \<in> set protected \<or>
     list_ex (\<lambda>prefix. Contains prefix address) management \<or>
     list_ex (\<lambda>prefix. Contains prefix address) protectedPrefixes"

definition isProtected :: "CompiledPolicy \<Rightarrow> Addr \<Rightarrow> bool" where
  "isProtected policy address =
     isProtectedAddress address (runnerAddresses policy) (managementPrefixes policy) (protectedAddresses policy)"

section \<open>Compilation\<close>

definition validProtocol :: "string \<Rightarrow> bool" where
  "validProtocol protocol \<longleftrightarrow> protocol \<in> set [ProtocolTCP, ProtocolHTTP, ProtocolHTTPS]"

definition validateDestination :: "Destination \<Rightarrow> Addr list \<Rightarrow> destination_error + Destination" where
  "validateDestination destination dynamicProtected =
     (if \<not> validProtocol (Protocol destination) then Inl (ProtocolUnsupported (Protocol destination))
      else if Port destination = 0 then Inl PortNotPositive
      else if Port destination = 53 \<or> Port destination = 853 then Inl (PortReserved (Port destination))
      else let hasDomain = TrimSpace (Domain destination) \<noteq> [];
               hasPrefix = Prefix_IsValid (DestPrefix destination)
       in if hasDomain = hasPrefix then Inl TargetNotUnique
          else if hasDomain
          then case normalizeDomain (Domain destination) of
              Inl e \<Rightarrow> Inl (TargetDomain e)
            | Inr domain \<Rightarrow> Inr (destination\<lparr>Domain := domain, DestPrefix := NoPrefix\<rparr>)
          else case normalizePrefix (DestPrefix destination) of
            Inl e \<Rightarrow> Inl (TargetPrefix e)
          | Inr prefix \<Rightarrow> (case List.find (prefixesOverlap prefix) protectedPrefixes of
              Some protected \<Rightarrow> Inl (CIDRProtected prefix protected)
            | None \<Rightarrow>
                case List.find (Contains prefix) dynamicProtected of
                  Some address \<Rightarrow> Inl (CIDRContainsProtected prefix address)
                | None \<Rightarrow> Inr (destination\<lparr>DestPrefix := prefix, Domain := []\<rparr>)))"

definition compileAddress :: "policy_error \<Rightarrow> Addr \<Rightarrow> policy_error + Addr" where
  "compileAddress e address =
     (let address = normalizeAddress address in if IsValid address then Inr address else Inl e)"

definition compilePrefix :: "Prefix \<Rightarrow> policy_error + Prefix" where
  "compilePrefix prefix =
     (case normalizePrefix prefix of Inl e \<Rightarrow> Inl (ManagementPrefixInvalid e) | Inr p \<Rightarrow> Inr p)"

definition compileDestination :: "Addr list \<Rightarrow> nat \<times> Destination \<Rightarrow> policy_error + Destination" where
  "compileDestination protected = (\<lambda>(index, destination).
     case validateDestination destination protected of
       Inl e \<Rightarrow> Inl (DestinationInvalid index e)
     | Inr d \<Rightarrow> Inr d)"

fun compileGateways ::
  "Addr list \<Rightarrow> Prefix list \<Rightarrow> Addr list \<Rightarrow> (string \<times> Addr) list \<Rightarrow> (string \<times> Addr) list \<Rightarrow>
     policy_error + (string \<times> Addr) list" where
  "compileGateways runners management protected gateways [] = Inr gateways"
| "compileGateways runners management protected gateways ((rawDomain, rawAddress) # rest) =
     (case normalizeDomain rawDomain of
        Inl e \<Rightarrow> Inl (GatewayDomainInvalid e)
      | Inr domain \<Rightarrow>
          let address = normalizeAddress rawAddress in
          if \<not> IsValid address then Inl (GatewayAddressInvalid domain)
          else if \<not> isProtectedAddress address runners management protected
          then Inl (GatewayNotProtected domain address)
          else if map_of gateways domain \<noteq> None then Inl (GatewayDuplicated domain)
          else compileGateways runners management protected (gateways @ [(domain, address)]) rest)"

definition Compile :: "Policy \<Rightarrow> CompileOptions \<Rightarrow> policy_error + CompiledPolicy" where
  "Compile policy options =
     (if MaximumPins options < 1 then Inl MaximumPinsNotPositive
      else if MaximumTTL options \<le> 0 then Inl MaximumTTLNotPositive
      else if length (PolicyDestinations policy) > 128 then Inl TooManyDestinations
      else if PolicyMode policy = ModeDenyAll \<and> PolicyDestinations policy \<noteq> [] then Inl DenyAllWithDestinations
      else if PolicyMode policy \<notin> set [ModeDenyAll, ModeAllowList] then Inl (ModeUnsupported (PolicyMode policy))
      else
       res_bind (res_map (compileAddress RunnerAddressInvalid) (RunnerAddresses options)) (\<lambda>runners.
       res_bind (res_map compilePrefix (ManagementPrefixes options)) (\<lambda>management.
       res_bind (res_map (compileAddress ProtectedAddressInvalid) (ProtectedAddresses options)) (\<lambda>protected.
       res_bind (res_map (compileDestination protected) (enumerate 0 (PolicyDestinations policy))) (\<lambda>dests.
       res_bind (compileGateways runners management protected [] (RunnerGateways options)) (\<lambda>gateways.
       Inr \<lparr>mode = PolicyMode policy, destinations = dests, maximumPins = MaximumPins options,
            maximumTTL = MaximumTTL options, runnerAddresses = keep_first [] runners,
            managementPrefixes = management, protectedAddresses = keep_first [] protected, runnerGateways = gateways, pins = []\<rparr>))))))"

section \<open>Projections for enforcement\<close>

text \<open>The projections accept a nil policy, \<open>None\<close> here.\<close>

definition RunnerGatewayDestinations :: "CompiledPolicy option \<Rightarrow> RunnerGatewayDestination list" where
  "RunnerGatewayDestinations policy =
     (case policy of
        None \<Rightarrow> []
      | Some p \<Rightarrow> List.map_filter (\<lambda>destination.
          map_option (\<lambda>address. \<lparr>GatewayDestination = destination, GatewayAddress = address\<rparr>)
            (map_of (runnerGateways p) (Domain destination))) (destinations p))"

record LogicalGatewayEndpoint =
  LogicalName :: string
  EndpointAddr :: Addr
  EndpointPort :: "16 word"

definition LogicalGatewayEndpoints :: "CompiledPolicy option \<Rightarrow> LogicalGatewayEndpoint list" where
  "LogicalGatewayEndpoints policy =
     sort_key (\<lambda>e. (LogicalName e, uint (EndpointPort e)))
       (keep_first [] (map (\<lambda>gateway.
          \<lparr>LogicalName = Domain (GatewayDestination gateway),
           EndpointAddr = normalizeAddress (GatewayAddress gateway),
           EndpointPort = Port (GatewayDestination gateway)\<rparr>) (RunnerGatewayDestinations policy)))"

definition Destinations :: "CompiledPolicy option \<Rightarrow> Destination list" where
  "Destinations policy = (case policy of None \<Rightarrow> [] | Some p \<Rightarrow> destinations p)"

definition Mode :: "CompiledPolicy option \<Rightarrow> string" where
  "Mode policy = (case policy of None \<Rightarrow> [] | Some p \<Rightarrow> mode p)"

definition AllowsDNS :: "CompiledPolicy option \<Rightarrow> bool" where
  "AllowsDNS policy =
     (case policy of
        None \<Rightarrow> False
      | Some p \<Rightarrow> mode p \<noteq> ModeDenyAll \<and> list_ex (\<lambda>d. Domain d \<noteq> []) (destinations p))"

definition host_prefix :: "Addr \<Rightarrow> Prefix" where
  "host_prefix address = PrefixFrom address (if Is4 address then 32 else 128)"

definition ProtectedPrefixes :: "CompiledPolicy option \<Rightarrow> Prefix list" where
  "ProtectedPrefixes policy =
     (case policy of
        None \<Rightarrow> []
      | Some p \<Rightarrow> protectedPrefixes @ managementPrefixes p @ map host_prefix (runnerAddresses p)
                   @ map host_prefix (protectedAddresses p))"

section \<open>Admission\<close>

definition deny :: "Reason \<Rightarrow> PolicyDecision" where
  "deny r = \<lparr>Allowed = False, DecisionReason = r\<rparr>"

definition allow :: "Reason \<Rightarrow> PolicyDecision" where
  "allow r = \<lparr>Allowed = True, DecisionReason = r\<rparr>"

definition AuthorizeIP :: "CompiledPolicy \<Rightarrow> string \<Rightarrow> Addr \<Rightarrow> 16 word \<Rightarrow> PolicyDecision" where
  "AuthorizeIP policy protocol address port =
     (if mode policy = ModeDenyAll then deny ReasonPolicyDenyAll
      else let address = normalizeAddress address in
        if isProtected policy address then deny ReasonProtectedDestination
        else if list_ex (\<lambda>d. Domain d = [] \<and> Protocol d = protocol \<and> Port d = port \<and>
                  Contains (DestPrefix d) address) (destinations policy)
        then allow ReasonAllowedCIDR
        else deny ReasonNoMatchingRule)"

definition hasDomainRule :: "CompiledPolicy \<Rightarrow> string \<Rightarrow> string \<Rightarrow> 16 word \<Rightarrow> bool" where
  "hasDomainRule policy protocol domain port \<longleftrightarrow>
     list_ex (\<lambda>d. Domain d = domain \<and> Protocol d = protocol \<and> Port d = port) (destinations policy)"

definition isRunnerGateway :: "CompiledPolicy \<Rightarrow> string \<Rightarrow> string \<Rightarrow> Addr \<Rightarrow> 16 word \<Rightarrow> bool" where
  "isRunnerGateway policy protocol domain address port \<longleftrightarrow>
     map_of (runnerGateways policy) domain = Some address \<and> hasDomainRule policy protocol domain port"

definition removeExpiredPinsLocked :: "time \<Rightarrow> CompiledPolicy \<Rightarrow> CompiledPolicy" where
  "removeExpiredPinsLocked now policy = policy\<lparr>pins := filter (\<lambda>(_, pin). now < ExpiresAt pin) (pins policy)\<rparr>"

definition mergeAddresses :: "Addr list \<Rightarrow> Addr list \<Rightarrow> Addr list" where
  "mergeAddresses left right = sort (keep_first [] (left @ right))"

definition emptyPin :: DNSPin where
  "emptyPin = \<lparr>PinDomain = [], Addresses = [], ExpiresAt = 0\<rparr>"

fun pinAnswers :: "CompiledPolicy \<Rightarrow> int \<Rightarrow> Addr list \<Rightarrow> Addr list \<Rightarrow> Reason + Addr list" where
  "pinAnswers policy family seen [] = Inr []"
| "pinAnswers policy family seen (raw # rest) =
     (let address = normalizeAddress raw in
      if \<not> IsValid address then Inl ReasonInvalidDNSAnswer
      else if family = 4 \<and> \<not> Is4 address \<or> family = 6 \<and> \<not> Is6 address then Inl ReasonInvalidDNSAnswer
      else if isProtected policy address then Inl ReasonProtectedDNSAnswer
      else if address \<in> set seen then pinAnswers policy family seen rest
      else res_bind (pinAnswers policy family (address # seen) rest) (\<lambda>addresses. Inr (address # addresses)))"

text \<open>The part of \<open>pinDNS\<close> under the policy's lock.\<close>

definition pinLocked ::
  "CompiledPolicy \<Rightarrow> pinKey \<Rightarrow> Addr list \<Rightarrow> duration \<Rightarrow> time \<Rightarrow> DNSPin \<times> PolicyDecision \<times> CompiledPolicy" where
  "pinLocked policy key answers ttl now =
     (let ttl = (if ttl > maximumTTL policy then maximumTTL policy else ttl);
          policy = removeExpiredPinsLocked now policy;
          found = map_of (pins policy) key;
          normalized = (case found of
              Some existing \<Rightarrow> mergeAddresses (Addresses existing) (sort answers)
            | None \<Rightarrow> sort answers)
      in if found = None \<and> int (length (pins policy)) \<ge> maximumPins policy
         then (emptyPin, deny ReasonPinCapacityExhausted, policy)
         else if length normalized > maximumPinAddresses
         then (emptyPin, deny ReasonPinCapacityExhausted, policy)
         else let pin = \<lparr>PinDomain = key_domain key, Addresses = normalized, ExpiresAt = now + ttl\<rparr>
           in (pin, allow ReasonAllowedDomain, policy\<lparr>pins := AList.update key pin (pins policy)\<rparr>))"

definition pinDNS ::
  "CompiledPolicy \<Rightarrow> string \<Rightarrow> string \<Rightarrow> 16 word \<Rightarrow> int \<Rightarrow> Addr list \<Rightarrow> duration \<Rightarrow> time \<Rightarrow>
     DNSPin \<times> PolicyDecision \<times> CompiledPolicy" where
  "pinDNS policy protocol rawDomain port family addresses ttl now =
     (if mode policy = ModeDenyAll then (emptyPin, deny ReasonPolicyDenyAll, policy) else
      case normalizeDomain rawDomain of
        Inl _ \<Rightarrow> (emptyPin, deny ReasonNoMatchingRule, policy)
      | Inr domain \<Rightarrow>
          if \<not> hasDomainRule policy protocol domain port then (emptyPin, deny ReasonNoMatchingRule, policy)
          else if ttl \<le> 0 \<or> addresses = [] then (emptyPin, deny ReasonInvalidDNSAnswer, policy)
          else case pinAnswers policy family [] addresses of
              Inl reason \<Rightarrow> (emptyPin, deny reason, policy)
            | Inr answers \<Rightarrow>
                if answers = [] then (emptyPin, deny ReasonInvalidDNSAnswer, policy)
                else pinLocked policy
                  \<lparr>key_protocol = protocol, key_domain = domain, key_port = port, key_family = family\<rparr> answers ttl now)"

definition PinDNS ::
  "CompiledPolicy \<Rightarrow> string \<Rightarrow> string \<Rightarrow> 16 word \<Rightarrow> Addr list \<Rightarrow> duration \<Rightarrow> time \<Rightarrow>
     DNSPin \<times> PolicyDecision \<times> CompiledPolicy" where
  "PinDNS policy protocol rawDomain port addresses ttl now =
     pinDNS policy protocol rawDomain port 0 addresses ttl now"

definition PinDNSForAddressFamily ::
  "CompiledPolicy \<Rightarrow> string \<Rightarrow> string \<Rightarrow> 16 word \<Rightarrow> int \<Rightarrow> Addr list \<Rightarrow> duration \<Rightarrow> time \<Rightarrow>
     DNSPin \<times> PolicyDecision \<times> CompiledPolicy" where
  "PinDNSForAddressFamily policy protocol rawDomain port family addresses ttl now =
     (if family \<noteq> 4 \<and> family \<noteq> 6 then (emptyPin, deny ReasonInvalidDNSAnswer, policy)
      else pinDNS policy protocol rawDomain port family addresses ttl now)"

definition AuthorizePinned ::
  "CompiledPolicy \<Rightarrow> string \<Rightarrow> string \<Rightarrow> Addr \<Rightarrow> 16 word \<Rightarrow> time \<Rightarrow> PolicyDecision \<times> CompiledPolicy" where
  "AuthorizePinned policy protocol rawDomain address port now =
     (if mode policy = ModeDenyAll then (deny ReasonPolicyDenyAll, policy) else
      case normalizeDomain rawDomain of
        Inl _ \<Rightarrow> (deny ReasonNoMatchingRule, policy)
      | Inr domain \<Rightarrow>
          if \<not> hasDomainRule policy protocol domain port then (deny ReasonNoMatchingRule, policy)
          else let address = normalizeAddress address in
            if isRunnerGateway policy protocol domain address port then (allow ReasonAllowedRunnerGateway, policy)
            else if isProtected policy address then (deny ReasonProtectedDestination, policy)
            else let key = \<lparr>key_protocol = protocol, key_domain = domain, key_port = port, key_family = 0\<rparr> in
              case map_of (pins policy) key of
                None \<Rightarrow> (deny ReasonDNSPinMissing, policy)
              | Some pin \<Rightarrow>
                  if \<not> now < ExpiresAt pin
                  then (deny ReasonDNSPinExpired, policy\<lparr>pins := AList.delete key (pins policy)\<rparr>)
                  else if address \<in> set (Addresses pin) then (allow ReasonAllowedPinnedDNS, policy)
                  else (deny ReasonDNSRebinding, policy))"

end
