(* ===== verification/Network_Contexts.thy ===== *)
theory Network_Contexts
  imports Network_Policy
begin

text \<open>
  Where a compiled policy comes from: the egress contexts of the Runner's
  configuration (\<open>context_config.go\<close>), the assignment's policy message
  (\<open>protocol.go\<close>) and the options an assignment is compiled with
  (\<open>environment.go\<close>, \<open>manager_hostnet.go\<close>, \<open>assignment_backend.go\<close>).
\<close>

section \<open>The policy message\<close>

text \<open>
  The generated message types: enumerations are their numbers in
  \<open>contracts/runner/v1/runner.proto\<close>, a missing message is \<open>None\<close>.
\<close>

datatype NetworkDestination_Target = TargetMissing | NetworkDestination_Domain string | NetworkDestination_Cidr string

record NetworkDestination =
  SourceProtocol :: int
  SourcePort :: "32 word"
  Target :: NetworkDestination_Target

record NetworkPolicy =
  SourceMode :: int
  SourceDestinations :: "NetworkDestination option list"

datatype protocol_error =
    PolicyMissing
  | ModeUnspecified
  | DestinationMissing nat
  | ProtocolUnspecified nat
  | PortInvalid nat
  | CIDRUnparsed nat
  | TargetUnspecified nat

definition protocol_mode :: "int \<Rightarrow> string option" where
  "protocol_mode m = (if m = 1 then Some ModeDenyAll else if m = 2 then Some ModeAllowList else None)"

definition destination_protocol :: "int \<Rightarrow> string option" where
  "destination_protocol p =
     (if p = 1 then Some ProtocolTCP else if p = 2 then Some ProtocolHTTP
      else if p = 3 then Some ProtocolHTTPS else None)"

definition destination_of :: "nat \<times> NetworkDestination option \<Rightarrow> protocol_error + Destination" where
  "destination_of = (\<lambda>(index, source).
     case source of
       None \<Rightarrow> Inl (DestinationMissing index)
     | Some d \<Rightarrow>
         (case destination_protocol (SourceProtocol d) of
            None \<Rightarrow> Inl (ProtocolUnspecified index)
          | Some protocol \<Rightarrow>
              let destination = \<lparr>Protocol = protocol, Domain = [], DestPrefix = NoPrefix, Port = ucast (SourcePort d)\<rparr>
              in if SourcePort d = 0 \<or> SourcePort d > 65535 then Inl (PortInvalid index)
                 else case Target d of
                     NetworkDestination_Domain domain \<Rightarrow> Inr (destination\<lparr>Domain := domain\<rparr>)
                   | NetworkDestination_Cidr cidr \<Rightarrow>
                       (case ParsePrefix cidr of
                          None \<Rightarrow> Inl (CIDRUnparsed index)
                        | Some prefix \<Rightarrow> Inr (destination\<lparr>DestPrefix := prefix\<rparr>))
                   | TargetMissing \<Rightarrow> Inl (TargetUnspecified index)))"

definition FromRunnerProtocol :: "NetworkPolicy option \<Rightarrow> protocol_error + Policy" where
  "FromRunnerProtocol source =
     (case source of
        None \<Rightarrow> Inl PolicyMissing
      | Some s \<Rightarrow>
          (case protocol_mode (SourceMode s) of
             None \<Rightarrow> Inl ModeUnspecified
           | Some m \<Rightarrow> res_bind (res_map destination_of (enumerate 0 (SourceDestinations s))) (\<lambda>ds.
               Inr \<lparr>PolicyMode = m, PolicyDestinations = ds\<rparr>)))"

section \<open>Egress contexts\<close>

text \<open>The decoded configuration document; a null \<open>contexts\<close> member is \<open>None\<close>.\<close>

record logicalGatewayDocument =
  doc_LogicalName :: string
  doc_Address :: string
  doc_AttributedSocket :: string

record egressContextDocument =
  doc_Name :: string
  doc_Gateways :: "logicalGatewayDocument list"

record egressContextConfigDocument =
  SchemaVersion :: string
  GeneratedBy :: string
  Contexts :: "egressContextDocument list option"

record runnerGatewayRoute =
  route_address :: Addr
  attributedSocket :: string

record EgressContextConfig =
  contexts :: "(string \<times> (string \<times> runnerGatewayRoute) list) list"
  config_protectedAddresses :: "Addr list"

datatype context_error =
    SchemaVersionUnsupported
  | GeneratedByUnsupported
  | ContextsMissing
  | TooManyContexts
  | ContextNameInvalid string
  | ContextRepeated string
  | ContextWithoutGateways string
  | TooManyGateways string
  | LogicalNameInvalid string domain_error
  | LogicalNameNotCanonical string string
  | LogicalNameRepeated string string
  | GatewayWithoutRoute string string
  | GatewayAddressUnparsed string string
  | GatewaySocketInvalid
  | ContextAbsent string
  | ContextUnexpected
  | AttributedGatewayAbsent string string

abbreviation EgressContextConfigSchemaVersion :: string where
  "EgressContextConfigSchemaVersion \<equiv> ''secondbox.runner-egress-contexts/v1''"

abbreviation GeneratedConfigProvenance :: string where
  "GeneratedConfigProvenance \<equiv> ''secondbox-deploy''"

definition maximumEgressContexts :: nat where
  "maximumEgressContexts = 64"

definition maximumLogicalGatewaysPerContext :: nat where
  "maximumLogicalGatewaysPerContext = 128"

definition decode_gateway ::
  "string \<Rightarrow> (string \<times> runnerGatewayRoute) list \<Rightarrow> logicalGatewayDocument \<Rightarrow>
     context_error + string \<times> runnerGatewayRoute" where
  "decode_gateway name gateways gateway =
     (case normalizeDomain (doc_LogicalName gateway) of
        Inl e \<Rightarrow> Inl (LogicalNameInvalid name e)
      | Inr logicalName \<Rightarrow>
          if logicalName \<noteq> doc_LogicalName gateway
          then Inl (LogicalNameNotCanonical name (doc_LogicalName gateway))
          else if map_of gateways logicalName \<noteq> None then Inl (LogicalNameRepeated name logicalName)
          else if doc_Address gateway = [] \<and> doc_AttributedSocket gateway = []
          then Inl (GatewayWithoutRoute name logicalName)
          else res_bind
            (if doc_Address gateway = [] then Inr ZeroAddr
             else case ParseAddr (doc_Address gateway) of
                 None \<Rightarrow> Inl (GatewayAddressUnparsed name logicalName)
               | Some address \<Rightarrow> Inr (normalizeAddress address))
            (\<lambda>address.
              if doc_AttributedSocket gateway \<noteq> [] \<and> \<not> ValidateAttributedGatewaySocket (doc_AttributedSocket gateway)
              then Inl GatewaySocketInvalid
              else Inr (logicalName,
                \<lparr>route_address = address, attributedSocket = doc_AttributedSocket gateway\<rparr>)))"

fun decode_gateways ::
  "string \<Rightarrow> (string \<times> runnerGatewayRoute) list \<Rightarrow> logicalGatewayDocument list \<Rightarrow>
     context_error + (string \<times> runnerGatewayRoute) list" where
  "decode_gateways name gateways [] = Inr gateways"
| "decode_gateways name gateways (g # gs) =
     res_bind (decode_gateway name gateways g) (\<lambda>route. decode_gateways name (gateways @ [route]) gs)"

fun decode_contexts ::
  "(string \<times> (string \<times> runnerGatewayRoute) list) list \<Rightarrow> egressContextDocument list \<Rightarrow>
     context_error + (string \<times> (string \<times> runnerGatewayRoute) list) list" where
  "decode_contexts decoded [] = Inr decoded"
| "decode_contexts decoded (document # rest) =
     (let name = doc_Name document in
      if \<not> ValidateEgressContextName name then Inl (ContextNameInvalid name)
      else if map_of decoded name \<noteq> None then Inl (ContextRepeated name)
      else if doc_Gateways document = [] then Inl (ContextWithoutGateways name)
      else if length (doc_Gateways document) > maximumLogicalGatewaysPerContext then Inl (TooManyGateways name)
      else res_bind (decode_gateways name [] (doc_Gateways document)) (\<lambda>gateways.
        decode_contexts (decoded @ [(name, gateways)]) rest))"

text \<open>
  The addresses of every context, sorted: in the code they are collected into a
  set while the gateways are read, here from the decoded routes, of which those
  with an address are the ones with a valid address.
\<close>

definition protected_addresses :: "(string \<times> (string \<times> runnerGatewayRoute) list) list \<Rightarrow> Addr list" where
  "protected_addresses cs =
     sort (keep_first [] (filter IsValid (map (route_address \<circ> snd) (concat (map snd cs)))))"

definition decodeEgressContextConfig :: "egressContextConfigDocument \<Rightarrow> context_error + EgressContextConfig" where
  "decodeEgressContextConfig document =
     (if SchemaVersion document \<noteq> EgressContextConfigSchemaVersion then Inl SchemaVersionUnsupported
      else if GeneratedBy document \<noteq> [] \<and> GeneratedBy document \<noteq> GeneratedConfigProvenance
      then Inl GeneratedByUnsupported
      else case Contexts document of
          None \<Rightarrow> Inl ContextsMissing
        | Some documents \<Rightarrow>
            if length documents > maximumEgressContexts then Inl TooManyContexts
            else res_bind (decode_contexts [] documents) (\<lambda>cs.
              Inr \<lparr>contexts = cs, config_protectedAddresses = protected_addresses cs\<rparr>))"

definition HasAttributedGateway :: "EgressContextConfig \<Rightarrow> bool" where
  "HasAttributedGateway config \<longleftrightarrow>
     list_ex (\<lambda>(_, gateways). list_ex (\<lambda>(_, gateway). attributedSocket gateway \<noteq> []) gateways) (contexts config)"

definition ContextNames :: "EgressContextConfig \<Rightarrow> string list" where
  "ContextNames config = sort (map fst (contexts config))"

definition CompileOptionsForContext ::
  "EgressContextConfig \<Rightarrow> string \<Rightarrow> CompileOptions \<Rightarrow> context_error + CompileOptions" where
  "CompileOptionsForContext config contextName base =
     (case map_of (contexts config) contextName of
        None \<Rightarrow> Inl (ContextAbsent contextName)
      | Some gateways \<Rightarrow> Inr (base\<lparr>ProtectedAddresses := config_protectedAddresses config,
          RunnerGateways := List.map_filter (\<lambda>(name, route).
            if IsValid (route_address route) then Some (name, route_address route) else None) gateways\<rparr>))"

definition AttributedGatewaySocket :: "EgressContextConfig \<Rightarrow> string \<Rightarrow> string \<Rightarrow> context_error + string" where
  "AttributedGatewaySocket config contextName logicalName =
     (case map_of (contexts config) contextName of
        None \<Rightarrow> Inl (AttributedGatewayAbsent logicalName contextName)
      | Some gateways \<Rightarrow>
          (case map_of gateways logicalName of
             None \<Rightarrow> Inl (AttributedGatewayAbsent logicalName contextName)
           | Some route \<Rightarrow>
               if attributedSocket route = [] then Inl (AttributedGatewayAbsent logicalName contextName)
               else Inr (attributedSocket route)))"

definition compileOptionsWithoutContext :: "EgressContextConfig \<Rightarrow> CompileOptions \<Rightarrow> CompileOptions" where
  "compileOptionsWithoutContext config base =
     base\<lparr>ProtectedAddresses := config_protectedAddresses config, RunnerGateways := []\<rparr>"

section \<open>Compiling an assignment\<close>

record RunnerConfig =
  BaseOptions :: CompileOptions
  EgressContexts :: EgressContextConfig

definition CompileOptionsForAssignment ::
  "RunnerConfig \<Rightarrow> string \<Rightarrow> bool \<Rightarrow> context_error + CompileOptions" where
  "CompileOptionsForAssignment config contextName required =
     (if required
      then if \<not> ValidateEgressContextName contextName then Inl (ContextNameInvalid contextName)
           else CompileOptionsForContext (EgressContexts config) contextName (BaseOptions config)
      else if contextName \<noteq> [] then Inl ContextUnexpected
      else Inr (compileOptionsWithoutContext (EgressContexts config) (BaseOptions config)))"

definition networkPolicyCompileOptions ::
  "CompileOptions \<Rightarrow> EgressContextConfig \<Rightarrow> string \<Rightarrow> bool \<Rightarrow> context_error + CompileOptions" where
  "networkPolicyCompileOptions limits egressContexts contextName required =
     CompileOptionsForAssignment
       \<lparr>BaseOptions = limits\<lparr>ProtectedAddresses := [], RunnerGateways := []\<rparr>, EgressContexts = egressContexts\<rparr>
       contextName required"

datatype assignment_error =
    EnforcementUnavailable
  | AssignmentProtocol protocol_error
  | AssignmentContext context_error
  | AssignmentPolicy policy_error

text \<open>
  \<open>compileAssignmentNetworkPolicy\<close>: whether an enforcer is configured, the
  Runner's settings, and of the assignment its policy, context and whether its
  requirements ask for a tenant egress context.
\<close>

definition compileAssignmentNetworkPolicy ::
  "bool \<Rightarrow> CompileOptions \<Rightarrow> EgressContextConfig \<Rightarrow> NetworkPolicy option \<Rightarrow> string \<Rightarrow> bool \<Rightarrow>
     assignment_error + CompiledPolicy" where
  "compileAssignmentNetworkPolicy enforced limits egressContexts source egressContext required =
     (if \<not> enforced then Inl EnforcementUnavailable
      else case FromRunnerProtocol source of
          Inl e \<Rightarrow> Inl (AssignmentProtocol e)
        | Inr policy \<Rightarrow>
            (case networkPolicyCompileOptions limits egressContexts egressContext required of
               Inl e \<Rightarrow> Inl (AssignmentContext e)
             | Inr options \<Rightarrow>
                 (case Compile policy options of
                    Inl e \<Rightarrow> Inl (AssignmentPolicy e)
                  | Inr compiled \<Rightarrow> Inr compiled)))"

end
