(* ===== verification/Network_Pins.thy ===== *)
theory Network_Pins
  imports Network_Contexts
begin

text \<open>
  What a compiled policy admits. The first sections describe compilation: the
  normal form of names, the exactness of the overlap test, and that no compiled
  rule contains a protected address. The pin table is then shown to keep its
  bounds and its protected-address check over every history, and to refine an
  abstract book of accepted answers that never deletes anything.
\<close>

section \<open>Names\<close>

lemma label_char_octet:
  assumes "label_char c"
  shows "(97 \<le> octet_of c \<and> octet_of c \<le> 122) \<or> (48 \<le> octet_of c \<and> octet_of c \<le> 57) \<or> octet_of c = 45"
proof -
  have n: "octet_of c = int (of_char c)"
    by (simp add: octet_of_def of_char_def)
  show ?thesis
    using assms unfolding label_char_def is_lower_alnum_def n less_eq_char_def
    by (elim disjE) (auto simp: n)
qed

lemma label_char_plain:
  assumes "label_char c"
  shows "lower c = c" "\<not> is_space c" "c \<noteq> CHR ''.''"
  using label_char_octet [OF assms] by (auto simp: lower_def is_space_def octet_of_def)

lemma Split_chars: "(\<forall>w \<in> set (Split sep s). \<forall>c \<in> set w. P c) \<Longrightarrow> c \<in> set s \<Longrightarrow> P c \<or> c = sep"
  by (induction s) (auto split: list.splits if_splits)

lemma Split_nonempty: "Split sep s \<noteq> []"
  by (induction s) (auto split: list.splits)

lemma Split_append_sep: "Split sep (s @ [sep]) = Split sep s @ [[]]"
  by (induction s) (auto split: list.splits simp: Split_nonempty)

lemma Split_last: "s \<noteq> [] \<Longrightarrow> last s = sep \<Longrightarrow> [] \<in> set (Split sep s)"
  using Split_append_sep [of sep "butlast s"] by (metis append_butlast_last_id in_set_conv_decomp)

lemma TrimSpace_id:
  assumes "\<And>c. c \<in> set s \<Longrightarrow> \<not> is_space c"
  shows "TrimSpace s = s"
proof -
  have "dropWhile is_space s = s" "dropWhile is_space (rev s) = rev s"
    using assms hd_in_set [of s] hd_in_set [of "rev s"] by (auto simp: dropWhile_eq_self_iff)
  then show ?thesis by (simp add: TrimSpace_def)
qed

lemma map_filter_Nil: "List.map_filter f xs = [] \<longleftrightarrow> (\<forall>x \<in> set xs. f x = None)"
  by (induction xs) (auto simp: List.map_filter_simps split: option.splits)

definition label_ok :: "string \<Rightarrow> bool" where
  "label_ok label \<longleftrightarrow> label \<noteq> [] \<and> length label \<le> 63 \<and> hd label \<noteq> CHR ''-'' \<and> last label \<noteq> CHR ''-'' \<and>
     list_all label_char label"

definition domain_ok :: "string \<Rightarrow> bool" where
  "domain_ok d \<longleftrightarrow> d \<noteq> [] \<and> length d \<le> 253 \<and> \<not> list_ex (\<lambda>c. c \<in> set ''*:/'') d \<and> ParseAddr d = None \<and>
     list_all label_ok (Split CHR ''.'' d)"

lemma label_error_None: "label_error raw label = None \<longleftrightarrow> label_ok label"
  by (simp add: label_error_def label_ok_def)

lemma first_label_error:
  "List.map_filter (label_error raw) ls = [] \<longleftrightarrow> list_all label_ok ls"
  by (simp add: map_filter_Nil label_error_None list_all_iff)

lemma normalizeDomain_Inr:
  "normalizeDomain raw = Inr d \<longleftrightarrow> d = TrimSuffix_dot (ToLower (TrimSpace raw)) \<and> domain_ok d"
proof -
  define e where "e = TrimSuffix_dot (ToLower (TrimSpace raw))"
  have "normalizeDomain raw = Inr d \<longleftrightarrow> d = e \<and> domain_ok e"
    unfolding normalizeDomain_def NormalizeLogicalGatewayName_def e_def [symmetric] Let_def domain_ok_def
      first_label_error [of raw, symmetric]
    by (auto split: list.splits)
  then show ?thesis by (auto simp: e_def)
qed

lemma domain_ok_fixed:
  assumes "domain_ok d" shows "TrimSuffix_dot (ToLower (TrimSpace d)) = d"
proof -
  have lab: "label \<in> set (Split CHR ''.'' d) \<Longrightarrow> label \<noteq> [] \<and> (\<forall>c \<in> set label. label_char c)" for label
    using assms by (simp add: domain_ok_def label_ok_def list_all_iff)
  have chars: "c \<in> set d \<Longrightarrow> label_char c \<or> c = CHR ''.''" for c
    using Split_chars [of "CHR ''.''" d label_char c] lab by blast
  have plain: "c \<in> set d \<Longrightarrow> \<not> is_space c \<and> lower c = c" for c
    using chars [of c] label_char_plain [of c] by (auto simp: is_space_def lower_def octet_of_def)
  have "last d \<noteq> CHR ''.''"
    using Split_last [of d "CHR ''.''"] lab assms by (auto simp: domain_ok_def)
  moreover have "ToLower (TrimSpace d) = d"
    using TrimSpace_id [of d] plain by (simp add: ToLower_def map_idI)
  ultimately show ?thesis by (simp add: TrimSuffix_dot_def)
qed

lemma normalizeDomain_idem: "normalizeDomain raw = Inr d \<Longrightarrow> normalizeDomain d = Inr d"
  by (metis normalizeDomain_Inr domain_ok_fixed)

section \<open>Compiled rules\<close>

lemma keep_first_set: "set (keep_first seen xs) = set xs - set seen"
  by (induction xs arbitrary: seen) auto

lemma keep_first_distinct: "distinct (keep_first seen xs)"
  by (induction xs arbitrary: seen) (auto simp: keep_first_set)

lemma normalizeAddress_idem: "normalizeAddress (normalizeAddress a) = normalizeAddress a"
  by (cases a) (auto simp: normalizeAddress_def)

lemma IsValid_normalize: "IsValid (normalizeAddress a) = IsValid a"
  by (cases a) (auto simp: normalizeAddress_def)

lemma protectedPrefixes_wf: "\<forall>p \<in> set protectedPrefixes. wf_prefix p \<and> Prefix_IsValid p"
proof -
  have "list_all (\<lambda>p. wf_prefix p \<and> Prefix_IsValid p) protectedPrefixes"
    by code_simp
  then show ?thesis by (simp add: list_all_iff)
qed

text \<open>The overlap test of two prefixes is exact.\<close>

lemma prefixesOverlap_iff:
  assumes "wf_prefix p" "wf_prefix q" "Prefix_IsValid p" "Prefix_IsValid q"
  shows "prefixesOverlap p q \<longleftrightarrow> (\<exists>a. Contains p a \<and> Contains q a)"
proof
  assume "prefixesOverlap p q"
  then show "\<exists>a. Contains p a \<and> Contains q a"
    using Contains_base [OF assms(3,1)] Contains_base [OF assms(4,2)] by (auto simp: prefixesOverlap_def)
next
  assume "\<exists>a. Contains p a \<and> Contains q a"
  then obtain a where a: "Contains p a" "Contains q a" by blast
  then have "Contains p (prefix_Addr q) \<or> Contains q (prefix_Addr p)"
    using Contains_nested [of p a q] Contains_nested [of q a p] assms by linarith
  with a show "prefixesOverlap p q"
    by (metis Contains_bitlen prefixesOverlap_def)
qed

text \<open>A compiled CIDR rule contains no protected address.\<close>

definition rule_ok :: "Addr list \<Rightarrow> Destination \<Rightarrow> bool" where
  "rule_ok protected d \<longleftrightarrow>
     validProtocol (Protocol d) \<and> Port d \<noteq> 0 \<and> Port d \<noteq> 53 \<and> Port d \<noteq> 853 \<and>
     (Domain d \<noteq> [] \<and> normalizeDomain (Domain d) = Inr (Domain d) \<and> DestPrefix d = NoPrefix \<or>
      Domain d = [] \<and> wf_prefix (DestPrefix d) \<and> Prefix_IsValid (DestPrefix d) \<and>
      (\<forall>a. Contains (DestPrefix d) a \<longrightarrow> a \<notin> set protected \<and> (\<forall>p \<in> set protectedPrefixes. \<not> Contains p a)))"

lemma find_None_set: "List.find P xs = None \<longleftrightarrow> (\<forall>x \<in> set xs. \<not> P x)"
  by (auto simp: find_None_iff)

lemma validateDestination_cases:
  assumes "validateDestination d protected = Inr d'"
  obtains (domain) domain where "normalizeDomain (Domain d) = Inr domain" "d' = d\<lparr>Domain := domain, DestPrefix := NoPrefix\<rparr>"
      "validProtocol (Protocol d)" "Port d \<noteq> 0" "Port d \<noteq> 53" "Port d \<noteq> 853"
  | (prefix) q where "normalizePrefix (DestPrefix d) = Inr q" "d' = d\<lparr>DestPrefix := q, Domain := []\<rparr>"
      "List.find (prefixesOverlap q) protectedPrefixes = None" "List.find (Contains q) protected = None"
      "validProtocol (Protocol d)" "Port d \<noteq> 0" "Port d \<noteq> 53" "Port d \<noteq> 853"
  using assms unfolding validateDestination_def Let_def
  by (simp only: split: if_splits sum.splits option.splits) auto

lemma normalizePrefix_ok:
  assumes "normalizePrefix p = Inr q" "wf_prefix p"
  shows "wf_prefix q" "Prefix_IsValid q"
proof -
  from assms(1) have q: "q = Masked p" "Prefix_IsValid p"
    by (auto simp: normalizePrefix_def split: if_splits)
  show "wf_prefix q" using assms(2) by (simp add: q(1) wf_Masked)
  show "Prefix_IsValid q"
    using Contains_base [OF q(2) assms(2)] Contains_Masked [OF assms(2)] Contains_bitlen by (auto simp: q(1))
qed

lemma validateDestination_ok:
  assumes "validateDestination d protected = Inr d'" "wf_prefix (DestPrefix d)"
  shows "rule_ok protected d'"
  using assms(1)
proof (cases rule: validateDestination_cases)
  case (domain domain)
  then have "normalizeDomain domain = Inr domain" "domain \<noteq> []"
    by (auto simp: normalizeDomain_idem) (simp add: normalizeDomain_Inr domain_ok_def)
  with domain show ?thesis by (simp add: rule_ok_def)
next
  case (prefix q)
  note wf = normalizePrefix_ok [OF prefix(1) assms(2)]
  have "\<not> Contains p a" if "Contains q a" "p \<in> set protectedPrefixes" for a p
    using that prefix(3) prefixesOverlap_iff wf protectedPrefixes_wf by (metis find_None_set)
  with wf prefix show ?thesis by (auto simp: rule_ok_def find_None_set)
qed

lemma Compile_cases:
  assumes "Compile policy options = Inr p"
  obtains runners management protected ds gateways where
    "0 < MaximumPins options" "0 < MaximumTTL options" "PolicyMode policy \<in> {ModeDenyAll, ModeAllowList}"
    "res_map (compileAddress RunnerAddressInvalid) (RunnerAddresses options) = Inr runners"
    "res_map compilePrefix (ManagementPrefixes options) = Inr management"
    "res_map (compileAddress ProtectedAddressInvalid) (ProtectedAddresses options) = Inr protected"
    "res_map (compileDestination protected) (enumerate 0 (PolicyDestinations policy)) = Inr ds"
    "compileGateways runners management protected [] (RunnerGateways options) = Inr gateways"
    "p = \<lparr>mode = PolicyMode policy, destinations = ds, maximumPins = MaximumPins options,
            maximumTTL = MaximumTTL options, runnerAddresses = keep_first [] runners,
            managementPrefixes = management, protectedAddresses = keep_first [] protected,
            runnerGateways = gateways, pins = []\<rparr>"
  using assms unfolding Compile_def
  by (simp only: split: if_splits) (auto simp: res_bind_Inr)

lemma enumerate_mem: "(i, x) \<in> set (enumerate n xs) \<Longrightarrow> x \<in> set xs"
  by (metis in_set_zip enumerate_eq_zip nth_mem snd_conv)

lemma rule_ok_cong: "set xs = set ys \<Longrightarrow> rule_ok xs d = rule_ok ys d"
  by (simp add: rule_ok_def)

lemma compileDestination_ok:
  assumes "compileDestination protected x = Inr d" "wf_prefix (DestPrefix (snd x))"
  shows "rule_ok protected d"
  using assms by (cases x) (auto simp: compileDestination_def split: sum.splits intro: validateDestination_ok)

lemma Compile_rules:
  assumes "Compile policy options = Inr p" "\<forall>d \<in> set (PolicyDestinations policy). wf_prefix (DestPrefix d)"
    "d \<in> set (destinations p)"
  shows "rule_ok (protectedAddresses p) d"
  using assms(1)
proof (cases rule: Compile_cases)
  case (1 runners management protected ds gateways)
  have fields: "destinations p = ds" "set (protectedAddresses p) = set protected"
    by (simp_all add: 1(9) keep_first_set)
  from res_map_mem [OF 1(7), of d] assms(3) obtain x where
    x: "x \<in> set (enumerate 0 (PolicyDestinations policy))" "compileDestination protected x = Inr d"
    unfolding fields(1) by blast
  have "snd x \<in> set (PolicyDestinations policy)"
    using x(1) enumerate_mem [of "fst x" "snd x"] by simp
  with assms(2) have "wf_prefix (DestPrefix (snd x))" by blast
  then show ?thesis
    using compileDestination_ok [OF x(2)] rule_ok_cong [OF fields(2)] by simp
qed

section \<open>The pin table\<close>

text \<open>
  The invariant of the pin table: at most \<open>maximumPins\<close> pins, each for a rule
  of the policy, with at most \<open>maximumPinAddresses\<close> sorted distinct addresses,
  none of them protected.
\<close>

definition answer_ok :: "CompiledPolicy \<Rightarrow> int \<Rightarrow> Addr \<Rightarrow> bool" where
  "answer_ok p family a \<longleftrightarrow>
     \<not> isProtected p a \<and> \<not> Is4In6 a \<and> (family = 4 \<longrightarrow> Is4 a) \<and> (family = 6 \<longrightarrow> Is6 a)"

definition pin_ok :: "CompiledPolicy \<Rightarrow> pinKey \<Rightarrow> DNSPin \<Rightarrow> bool" where
  "pin_ok p key pin \<longleftrightarrow>
     PinDomain pin = key_domain key \<and> hasDomainRule p (key_protocol key) (key_domain key) (key_port key) \<and>
     Addresses pin \<noteq> [] \<and> length (Addresses pin) \<le> maximumPinAddresses \<and>
     sorted (Addresses pin) \<and> distinct (Addresses pin) \<and>
     (\<forall>a \<in> set (Addresses pin). answer_ok p (key_family key) a)"

definition pins_ok :: "CompiledPolicy \<Rightarrow> bool" where
  "pins_ok p \<longleftrightarrow> distinct (map fst (pins p)) \<and> int (length (pins p)) \<le> maximumPins p \<and>
     (\<forall>(key, pin) \<in> set (pins p). pin_ok p key pin)"

text \<open>The operations change nothing of a policy but its pins.\<close>

lemma rules_unchanged [simp]:
  "isProtected (p\<lparr>pins := ps\<rparr>) = isProtected p"
  "hasDomainRule (p\<lparr>pins := ps\<rparr>) = hasDomainRule p"
  "isRunnerGateway (p\<lparr>pins := ps\<rparr>) = isRunnerGateway p"
  by (auto simp: isProtected_def hasDomainRule_def isRunnerGateway_def fun_eq_iff)

lemma pin_ok_unchanged [simp]: "pin_ok (p\<lparr>pins := ps\<rparr>) = pin_ok p"
  by (auto simp: pin_ok_def answer_ok_def fun_eq_iff)

lemma normalize_not_mapped: "\<not> Is4In6 (normalizeAddress a)"
  by (cases a) (auto simp: normalizeAddress_def)

lemma pinAnswers_ok:
  assumes "pinAnswers p family seen xs = Inr ys"
  shows "set ys = normalizeAddress ` set xs - set seen" "distinct ys"
    "a \<in> set xs \<Longrightarrow> answer_ok p family (normalizeAddress a)"
proof -
  have "set ys = normalizeAddress ` set xs - set seen \<and> distinct ys \<and>
    (\<forall>a \<in> set xs. answer_ok p family (normalizeAddress a))"
    using assms
    by (induction xs arbitrary: seen ys)
      (auto simp: Let_def res_bind_Inr answer_ok_def normalize_not_mapped split: if_splits)
  then show "set ys = normalizeAddress ` set xs - set seen" "distinct ys"
    "a \<in> set xs \<Longrightarrow> answer_ok p family (normalizeAddress a)" by auto
qed

lemma pinAnswers_Inr:
  "(\<exists>ys. pinAnswers p family seen xs = Inr ys) \<longleftrightarrow> (\<forall>a \<in> set xs. answer_ok p family (normalizeAddress a))"
proof (induction xs arbitrary: seen)
  case (Cons x xs)
  have valid: "\<not> isProtected p a \<Longrightarrow> IsValid a" for a
    by (auto simp: isProtected_def isProtectedAddress_def)
  have step: "(\<exists>ys. pinAnswers p family seen (x # xs) = Inr ys) \<longleftrightarrow> answer_ok p family (normalizeAddress x) \<and>
    (\<exists>ys. pinAnswers p family (if normalizeAddress x \<in> set seen then seen else normalizeAddress x # seen) xs = Inr ys)"
    using valid by (auto simp: Let_def res_bind_Inr answer_ok_def normalize_not_mapped)
  show ?case unfolding step Cons.IH by simp
qed simp

definition pin_admissible ::
  "CompiledPolicy \<Rightarrow> string \<Rightarrow> string \<Rightarrow> 16 word \<Rightarrow> int \<Rightarrow> Addr list \<Rightarrow> duration \<Rightarrow> bool" where
  "pin_admissible p protocol domain port family addresses ttl \<longleftrightarrow>
     mode p \<noteq> ModeDenyAll \<and> hasDomainRule p protocol domain port \<and> 0 < ttl \<and> addresses \<noteq> [] \<and>
     (\<forall>a \<in> set addresses. answer_ok p family (normalizeAddress a))"

lemma pinDNS_denied:
  assumes "\<And>domain. normalizeDomain raw = Inr domain \<Longrightarrow> \<not> pin_admissible p protocol domain port family addresses ttl"
  shows "\<exists>r. pinDNS p protocol raw port family addresses ttl now = (emptyPin, deny r, p)"
proof (cases "normalizeDomain raw")
  case (Inr domain)
  have "(\<exists>e. pinAnswers p family [] addresses = Inl e) \<or> \<not> hasDomainRule p protocol domain port \<or>
    mode p = ModeDenyAll \<or> ttl \<le> 0 \<or> addresses = []"
    using assms [OF Inr] pinAnswers_Inr [of p family "[]" addresses]
    by (cases "pinAnswers p family [] addresses") (auto simp: pin_admissible_def)
  then show ?thesis by (auto simp: pinDNS_def Inr)
qed (auto simp: pinDNS_def)

lemma pinDNS_admitted:
  assumes "normalizeDomain raw = Inr domain" "pin_admissible p protocol domain port family addresses ttl"
  obtains answers where "set answers = normalizeAddress ` set addresses" "distinct answers"
    "pinDNS p protocol raw port family addresses ttl now =
       pinLocked p \<lparr>key_protocol = protocol, key_domain = domain, key_port = port, key_family = family\<rparr> answers ttl now"
proof -
  from assms(2) obtain answers where a: "pinAnswers p family [] addresses = Inr answers"
    using pinAnswers_Inr [of p family "[]" addresses] by (auto simp: pin_admissible_def)
  from pinAnswers_ok(1,2) [OF a] have s: "set answers = normalizeAddress ` set addresses" "distinct answers"
    by simp_all
  with assms(2) have "answers \<noteq> []" by (auto simp: pin_admissible_def)
  with assms a have "pinDNS p protocol raw port family addresses ttl now =
       pinLocked p \<lparr>key_protocol = protocol, key_domain = domain, key_port = port, key_family = family\<rparr> answers ttl now"
    by (auto simp: pinDNS_def pin_admissible_def)
  with s show ?thesis by (rule that)
qed

text \<open>What a lookup sees at an instant: the pins that have not expired.\<close>

type_synonym book = "pinKey \<Rightarrow> (Addr set \<times> time) option"

definition live :: "book \<Rightarrow> time \<Rightarrow> book" where
  "live b now key = (case b key of Some (A, e) \<Rightarrow> if now < e then Some (A, e) else None | None \<Rightarrow> None)"

definition pin_book :: "CompiledPolicy \<Rightarrow> book" where
  "pin_book p key = map_option (\<lambda>pin. (set (Addresses pin), ExpiresAt pin)) (map_of (pins p) key)"

lemma live_of_live: "t \<le> t' \<Longrightarrow> live (live b t) t' = live b t'"
  by (auto simp: live_def fun_eq_iff split: option.splits)

lemma live_later: "t \<le> t' \<Longrightarrow> live b t = live b' t \<Longrightarrow> live b t' = live b' t'"
  by (metis live_of_live)

lemma map_of_live:
  "distinct (map fst ps) \<Longrightarrow> map_of (filter (\<lambda>(_, pin). now < ExpiresAt pin) ps) key =
     (case map_of ps key of Some pin \<Rightarrow> if now < ExpiresAt pin then Some pin else None | None \<Rightarrow> None)"
  by (induction ps) (auto split: option.splits simp: map_of_eq_None_iff)

lemma pin_book_expired:
  "pins_ok p \<Longrightarrow> pin_book (removeExpiredPinsLocked now p) = live (pin_book p) now"
  by (auto simp: pin_book_def live_def removeExpiredPinsLocked_def map_of_live pins_ok_def fun_eq_iff split: option.splits)

lemma pins_ok_expired: "pins_ok p \<Longrightarrow> pins_ok (removeExpiredPinsLocked now p)"
  unfolding pins_ok_def removeExpiredPinsLocked_def
  by (auto simp: distinct_map_filter intro: order_trans [OF of_nat_mono [OF length_filter_le]])

lemma pins_count:
  assumes "pins_ok p"
  shows "length (pins (removeExpiredPinsLocked now p)) = card {key. live (pin_book p) now key \<noteq> None}"
proof -
  let ?ps = "pins (removeExpiredPinsLocked now p)"
  have d: "distinct (map fst ?ps)" using pins_ok_expired [OF assms] by (simp add: pins_ok_def)
  have "{key. live (pin_book p) now key \<noteq> None} = fst ` set ?ps"
    unfolding pin_book_expired [OF assms, symmetric] by (auto simp: pin_book_def map_of_eq_None_iff)
  then show ?thesis using distinct_card [OF d] by simp
qed

text \<open>
  The abstract book: sets of addresses with an expiry, nothing ever deleted, the
  bounds counted over the entries that are live.
\<close>

definition book_addresses :: "book \<Rightarrow> time \<Rightarrow> pinKey \<Rightarrow> Addr set" where
  "book_addresses b now key = (case live b now key of Some (B, _) \<Rightarrow> B | None \<Rightarrow> {})"

definition book_pin ::
  "CompiledPolicy \<Rightarrow> book \<Rightarrow> pinKey \<Rightarrow> Addr set \<Rightarrow> duration \<Rightarrow> time \<Rightarrow> bool \<times> book" where
  "book_pin p b key A ttl now =
     (let B = book_addresses b now key \<union> A in
      if live b now key = None \<and> int (card {k. live b now k \<noteq> None}) \<ge> maximumPins p \<or> card B > maximumPinAddresses
      then (False, b)
      else (True, b(key \<mapsto> (B, now + min ttl (maximumTTL p)))))"

lemma pin_book_update:
  "pin_book (p\<lparr>pins := AList.update key pin (pins p)\<rparr>) = (pin_book p)(key \<mapsto> (set (Addresses pin), ExpiresAt pin))"
  by (auto simp: pin_book_def fun_eq_iff update_conv)

lemma update_mem: "x \<in> set (AList.update k v ps) \<Longrightarrow> x = (k, v) \<or> x \<in> set ps"
  by (induction ps) (auto split: if_splits)

lemma length_update:
  "length (AList.update k v ps) = (if map_of ps k = None then Suc (length ps) else length ps)"
  by (induction ps) auto

lemma live_upd: "live (b(key \<mapsto> (A, e))) now = (live b now)(key := if now < e then Some (A, e) else None)"
  by (auto simp: live_def fun_eq_iff)

lemma pins_ok_update:
  assumes "pins_ok p" "pin_ok p key pin" "map_of (pins p) key = None \<Longrightarrow> int (length (pins p)) < maximumPins p"
  shows "pins_ok (p\<lparr>pins := AList.update key pin (pins p)\<rparr>)"
proof -
  let ?ps = "AList.update key pin (pins p)"
  have "int (length ?ps) \<le> maximumPins p"
    using assms(1,3) by (auto simp: pins_ok_def length_update)
  moreover have "\<forall>(k, x) \<in> set ?ps. pin_ok p k x"
  proof safe
    fix k x assume "(k, x) \<in> set ?ps"
    then have "(k, x) = (key, pin) \<or> (k, x) \<in> set (pins p)"
      by (rule update_mem)
    then show "pin_ok p k x" using assms(1,2) by (auto simp: pins_ok_def)
  qed
  ultimately show ?thesis
    using assms(1) by (simp add: pins_ok_def distinct_update)
qed

lemma removeExpired_fields [simp]:
  "maximumPins (removeExpiredPinsLocked now p) = maximumPins p"
  "maximumTTL (removeExpiredPinsLocked now p) = maximumTTL p"
  "pin_ok (removeExpiredPinsLocked now p) = pin_ok p"
  by (simp_all add: removeExpiredPinsLocked_def)

text \<open>The addresses that \<open>pinLocked\<close> stores, before its bounds are checked.\<close>

definition merged :: "CompiledPolicy \<Rightarrow> pinKey \<Rightarrow> Addr list \<Rightarrow> time \<Rightarrow> Addr list" where
  "merged p key answers now =
     (case map_of (pins (removeExpiredPinsLocked now p)) key of
        Some existing \<Rightarrow> mergeAddresses (Addresses existing) (sort answers)
      | None \<Rightarrow> sort answers)"

lemma merged_set:
  assumes "pins_ok p"
  shows "set (merged p key answers now) = book_addresses (pin_book p) now key \<union> set answers"
  using pin_book_expired [OF assms, of now, symmetric]
  by (auto simp: merged_def book_addresses_def pin_book_def mergeAddresses_def keep_first_set split: option.splits)

lemma merged_sorted:
  "distinct answers \<Longrightarrow> sorted (merged p key answers now) \<and> distinct (merged p key answers now)"
  by (auto simp: merged_def mergeAddresses_def keep_first_distinct split: option.splits)

lemma pinLocked_cases:
  obtains (refused) "pinLocked p key answers ttl now =
      (emptyPin, deny ReasonPinCapacityExhausted, removeExpiredPinsLocked now p)"
    "map_of (pins (removeExpiredPinsLocked now p)) key = None \<and>
       int (length (pins (removeExpiredPinsLocked now p))) \<ge> maximumPins p \<or>
     length (merged p key answers now) > maximumPinAddresses"
  | (stored) pin where "pin = \<lparr>PinDomain = key_domain key, Addresses = merged p key answers now,
        ExpiresAt = now + min ttl (maximumTTL p)\<rparr>"
    "pinLocked p key answers ttl now = (pin, allow ReasonAllowedDomain,
       (removeExpiredPinsLocked now p)\<lparr>pins := AList.update key pin (pins (removeExpiredPinsLocked now p))\<rparr>)"
    "map_of (pins (removeExpiredPinsLocked now p)) key = None \<Longrightarrow>
       int (length (pins (removeExpiredPinsLocked now p))) < maximumPins p"
    "length (merged p key answers now) \<le> maximumPinAddresses"
proof -
  define P where "P = removeExpiredPinsLocked now p"
  let ?full = "map_of (pins P) key = None \<and> int (length (pins P)) \<ge> maximumPins p"
  let ?pin = "\<lparr>PinDomain = key_domain key, Addresses = merged p key answers now, ExpiresAt = now + min ttl (maximumTTL p)\<rparr>"
  have ttl: "(if ttl > maximumTTL p then maximumTTL p else ttl) = min ttl (maximumTTL p)"
    by (simp add: min_def)
  have eq: "pinLocked p key answers ttl now =
     (if ?full \<or> length (merged p key answers now) > maximumPinAddresses
      then (emptyPin, deny ReasonPinCapacityExhausted, P)
      else (?pin, allow ReasonAllowedDomain, P\<lparr>pins := AList.update key ?pin (pins P)\<rparr>))"
    unfolding pinLocked_def Let_def ttl merged_def P_def by simp
  show thesis
  proof (cases "?full \<or> length (merged p key answers now) > maximumPinAddresses")
    case True
    then show thesis using eq unfolding P_def by (intro refused) simp_all
  next
    case False
    note eq' = eq [unfolded if_not_P [OF False]]
    show thesis
      by (rule stored [OF refl eq' [unfolded P_def]]) (use False in \<open>auto simp: P_def\<close>)
  qed
qed

lemma book_addresses_ok:
  "pins_ok p \<Longrightarrow> a \<in> book_addresses (pin_book p) now key \<Longrightarrow> answer_ok p (key_family key) a"
  by (auto simp: book_addresses_def live_def pin_book_def pins_ok_def pin_ok_def
      split: option.splits if_splits dest!: map_of_SomeD)

text \<open>One pinned answer, in the table and in the book.\<close>

lemma pinLocked_sim:
  assumes ok: "pins_ok p" and eq: "live (pin_book p) now = live b now"
    and ans: "distinct answers" "answers \<noteq> []" "\<forall>a \<in> set answers. answer_ok p (key_family key) a"
    and rule: "hasDomainRule p (key_protocol key) (key_domain key) (key_port key)"
    and run: "pinLocked p key answers ttl now = (pin, d, p')" "book_pin p b key (set answers) ttl now = (r, b')"
  shows "Allowed d = r" "pins_ok p'" "live (pin_book p') now = live b' now"
proof -
  let ?P = "removeExpiredPinsLocked now p" and ?B = "merged p key answers now"
  have addrs: "book_addresses b now key = book_addresses (pin_book p) now key"
    by (simp add: book_addresses_def eq)
  have size: "length ?B = card (book_addresses b now key \<union> set answers)"
    using merged_sorted [OF ans(1)] distinct_card [of ?B] merged_set [OF ok] addrs by simp
  have free: "map_of (pins ?P) key = None \<longleftrightarrow> live b now key = None"
    using pin_book_expired [OF ok, of now] eq by (metis map_option_is_None pin_book_def)
  have count: "length (pins ?P) = card {k. live b now k \<noteq> None}"
    using pins_count [OF ok] eq by simp
  have okP: "pins_ok ?P" by (rule pins_ok_expired [OF ok])
  have liveP: "live (pin_book ?P) now = live b now"
    using pin_book_expired [OF ok, of now] eq live_of_live by simp
  have "Allowed d = r \<and> pins_ok p' \<and> live (pin_book p') now = live b' now"
  proof (cases rule: pinLocked_cases [where p = p and key = key and answers = answers and ttl = ttl and now = now])
    case refused
    then have "book_pin p b key (set answers) ttl now = (False, b)"
      by (simp add: book_pin_def Let_def free count size)
    with refused run okP liveP show ?thesis by (simp add: deny_def)
  next
    case (stored q)
    have "\<not> (live b now key = None \<and> int (card {k. live b now k \<noteq> None}) \<ge> maximumPins p)"
      "\<not> card (book_addresses b now key \<union> set answers) > maximumPinAddresses"
      using stored(3,4) unfolding free count size by linarith+
    then have book: "book_pin p b key (set answers) ttl now =
        (True, b(key \<mapsto> (book_addresses b now key \<union> set answers, now + min ttl (maximumTTL p))))"
      by (simp only: book_pin_def Let_def simp_thms if_False)
    have "\<forall>a \<in> set ?B. answer_ok p (key_family key) a"
      using book_addresses_ok [OF ok] ans(3) by (auto simp: merged_set [OF ok])
    then have "pin_ok p key q"
      using merged_sorted [OF ans(1), of p key now] stored(4) ans rule merged_set [OF ok, of key answers now]
      by (auto simp: stored(1) pin_ok_def)
    then have "pins_ok (?P\<lparr>pins := AList.update key q (pins ?P)\<rparr>)"
      using stored(3) okP by (intro pins_ok_update) simp_all
    moreover have p': "p' = ?P\<lparr>pins := AList.update key q (pins ?P)\<rparr>" "d = allow ReasonAllowedDomain"
      using stored(2) run(1) by simp_all
    moreover have "pin_book p' = (pin_book ?P)(key \<mapsto> (book_addresses b now key \<union> set answers, now + min ttl (maximumTTL p)))"
      using merged_set [OF ok, of key answers now] addrs by (simp add: p' pin_book_update stored(1))
    ultimately show ?thesis
      using book run(2) liveP by (simp add: live_upd allow_def)
  qed
  then show "Allowed d = r" "pins_ok p'" "live (pin_book p') now = live b' now" by auto
qed

section \<open>Histories\<close>

text \<open>The calls on a compiled policy, with the instant each one reads.\<close>

datatype policy_call =
    PinCall "int option" string string "16 word" "Addr list" duration time
  | PinnedCall string string Addr "16 word" time
  | DirectCall string Addr "16 word" time

fun call_time :: "policy_call \<Rightarrow> time" where
  "call_time (PinCall _ _ _ _ _ _ now) = now"
| "call_time (PinnedCall _ _ _ _ now) = now"
| "call_time (DirectCall _ _ _ now) = now"

fun policy_step :: "policy_call \<Rightarrow> CompiledPolicy \<Rightarrow> bool \<times> CompiledPolicy" where
  "policy_step (PinCall family protocol domain port addresses ttl now) p =
     (case (case family of None \<Rightarrow> PinDNS p protocol domain port addresses ttl now
            | Some f \<Rightarrow> PinDNSForAddressFamily p protocol domain port f addresses ttl now) of
        (_, d, p') \<Rightarrow> (Allowed d, p'))"
| "policy_step (PinnedCall protocol domain address port now) p =
     (case AuthorizePinned p protocol domain address port now of (d, p') \<Rightarrow> (Allowed d, p'))"
| "policy_step (DirectCall protocol address port now) p = (Allowed (AuthorizeIP p protocol address port), p)"

fun policy_trace :: "CompiledPolicy \<Rightarrow> policy_call list \<Rightarrow> bool list" where
  "policy_trace p [] = []"
| "policy_trace p (c # cs) = (case policy_step c p of (r, p') \<Rightarrow> r # policy_trace p' cs)"

fun policy_after :: "CompiledPolicy \<Rightarrow> policy_call list \<Rightarrow> CompiledPolicy" where
  "policy_after p [] = p"
| "policy_after p (c # cs) = policy_after (snd (policy_step c p)) cs"

text \<open>The same calls on the book of accepted answers.\<close>

definition book_answer ::
  "CompiledPolicy \<Rightarrow> book \<Rightarrow> int \<Rightarrow> string \<Rightarrow> string \<Rightarrow> 16 word \<Rightarrow> Addr list \<Rightarrow> duration \<Rightarrow> time \<Rightarrow> bool \<times> book" where
  "book_answer p b family protocol raw port addresses ttl now =
     (case normalizeDomain raw of
        Inl _ \<Rightarrow> (False, b)
      | Inr domain \<Rightarrow>
          if pin_admissible p protocol domain port family addresses ttl
          then book_pin p b \<lparr>key_protocol = protocol, key_domain = domain, key_port = port, key_family = family\<rparr>
                 (normalizeAddress ` set addresses) ttl now
          else (False, b))"

definition book_allows :: "CompiledPolicy \<Rightarrow> book \<Rightarrow> string \<Rightarrow> string \<Rightarrow> Addr \<Rightarrow> 16 word \<Rightarrow> time \<Rightarrow> bool" where
  "book_allows p b protocol raw address port now \<longleftrightarrow>
     mode p \<noteq> ModeDenyAll \<and>
     (\<exists>domain. normalizeDomain raw = Inr domain \<and> hasDomainRule p protocol domain port \<and>
        (map_of (runnerGateways p) domain = Some (normalizeAddress address) \<or>
         \<not> isProtected p (normalizeAddress address) \<and>
         normalizeAddress address \<in> book_addresses b now
           \<lparr>key_protocol = protocol, key_domain = domain, key_port = port, key_family = 0\<rparr>))"

fun book_step :: "CompiledPolicy \<Rightarrow> policy_call \<Rightarrow> book \<Rightarrow> bool \<times> book" where
  "book_step p (PinCall family protocol domain port addresses ttl now) b =
     (case family of
        None \<Rightarrow> book_answer p b 0 protocol domain port addresses ttl now
      | Some f \<Rightarrow> if f = 4 \<or> f = 6 then book_answer p b f protocol domain port addresses ttl now else (False, b))"
| "book_step p (PinnedCall protocol domain address port now) b =
     (book_allows p b protocol domain address port now, b)"
| "book_step p (DirectCall protocol address port now) b =
     (mode p \<noteq> ModeDenyAll \<and> \<not> isProtected p (normalizeAddress address) \<and>
        (\<exists>d \<in> set (destinations p). Domain d = [] \<and> Protocol d = protocol \<and> Port d = port \<and>
           Contains (DestPrefix d) (normalizeAddress address)), b)"

fun book_trace :: "CompiledPolicy \<Rightarrow> book \<Rightarrow> policy_call list \<Rightarrow> bool list" where
  "book_trace p b [] = []"
| "book_trace p b (c # cs) = (case book_step p c b of (r, b') \<Rightarrow> r # book_trace p b' cs)"

text \<open>Every operation leaves the rules of the policy alone.\<close>

definition same_rules :: "CompiledPolicy \<Rightarrow> CompiledPolicy \<Rightarrow> bool" where
  "same_rules p q \<longleftrightarrow> q = p\<lparr>pins := pins q\<rparr>"

lemma same_rules_refl [simp]: "same_rules p p"
  by (simp add: same_rules_def)

lemma same_rules_trans: "same_rules p q \<Longrightarrow> same_rules q r \<Longrightarrow> same_rules p r"
  by (cases p; cases q; cases r) (simp add: same_rules_def)

lemma same_rules_pins [simp]: "same_rules p (q\<lparr>pins := ps\<rparr>) = same_rules p q"
  by (cases p; cases q) (simp add: same_rules_def)

lemma same_rules_facts:
  assumes "same_rules p q"
  shows "isProtected q = isProtected p" "hasDomainRule q = hasDomainRule p" "isRunnerGateway q = isRunnerGateway p"
    "mode q = mode p" "destinations q = destinations p" "runnerGateways q = runnerGateways p"
    "maximumPins q = maximumPins p" "maximumTTL q = maximumTTL p" "protectedAddresses q = protectedAddresses p"
    "pin_admissible q = pin_admissible p" "answer_ok q = answer_ok p" "AuthorizeIP q = AuthorizeIP p"
    "runnerAddresses q = runnerAddresses p"
proof -
  from assms have q: "q = p\<lparr>pins := pins q\<rparr>" by (simp add: same_rules_def)
  show "isProtected q = isProtected p" "hasDomainRule q = hasDomainRule p" "isRunnerGateway q = isRunnerGateway p"
    "mode q = mode p" "destinations q = destinations p" "runnerGateways q = runnerGateways p"
    "maximumPins q = maximumPins p" "maximumTTL q = maximumTTL p" "protectedAddresses q = protectedAddresses p"
    "runnerAddresses q = runnerAddresses p"
    by (subst q, simp)+
  then show "pin_admissible q = pin_admissible p" "answer_ok q = answer_ok p" "AuthorizeIP q = AuthorizeIP p"
    by (auto simp: pin_admissible_def answer_ok_def AuthorizeIP_def fun_eq_iff Let_def)
qed

definition refines :: "CompiledPolicy \<Rightarrow> CompiledPolicy \<Rightarrow> book \<Rightarrow> time \<Rightarrow> bool" where
  "refines p q b now \<longleftrightarrow> same_rules p q \<and> pins_ok q \<and> live (pin_book q) now = live b now"

lemma refines_later: "refines p q b t \<Longrightarrow> t \<le> t' \<Longrightarrow> refines p q b t'"
  unfolding refines_def using live_later by blast

lemma removeExpired_same: "same_rules p (removeExpiredPinsLocked now q) = same_rules p q"
  by (simp add: removeExpiredPinsLocked_def)

lemma pinLocked_same:
  assumes "pinLocked q key answers ttl now = (pin, d, q')" "same_rules p q"
  shows "same_rules p q'"
  using assms
  by (cases rule: pinLocked_cases [where p = q and key = key and answers = answers and ttl = ttl and now = now])
    (auto simp: removeExpired_same)

lemma book_pin_same: "same_rules p q \<Longrightarrow> book_pin q = book_pin p"
  by (simp add: book_pin_def fun_eq_iff same_rules_facts Let_def)

lemma pinDNS_sim:
  assumes sim: "refines p q b now"
    and run: "pinDNS q protocol raw port family addresses ttl now = (pin, d, q')"
      "book_answer p b family protocol raw port addresses ttl now = (r, b')"
  shows "Allowed d = r \<and> refines p q' b' now"
proof (cases "\<exists>domain. normalizeDomain raw = Inr domain \<and> pin_admissible p protocol domain port family addresses ttl")
  case True
  then obtain domain where dom: "normalizeDomain raw = Inr domain"
    and adm: "pin_admissible q protocol domain port family addresses ttl"
      "pin_admissible p protocol domain port family addresses ttl"
    using sim by (auto simp: refines_def same_rules_facts)
  let ?key = "\<lparr>key_protocol = protocol, key_domain = domain, key_port = port, key_family = family\<rparr>"
  obtain answers where ans: "set answers = normalizeAddress ` set addresses" "distinct answers"
    "pinDNS q protocol raw port family addresses ttl now = pinLocked q ?key answers ttl now"
    by (rule pinDNS_admitted [OF dom adm(1)])
  have book: "book_pin q b ?key (set answers) ttl now = (r, b')"
    using run(2) dom adm(2) ans(1) book_pin_same [of p q] sim by (simp add: book_answer_def refines_def)
  have "answers \<noteq> []" using ans(1) adm(1) by (auto simp: pin_admissible_def)
  then have "Allowed d = r" "pins_ok q'" "live (pin_book q') now = live b' now"
    using pinLocked_sim [of q now b answers ?key ttl pin d q' r b'] sim ans run(1) adm(1) book
    by (auto simp: refines_def pin_admissible_def)
  moreover have "same_rules p q'"
    using pinLocked_same [of q ?key answers ttl now pin d q' p] ans run sim by (simp add: refines_def)
  ultimately show ?thesis by (simp add: refines_def)
next
  case False
  then have "book_answer p b family protocol raw port addresses ttl now = (False, b)"
    by (auto simp: book_answer_def split: sum.splits)
  moreover obtain e where "pinDNS q protocol raw port family addresses ttl now = (emptyPin, deny e, q)"
    using pinDNS_denied [of raw q protocol port family addresses ttl now] False sim
    by (auto simp: refines_def same_rules_facts)
  ultimately show ?thesis using sim run by (auto simp: deny_def)
qed

lemma pins_ok_delete: "pins_ok p \<Longrightarrow> pins_ok (p\<lparr>pins := AList.delete key (pins p)\<rparr>)"
  unfolding pins_ok_def AList.delete_eq
  by (auto simp: distinct_map_filter intro: order_trans [OF of_nat_mono [OF length_filter_le]])

lemma live_delete:
  assumes "map_of (pins p) key = Some pin" "\<not> now < ExpiresAt pin"
  shows "live (pin_book (p\<lparr>pins := AList.delete key (pins p)\<rparr>)) now = live (pin_book p) now"
  using assms by (auto simp: live_def pin_book_def delete_conv fun_eq_iff split: option.splits)

lemma AuthorizePinned_sim:
  assumes sim: "refines p q b now" and run: "AuthorizePinned q protocol raw address port now = (d, q')"
  shows "Allowed d = book_allows p b protocol raw address port now \<and> refines p q' b now"
proof (cases "normalizeDomain raw")
  case (Inr domain)
  let ?key = "\<lparr>key_protocol = protocol, key_domain = domain, key_port = port, key_family = 0\<rparr>"
  let ?a = "normalizeAddress address"
  from sim have rules: "same_rules p q" and ok: "pins_ok q" and eq: "live (pin_book q) now = live b now"
    by (simp_all add: refines_def)
  have mem: "?a \<in> book_addresses b now ?key \<longleftrightarrow>
      (\<exists>pin. map_of (pins q) ?key = Some pin \<and> now < ExpiresAt pin \<and> ?a \<in> set (Addresses pin))"
    unfolding book_addresses_def eq [symmetric]
    by (auto simp: live_def pin_book_def split: option.splits)
  have gone: "refines p (q\<lparr>pins := AList.delete ?key (pins q)\<rparr>) b now"
    if "map_of (pins q) ?key = Some pin" "\<not> now < ExpiresAt pin" for pin
    using sim live_delete [OF that] pins_ok_delete [OF ok] by (simp add: refines_def)
  show ?thesis
    using run sim gone unfolding AuthorizePinned_def book_allows_def Inr isRunnerGateway_def Let_def
      same_rules_facts(1-6) [OF rules]
    by (auto simp: mem allow_def deny_def split: if_splits option.splits)
qed (use sim run in \<open>auto simp: AuthorizePinned_def book_allows_def deny_def split: if_splits\<close>)

lemma AuthorizeIP_iff:
  "Allowed (AuthorizeIP p protocol address port) \<longleftrightarrow>
     mode p \<noteq> ModeDenyAll \<and> \<not> isProtected p (normalizeAddress address) \<and>
     (\<exists>d \<in> set (destinations p). Domain d = [] \<and> Protocol d = protocol \<and> Port d = port \<and>
        Contains (DestPrefix d) (normalizeAddress address))"
  by (simp add: AuthorizeIP_def Let_def allow_def deny_def list_ex_iff)

lemma policy_step_sim:
  assumes sim: "refines p q b (call_time c)"
    and run: "policy_step c q = (r, q')" "book_step p c b = (r', b')"
  shows "r = r' \<and> refines p q' b' (call_time c)"
proof (cases c)
  case (PinCall family protocol raw port addresses ttl now)
  with sim run pinDNS_sim [of p q b now protocol raw port _ addresses ttl _ _ _ r' b'] show ?thesis
    by (auto simp: PinDNS_def PinDNSForAddressFamily_def deny_def split: option.splits if_splits prod.splits)
next
  case (PinnedCall protocol raw address port now)
  with sim run AuthorizePinned_sim [of p q b now protocol raw address port] show ?thesis
    by (auto split: prod.splits)
next
  case (DirectCall protocol address port now)
  with sim run show ?thesis
    using same_rules_facts(12) [of p q] AuthorizeIP_iff [of p protocol address port]
    by (simp add: refines_def)
qed

lemma policy_trace_sim:
  "refines p q b t \<Longrightarrow> sorted (t # map call_time cs) \<Longrightarrow> policy_trace q cs = book_trace p b cs"
proof (induction cs arbitrary: q b t)
  case (Cons c cs)
  obtain r q' r' b' where step: "policy_step c q = (r, q')" "book_step p c b = (r', b')"
    by fastforce
  from Cons.prems have "refines p q b (call_time c)" by (auto intro: refines_later)
  from policy_step_sim [OF this step] have "r = r'" "refines p q' b' (call_time c)" by simp_all
  with Cons step show ?case by simp
qed simp

lemma compiled_refines: "Compile policy options = Inr p \<Longrightarrow> refines p p Map.empty t"
  by (auto elim!: Compile_cases simp: refines_def pins_ok_def pin_book_def live_def fun_eq_iff)

lemma policy_step_ok:
  assumes "pins_ok q" "same_rules p q"
  shows "pins_ok (snd (policy_step c q)) \<and> same_rules p (snd (policy_step c q))"
proof -
  have "refines p q (pin_book q) (call_time c)"
    using assms by (simp add: refines_def)
  then show ?thesis
    using policy_step_sim [of p q "pin_book q" c] by (metis prod.collapse refines_def)
qed

lemma policy_after_ok: "pins_ok q \<Longrightarrow> same_rules p q \<Longrightarrow> pins_ok (policy_after q cs) \<and> same_rules p (policy_after q cs)"
  by (induction cs arbitrary: q) (simp_all add: policy_step_ok)

text \<open>
  C38: the pin table refines the abstract book. For every compiled policy and
  every history of calls with a clock that does not run backwards, the calls are
  admitted exactly when the book of accepted answers admits them, although the
  table deletes expired pins, merges sorted address lists and counts only what
  it still holds.
\<close>

theorem pin_table_refines_book:
  assumes "Compile policy options = Inr p" "sorted (map call_time calls)"
  shows "policy_trace p calls = book_trace p Map.empty calls"
proof (cases calls)
  case (Cons c cs)
  then have "sorted (call_time c # map call_time calls)" using assms(2) by auto
  then show ?thesis using policy_trace_sim [OF compiled_refines [OF assms(1)]] by blast
qed simp

text \<open>
  C40: over every history the pin table of a compiled policy stays within its
  bounds, and every pinned address belongs to a rule of the policy, has the
  family it was pinned for and is not a protected destination.
\<close>

theorem pin_table_invariant:
  assumes "Compile policy options = Inr p"
  shows "pins_ok (policy_after p calls)"
  using compiled_refines [OF assms] policy_after_ok [of p p] by (simp add: refines_def)

end
