(* ===== verification/Network_Isolation.thy ===== *)
theory Network_Isolation
  imports Network_Pins
begin

text \<open>
  Egress contexts are isolated from each other: every gateway address of the
  Runner's configuration is a protected destination of every compiled
  assignment, and only the gateways of the assignment's own context are
  exempted, each under its own name.
\<close>

section \<open>Egress contexts\<close>

definition route_ok :: "string \<times> runnerGatewayRoute \<Rightarrow> bool" where
  "route_ok = (\<lambda>(name, route). normalizeDomain name = Inr name \<and>
     normalizeAddress (route_address route) = route_address route)"

lemma normalizeAddress_zero [simp]: "normalizeAddress ZeroAddr = ZeroAddr"
  by (simp add: normalizeAddress_def)

lemma decode_gateway_ok:
  assumes "decode_gateway name gateways g = Inr x"
  shows "route_ok x" "fst x \<notin> set (map fst gateways)"
  using assms unfolding decode_gateway_def
  by (auto simp: route_ok_def res_bind_Inr normalizeAddress_idem map_of_eq_None_iff image_iff
      split: sum.splits if_splits option.splits)

lemma decode_gateways_ok:
  assumes "decode_gateways name acc gs = Inr out" "\<forall>x \<in> set acc. route_ok x" "distinct (map fst acc)"
  shows "(\<forall>x \<in> set out. route_ok x) \<and> distinct (map fst out)"
  using assms
proof (induction name acc gs rule: decode_gateways.induct)
  case (2 name acc g gs)
  then obtain x where x: "decode_gateway name acc g = Inr x" "decode_gateways name (acc @ [x]) gs = Inr out"
    by (auto simp: res_bind_Inr)
  show ?case
    by (rule "2.IH" [OF x(2)]) (use "2.prems" decode_gateway_ok [OF x(1)] in auto)
qed simp

lemma decode_contexts_ok:
  assumes "decode_contexts acc ds = Inr out" "distinct (map fst acc)"
    "\<forall>(_, gs) \<in> set acc. (\<forall>x \<in> set gs. route_ok x) \<and> distinct (map fst gs)"
  shows "distinct (map fst out) \<and> (\<forall>(_, gs) \<in> set out. (\<forall>x \<in> set gs. route_ok x) \<and> distinct (map fst gs))"
  using assms
proof (induction acc ds rule: decode_contexts.induct)
  case (2 acc document rest)
  from "2.prems"(1) obtain gs where gs: "decode_gateways (doc_Name document) [] (doc_Gateways document) = Inr gs"
    "decode_contexts (acc @ [(doc_Name document, gs)]) rest = Inr out" "doc_Name document \<notin> fst ` set acc"
    "ValidateEgressContextName (doc_Name document)" "map_of acc (doc_Name document) = None"
    "doc_Gateways document \<noteq> []" "\<not> maximumLogicalGatewaysPerContext < length (doc_Gateways document)"
    by (auto simp: Let_def res_bind_Inr map_of_eq_None_iff split: if_splits)
  have ok: "(\<forall>x \<in> set gs. route_ok x) \<and> distinct (map fst gs)"
    using decode_gateways_ok [OF gs(1)] by simp
  show ?case
    by (rule "2.IH" [OF refl _ _ _ _ gs(2)]) (use gs "2.prems" ok in auto)
qed simp

lemma compileGateways_mem:
  "compileGateways r m pr acc gs = Inr out \<Longrightarrow> (d, a) \<in> set out \<Longrightarrow>
     (d, a) \<in> set acc \<or> (\<exists>raw addr. (raw, addr) \<in> set gs \<and> normalizeDomain raw = Inr d \<and> a = normalizeAddress addr)"
proof (induction r m pr acc gs rule: compileGateways.induct)
  case (2 runners management protected gateways rawDomain rawAddress rest)
  then obtain domain where "normalizeDomain rawDomain = Inr domain"
    "compileGateways runners management protected (gateways @ [(domain, normalizeAddress rawAddress)]) rest = Inr out"
    "IsValid (normalizeAddress rawAddress)" "map_of gateways domain = None"
    "isProtectedAddress (normalizeAddress rawAddress) runners management protected"
    by (auto simp: Let_def split: sum.splits if_splits)
  with "2.IH" [of domain "normalizeAddress rawAddress"] "2.prems"(2) show ?case by auto
qed simp

lemma map_filter_mem: "y \<in> set (List.map_filter f xs) \<longleftrightarrow> (\<exists>x \<in> set xs. f x = Some y)"
  by (induction xs) (auto simp: List.map_filter_simps split: option.splits)

lemma decode_ok:
  assumes "decodeEgressContextConfig document = Inr config"
  shows "distinct (map fst (contexts config))" "config_protectedAddresses config = protected_addresses (contexts config)"
    "(name, gs) \<in> set (contexts config) \<Longrightarrow> distinct (map fst gs)"
    "(name, gs) \<in> set (contexts config) \<Longrightarrow> x \<in> set gs \<Longrightarrow> route_ok x"
proof -
  from assms obtain documents cs where cs: "decode_contexts [] documents = Inr cs"
    "config = \<lparr>contexts = cs, config_protectedAddresses = protected_addresses cs\<rparr>"
    unfolding decodeEgressContextConfig_def
    by (simp only: split: if_splits option.splits) (auto simp: res_bind_Inr)
  from decode_contexts_ok [OF cs(1)] have
    "distinct (map fst cs) \<and> (\<forall>(_, gs) \<in> set cs. (\<forall>x \<in> set gs. route_ok x) \<and> distinct (map fst gs))" by simp
  then show "distinct (map fst (contexts config))"
    "config_protectedAddresses config = protected_addresses (contexts config)"
    "(name, gs) \<in> set (contexts config) \<Longrightarrow> distinct (map fst gs)"
    "(name, gs) \<in> set (contexts config) \<Longrightarrow> x \<in> set gs \<Longrightarrow> route_ok x"
    by (auto simp: cs(2))
qed

text \<open>The options of an assignment: every gateway address is protected, the gateways are those of its context.\<close>

lemma assignment_options:
  assumes "networkPolicyCompileOptions limits config context required = Inr options"
  shows "ProtectedAddresses options = config_protectedAddresses config"
    "(d, a) \<in> set (RunnerGateways options) \<Longrightarrow> required \<and>
       (\<exists>own r. map_of (contexts config) context = Some own \<and> (d, r) \<in> set own \<and> a = route_address r)"
  using assms unfolding networkPolicyCompileOptions_def CompileOptionsForAssignment_def
    CompileOptionsForContext_def compileOptionsWithoutContext_def
  by (auto simp: map_filter_mem split: if_splits option.splits) blast

lemma gateway_protected:
  assumes "decodeEgressContextConfig document = Inr config" "(name, gs) \<in> set (contexts config)"
    "(logical, route) \<in> set gs" "IsValid (route_address route)"
    "networkPolicyCompileOptions limits config context required = Inr options" "Compile policy options = Inr p"
  shows "isProtected p (route_address route)"
  using assms(6)
proof (cases rule: Compile_cases)
  case (1 runners management protected ds gateways)
  have "route_address route \<in> set (protected_addresses (contexts config))"
    using assms(2-4) by (force simp: protected_addresses_def keep_first_set)
  then have "route_address route \<in> set (ProtectedAddresses options)"
    using decode_ok(2) [OF assms(1)] assignment_options(1) [OF assms(5)] by simp
  from res_map_image [OF 1(6) this] obtain y where y: "y \<in> set protected"
    "compileAddress ProtectedAddressInvalid (route_address route) = Inr y" by blast
  have "y = route_address route"
    using y(2) decode_ok(4) [OF assms(1,2,3)]
    by (simp add: compileAddress_def Let_def route_ok_def split: if_splits)
  with y(1) show ?thesis
    by (simp add: 1(9) isProtected_def isProtectedAddress_def keep_first_set)
qed

lemma own_gateway:
  assumes "decodeEgressContextConfig document = Inr config"
    "networkPolicyCompileOptions limits config context required = Inr options" "Compile policy options = Inr p"
    "map_of (runnerGateways p) d = Some a"
  shows "required \<and> (\<exists>own r. map_of (contexts config) context = Some own \<and> map_of own d = Some r \<and> route_address r = a)"
  using assms(3)
proof (cases rule: Compile_cases)
  case (1 runners management protected ds gateways)
  have "(d, a) \<in> set gateways" using map_of_SomeD [OF assms(4)] by (simp add: 1(9))
  from compileGateways_mem [OF 1(8) this] obtain raw addr where
    raw: "(raw, addr) \<in> set (RunnerGateways options)" "normalizeDomain raw = Inr d" "a = normalizeAddress addr"
    by auto
  from assignment_options(2) [OF assms(2) raw(1)] obtain own r where
    own: "required" "map_of (contexts config) context = Some own" "(raw, r) \<in> set own" "addr = route_address r"
    by blast
  note ok = decode_ok(3,4) [OF assms(1) map_of_SomeD [OF own(2)]]
  have "d = raw" "a = route_address r"
    using ok(2) [OF own(3)] raw own(4) by (simp_all add: route_ok_def)
  then show ?thesis
    using own ok(1) by auto
qed

lemma AuthorizePinned_allowed:
  assumes "Allowed (fst (AuthorizePinned p protocol raw address port now))"
  obtains (gateway) domain where "normalizeDomain raw = Inr domain" "hasDomainRule p protocol domain port"
      "map_of (runnerGateways p) domain = Some (normalizeAddress address)"
  | (pinned) domain pin where "normalizeDomain raw = Inr domain" "hasDomainRule p protocol domain port"
      "\<not> isProtected p (normalizeAddress address)" "now < ExpiresAt pin" "normalizeAddress address \<in> set (Addresses pin)"
      "map_of (pins p) \<lparr>key_protocol = protocol, key_domain = domain, key_port = port, key_family = 0\<rparr> = Some pin"
proof (cases "normalizeDomain raw")
  case (Inr domain)
  with assms show thesis
    using gateway [OF Inr] pinned [OF Inr]
    by (auto simp: AuthorizePinned_def isRunnerGateway_def Let_def deny_def split: if_splits option.splits)
qed (use assms in \<open>auto simp: AuthorizePinned_def deny_def split: if_splits\<close>)

text \<open>
  C37: a gateway of the Runner's configuration is reachable only from its own
  egress context. For an assignment compiled under a decoded configuration, and
  after any history of calls on its policy, no gateway address of any context is
  admitted as a direct destination or held by a pin, and it is admitted under a
  name only when the assignment requires a context whose own gateways map that
  name to that address.
\<close>

theorem gateways_confined_to_context:
  assumes "decodeEgressContextConfig document = Inr config"
    "compileAssignmentNetworkPolicy enforced limits config source context required = Inr p"
    "(name, gateways) \<in> set (contexts config)" "(logical, route) \<in> set gateways"
    "IsValid (route_address route)" "normalizeAddress address = route_address route"
  shows "\<not> Allowed (AuthorizeIP (policy_after p calls) protocol address port) \<and>
    (\<forall>(key, pin) \<in> set (pins (policy_after p calls)). route_address route \<notin> set (Addresses pin)) \<and>
    (Allowed (fst (AuthorizePinned (policy_after p calls) protocol raw address port now)) \<longrightarrow>
       required \<and> (\<exists>own domain r. map_of (contexts config) context = Some own \<and>
         normalizeDomain raw = Inr domain \<and> map_of own domain = Some r \<and> route_address r = route_address route))"
proof -
  from assms(2) obtain policy options where opt:
    "networkPolicyCompileOptions limits config context required = Inr options" "Compile policy options = Inr p"
    by (auto simp: compileAssignmentNetworkPolicy_def split: if_splits sum.splits)
  let ?q = "policy_after p calls"
  have ok: "pins_ok ?q" "same_rules p ?q"
    using compiled_refines [OF opt(2)] policy_after_ok [of p p calls] by (simp_all add: refines_def)
  have prot: "isProtected ?q (route_address route)"
    using gateway_protected [OF assms(1,3,4,5) opt] same_rules_facts(1) [OF ok(2)] by simp
  have "\<not> Allowed (AuthorizeIP ?q protocol address port)"
    using prot assms(6) by (simp add: AuthorizeIP_iff)
  moreover have "\<forall>(key, pin) \<in> set (pins ?q). route_address route \<notin> set (Addresses pin)"
    using ok(1) prot by (fastforce simp: pins_ok_def pin_ok_def answer_ok_def)
  moreover have "required \<and> (\<exists>own domain r. map_of (contexts config) context = Some own \<and>
      normalizeDomain raw = Inr domain \<and> map_of own domain = Some r \<and> route_address r = route_address route)"
    if "Allowed (fst (AuthorizePinned ?q protocol raw address port now))"
    using that
  proof (cases rule: AuthorizePinned_allowed)
    case (gateway domain)
    then show ?thesis
      using own_gateway [OF assms(1) opt, of domain "route_address route"] same_rules_facts(6) [OF ok(2)] assms(6)
      by auto
  qed (use prot assms(6) in simp)
  ultimately show ?thesis by blast
qed

end
