(* ===== verification/Network_Enforcer.thy ===== *)
theory Network_Enforcer
  imports Network_Isolation
begin

text \<open>
  The host firewall of an Instance: \<open>runner/internal/firecracker/network_policy.go\<close>.
  The enforcer renders one nftables script per Instance from its compiled policy,
  its DNS pins and its attributed exec listeners, and replaces the script when
  one of them changes. A script is the list of its statements; \<open>nft\<close> itself is
  outside the repository, so a command takes its result from the state: the
  scripts it accepted are recorded, and a failed one leaves no trace, as the code
  relies on the atomicity of a script.
\<close>

section \<open>Scripts\<close>

datatype nft_chain = Ingress | Egress

datatype nft_target = ToAddress Addr | ToPrefix Prefix

datatype nft_condition =
    SourceIsNot string
  | EstablishedOrRelated
  | ArpTarget Addr
  | ArpSender Addr
  | DnsQuery Addr string
  | DestinationIn Prefix
  | TcpTo nft_target "16 word"
  | AnyFrame

datatype nft_verdict = Accept | MarkAndAccept | Drop

record nft_rule =
  rule_chain :: nft_chain
  rule_interface :: string
  rule_condition :: nft_condition
  rule_verdict :: nft_verdict

datatype nft_statement =
    DeleteTable string
  | AddTable string
  | AddChain string nft_chain
  | AddRule string nft_rule

type_synonym nft_script = "nft_statement list"

definition ingress :: "string \<Rightarrow> nft_condition \<Rightarrow> nft_verdict \<Rightarrow> nft_rule" where
  "ingress tap c v = \<lparr>rule_chain = Ingress, rule_interface = tap, rule_condition = c, rule_verdict = v\<rparr>"

definition egress :: "string \<Rightarrow> nft_condition \<Rightarrow> nft_verdict \<Rightarrow> nft_rule" where
  "egress tap c v = \<lparr>rule_chain = Egress, rule_interface = tap, rule_condition = c, rule_verdict = v\<rparr>"

definition renderNFTAllow :: "string \<Rightarrow> nft_target \<Rightarrow> Destination \<Rightarrow> nft_rule" where
  "renderNFTAllow tap target destination = ingress tap (TcpTo target (Port destination)) MarkAndAccept"

text \<open>A missing key of a Go map reads as the zero value, here the empty list.\<close>

definition pins_at :: "(nat \<times> Addr list) list \<Rightarrow> nat \<Rightarrow> Addr list" where
  "pins_at ps index = (case map_of ps index of Some as \<Rightarrow> as | None \<Rightarrow> [])"

definition render_gateway :: "string \<Rightarrow> RunnerGatewayDestination \<Rightarrow> nft_rule list" where
  "render_gateway tap gateway =
     (if Is4 (GatewayAddress gateway)
      then [ingress tap (ArpTarget (GatewayAddress gateway)) Accept,
            egress tap (ArpSender (GatewayAddress gateway)) Accept]
      else []) @
     [renderNFTAllow tap (ToAddress (GatewayAddress gateway)) (GatewayDestination gateway)]"

definition render_destination ::
  "string \<Rightarrow> (nat \<times> Addr list) list \<Rightarrow> nat \<times> Destination \<Rightarrow> nft_rule list" where
  "render_destination tap ps = (\<lambda>(index, destination).
     if Prefix_IsValid (DestPrefix destination)
     then [renderNFTAllow tap (ToPrefix (DestPrefix destination)) destination]
     else map (\<lambda>address. renderNFTAllow tap (ToAddress address) destination) (sort (pins_at ps index)))"

definition policy_rules ::
  "string \<Rightarrow> string \<Rightarrow> Addr \<Rightarrow> bool \<Rightarrow> Prefix list \<Rightarrow> Destination list \<Rightarrow>
     RunnerGatewayDestination list \<Rightarrow> (nat \<times> Addr list) list \<Rightarrow> nft_rule list" where
  "policy_rules tap guestIP dnsAddress allowDNS protected dests gateways ps =
     [ingress tap (SourceIsNot guestIP) Drop, egress tap EstablishedOrRelated Accept] @
     (if Is4 dnsAddress
      then [ingress tap (ArpTarget dnsAddress) Accept, egress tap (ArpSender dnsAddress) Accept] else []) @
     (if allowDNS \<and> IsValid dnsAddress
      then map (\<lambda>protocol. ingress tap (DnsQuery dnsAddress protocol) MarkAndAccept) [''udp'', ''tcp''] else []) @
     concat (map (render_gateway tap) gateways) @
     map (\<lambda>prefix. ingress tap (DestinationIn prefix) Drop) protected @
     concat (map (render_destination tap ps) (enumerate 0 dests)) @
     [ingress tap AnyFrame Drop, egress tap AnyFrame Drop]"

definition renderNFTPolicy ::
  "string \<Rightarrow> string \<Rightarrow> string \<Rightarrow> Addr \<Rightarrow> bool \<Rightarrow> Prefix list \<Rightarrow> Destination list \<Rightarrow>
     RunnerGatewayDestination list \<Rightarrow> (nat \<times> Addr list) list \<Rightarrow> nft_script" where
  "renderNFTPolicy table tap guestIP dnsAddress allowDNS protected dests gateways ps =
     [AddTable table, AddChain table Ingress, AddChain table Egress] @
     map (AddRule table) (policy_rules tap guestIP dnsAddress allowDNS protected dests gateways ps)"

section \<open>State\<close>

text \<open>
  An Instance holds its compiled policy by reference: \<open>cfg_Policy\<close> is an index
  into the policies of the state, so that a pin made for a script that \<open>nft\<close>
  then refuses stays in the policy. \<open>cfg_OnFailure\<close> says whether a callback is set.
\<close>

record PolicyNetworkConfig =
  cfg_InstanceID :: string
  cfg_TapName :: string
  cfg_GuestIP :: string
  cfg_DNSAddress :: Addr
  cfg_Policy :: "nat option"
  cfg_OnFailure :: bool

record nftPolicyInstance =
  inst_table :: string
  inst_cfg :: PolicyNetworkConfig
  inst_pins :: "(nat \<times> Addr list) list"
  inst_expiry :: "(nat \<times> time) list"
  executionListeners :: "(Addr \<times> 16 word) list"
  listenersFenced :: bool
  inst_ctx :: nat

text \<open>
  The settings: \<open>sha256\<close> is the digest of the table name, \<open>render\<close> and
  \<open>deleteTable\<close> are the renderer of another backend, if any.
\<close>

type_synonym renderer =
  "string \<Rightarrow> string \<Rightarrow> string \<Rightarrow> Addr \<Rightarrow> bool \<Rightarrow> Prefix list \<Rightarrow> Destination list \<Rightarrow>
     RunnerGatewayDestination list \<Rightarrow> (nat \<times> Addr list) list \<Rightarrow> nft_script"

record NFTSettings =
  nftPath :: string
  dnsListen :: Addr
  dnsUpstream :: Addr
  render :: "renderer option"
  deleteTable :: "(string \<Rightarrow> nft_script) option"
  nft_sha256 :: "string \<Rightarrow> int list"

text \<open>
  The state: the registered Instances, the policies they refer to, the results of
  the commands and of the DNS proxy's start that are still to come (\<open>Some\<close> output
  for a failure), the scripts accepted so far, the cancelled contexts, the clock,
  the expiry goroutines that are about to start and those that wait for their
  timer, and the Instances whose failure callback ran.
\<close>

record Enforcer =
  instances :: "(string \<times> nftPolicyInstance) list"
  policies :: "nat \<Rightarrow> CompiledPolicy"
  nft_results :: "string option list"
  proxy_results :: "bool list"
  loaded :: "nft_script list"
  cancelled :: "nat list"
  next_ctx :: nat
  enf_clock :: time
  spawned :: "(string \<times> string \<times> time) list"
  armed :: "(string \<times> string \<times> time \<times> nat) list"
  reported :: "string list"

datatype enforcer_error =
    ConfigIncomplete
  | GuestAddressInvalid
  | NftUnavailable
  | UpstreamUnavailable
  | ProxyUnavailable
  | CommandFailed string
  | ContextDone
  | SourceUnknown string
  | MixedFamilies
  | PinRefused string Reason
  | DomainNotAllowed string
  | PolicyRemoved
  | ListenerInvalid
  | ListenerNotAdmitted string

type_synonym 'a enf = "(Enforcer, enforcer_error, 'a) st"

abbreviation failing :: "enforcer_error \<Rightarrow> 'a enf" where
  "failing e \<equiv> st_fail (Sentinel e)"

text \<open>
  \<open>command\<close>: with a done context the process is not started; otherwise it takes
  the next result, and a success is recorded.
\<close>

definition command :: "bool \<Rightarrow> nft_script \<Rightarrow> unit enf" where
  "command ctxDone script s =
     (if ctxDone then (Inl (Sentinel ContextDone), s)
      else case nft_results s of
          Some output # rest \<Rightarrow> (Inl (Sentinel (CommandFailed output)), s\<lparr>nft_results := rest\<rparr>)
        | None # rest \<Rightarrow> (Inr (), s\<lparr>nft_results := rest, loaded := script # loaded s\<rparr>)
        | [] \<Rightarrow> (Inr (), s\<lparr>loaded := script # loaded s\<rparr>))"

definition reportFailure :: "PolicyNetworkConfig \<Rightarrow> unit enf" where
  "reportFailure cfg =
     (if cfg_OnFailure cfg then st_modify (\<lambda>s. s\<lparr>reported := cfg_InstanceID cfg # reported s\<rparr>) else st_return ())"

definition policy_of :: "Enforcer \<Rightarrow> PolicyNetworkConfig \<Rightarrow> CompiledPolicy option" where
  "policy_of s cfg = map_option (policies s) (cfg_Policy cfg)"

definition put_instance :: "string \<Rightarrow> nftPolicyInstance \<Rightarrow> Enforcer \<Rightarrow> Enforcer" where
  "put_instance instanceID inst s = s\<lparr>instances := AList.update instanceID inst (instances s)\<rparr>"

text \<open>The registered Instance is replaced only while it still has the same context.\<close>

definition store_instance :: "string \<Rightarrow> nftPolicyInstance \<Rightarrow> Enforcer \<Rightarrow> Enforcer" where
  "store_instance instanceID inst s =
     (case map_of (instances s) instanceID of
        Some current \<Rightarrow> if inst_ctx current = inst_ctx inst then put_instance instanceID inst s else s
      | None \<Rightarrow> s)"

text \<open>A failure of the DNS proxy is reported to every registered Instance.\<close>

definition handleDNSProxyFailure :: "unit enf" where
  "handleDNSProxyFailure =
     st_bind (st_get (\<lambda>s. map (inst_cfg \<circ> snd) (instances s))) (for_each reportFailure)"

section \<open>Names\<close>

definition hex_digit :: "int \<Rightarrow> char" where
  "hex_digit n = char_of (if n < 10 then 48 + n else 87 + n)"

definition hex_bytes :: "int list \<Rightarrow> string" where
  "hex_bytes bs = concat (map (\<lambda>b. [hex_digit (b div 16), hex_digit (b mod 16)]) bs)"

definition Trim_underscore :: "string \<Rightarrow> string" where
  "Trim_underscore s = rev (dropWhile (\<lambda>c. c = CHR ''_'') (rev (dropWhile (\<lambda>c. c = CHR ''_'') s)))"

definition nftTableName :: "NFTSettings \<Rightarrow> string \<Rightarrow> string" where
  "nftTableName e instanceID =
     take 31 (Trim_underscore (''secondbox_'' @
       map (\<lambda>c. if is_lower_alnum c then c else CHR ''_'') (ToLower instanceID))) @
     ''_'' @ hex_bytes (take 8 (nft_sha256 e instanceID))"

definition deletePolicyTable :: "NFTSettings \<Rightarrow> string \<Rightarrow> nft_script" where
  "deletePolicyTable e table =
     (case deleteTable e of Some f \<Rightarrow> f table | None \<Rightarrow> [DeleteTable table])"

definition renderPolicy :: "NFTSettings \<Rightarrow> renderer" where
  "renderPolicy e = (case render e of Some f \<Rightarrow> f | None \<Rightarrow> renderNFTPolicy)"

definition runnerGatewayDestinations ::
  "CompiledPolicy option \<Rightarrow> nftPolicyInstance \<Rightarrow> RunnerGatewayDestination list" where
  "runnerGatewayDestinations policy inst =
     RunnerGatewayDestinations policy @
     map (\<lambda>(address, port).
        \<lparr>GatewayDestination = \<lparr>Protocol = ProtocolTCP, Domain = [], DestPrefix = NoPrefix, Port = port\<rparr>,
         GatewayAddress = address\<rparr>)
       (sort_key (\<lambda>(address, port). (address, uint port)) (executionListeners inst))"

definition replacementScript :: "NFTSettings \<Rightarrow> CompiledPolicy option \<Rightarrow> nftPolicyInstance \<Rightarrow> nft_script" where
  "replacementScript e policy inst =
     deletePolicyTable e (inst_table inst) @
     renderPolicy e (inst_table inst) (cfg_TapName (inst_cfg inst)) (cfg_GuestIP (inst_cfg inst))
       (cfg_DNSAddress (inst_cfg inst)) (AllowsDNS policy) (ProtectedPrefixes policy) (Destinations policy)
       (runnerGatewayDestinations policy inst) (inst_pins inst)"

section \<open>Installation and removal\<close>

text \<open>\<open>Addr.String\<close> of an IPv4 address.\<close>

definition octet_String :: "int \<Rightarrow> string" where
  "octet_String n =
     (if n < 10 then [hex_digit n]
      else if n < 100 then [hex_digit (n div 10), hex_digit (n mod 10)]
      else [hex_digit (n div 100), hex_digit (n div 10 mod 10), hex_digit (n mod 10)])"

fun IPv4_String :: "Addr \<Rightarrow> string" where
  "IPv4_String (IPv4 a) = (let n = uint a in
     octet_String (n div 16777216) @ ''.'' @ octet_String (n div 65536 mod 256) @ ''.'' @
     octet_String (n div 256 mod 256) @ ''.'' @ octet_String (n mod 256))"
| "IPv4_String _ = []"

definition start_proxy :: "unit enf" where
  "start_proxy s =
     (case proxy_results s of
        False # rest \<Rightarrow> (Inl (Sentinel ProxyUnavailable), s\<lparr>proxy_results := rest\<rparr>)
      | True # rest \<Rightarrow> (Inr (), s\<lparr>proxy_results := rest\<rparr>)
      | [] \<Rightarrow> (Inr (), s))"

definition cancel :: "nat \<Rightarrow> Enforcer \<Rightarrow> Enforcer" where
  "cancel ctx s = s\<lparr>cancelled := ctx # cancelled s\<rparr>"

definition register :: "NFTSettings \<Rightarrow> PolicyNetworkConfig \<Rightarrow> Enforcer \<Rightarrow> Enforcer" where
  "register e cfg s =
     (let instanceID = TrimSpace (cfg_InstanceID cfg);
          s = (case map_of (instances s) instanceID of Some existing \<Rightarrow> cancel (inst_ctx existing) s | None \<Rightarrow> s)
      in put_instance instanceID
           \<lparr>inst_table = nftTableName e instanceID, inst_cfg = cfg, inst_pins = [], inst_expiry = [],
            executionListeners = [], listenersFenced = False, inst_ctx = next_ctx s\<rparr>
           (s\<lparr>next_ctx := next_ctx s + 1\<rparr>))"

definition Install :: "NFTSettings \<Rightarrow> PolicyNetworkConfig \<Rightarrow> unit enf" where
  "Install e cfg =
     (let instanceID = TrimSpace (cfg_InstanceID cfg); tapName = TrimSpace (cfg_TapName cfg) in
      if instanceID = [] \<or> tapName = [] \<or> cfg_Policy cfg = None then failing ConfigIncomplete
      else case ParseAddr (TrimSpace (cfg_GuestIP cfg)) of
          None \<Rightarrow> failing GuestAddressInvalid
        | Some guestIP \<Rightarrow>
            if \<not> Is4 guestIP then failing GuestAddressInvalid
            else let cfg = cfg\<lparr>cfg_GuestIP := IPv4_String guestIP\<rparr> in
              if TrimSpace (nftPath e) = [] then failing NftUnavailable
              else if IsValid (dnsListen e) \<and> \<not> IsValid (dnsUpstream e) then failing UpstreamUnavailable
              else
                st_seq (if IsValid (dnsListen e) then wrapping start_proxy else st_return ())
               (st_bind (st_get (\<lambda>s. policy_of s cfg)) (\<lambda>policy.
                st_seq (wrapping (command False
                  (renderPolicy e (nftTableName e instanceID) tapName (cfg_GuestIP cfg) (cfg_DNSAddress cfg)
                    (AllowsDNS policy) (ProtectedPrefixes policy) (Destinations policy)
                    (RunnerGatewayDestinations policy) [])))
                 (st_modify (register e cfg)))))"

text \<open>\<open>strings.Contains\<close> of the message of a missing table.\<close>

definition missing_table :: "string \<Rightarrow> bool" where
  "missing_table output \<longleftrightarrow>
     list_ex (\<lambda>i. take 25 (drop i output) = ''No such file or directory'') [0..<Suc (length output)]"

definition Remove :: "NFTSettings \<Rightarrow> string \<Rightarrow> unit enf" where
  "Remove e rawID =
     (let instanceID = TrimSpace rawID in
      if instanceID = [] then st_return ()
      else st_bind (st_get (\<lambda>s. map_of (instances s) instanceID)) (\<lambda>found.
        let table = (case found of
            Some inst \<Rightarrow> if inst_table inst = [] then nftTableName e instanceID else inst_table inst
          | None \<Rightarrow> nftTableName e instanceID)
        in st_seq (st_modify (\<lambda>s. case found of Some inst \<Rightarrow> cancel (inst_ctx inst) s | None \<Rightarrow> s))
          (st_catch (command False (deletePolicyTable e table)) (\<lambda>r.
             let forget = st_modify (\<lambda>s. s\<lparr>instances := AList.delete instanceID (instances s)\<rparr>)
             in case r of
                 Inr _ \<Rightarrow> forget
               | Inl (Sentinel (CommandFailed output)) \<Rightarrow>
                   if missing_table output then forget else st_fail (Wrapped (Sentinel (CommandFailed output)))
               | Inl err \<Rightarrow> st_fail (Wrapped err)))))"

section \<open>DNS answers\<close>

definition observed_domain :: "string \<Rightarrow> string" where
  "observed_domain domain = ToLower (TrimSuffix_dot (TrimSpace domain))"

fun answer_family :: "int \<Rightarrow> Addr list \<Rightarrow> int option" where
  "answer_family family [] = Some family"
| "answer_family family (address # rest) =
     (let candidate = (if Is4 address then 4 else 6) in
      if family \<noteq> 0 \<and> candidate \<noteq> family then None else answer_family candidate rest)"

definition mergePolicyAddresses :: "Addr list \<Rightarrow> Addr list \<Rightarrow> Addr list" where
  "mergePolicyAddresses left right = keep_first [] (left @ right)"

definition pin_call ::
  "nat \<Rightarrow> Destination \<Rightarrow> int \<Rightarrow> Addr list \<Rightarrow> duration \<Rightarrow> time \<Rightarrow> (DNSPin \<times> PolicyDecision) enf" where
  "pin_call ref destination family addresses ttl now s =
     (case PinDNSForAddressFamily (policies s ref) (Protocol destination) (Domain destination) (Port destination)
             family addresses ttl now of
        (pin, decision, policy) \<Rightarrow> (Inr (pin, decision), s\<lparr>policies := (policies s)(ref := policy)\<rparr>))"

text \<open>The loop over the destinations: the Instance's new pins and the expiry of the last pin made.\<close>

fun observe_each ::
  "nat \<Rightarrow> string \<Rightarrow> int \<Rightarrow> Addr list \<Rightarrow> duration \<Rightarrow> time \<Rightarrow> (nat \<times> Destination) list \<Rightarrow>
     nftPolicyInstance \<Rightarrow> time option \<Rightarrow> (nftPolicyInstance \<times> time option) enf" where
  "observe_each ref domain family addresses ttl now [] inst expiresAt = st_return (inst, expiresAt)"
| "observe_each ref domain family addresses ttl now ((index, destination) # rest) inst expiresAt =
     (if Domain destination \<noteq> observed_domain domain
      then observe_each ref domain family addresses ttl now rest inst expiresAt
      else st_bind (pin_call ref destination family addresses ttl now) (\<lambda>(pin, decision).
        if \<not> Allowed decision then failing (PinRefused (Domain destination) (DecisionReason decision))
        else observe_each ref domain family addresses ttl now rest
          (inst\<lparr>inst_pins := AList.update index
                  (mergePolicyAddresses (pins_at (inst_pins inst) index) (Addresses pin)) (inst_pins inst),
                inst_expiry := AList.update index (ExpiresAt pin) (inst_expiry inst)\<rparr>)
          (Some (ExpiresAt pin))))"

definition is_cancelled :: "Enforcer \<Rightarrow> nftPolicyInstance \<Rightarrow> bool" where
  "is_cancelled s inst \<longleftrightarrow> inst_ctx inst \<in> set (cancelled s)"

text \<open>The table is replaced, and on success the Instance is stored and its expiry scheduled.\<close>

definition commit_pins :: "NFTSettings \<Rightarrow> string \<Rightarrow> nat \<Rightarrow> string \<Rightarrow> nftPolicyInstance \<Rightarrow> time \<Rightarrow> unit enf" where
  "commit_pins e instanceID ref domain inst expiresAt =
     st_bind (st_get (\<lambda>s. (is_cancelled s inst, replacementScript e (Some (policies s ref)) inst)))
       (\<lambda>(ctxDone, script).
        st_catch (command ctxDone script) (\<lambda>r.
          case r of
            Inl err \<Rightarrow>
              if ctxDone then failing PolicyRemoved
              else st_seq (reportFailure (inst_cfg inst)) (st_fail (Wrapped err))
          | Inr _ \<Rightarrow>
              st_modify (\<lambda>s. (store_instance instanceID inst s)
                \<lparr>spawned := (instanceID, domain, expiresAt) # spawned s\<rparr>)))"

definition observe_instance ::
  "NFTSettings \<Rightarrow> string \<Rightarrow> nat \<Rightarrow> string \<Rightarrow> Addr list \<Rightarrow> duration \<Rightarrow> nftPolicyInstance \<Rightarrow> unit enf" where
  "observe_instance e instanceID ref domain addresses ttl inst =
     (case answer_family 0 addresses of
        None \<Rightarrow> failing MixedFamilies
      | Some family \<Rightarrow>
          st_bind (st_get (\<lambda>s. (enf_clock s, Destinations (Some (policies s ref))))) (\<lambda>(now, dests).
          st_bind (observe_each ref domain family addresses ttl now (enumerate 0 dests) inst None) (\<lambda>(inst, expires).
          case expires of
            None \<Rightarrow> failing (DomainNotAllowed domain)
          | Some expiresAt \<Rightarrow> commit_pins e instanceID ref domain inst expiresAt)))"

definition ObserveDNSAnswer ::
  "NFTSettings \<Rightarrow> bool \<Rightarrow> string \<Rightarrow> string \<Rightarrow> Addr list \<Rightarrow> duration \<Rightarrow> unit enf" where
  "ObserveDNSAnswer e ctxDone guestIP domain addresses ttl =
     (if ctxDone then failing ContextDone
      else st_bind (st_get (\<lambda>s. List.find (\<lambda>(_, inst). cfg_GuestIP (inst_cfg inst) = guestIP) (instances s)))
        (\<lambda>found. case found of
            None \<Rightarrow> failing (SourceUnknown guestIP)
          | Some (instanceID, inst) \<Rightarrow>
              if instanceID = [] then failing (SourceUnknown guestIP)
              else case cfg_Policy (inst_cfg inst) of
                  None \<Rightarrow> failing (if answer_family 0 addresses = None then MixedFamilies else DomainNotAllowed domain)
                | Some ref \<Rightarrow> observe_instance e instanceID ref domain addresses ttl inst))"

section \<open>Expiry\<close>

text \<open>
  \<open>expireDNSPin\<close> runs in its own goroutine. It reads the Instance it will wait
  on when it starts, waits for its timer or the Instance's context, and then
  rewrites the table.
\<close>

definition start_expiry :: "string \<times> string \<times> time \<Rightarrow> Enforcer \<Rightarrow> Enforcer" where
  "start_expiry = (\<lambda>(instanceID, domain, expiresAt) s.
     let s' = s\<lparr>spawned := remove1 (instanceID, domain, expiresAt) (spawned s)\<rparr> in
     case map_of (instances s) instanceID of
       None \<Rightarrow> s'
     | Some inst \<Rightarrow> s'\<lparr>armed := (instanceID, domain, expiresAt, inst_ctx inst) # armed s\<rparr>)"

definition expire_pin :: "string \<Rightarrow> time \<Rightarrow> nat \<times> Destination \<Rightarrow> nftPolicyInstance \<Rightarrow> nftPolicyInstance" where
  "expire_pin domain expiresAt = (\<lambda>(index, destination) inst.
     if Domain destination = observed_domain domain \<and>
        (case map_of (inst_expiry inst) index of Some x \<Rightarrow> \<not> x > expiresAt | None \<Rightarrow> \<not> 0 > expiresAt)
     then inst\<lparr>inst_pins := AList.delete index (inst_pins inst),
               inst_expiry := AList.delete index (inst_expiry inst)\<rparr>
     else inst)"

definition expire_pins :: "string \<Rightarrow> time \<Rightarrow> Destination list \<Rightarrow> nftPolicyInstance \<Rightarrow> nftPolicyInstance" where
  "expire_pins domain expiresAt dests inst = fold (expire_pin domain expiresAt) (enumerate 0 dests) inst"

definition expireDNSPin :: "NFTSettings \<Rightarrow> string \<Rightarrow> string \<Rightarrow> time \<Rightarrow> nat \<Rightarrow> unit enf" where
  "expireDNSPin e instanceID domain expiresAt ctx =
     st_bind (st_get (\<lambda>s. (ctx \<in> set (cancelled s), map_of (instances s) instanceID))) (\<lambda>(ended, found).
       if ended then st_return ()
       else case found of
           None \<Rightarrow> st_return ()
         | Some current \<Rightarrow>
             st_bind (st_get (\<lambda>s. (policy_of s (inst_cfg current), is_cancelled s current))) (\<lambda>(policy, ctxDone).
             let inst = expire_pins domain expiresAt (Destinations policy) current in
             st_catch (command ctxDone (replacementScript e policy inst)) (\<lambda>r.
               case r of
                 Inl _ \<Rightarrow> if ctxDone then st_return () else reportFailure (inst_cfg inst)
               | Inr _ \<Rightarrow> st_modify (store_instance instanceID inst))))"

section \<open>Attributed exec listeners\<close>

definition updateExecutionListener ::
  "NFTSettings \<Rightarrow> bool \<Rightarrow> string \<Rightarrow> Addr \<times> 16 word \<Rightarrow> bool \<Rightarrow> unit enf" where
  "updateExecutionListener e ctxDone instanceID listener allowed =
     (if \<not> Is4 (fst listener) \<or> snd listener = 0 then failing ListenerInvalid
      else st_bind (st_get (\<lambda>s. map_of (instances s) instanceID)) (\<lambda>found.
        case found of
          None \<Rightarrow> if allowed then failing (ListenerNotAdmitted instanceID) else st_return ()
        | Some inst \<Rightarrow>
            if allowed \<and> listenersFenced inst then failing (ListenerNotAdmitted instanceID)
            else
              let listeners = (if allowed then List.insert listener (executionListeners inst)
                               else removeAll listener (executionListeners inst));
                  inst = inst\<lparr>executionListeners := listeners\<rparr>
              in st_bind (st_get (\<lambda>s. (is_cancelled s inst, replacementScript e (policy_of s (inst_cfg inst)) inst)))
                (\<lambda>(instDone, script).
                 st_catch (command ctxDone script) (\<lambda>r.
                   case r of
                     Inl err \<Rightarrow>
                       st_seq (if \<not> allowed \<and> \<not> instDone then reportFailure (inst_cfg inst) else st_return ())
                         (st_fail (Wrapped err))
                   | Inr _ \<Rightarrow> st_modify (\<lambda>s. case map_of (instances s) instanceID of
                       Some current \<Rightarrow>
                         if inst_ctx current = inst_ctx inst
                         then put_instance instanceID (current\<lparr>executionListeners := listeners\<rparr>) s else s
                     | None \<Rightarrow> s)))))"

definition AllowExecutionListener :: "NFTSettings \<Rightarrow> bool \<Rightarrow> string \<Rightarrow> Addr \<times> 16 word \<Rightarrow> unit enf" where
  "AllowExecutionListener e ctxDone instanceID listener =
     updateExecutionListener e ctxDone instanceID listener True"

definition RevokeExecutionListener :: "NFTSettings \<Rightarrow> bool \<Rightarrow> string \<Rightarrow> Addr \<times> 16 word \<Rightarrow> unit enf" where
  "RevokeExecutionListener e ctxDone instanceID listener =
     updateExecutionListener e ctxDone instanceID listener False"

definition FenceExecutionListeners :: "string \<Rightarrow> Enforcer \<Rightarrow> Enforcer" where
  "FenceExecutionListeners instanceID s =
     (case map_of (instances s) instanceID of
        Some inst \<Rightarrow> put_instance instanceID (inst\<lparr>listenersFenced := True\<rparr>) s
      | None \<Rightarrow> s)"

definition ExecutionListenerAdmission :: "string \<Rightarrow> unit enf" where
  "ExecutionListenerAdmission instanceID =
     st_bind (st_get (\<lambda>s. map_of (instances s) instanceID)) (\<lambda>found.
       case found of
         None \<Rightarrow> failing (ListenerNotAdmitted instanceID)
       | Some inst \<Rightarrow> if listenersFenced inst then failing (ListenerNotAdmitted instanceID) else st_return ())"

end
