(* ===== verification/Network_Firewall.thy ===== *)
theory Network_Firewall
  imports Network_Enforcer
begin

text \<open>
  What the enforcer's scripts admit. The rules of a script are evaluated block by
  block, which gives the exact set of packets that a rendered policy lets out,
  and that set is the one the compiled policy object admits.
\<close>

section \<open>What a script admits\<close>

text \<open>
  A frame that enters from the guest's interface, and the frames a condition
  matches as nftables documents it.
\<close>

datatype frame = ArpFrame Addr | IPFrame Addr Addr string "16 word" | OtherFrame

fun condition_matches :: "nft_condition \<Rightarrow> frame \<Rightarrow> bool" where
  "condition_matches (SourceIsNot guest) (IPFrame source _ _ _) = (Is4 source \<and> IPv4_String source \<noteq> guest)"
| "condition_matches (ArpTarget a) (ArpFrame b) = (a = b)"
| "condition_matches (DnsQuery a protocol) (IPFrame _ dest l4 port) = (dest = a \<and> l4 = protocol \<and> port = 53)"
| "condition_matches (DestinationIn prefix) (IPFrame _ dest _ _) = Contains prefix dest"
| "condition_matches (TcpTo (ToAddress a) p) (IPFrame _ dest l4 port) = (dest = a \<and> l4 = ''tcp'' \<and> port = p)"
| "condition_matches (TcpTo (ToPrefix a) p) (IPFrame _ dest l4 port) = (Contains a dest \<and> l4 = ''tcp'' \<and> port = p)"
| "condition_matches AnyFrame _ = True"
| "condition_matches _ _ = False"

definition ingress_match :: "string \<Rightarrow> frame \<Rightarrow> nft_rule \<Rightarrow> bool" where
  "ingress_match tap f rule \<longleftrightarrow>
     rule_chain rule = Ingress \<and> rule_interface rule = tap \<and> condition_matches (rule_condition rule) f"

text \<open>The kernel takes the verdict of the first matching rule of the chain, and accepts when none matches.\<close>

definition first_match :: "(nft_rule list \<Rightarrow> string \<Rightarrow> frame \<Rightarrow> bool) \<Rightarrow> bool" where
  "first_match firewall \<longleftrightarrow> (\<forall>rules tap f. firewall rules tap f =
     (case List.find (ingress_match tap f) rules of
        Some rule \<Rightarrow> rule_verdict rule \<noteq> Drop
      | None \<Rightarrow> True))"

definition script_rules :: "nft_script \<Rightarrow> nft_rule list" where
  "script_rules script = List.map_filter (\<lambda>st. case st of AddRule _ rule \<Rightarrow> Some rule | _ \<Rightarrow> None) script"

lemma script_rules_replacement:
  "render e = None \<Longrightarrow> deleteTable e = None \<Longrightarrow> script_rules (replacementScript e policy inst) =
     policy_rules (cfg_TapName (inst_cfg inst)) (cfg_GuestIP (inst_cfg inst)) (cfg_DNSAddress (inst_cfg inst))
       (AllowsDNS policy) (ProtectedPrefixes policy) (Destinations policy)
       (runnerGatewayDestinations policy inst) (inst_pins inst)"
proof -
  have rules: "List.map_filter (\<lambda>st. case st of AddRule _ rule \<Rightarrow> Some rule | _ \<Rightarrow> None) (map (AddRule t) rs) = rs" for t rs
    by (induction rs) (simp_all add: List.map_filter_simps)
  assume "render e = None" "deleteTable e = None"
  then show ?thesis
    by (simp add: script_rules_def replacementScript_def deletePolicyTable_def renderPolicy_def renderNFTPolicy_def
        List.map_filter_simps rules)
qed

text \<open>Evaluation of the rules from the front: a block of rules with one verdict decides or is skipped.\<close>

definition admits :: "nft_rule list \<Rightarrow> string \<Rightarrow> frame \<Rightarrow> bool" where
  "admits rules tap f = (case List.find (ingress_match tap f) rules of
        Some rule \<Rightarrow> rule_verdict rule \<noteq> Drop
      | None \<Rightarrow> True)"

lemma admits_Cons: "admits (r # rs) tap f = (if ingress_match tap f r then rule_verdict r \<noteq> Drop else admits rs tap f)"
  by (simp add: admits_def)

lemma admits_accept:
  "(\<And>r. r \<in> set xs \<Longrightarrow> rule_verdict r \<noteq> Drop) \<Longrightarrow>
     admits (xs @ ys) tap f = ((\<exists>r \<in> set xs. ingress_match tap f r) \<or> admits ys tap f)"
  by (induction xs) (auto simp: admits_Cons)

lemma admits_drop:
  "(\<And>r. r \<in> set xs \<Longrightarrow> rule_verdict r = Drop) \<Longrightarrow>
     admits (xs @ ys) tap f = (\<not> (\<exists>r \<in> set xs. ingress_match tap f r) \<and> admits ys tap f)"
  by (induction xs) (auto simp: admits_Cons)

lemma match_simps [simp]:
  "ingress_match tap f (ingress tap' c v) \<longleftrightarrow> tap' = tap \<and> condition_matches c f"
  "\<not> ingress_match tap f (egress tap' c v)"
  "rule_verdict (ingress tap' c v) = v" "rule_verdict (egress tap' c v) = v"
  "rule_verdict (renderNFTAllow tap' target d) = MarkAndAccept"
  "ingress_match tap f (renderNFTAllow tap' target d) \<longleftrightarrow> tap' = tap \<and> condition_matches (TcpTo target (Port d)) f"
  by (simp_all add: ingress_match_def ingress_def egress_def renderNFTAllow_def)

lemma gateway_rules:
  "(\<exists>r \<in> set (render_gateway tap g). ingress_match tap (IPFrame src dst l4 port) r) \<longleftrightarrow>
     l4 = ''tcp'' \<and> GatewayAddress g = dst \<and> Port (GatewayDestination g) = port"
  "r \<in> set (render_gateway tap g) \<Longrightarrow> rule_verdict r \<noteq> Drop"
  by (auto simp: render_gateway_def split: if_splits)

definition destination_admits :: "(nat \<times> Addr list) list \<Rightarrow> Addr \<Rightarrow> 16 word \<Rightarrow> nat \<times> Destination \<Rightarrow> bool" where
  "destination_admits ps dst port = (\<lambda>(i, d). Port d = port \<and>
     (if Prefix_IsValid (DestPrefix d) then Contains (DestPrefix d) dst else dst \<in> set (pins_at ps i)))"

lemma destination_rules:
  "(\<exists>r \<in> set (render_destination tap ps x). ingress_match tap (IPFrame src dst l4 port) r) \<longleftrightarrow>
     l4 = ''tcp'' \<and> destination_admits ps dst port x"
  "r \<in> set (render_destination tap ps x) \<Longrightarrow> rule_verdict r \<noteq> Drop"
  by (cases x; auto simp: render_destination_def destination_admits_def split: if_splits)+

lemma admits_blocks:
  "(\<And>x r. r \<in> set (g x) \<Longrightarrow> rule_verdict r \<noteq> Drop) \<Longrightarrow>
     admits (concat (map g xs) @ ys) tap f = ((\<exists>x \<in> set xs. \<exists>r \<in> set (g x). ingress_match tap f r) \<or> admits ys tap f)"
  by (subst admits_accept) auto

lemma policy_rules_admit:
  "admits (policy_rules tap guest dns allowDNS protected dests gateways ps) tap (IPFrame src dst ''tcp'' port) \<longleftrightarrow>
     (Is4 src \<longrightarrow> IPv4_String src = guest) \<and>
     (allowDNS \<and> IsValid dns \<and> dst = dns \<and> port = 53 \<or>
      (\<exists>g \<in> set gateways. GatewayAddress g = dst \<and> Port (GatewayDestination g) = port) \<or>
      \<not> (\<exists>p \<in> set protected. Contains p dst) \<and> (\<exists>x \<in> set (enumerate 0 dests). destination_admits ps dst port x))"
proof -
  let ?f = "IPFrame src dst ''tcp'' port" and ?closing = "[ingress tap AnyFrame Drop, egress tap AnyFrame Drop]"
  let ?allows = "concat (map (render_destination tap ps) (enumerate 0 dests)) @ ?closing"
  let ?drops = "map (\<lambda>prefix. ingress tap (DestinationIn prefix) Drop) protected"
  have allows: "admits ?allows tap ?f \<longleftrightarrow> (\<exists>x \<in> set (enumerate 0 dests). destination_admits ps dst port x)"
    by (subst admits_blocks [OF destination_rules(2)]) (simp_all add: destination_rules(1) admits_Cons)
  have drops: "admits (?drops @ ?allows) tap ?f \<longleftrightarrow> \<not> (\<exists>p \<in> set protected. Contains p dst) \<and> admits ?allows tap ?f"
    by (subst admits_drop) auto
  have gateways: "admits (concat (map (render_gateway tap) gateways) @ ?drops @ ?allows) tap ?f \<longleftrightarrow>
      (\<exists>g \<in> set gateways. GatewayAddress g = dst \<and> Port (GatewayDestination g) = port) \<or> admits (?drops @ ?allows) tap ?f"
    by (subst admits_blocks [OF gateway_rules(2)]) (simp_all add: gateway_rules(1))
  show ?thesis
    unfolding policy_rules_def append_assoc
    by (auto simp: admits_Cons gateways drops allows)
qed

lemma Contains_host_prefix: "Contains (host_prefix a) b \<longleftrightarrow> IsValid a \<and> b = withoutZone a"
  using Contains_host [of a b] by (cases a) (auto simp: host_prefix_def PrefixFrom_def)

lemma protected_prefixes_exact:
  assumes "IsValid dst" "\<not> hasZone dst"
    "\<forall>a \<in> set (runnerAddresses p) \<union> set (protectedAddresses p). \<not> hasZone a"
  shows "isProtected p dst \<longleftrightarrow> (\<exists>q \<in> set (ProtectedPrefixes (Some p)). Contains q dst)"
proof -
  have zone: "\<not> hasZone a \<Longrightarrow> withoutZone a = a" for a by (cases a) auto
  have "(\<exists>a \<in> A. Contains (host_prefix a) dst) \<longleftrightarrow> dst \<in> A" if "\<forall>a \<in> A. \<not> hasZone a" for A
    using that assms(1) zone by (auto simp: Contains_host_prefix)
  from this [of "set (runnerAddresses p)"] this [of "set (protectedAddresses p)"] show ?thesis
    using assms by (auto simp: isProtected_def isProtectedAddress_def ProtectedPrefixes_def list_ex_iff)
qed

lemma gateway_destinations_exact:
  "(\<exists>g \<in> set (runnerGatewayDestinations (Some p) inst). GatewayAddress g = dst \<and> Port (GatewayDestination g) = port) \<longleftrightarrow>
     (\<exists>d \<in> set (destinations p). map_of (runnerGateways p) (Domain d) = Some dst \<and> Port d = port) \<or>
     (dst, port) \<in> set (executionListeners inst)"
  by (force simp: runnerGatewayDestinations_def RunnerGatewayDestinations_def map_filter_mem)

lemma destination_split:
  assumes "\<And>d. d \<in> set ds \<Longrightarrow> Prefix_IsValid (DestPrefix d) \<longleftrightarrow> Domain d = []"
  shows "(\<exists>x \<in> set (enumerate 0 ds). destination_admits ps dst port x) \<longleftrightarrow>
    (\<exists>d \<in> set ds. Domain d = [] \<and> Port d = port \<and> Contains (DestPrefix d) dst) \<or>
    (\<exists>(i, d) \<in> set (enumerate 0 ds). Domain d \<noteq> [] \<and> Port d = port \<and> dst \<in> set (pins_at ps i))"
proof -
  have "set ds = snd ` set (enumerate 0 ds)"
    by (metis map_snd_enumerate list.set_map)
  then have dom: "(\<exists>d \<in> set ds. P d) \<longleftrightarrow> (\<exists>x \<in> set (enumerate 0 ds). P (snd x))" "x \<in> set (enumerate 0 ds) \<Longrightarrow> snd x \<in> set ds" for P x
    by auto
  have "destination_admits ps dst port x \<longleftrightarrow>
      Domain (snd x) = [] \<and> Port (snd x) = port \<and> Contains (DestPrefix (snd x)) dst \<or>
      (case x of (i, d) \<Rightarrow> Domain d \<noteq> [] \<and> Port d = port \<and> dst \<in> set (pins_at ps i))"
    if "x \<in> set (enumerate 0 ds)" for x
    using assms [OF dom(2) [OF that]] by (cases x) (auto simp: destination_admits_def)
  then show ?thesis unfolding dom(1) by blast
qed

lemma compiled_targets:
  assumes "Compile policy options = Inr p" "\<forall>d \<in> set (PolicyDestinations policy). wf_prefix (DestPrefix d)"
    "d \<in> set (destinations p)"
  shows "Prefix_IsValid (DestPrefix d) \<longleftrightarrow> Domain d = []" "mode p \<noteq> ModeDenyAll"
proof -
  show "Prefix_IsValid (DestPrefix d) \<longleftrightarrow> Domain d = []"
    using Compile_rules [OF assms] by (auto simp: rule_ok_def NoPrefix_def Prefix_IsValid_def)
  show "mode p \<noteq> ModeDenyAll"
    using assms(1,3) unfolding Compile_def
    by (auto simp: res_bind_Inr split: if_splits)
qed

text \<open>
  C36: the host firewall admits what the policy admits. For the script that
  replaces an Instance's table, evaluated by the first matching rule, a TCP
  packet of the guest to a destination is admitted exactly when its source is the
  guest's own address (IPv4) and the destination is the Runner's resolver on
  port 53 of a policy with domain rules, or a gateway that a rule names, or a
  live attributed exec listener, or, outside every protected destination, an
  address that \<open>AuthorizeIP\<close> admits or a pinned answer of a domain rule.
\<close>

theorem firewall_admits_exactly:
  assumes "first_match firewall" "render e = None" "deleteTable e = None"
    "Compile policy options = Inr p" "\<forall>d \<in> set (PolicyDestinations policy). wf_prefix (DestPrefix d)"
    "\<forall>a \<in> set (runnerAddresses p) \<union> set (protectedAddresses p). \<not> hasZone a"
    "IsValid dst" "\<not> hasZone dst" "\<not> Is4In6 dst" "q = policy_after p calls"
  shows "firewall (script_rules (replacementScript e (Some q) inst)) (cfg_TapName (inst_cfg inst))
      (IPFrame src dst ''tcp'' port) \<longleftrightarrow>
    (Is4 src \<longrightarrow> IPv4_String src = cfg_GuestIP (inst_cfg inst)) \<and>
    (AllowsDNS (Some q) \<and> dst = cfg_DNSAddress (inst_cfg inst) \<and> port = 53 \<or>
     (\<exists>d \<in> set (destinations q). map_of (runnerGateways q) (Domain d) = Some dst \<and> Port d = port) \<or>
     (dst, port) \<in> set (executionListeners inst) \<or>
     \<not> isProtected q dst \<and>
     ((\<exists>protocol. Allowed (AuthorizeIP q protocol dst port)) \<or>
      (\<exists>(i, d) \<in> set (enumerate 0 (destinations q)). Domain d \<noteq> [] \<and> Port d = port \<and>
         dst \<in> set (pins_at (inst_pins inst) i))))"
proof -
  have same: "same_rules p q"
    using policy_after_ok [of p p calls] compiled_refines [OF assms(4)] by (simp add: assms(10) refines_def)
  have rules: "destinations q = destinations p" "mode q = mode p" "isProtected q = isProtected p"
    using same_rules_facts [OF same] by simp_all
  have zones: "\<forall>a \<in> set (runnerAddresses q) \<union> set (protectedAddresses q). \<not> hasZone a"
    using assms(6) same_rules_facts(9,13) [OF same] by simp
  have tgt: "Prefix_IsValid (DestPrefix d) \<longleftrightarrow> Domain d = []" "mode p \<noteq> ModeDenyAll" if "d \<in> set (destinations q)" for d
    using compiled_targets [OF assms(4,5)] that rules by auto
  have plain: "normalizeAddress dst = dst" using assms(9) by (simp add: normalizeAddress_def)
  have dests: "(\<exists>x \<in> set (enumerate 0 (destinations q)). destination_admits (inst_pins inst) dst port x) \<longleftrightarrow>
      (\<exists>d \<in> set (destinations q). Domain d = [] \<and> Port d = port \<and> Contains (DestPrefix d) dst) \<or>
      (\<exists>(i, d) \<in> set (enumerate 0 (destinations q)). Domain d \<noteq> [] \<and> Port d = port \<and>
         dst \<in> set (pins_at (inst_pins inst) i))"
    using destination_split [of "destinations q"] tgt(1) by blast
  have ip: "(\<exists>protocol. Allowed (AuthorizeIP q protocol dst port)) \<longleftrightarrow> \<not> isProtected q dst \<and>
      (\<exists>d \<in> set (destinations q). Domain d = [] \<and> Port d = port \<and> Contains (DestPrefix d) dst)"
    using tgt(2) rules(2) by (auto simp: AuthorizeIP_iff plain)
  show ?thesis
    using assms(1,7) unfolding first_match_def admits_def [symmetric] script_rules_replacement [OF assms(2,3)]
    by (simp add: policy_rules_admit gateway_destinations_exact Destinations_def dests ip
        protected_prefixes_exact [OF assms(7,8) zones, symmetric]) blast
qed

end
