(* ===== verification/Network_Expiry.thy ===== *)
theory Network_Expiry
  imports Network_Firewall
begin

text \<open>
  The enforcer as a system: installations, removals, DNS answers, listeners and
  expiry goroutines in any order. From every reachable state the pending expiry
  goroutines can run out, and then no Instance in service has a pin left.
\<close>

section \<open>Interleavings\<close>

text \<open>
  The operations run one after another, as the enforcer's mutation lock makes
  them, in any order and with any results of \<open>nft\<close>. An expiry goroutine starts at
  any time after it was spawned, and runs once its deadline has passed or its
  Instance's context has ended.
\<close>

inductive enforcer_step :: "NFTSettings \<Rightarrow> Enforcer \<Rightarrow> Enforcer \<Rightarrow> bool" for e where
  install: "Install e cfg s = (r, s') \<Longrightarrow> enforcer_step e s s'"
| remove: "Remove e instanceID s = (r, s') \<Longrightarrow> enforcer_step e s s'"
| observe: "ObserveDNSAnswer e ctxDone guestIP domain addresses ttl s = (r, s') \<Longrightarrow> enforcer_step e s s'"
| start: "timer \<in> set (spawned s) \<Longrightarrow> enforcer_step e s (start_expiry timer s)"
| fire: "(instanceID, domain, expiresAt, ctx) \<in> set (armed s) \<Longrightarrow>
    expiresAt \<le> enf_clock s \<or> ctx \<in> set (cancelled s) \<Longrightarrow>
    expireDNSPin e instanceID domain expiresAt ctx
      (s\<lparr>armed := remove1 (instanceID, domain, expiresAt, ctx) (armed s)\<rparr>) = (r, s') \<Longrightarrow> enforcer_step e s s'"
| listener: "updateExecutionListener e ctxDone instanceID endpoint allowed s = (r, s') \<Longrightarrow> enforcer_step e s s'"
| fence: "enforcer_step e s (FenceExecutionListeners instanceID s)"
| proxy: "handleDNSProxyFailure s = (r, s') \<Longrightarrow> enforcer_step e s s'"
| tick: "enf_clock s \<le> t \<Longrightarrow> enforcer_step e s (s\<lparr>enf_clock := t\<rparr>)"

inductive enforcer_reachable :: "NFTSettings \<Rightarrow> Enforcer \<Rightarrow> Enforcer \<Rightarrow> bool" for e s where
  here: "enforcer_reachable e s s"
| further: "enforcer_reachable e s t \<Longrightarrow> enforcer_step e t u \<Longrightarrow> enforcer_reachable e s u"

text \<open>A start: nothing registered or scheduled, and every policy just compiled.\<close>

definition compiled_policy :: "CompiledPolicy \<Rightarrow> bool" where
  "compiled_policy p \<longleftrightarrow> (\<exists>policy options. Compile policy options = Inr p)"

definition enforcer_start :: "Enforcer \<Rightarrow> bool" where
  "enforcer_start s \<longleftrightarrow> instances s = [] \<and> spawned s = [] \<and> armed s = [] \<and> loaded s = [] \<and> reported s = [] \<and>
     cancelled s = [] \<and> (\<forall>ref. compiled_policy (policies s ref))"

section \<open>Steps that change nothing but results and reports\<close>

lemma pinLocked_rules: "same_rules p (snd (snd (pinLocked p key answers ttl now)))"
  using pinLocked_same [of p key answers ttl now _ _ _ p] by (cases "pinLocked p key answers ttl now") auto

lemma pinFamily_rules:
  assumes "PinDNSForAddressFamily p protocol raw port family addresses ttl now = (pin, d, q)"
  shows "same_rules p q" "pins_ok p \<Longrightarrow> pins_ok q"
    "Allowed d \<Longrightarrow> ExpiresAt pin = now + min ttl (maximumTTL p)"
proof -
  show "pins_ok p \<Longrightarrow> pins_ok q"
    using policy_step_ok [of p p "PinCall (Some family) protocol raw port addresses ttl now"] assms by simp
  show "same_rules p q" "Allowed d \<Longrightarrow> ExpiresAt pin = now + min ttl (maximumTTL p)"
  proof -
    have "same_rules p q \<and> (Allowed d \<longrightarrow> ExpiresAt pin = now + min ttl (maximumTTL p))"
    proof (cases "\<exists>domain. normalizeDomain raw = Inr domain \<and> pin_admissible p protocol domain port family addresses ttl")
      case True
      then obtain domain where "normalizeDomain raw = Inr domain" "pin_admissible p protocol domain port family addresses ttl"
        by blast
      from pinDNS_admitted [OF this] obtain answers where
        "pinDNS p protocol raw port family addresses ttl now = pinLocked p
          \<lparr>key_protocol = protocol, key_domain = domain, key_port = port, key_family = family\<rparr> answers ttl now"
        by metis
      with assms show ?thesis
        by (cases rule: pinLocked_cases [where p = p and answers = answers and ttl = ttl and now = now and
            key = "\<lparr>key_protocol = protocol, key_domain = domain, key_port = port, key_family = family\<rparr>"])
          (auto simp: PinDNSForAddressFamily_def deny_def removeExpired_same split: if_splits)
    next
      case False
      then show ?thesis
        using pinDNS_denied [of raw p protocol port family addresses ttl now] assms
        by (auto simp: PinDNSForAddressFamily_def deny_def split: if_splits)
    qed
    then show "same_rules p q" "Allowed d \<Longrightarrow> ExpiresAt pin = now + min ttl (maximumTTL p)" by auto
  qed
qed

definition quiet :: "Enforcer \<Rightarrow> Enforcer \<Rightarrow> bool" where
  "quiet s s' \<longleftrightarrow> instances s' = instances s \<and> next_ctx s' = next_ctx s \<and> spawned s' = spawned s \<and>
     armed s' = armed s \<and> enf_clock s' = enf_clock s \<and> set (cancelled s) \<subseteq> set (cancelled s') \<and>
     set (reported s) \<subseteq> set (reported s') \<and>
     (\<forall>ref. same_rules (policies s ref) (policies s' ref) \<and> (pins_ok (policies s ref) \<longrightarrow> pins_ok (policies s' ref)))"

interpretation quiet: kept_relation quiet
proof
  fix s s' s'' assume "quiet s s'" "quiet s' s''"
  then show "quiet s s''"
    unfolding quiet_def by (metis (no_types, lifting) same_rules_trans subset_trans)
qed (simp add: quiet_def)

lemma quiet_command: "keeps quiet (command ctxDone script)"
  by (auto simp: keeps_def command_def quiet_def split: list.splits option.splits)

lemma quiet_report: "keeps quiet (reportFailure cfg)"
  by (auto simp: keeps_def reportFailure_def quiet_def st_modify_def st_return_def)

lemma quiet_proxy: "keeps quiet start_proxy"
  by (auto simp: keeps_def start_proxy_def quiet_def split: list.splits bool.splits)

lemma quiet_cancel: "quiet s (cancel ctx s)"
  by (auto simp: cancel_def quiet_def)

lemma quiet_pin_call: "keeps quiet (pin_call ref destination family addresses ttl now)"
  by (auto simp: keeps_def pin_call_def quiet_def split: prod.splits dest: pinFamily_rules)

lemma quiet_observe_each: "keeps quiet (observe_each ref domain family addresses ttl now ds inst x)"
  by (induction ref domain family addresses ttl now ds inst x rule: observe_each.induct)
    (auto intro!: quiet.keeps_return quiet.keeps_bind quiet_pin_call quiet.keeps_fail split: prod.splits)

section \<open>The invariant\<close>

definition dests_of :: "Enforcer \<Rightarrow> nftPolicyInstance \<Rightarrow> Destination list" where
  "dests_of s inst = Destinations (policy_of s (inst_cfg inst))"

text \<open>An expiry goroutine of the Instance that will delete a pin of this domain with this expiry.\<close>

definition timer_for :: "Enforcer \<Rightarrow> string \<Rightarrow> nat \<Rightarrow> string \<Rightarrow> time \<Rightarrow> bool" where
  "timer_for s instanceID ctx domain x \<longleftrightarrow>
     (\<exists>d t. observed_domain d = domain \<and> x \<le> t \<and>
        ((instanceID, d, t) \<in> set (spawned s) \<or> (instanceID, d, t, ctx) \<in> set (armed s)))"

text \<open>An Instance is given up once its context is cancelled or its failure was reported.\<close>

definition given_up :: "Enforcer \<Rightarrow> nftPolicyInstance \<Rightarrow> bool" where
  "given_up s inst \<longleftrightarrow> is_cancelled s inst \<or> cfg_InstanceID (inst_cfg inst) \<in> set (reported s) \<or>
     \<not> cfg_OnFailure (inst_cfg inst)"

definition pins_timed :: "Enforcer \<Rightarrow> string \<Rightarrow> nftPolicyInstance \<Rightarrow> bool" where
  "pins_timed s instanceID inst \<longleftrightarrow>
     (\<forall>i. map_of (inst_pins inst) i \<noteq> None \<longrightarrow>
        (\<exists>x. map_of (inst_expiry inst) i = Some x \<and> i < length (dests_of s inst) \<and>
           timer_for s instanceID (inst_ctx inst) (Domain (dests_of s inst ! i)) x))"

definition timed :: "Enforcer \<Rightarrow> bool" where
  "timed s \<longleftrightarrow> distinct (map fst (instances s)) \<and>
     (\<forall>instanceID inst. map_of (instances s) instanceID = Some inst \<longrightarrow>
        inst_ctx inst < next_ctx s \<and> (given_up s inst \<or> pins_timed s instanceID inst))"

lemma quiet_dests: "quiet s s' \<Longrightarrow> dests_of s' inst = dests_of s inst"
  using same_rules_facts(5) by (auto simp: quiet_def dests_of_def Destinations_def policy_of_def split: option.splits)

lemma quiet_timer: "quiet s s' \<Longrightarrow> timer_for s' = timer_for s"
  by (auto simp: quiet_def timer_for_def fun_eq_iff)

lemma quiet_pins: "quiet s s' \<Longrightarrow> pins_timed s' = pins_timed s"
  by (auto simp: pins_timed_def quiet_dests quiet_timer fun_eq_iff)

lemma quiet_given_up: "quiet s s' \<Longrightarrow> given_up s inst \<Longrightarrow> given_up s' inst"
  by (auto simp: quiet_def given_up_def is_cancelled_def)

lemma quiet_timed: "quiet s s' \<Longrightarrow> timed s \<Longrightarrow> timed s'"
proof -
  assume q: "quiet s s'" and t: "timed s"
  have eqs: "instances s' = instances s" "next_ctx s' = next_ctx s" using q by (auto simp: quiet_def)
  show "timed s'"
    using t quiet_given_up [OF q] unfolding timed_def eqs quiet_pins [OF q] by blast
qed

text \<open>What the loop over the destinations does to an Instance.\<close>

definition observed :: "string \<Rightarrow> (nat \<times> Destination) list \<Rightarrow> nat \<Rightarrow> bool" where
  "observed domain ds i \<longleftrightarrow> (\<exists>d. (i, d) \<in> set ds \<and> Domain d = observed_domain domain)"

definition observed_update :: "string \<Rightarrow> (nat \<times> Destination) list \<Rightarrow> time \<Rightarrow> nftPolicyInstance \<Rightarrow> nftPolicyInstance \<Rightarrow> bool" where
  "observed_update domain ds x inst inst' \<longleftrightarrow>
     inst' = inst\<lparr>inst_pins := inst_pins inst', inst_expiry := inst_expiry inst'\<rparr> \<and>
     (\<forall>i. (observed domain ds i \<longrightarrow> map_of (inst_expiry inst') i = Some x) \<and>
        (\<not> observed domain ds i \<longrightarrow> map_of (inst_pins inst') i = map_of (inst_pins inst) i \<and>
           map_of (inst_expiry inst') i = map_of (inst_expiry inst) i))"

lemma observed_Cons: "observed domain ((i, d) # ds) j \<longleftrightarrow> (Domain d = observed_domain domain \<and> j = i) \<or> observed domain ds j"
  by (auto simp: observed_def)

lemma observed_update_step:
  assumes "observed_update domain ds x (inst\<lparr>inst_pins := AList.update i a (inst_pins inst),
      inst_expiry := AList.update i x (inst_expiry inst)\<rparr>) inst'" "Domain d = observed_domain domain"
  shows "observed_update domain ((i, d) # ds) x inst inst'"
  using assms by (cases inst; cases inst'; cases "observed domain ds i") (auto simp: observed_update_def observed_Cons update_conv)

lemma observe_each_result:
  assumes "m = maximumTTL (policies s ref)"
  shows "wp (observe_each ref domain family addresses ttl now ds inst x)
    (\<lambda>(inst', x') _. observed_update domain ds (now + min ttl m) inst inst' \<and>
       x' = (if \<exists>i. observed domain ds i then Some (now + min ttl m) else x)) (\<lambda>_ _. True) s"
  using assms
proof (induction ds arbitrary: inst x s)
  case Nil
  then show ?case by (simp add: wp_return observed_update_def observed_def)
next
  case (Cons y ds)
  obtain i d where y: "y = (i, d)" by (cases y)
  show ?case
  proof (cases "Domain d = observed_domain domain")
    case False
    with Cons.IH [OF Cons.prems] show ?thesis
      by (simp add: y observed_update_def observed_Cons)
  next
    case True
    obtain pin dec q where pin: "PinDNSForAddressFamily (policies s ref) (Protocol d) (Domain d) (Port d)
        family addresses ttl now = (pin, dec, q)" by (metis prod_cases3)
    let ?s = "s\<lparr>policies := (policies s)(ref := q)\<rparr>"
    have m: "m = maximumTTL (policies ?s ref)"
      using Cons.prems pinFamily_rules(1) [OF pin] same_rules_facts(8) by simp
    have x: "Allowed dec \<Longrightarrow> ExpiresAt pin = now + min ttl m"
      using pinFamily_rules(3) [OF pin] Cons.prems by simp
    have call: "pin_call ref d family addresses ttl now s = (Inr (pin, dec), ?s)"
      by (simp add: pin_call_def pin)
    have obs: "\<exists>j. observed domain ((i, d) # ds) j" using True by (auto simp: observed_Cons)
    let ?inst = "inst\<lparr>inst_pins := AList.update i
          (mergePolicyAddresses (pins_at (inst_pins inst) i) (Addresses pin)) (inst_pins inst),
        inst_expiry := AList.update i (ExpiresAt pin) (inst_expiry inst)\<rparr>"
    have rest: "wp (observe_each ref domain family addresses ttl now ds ?inst (Some (ExpiresAt pin)))
      (\<lambda>(inst', x') _. observed_update domain ((i, d) # ds) (now + min ttl m) inst inst' \<and> x' = Some (now + min ttl m))
      (\<lambda>_ _. True) ?s" if "Allowed dec"
      by (rule wp_mono [OF Cons.IH [OF m]])
        (use x [OF that] True in \<open>auto intro: observed_update_step split: if_splits\<close>)
    show ?thesis
      using rest True obs by (simp add: y wp_bind wp_def [of "pin_call _ _ _ _ _ _"] call wp_fail)
  qed
qed

section \<open>Every operation keeps the invariant\<close>

lemma put_facts:
  "given_up (put_instance instanceID inst s) = given_up s" "pins_timed (put_instance instanceID inst s) = pins_timed s"
  "next_ctx (put_instance instanceID inst s) = next_ctx s"
  "map_of (instances (put_instance instanceID inst s)) = (map_of (instances s))(instanceID \<mapsto> inst)"
  "distinct (map fst (instances s)) \<Longrightarrow> distinct (map fst (instances (put_instance instanceID inst s)))"
  by (auto simp: put_instance_def given_up_def is_cancelled_def pins_timed_def timer_for_def dests_of_def
      policy_of_def fun_eq_iff update_conv distinct_update)

text \<open>The invariant for all Instances but one, whose state is being replaced.\<close>

definition timed_except :: "string \<Rightarrow> Enforcer \<Rightarrow> bool" where
  "timed_except instanceID s \<longleftrightarrow> distinct (map fst (instances s)) \<and>
     (\<forall>j inst. map_of (instances s) j = Some inst \<longrightarrow>
        inst_ctx inst < next_ctx s \<and> (j = instanceID \<or> given_up s inst \<or> pins_timed s j inst))"

lemma timed_except_all:
  "timed_except instanceID s \<Longrightarrow>
     (\<And>inst. map_of (instances s) instanceID = Some inst \<Longrightarrow> given_up s inst \<or> pins_timed s instanceID inst) \<Longrightarrow> timed s"
  unfolding timed_except_def timed_def by blast

lemma timed_except: "timed s \<Longrightarrow> timed_except instanceID s"
  unfolding timed_except_def timed_def by blast

lemma timed_except_put:
  assumes "timed_except instanceID s" "inst_ctx inst < next_ctx s" "given_up s inst \<or> pins_timed s instanceID inst"
  shows "timed (put_instance instanceID inst s)"
proof (rule timed_except_all [of instanceID])
  show "timed_except instanceID (put_instance instanceID inst s)"
    using assms(1,2) put_facts(5) unfolding timed_except_def put_facts(1-4) by (metis fun_upd_apply option.inject)
qed (use assms(3) in \<open>auto simp: put_facts\<close>)

lemmas timed_put = timed_except_put [OF timed_except]

lemma timed_at:
  "timed s \<Longrightarrow> map_of (instances s) instanceID = Some inst \<Longrightarrow>
     inst_ctx inst < next_ctx s \<and> (given_up s inst \<or> pins_timed s instanceID inst)"
  by (simp add: timed_def)

lemma timed_store:
  assumes "timed s" "given_up s inst \<or> pins_timed s instanceID inst"
  shows "timed (store_instance instanceID inst s)"
proof (cases "map_of (instances s) instanceID")
  case (Some current)
  then show ?thesis
    using timed_put [OF assms(1) _ assms(2)] timed_at [OF assms(1) Some] assms(1) by (simp add: store_instance_def)
qed (simp add: store_instance_def assms(1))

lemma timed_more:
  assumes "timed s" "instances s' = instances s" "next_ctx s \<le> next_ctx s'" "policies s' = policies s"
    "set (cancelled s) \<subseteq> set (cancelled s')" "set (reported s) \<subseteq> set (reported s')"
    "\<And>instanceID inst domain x. map_of (instances s) instanceID = Some inst \<Longrightarrow>
       timer_for s instanceID (inst_ctx inst) domain x \<Longrightarrow> timer_for s' instanceID (inst_ctx inst) domain x"
  shows "timed s'"
proof -
  have dests: "dests_of s' = dests_of s" using assms(4) by (simp add: dests_of_def policy_of_def fun_eq_iff [of "dests_of s'"])
  have up: "given_up s inst \<Longrightarrow> given_up s' inst" for inst
    using assms(5,6) by (auto simp: given_up_def is_cancelled_def)
  have pins: "pins_timed s instanceID inst \<Longrightarrow> pins_timed s' instanceID inst"
    if "map_of (instances s) instanceID = Some inst" for instanceID inst
    using assms(7) [OF that] unfolding pins_timed_def dests by blast
  show ?thesis
    using assms(1,3) up pins unfolding timed_def assms(2) by (meson order_less_le_trans)
qed

lemma timed_remove: "timed s \<Longrightarrow> timed (s\<lparr>instances := AList.delete instanceID (instances s)\<rparr>)"
proof -
  let ?s = "s\<lparr>instances := AList.delete instanceID (instances s)\<rparr>"
  assume t: "timed s"
  have same: "given_up ?s = given_up s" "pins_timed ?s = pins_timed s"
    by (auto simp: given_up_def is_cancelled_def pins_timed_def timer_for_def dests_of_def policy_of_def fun_eq_iff)
  have "distinct (map fst (instances ?s))" using t by (simp add: timed_def distinct_delete)
  with t show "timed ?s" unfolding timed_def same by (simp add: delete_conv)
qed

lemma timed_register: "timed s \<Longrightarrow> timed (register e cfg s)"
proof -
  assume t: "timed s"
  let ?id = "TrimSpace (cfg_InstanceID cfg)"
  let ?s = "case map_of (instances s) ?id of Some existing \<Rightarrow> cancel (inst_ctx existing) s | None \<Rightarrow> s"
  have "timed ?s" using t quiet_timed quiet_cancel by (auto split: option.splits)
  then have "timed (?s\<lparr>next_ctx := next_ctx ?s + 1\<rparr>)"
    by (rule timed_more) (auto simp: timer_for_def)
  then show "timed (register e cfg s)"
    unfolding register_def Let_def by (rule timed_put) (simp_all add: pins_timed_def)
qed

definition keeps_timed :: "Enforcer \<Rightarrow> Enforcer \<Rightarrow> bool" where
  "keeps_timed s s' \<longleftrightarrow> (timed s \<longrightarrow> timed s')"

interpretation timing: kept_relation keeps_timed
  by unfold_locales (auto simp: keeps_timed_def)

lemma timing_quiet: "keeps quiet m \<Longrightarrow> keeps keeps_timed m"
  unfolding keeps_def keeps_timed_def using quiet_timed by blast

lemma timing_modify: "(\<And>s. timed s \<Longrightarrow> timed (f s)) \<Longrightarrow> keeps keeps_timed (st_modify f)"
  by (simp add: keeps_def st_modify_def keeps_timed_def)

lemmas timing_rules = timing.keeps_return timing.keeps_fail timing.keeps_get timing.keeps_bind timing.keeps_seq
  timing.keeps_catch timing.keeps_wrapping timing_modify timing_quiet [OF quiet_command] timing_quiet [OF quiet_report]
  timing_quiet [OF quiet_proxy]

lemma timing_Install: "keeps keeps_timed (Install e cfg)"
  unfolding Install_def Let_def
  by (intro keeps_if keeps_option timing_rules timed_register)

lemma timing_Remove: "keeps keeps_timed (Remove e instanceID)"
proof -
  have cancel: "timed (case found of Some inst \<Rightarrow> cancel (inst_ctx inst) s | None \<Rightarrow> s)" if "timed s" for found s
    using that quiet_timed [OF quiet_cancel] by (simp split: option.splits)
  show ?thesis
    unfolding Remove_def Let_def
    by (intro keeps_if timing_rules cancel) (auto intro!: timing_rules timed_remove split: sum.splits go_error.splits enforcer_error.splits)
qed

lemma pins_timed_listeners: "pins_timed s instanceID (inst\<lparr>executionListeners := ls\<rparr>) = pins_timed s instanceID inst"
  "given_up s (inst\<lparr>executionListeners := ls\<rparr>) = given_up s inst"
  "pins_timed s instanceID (inst\<lparr>listenersFenced := b\<rparr>) = pins_timed s instanceID inst"
  "given_up s (inst\<lparr>listenersFenced := b\<rparr>) = given_up s inst"
  by (simp_all add: pins_timed_def dests_of_def given_up_def is_cancelled_def)

lemma timing_listener: "keeps keeps_timed (updateExecutionListener e ctxDone instanceID endpoint allowed)"
proof -
  have put: "timed (case map_of (instances s) instanceID of
      Some current \<Rightarrow> if inst_ctx current = c then put_instance instanceID (current\<lparr>executionListeners := ls\<rparr>) s else s
    | None \<Rightarrow> s)" if "timed s" for s c ls
    using that timed_at [OF that, of instanceID]
    by (auto simp: pins_timed_listeners split: option.splits intro!: timed_put [OF that])
  show ?thesis
    unfolding updateExecutionListener_def Let_def
    by (intro keeps_if timing_rules keeps_option keeps_prod keeps_sum put; simp add: timing_rules put)
qed

lemma timed_fence: "timed s \<Longrightarrow> timed (FenceExecutionListeners instanceID s)"
  using timed_at [of s] timed_put [of s] by (simp add: FenceExecutionListeners_def pins_timed_listeners split: option.splits)

lemma timing_proxy: "keeps keeps_timed handleDNSProxyFailure"
  unfolding handleDNSProxyFailure_def by (intro timing_rules timing.keeps_for_each)

lemma timed_start: "timed s \<Longrightarrow> timer \<in> set (spawned s) \<Longrightarrow> timed (start_expiry timer s)"
proof -
  assume t: "timed s" and mem: "timer \<in> set (spawned s)"
  let ?s = "start_expiry timer s"
  have fields: "instances ?s = instances s" "next_ctx ?s = next_ctx s" "policies ?s = policies s" "cancelled ?s = cancelled s"
    "reported ?s = reported s" "spawned ?s = remove1 timer (spawned s)" "set (armed s) \<subseteq> set (armed ?s)"
    by (auto simp: start_expiry_def Let_def split: prod.splits option.splits)
  have "timer_for ?s j (inst_ctx inst) domain y"
    if "map_of (instances s) j = Some inst" "timer_for s j (inst_ctx inst) domain y" for j inst domain y
  proof -
    from that(2) obtain d x where dx: "observed_domain d = domain" "y \<le> x"
      "(j, d, x) \<in> set (spawned s) \<or> (j, d, x, inst_ctx inst) \<in> set (armed s)"
      unfolding timer_for_def by blast
    have "(j, d, x) \<in> set (spawned ?s) \<or> (j, d, x, inst_ctx inst) \<in> set (armed ?s)"
      using dx(3) that(1) fields(6,7)
      by (cases "timer = (j, d, x)") (auto simp: start_expiry_def Let_def in_set_remove1)
    with dx show ?thesis unfolding timer_for_def by blast
  qed
  then show ?thesis by (intro timed_more [OF t]) (simp_all add: fields)
qed

text \<open>Expiry deletes the pins of its domain whose expiry has come, and nothing else.\<close>

definition due :: "time \<Rightarrow> nftPolicyInstance \<Rightarrow> nat \<Rightarrow> bool" where
  "due x inst i \<longleftrightarrow> (case map_of (inst_expiry inst) i of Some y \<Rightarrow> y \<le> x | None \<Rightarrow> 0 \<le> x)"

definition fewer_pins :: "nftPolicyInstance \<Rightarrow> nftPolicyInstance \<Rightarrow> bool" where
  "fewer_pins inst inst' \<longleftrightarrow>
     inst_table inst' = inst_table inst \<and> inst_cfg inst' = inst_cfg inst \<and> inst_ctx inst' = inst_ctx inst \<and>
     executionListeners inst' = executionListeners inst \<and> listenersFenced inst' = listenersFenced inst \<and>
     (\<forall>i. map_of (inst_pins inst') i = map_of (inst_pins inst) i \<and> map_of (inst_expiry inst') i = map_of (inst_expiry inst) i \<or>
        map_of (inst_pins inst') i = None \<and> map_of (inst_expiry inst') i = None)"

lemma fewer_refl: "fewer_pins inst inst"
  by (simp add: fewer_pins_def)

lemma fewer_trans: "fewer_pins a b \<Longrightarrow> fewer_pins b c \<Longrightarrow> fewer_pins a c"
  unfolding fewer_pins_def by metis

lemma fewer_delete:
  "fewer_pins inst (inst\<lparr>inst_pins := AList.delete j (inst_pins inst), inst_expiry := AList.delete j (inst_expiry inst)\<rparr>)"
  by (auto simp: fewer_pins_def delete_conv)

lemma expire_fold:
  shows "fewer_pins inst (fold (expire_pin domain x) ds inst) \<and>
    (\<forall>i. map_of (inst_pins (fold (expire_pin domain x) ds inst)) i \<noteq> None \<longrightarrow> observed domain ds i \<longrightarrow> \<not> due x inst i)"
proof (induction ds arbitrary: inst)
  case (Cons y ds)
  obtain j d where y: "y = (j, d)" by (cases y)
  have one: "fewer_pins inst (expire_pin domain x y inst)"
    by (auto simp: expire_pin_def y fewer_delete fewer_refl)
  have j: "map_of (inst_pins (expire_pin domain x y inst)) j = None" if "Domain d = observed_domain domain" "due x inst j"
    using that by (auto simp: expire_pin_def y due_def delete_conv split: option.splits)
  note IH = Cons.IH [of "expire_pin domain x y inst"]
  have few: "fewer_pins inst (fold (expire_pin domain x) (y # ds) inst)" using IH one fewer_trans by auto
  have "\<not> due x inst i" if "map_of (inst_pins (fold (expire_pin domain x) (y # ds) inst)) i \<noteq> None" "observed domain (y # ds) i" for i
  proof -
    let ?a = "expire_pin domain x y inst" and ?b = "fold (expire_pin domain x) ds (expire_pin domain x y inst)"
    have pins: "map_of (inst_pins ?b) i \<noteq> None" using that(1) by simp
    have ab: "fewer_pins ?a ?b" using IH by simp
    have kept: "map_of (inst_pins ?a) i \<noteq> None" using ab pins unfolding fewer_pins_def by metis
    have same: "map_of (inst_expiry ?a) i = map_of (inst_expiry inst) i" using one kept unfolding fewer_pins_def by metis
    show ?thesis
    proof (cases "observed domain ds i")
      case True
      then have "\<not> due x ?a i" using IH pins by blast
      then show ?thesis by (simp add: due_def same)
    next
      case False
      then show ?thesis using that(2) j kept by (auto simp: y observed_Cons)
    qed
  qed
  with few show ?case by blast
qed (simp add: fewer_refl observed_def)

lemma observed_enumerate:
  "observed domain (enumerate 0 ds) i \<longleftrightarrow> i < length ds \<and> Domain (ds ! i) = observed_domain domain"
  by (auto simp: observed_def in_set_enumerate_eq)

lemma expired_timed:
  assumes "pins_timed s instanceID inst" and s': "s' = s\<lparr>armed := remove1 (instanceID, domain, x, ctx) (armed s)\<rparr>"
  shows "pins_timed s' instanceID (expire_pins domain x (dests_of s inst) inst)"
proof -
  let ?inst = "expire_pins domain x (dests_of s inst) inst"
  note e = expire_fold [of inst domain x "enumerate 0 (dests_of s inst)", folded expire_pins_def]
  have few: "inst_cfg ?inst = inst_cfg inst" "inst_ctx ?inst = inst_ctx inst" using e by (simp_all add: fewer_pins_def)
  have dests: "dests_of s' ?inst = dests_of s inst" using few by (simp add: dests_of_def policy_of_def s')
  show ?thesis
    unfolding pins_timed_def dests few
  proof (intro allI impI)
    fix i assume i: "map_of (inst_pins ?inst) i \<noteq> None"
    then have old: "map_of (inst_pins inst) i \<noteq> None" "map_of (inst_expiry ?inst) i = map_of (inst_expiry inst) i"
      using e unfolding fewer_pins_def by metis+
    from assms(1) old(1) obtain y where y: "map_of (inst_expiry inst) i = Some y" "i < length (dests_of s inst)"
      "timer_for s instanceID (inst_ctx inst) (Domain (dests_of s inst ! i)) y"
      unfolding pins_timed_def by blast
    have "timer_for s' instanceID (inst_ctx inst) (Domain (dests_of s inst ! i)) y"
    proof -
      from y(3) obtain d t where dt: "observed_domain d = Domain (dests_of s inst ! i)" "y \<le> t"
        "(instanceID, d, t) \<in> set (spawned s) \<or> (instanceID, d, t, inst_ctx inst) \<in> set (armed s)"
        unfolding timer_for_def by blast
      have "(d, t) \<noteq> (domain, x)"
        using e i dt y(1,2) by (auto simp: observed_enumerate due_def)
      then have "(instanceID, d, t) \<in> set (spawned s') \<or> (instanceID, d, t, inst_ctx inst) \<in> set (armed s')"
        using dt(3) by (auto simp: s')
      with dt(1,2) show ?thesis unfolding timer_for_def by blast
    qed
    with y old show "\<exists>x. map_of (inst_expiry ?inst) i = Some x \<and> i < length (dests_of s inst) \<and>
        timer_for s' instanceID (inst_ctx inst) (Domain (dests_of s inst ! i)) x" by metis
  qed
qed

lemma timed_except_quiet:
  assumes "quiet s s'" "timed_except instanceID s" shows "timed_except instanceID s'"
proof -
  have eqs: "instances s' = instances s" "next_ctx s' = next_ctx s" using assms(1) by (auto simp: quiet_def)
  show ?thesis
    using assms(2) quiet_given_up [OF assms(1)] unfolding timed_except_def eqs quiet_pins [OF assms(1)] by blast
qed

lemma timed_except_store:
  assumes "timed_except instanceID s" "given_up s inst \<or> pins_timed s instanceID inst"
    "map_of (instances s) instanceID = Some current" "inst_ctx inst = inst_ctx current"
  shows "timed (store_instance instanceID inst s)"
  using timed_except_put [OF assms(1) _ assms(2)] assms(1,3,4) by (auto simp: store_instance_def timed_except_def)

lemma fire_except:
  assumes "timed s"
  shows "timed_except instanceID (s\<lparr>armed := remove1 (instanceID, domain, x, ctx) (armed s)\<rparr>)"
proof -
  let ?s = "s\<lparr>armed := remove1 (instanceID, domain, x, ctx) (armed s)\<rparr>"
  have same: "given_up ?s = given_up s" "dests_of ?s = dests_of s"
    by (auto simp: given_up_def is_cancelled_def dests_of_def policy_of_def fun_eq_iff)
  have "timer_for ?s j c = timer_for s j c" if "j \<noteq> instanceID" for j c
    using that by (auto simp: timer_for_def fun_eq_iff)
  then have pins: "pins_timed ?s j inst = pins_timed s j inst" if "j \<noteq> instanceID" for j inst
    using that by (simp add: pins_timed_def same)
  show ?thesis
    unfolding timed_except_def
  proof (intro conjI allI impI)
    show "distinct (map fst (instances ?s))" using assms by (simp add: timed_def)
    fix j inst assume "map_of (instances ?s) j = Some inst"
    then have "inst_ctx inst < next_ctx s \<and> (given_up s inst \<or> pins_timed s j inst)"
      using timed_at [OF assms] by simp
    with pins [of j inst] show "inst_ctx inst < next_ctx ?s" "j = instanceID \<or> given_up ?s inst \<or> pins_timed ?s j inst"
      by (auto simp: same)
  qed
qed

lemma fire_other:
  assumes "pins_timed s instanceID inst" "inst_ctx inst \<noteq> ctx"
  shows "pins_timed (s\<lparr>armed := remove1 (instanceID, domain, x, ctx) (armed s)\<rparr>) instanceID inst"
proof -
  let ?s = "s\<lparr>armed := remove1 (instanceID, domain, x, ctx) (armed s)\<rparr>"
  have "timer_for ?s instanceID (inst_ctx inst) = timer_for s instanceID (inst_ctx inst)"
    using assms(2) by (auto simp: timer_for_def fun_eq_iff)
  moreover have "dests_of ?s inst = dests_of s inst" by (simp add: dests_of_def policy_of_def)
  ultimately show ?thesis using assms(1) by (simp add: pins_timed_def)
qed

lemma timed_fire:
  assumes "timed s"
  shows "wp (expireDNSPin e instanceID domain x ctx) (\<lambda>_. timed) (\<lambda>_. timed)
    (s\<lparr>armed := remove1 (instanceID, domain, x, ctx) (armed s)\<rparr>)"
proof -
  let ?s = "s\<lparr>armed := remove1 (instanceID, domain, x, ctx) (armed s)\<rparr>"
  note ex = fire_except [OF assms, of instanceID domain x ctx]
  show ?thesis
  proof (cases "ctx \<in> set (cancelled s) \<or> map_of (instances s) instanceID = None")
    case True
    have "timed ?s"
    proof (rule timed_except_all [OF ex])
      fix inst assume "map_of (instances ?s) instanceID = Some inst"
      with True timed_at [OF assms, of instanceID inst] show "given_up ?s inst \<or> pins_timed ?s instanceID inst"
        using fire_other [of s instanceID inst ctx domain x] by (auto simp: given_up_def is_cancelled_def)
    qed
    with True show ?thesis by (auto simp: expireDNSPin_def wp_simps split: option.splits)
  next
    case False
    then obtain inst where inst: "map_of (instances s) instanceID = Some inst" "ctx \<notin> set (cancelled s)" by auto
    let ?new = "expire_pins domain x (dests_of s inst) inst"
    have new: "inst_ctx ?new = inst_ctx inst" "inst_cfg ?new = inst_cfg inst"
      using expire_fold [of inst domain x "enumerate 0 (dests_of s inst)"] by (simp_all add: expire_pins_def fewer_pins_def)
    have ok: "given_up ?s ?new \<or> pins_timed ?s instanceID ?new"
      using timed_at [OF assms inst(1)] expired_timed [OF _ refl, of s instanceID inst domain x ctx]
      by (auto simp: given_up_def is_cancelled_def new)
    have stored: "timed (store_instance instanceID ?new s')" if "quiet ?s s'" for s'
    proof (rule timed_except_store [OF timed_except_quiet [OF that ex]])
      show "given_up s' ?new \<or> pins_timed s' instanceID ?new" using ok quiet_given_up [OF that] quiet_pins [OF that] by auto
      show "map_of (instances s') instanceID = Some inst" using inst(1) that by (simp add: quiet_def)
    qed (simp add: new)
    have failed: "timed s'" if "quiet ?s s'" "given_up s' inst" for s'
      by (rule timed_except_all [OF timed_except_quiet [OF that(1) ex]]) (use inst(1) that in \<open>auto simp: quiet_def\<close>)
    have report: "wp (reportFailure (inst_cfg inst)) (\<lambda>_. timed) (\<lambda>_. timed) s'" if "quiet ?s s'" for s'
    proof (cases "cfg_OnFailure (inst_cfg inst)")
      case True
      let ?u = "s'\<lparr>reported := cfg_InstanceID (inst_cfg inst) # reported s'\<rparr>"
      have "quiet ?s ?u" by (rule quiet.trans [OF that]) (auto simp: quiet_def)
      then have "timed ?u" by (rule failed) (simp add: given_up_def)
      with True show ?thesis by (simp add: reportFailure_def wp_modify)
    next
      case False
      then show ?thesis using failed [OF that] by (simp add: reportFailure_def wp_return given_up_def)
    qed
    have ended: "timed s'" if "quiet ?s s'" "is_cancelled ?s inst" for s'
      using failed [OF that(1)] quiet_given_up [OF that(1)] that(2) by (auto simp: given_up_def)
    have pol: "Destinations (policy_of ?s (inst_cfg inst)) = dests_of s inst"
      by (simp add: dests_of_def policy_of_def)
    show ?thesis
      using inst stored report ended
      by (auto simp: expireDNSPin_def wp_simps Let_def new pol intro!: wp_rel [OF quiet_command])
  qed
qed

text \<open>An observed answer renews the expiry of every rule of its domain and spawns a timer for it.\<close>

lemma observed_fields:
  assumes "observed_update domain ds x inst inst'"
  shows "inst_cfg inst' = inst_cfg inst" "inst_ctx inst' = inst_ctx inst" "inst_table inst' = inst_table inst"
    "executionListeners inst' = executionListeners inst" "listenersFenced inst' = listenersFenced inst"
  using assms unfolding observed_update_def by (cases inst; cases inst'; auto)+

lemma observed_timed:
  assumes "pins_timed s instanceID inst \<or> given_up s inst"
    "observed_update domain (enumerate 0 (dests_of s inst)) x inst inst'"
    "s' = s\<lparr>spawned := (instanceID, domain, x) # spawned s\<rparr>"
  shows "given_up s' inst' \<or> pins_timed s' instanceID inst'"
proof (cases "given_up s inst")
  case True
  then show ?thesis using observed_fields [OF assms(2)] by (simp add: given_up_def is_cancelled_def assms(3))
next
  case False
  note same = observed_fields [OF assms(2)]
  have dests: "dests_of s' inst' = dests_of s inst" by (simp add: dests_of_def policy_of_def assms(3) same)
  have keep: "timer_for s j c d y \<Longrightarrow> timer_for s' j c d y" for j c d y
    by (auto simp: timer_for_def assms(3))
  have "pins_timed s' instanceID inst'"
    unfolding pins_timed_def dests same
  proof (intro allI impI)
    fix i assume i: "map_of (inst_pins inst') i \<noteq> None"
    show "\<exists>y. map_of (inst_expiry inst') i = Some y \<and> i < length (dests_of s inst) \<and>
      timer_for s' instanceID (inst_ctx inst) (Domain (dests_of s inst ! i)) y"
    proof (cases "observed domain (enumerate 0 (dests_of s inst)) i")
      case True
      then have "map_of (inst_expiry inst') i = Some x" using assms(2) by (simp add: observed_update_def)
      moreover have "timer_for s' instanceID (inst_ctx inst) (Domain (dests_of s inst ! i)) x"
        using True by (auto simp: timer_for_def assms(3) observed_enumerate)
      ultimately show ?thesis using True by (auto simp: observed_enumerate)
    next
      case obs: False
      then have "map_of (inst_pins inst') i = map_of (inst_pins inst) i" "map_of (inst_expiry inst') i = map_of (inst_expiry inst) i"
        using assms(2) by (simp_all add: observed_update_def)
      then show ?thesis
        using assms(1) False i keep unfolding pins_timed_def by metis
    qed
  qed
  then show ?thesis by simp
qed

lemma timed_observe_instance:
  assumes "timed s" "map_of (instances s) instanceID = Some inst" "cfg_Policy (inst_cfg inst) = Some ref"
  shows "wp (observe_instance e instanceID ref domain addresses ttl inst) (\<lambda>_. timed) (\<lambda>_. timed) s"
proof (cases "answer_family 0 addresses")
  case (Some family)
  let ?x = "enf_clock s + min ttl (maximumTTL (policies s ref))"
  let ?ds = "enumerate 0 (dests_of s inst)"
  have dests: "Destinations (Some (policies s ref)) = dests_of s inst"
    by (simp add: dests_of_def policy_of_def assms(3))
  have store: "timed ((store_instance instanceID inst' u)\<lparr>spawned := (instanceID, domain, ?x) # spawned u\<rparr>)"
    if "quiet s u" "observed_update domain ?ds ?x inst inst'" for inst' u
  proof -
    let ?u = "u\<lparr>spawned := (instanceID, domain, ?x) # spawned u\<rparr>"
    have u: "timed u" by (rule quiet_timed [OF that(1) assms(1)])
    have cur: "map_of (instances u) instanceID = Some inst" using assms(2) that(1) by (simp add: quiet_def)
    have "timed ?u" by (rule timed_more [OF u]) (auto simp: timer_for_def)
    moreover have "given_up ?u inst' \<or> pins_timed ?u instanceID inst'"
      by (rule observed_timed [OF _ _ refl]) (use timed_at [OF u cur] that quiet_dests [OF that(1)] in auto)
    ultimately have "timed (store_instance instanceID inst' ?u)" by (rule timed_store)
    moreover have "store_instance instanceID inst' ?u =
        (store_instance instanceID inst' u)\<lparr>spawned := (instanceID, domain, ?x) # spawned u\<rparr>"
      by (simp add: store_instance_def put_instance_def split: option.splits)
    ultimately show ?thesis by simp
  qed
  have loop: "wp (observe_each ref domain family addresses ttl (enf_clock s) ?ds inst None)
      (\<lambda>(inst', x') u. quiet s u \<and> observed_update domain ?ds ?x inst inst' \<and> (x' = None \<or> x' = Some ?x)) (\<lambda>_. quiet s) s"
    by (rule wp_mono [OF wp_conj [THEN iffD2, OF conjI [OF keeps_wp [OF quiet_observe_each] observe_each_result [OF refl]]]])
      (auto split: if_splits)
  have commit: "wp (commit_pins e instanceID ref domain inst' ?x) (\<lambda>_. timed) (\<lambda>_. timed) u"
    if "quiet s u" "observed_update domain ?ds ?x inst inst'" for inst' u
  proof -
    have t: "timed v" if "quiet u v" for v
      using quiet_timed quiet.trans [OF \<open>quiet s u\<close> that] assms(1) by blast
    have "wp (reportFailure cfg) (\<lambda>_. timed) (\<lambda>_. timed) v" if "quiet u v" for cfg v
      by (rule wp_rel [OF quiet_report]) (use t quiet.trans [OF that] in auto)
    then show ?thesis
      unfolding commit_pins_def wp_bind wp_get wp_prod prod.case wp_catch
      by (intro wp_rel [OF quiet_command])
        (use t store [OF quiet.trans [OF that(1)] that(2)] in \<open>auto simp: wp_simps wp_fail_fun\<close>)
  qed
  show ?thesis
    unfolding observe_instance_def Some
    by (simp add: wp_bind wp_get dests)
      (rule wp_mono [OF loop], use commit assms(1) in \<open>auto simp: wp_simps intro: quiet_timed split: option.splits\<close>)
qed (simp add: observe_instance_def wp_fail assms(1))

lemma timing_observe: "keeps keeps_timed (ObserveDNSAnswer e ctxDone guestIP domain addresses ttl)"
proof -
  have "wp (ObserveDNSAnswer e ctxDone guestIP domain addresses ttl) (\<lambda>_. timed) (\<lambda>_. timed) s" if t: "timed s" for s
  proof -
    have "map_of (instances s) i = Some inst" if "List.find P (instances s) = Some (i, inst)" for P i inst
      using that t find_mem [of P "instances s"] by (simp add: timed_def)
    then show ?thesis
      using t timed_observe_instance [OF t]
      by (auto simp: ObserveDNSAnswer_def wp_simps split: option.splits)
  qed
  then show ?thesis by (simp add: keeps_def keeps_timed_def wp_snd)
qed

lemma step_timed: "enforcer_step e s s' \<Longrightarrow> timed s \<Longrightarrow> timed s'"
proof (induction rule: enforcer_step.induct)
  case (fire instanceID domain expiresAt ctx s r s')
  with timed_fire [OF fire.prems, of e instanceID domain expiresAt ctx] show ?case
    by (simp add: wp_def split: sum.splits)
next
  case (tick s t)
  show ?case by (rule timed_more [OF tick.prems]) (auto simp: timer_for_def)
qed (auto intro: timed_start timed_fence
    dest: keepsD [OF timing_Install] keepsD [OF timing_Remove] keepsD [OF timing_observe] keepsD [OF timing_listener]
      keepsD [OF timing_proxy] simp: keeps_timed_def)

lemma reachable_timed: "enforcer_reachable e s s' \<Longrightarrow> timed s \<Longrightarrow> timed s'"
  by (induction rule: enforcer_reachable.induct) (auto intro: step_timed)

lemma start_timed: "enforcer_start s \<Longrightarrow> timed s"
  by (simp add: enforcer_start_def timed_def)

section \<open>Every pin expires\<close>

text \<open>The steps of the clock and of the expiry goroutines.\<close>

inductive expiry_step :: "NFTSettings \<Rightarrow> Enforcer \<Rightarrow> Enforcer \<Rightarrow> bool" for e where
  tick: "enf_clock s \<le> t \<Longrightarrow> expiry_step e s (s\<lparr>enf_clock := t\<rparr>)"
| start: "timer \<in> set (spawned s) \<Longrightarrow> expiry_step e s (start_expiry timer s)"
| fire: "(instanceID, domain, expiresAt, ctx) \<in> set (armed s) \<Longrightarrow>
    expiresAt \<le> enf_clock s \<or> ctx \<in> set (cancelled s) \<Longrightarrow>
    expireDNSPin e instanceID domain expiresAt ctx
      (s\<lparr>armed := remove1 (instanceID, domain, expiresAt, ctx) (armed s)\<rparr>) = (r, s') \<Longrightarrow> expiry_step e s s'"

lemma expiry_is_step: "expiry_step e s s' \<Longrightarrow> enforcer_step e s s'"
  by (induction rule: expiry_step.induct) (auto intro: enforcer_step.intros)

definition undisturbed :: "Enforcer \<Rightarrow> Enforcer \<Rightarrow> bool" where
  "undisturbed s s' \<longleftrightarrow> nft_results s' = nft_results s \<and> enf_clock s' = enf_clock s \<and> reported s' = reported s \<and>
     cancelled s' = cancelled s \<and> map fst (instances s') = map fst (instances s)"

lemma undisturbed_trans: "undisturbed s t \<Longrightarrow> undisturbed t u \<Longrightarrow> undisturbed s u"
  by (simp add: undisturbed_def)

lemma store_keys: "map fst (instances (store_instance i inst s)) = map fst (instances s)"
  by (auto simp: store_instance_def put_instance_def update_keys split: option.splits dest!: map_of_SomeD)
    (metis fst_conv imageI)+

lemma fire_undisturbed:
  assumes "nft_results s = []"
  shows "wp (expireDNSPin e instanceID domain x ctx)
    (\<lambda>_ s'. undisturbed s s' \<and> spawned s' = spawned s \<and> armed s' = armed s)
    (\<lambda>_ s'. undisturbed s s' \<and> spawned s' = spawned s \<and> armed s' = armed s) s"
proof -
  have store: "undisturbed s (store_instance i inst (s\<lparr>loaded := ls\<rparr>)) \<and>
      spawned (store_instance i inst (s\<lparr>loaded := ls\<rparr>)) = spawned s \<and> armed (store_instance i inst (s\<lparr>loaded := ls\<rparr>)) = armed s"
    for i inst ls
    using store_keys [of i inst "s\<lparr>loaded := ls\<rparr>"]
    by (auto simp: undisturbed_def store_instance_def put_instance_def split: option.splits)
  show ?thesis
    using assms store
    by (auto simp: expireDNSPin_def wp_simps Let_def wp_def [of "command _ _"] command_def undisturbed_def split: option.splits)
qed

definition overdue :: "Enforcer \<Rightarrow> bool" where
  "overdue s \<longleftrightarrow> (\<forall>(i, d, x) \<in> set (spawned s). x \<le> enf_clock s) \<and> (\<forall>(i, d, x, c) \<in> set (armed s). x \<le> enf_clock s)"

lemma start_undisturbed:
  assumes "overdue s" "timer \<in> set (spawned s)"
  shows "undisturbed s (start_expiry timer s) \<and> overdue (start_expiry timer s) \<and>
    2 * length (spawned (start_expiry timer s)) + length (armed (start_expiry timer s)) < 2 * length (spawned s) + length (armed s)"
proof -
  obtain n where "length (spawned s) = Suc n" using assms(2) by (cases "spawned s") auto
  with assms show ?thesis
    by (auto simp: start_expiry_def undisturbed_def overdue_def length_remove1 Let_def split: prod.splits option.splits
        dest: set_remove1_subset [THEN subsetD])
qed

lemma timers_drain:
  assumes "overdue s" "nft_results s = []"
  shows "\<exists>s'. (expiry_step e)\<^sup>*\<^sup>* s s' \<and> undisturbed s s' \<and> spawned s' = [] \<and> armed s' = []"
  using assms
proof (induction "2 * length (spawned s) + length (armed s)" arbitrary: s rule: less_induct)
  case less
  have next_step: ?case
    if "expiry_step e s u" "undisturbed s u" "overdue u"
      "2 * length (spawned u) + length (armed u) < 2 * length (spawned s) + length (armed s)" for u
  proof -
    have "nft_results u = []" using that(2) less.prems by (simp add: undisturbed_def)
    from less.hyps [OF that(4,3) this] obtain s' where
      "(expiry_step e)\<^sup>*\<^sup>* u s'" "undisturbed u s'" "spawned s' = []" "armed s' = []" by blast
    with that show ?thesis by (meson converse_rtranclp_into_rtranclp undisturbed_trans)
  qed
  show ?case
  proof (cases "spawned s")
    case (Cons timer rest)
    then have mem: "timer \<in> set (spawned s)" by simp
    show ?thesis
      by (rule next_step [of "start_expiry timer s"])
        (use start_undisturbed [OF less.prems(1) mem] expiry_step.start [OF mem] in auto)
  next
    case Nil
    show ?thesis
    proof (cases "armed s")
      case (Cons timer rest)
      obtain i d x c where timer: "timer = (i, d, x, c)" by (cases timer)
      let ?s = "s\<lparr>armed := remove1 timer (armed s)\<rparr>"
      obtain r u where run: "expireDNSPin e i d x c ?s = (r, u)" by fastforce
      have "undisturbed ?s u \<and> spawned u = spawned ?s \<and> armed u = armed ?s"
        using fire_undisturbed [of ?s e i d x c] less.prems(2) run by (simp add: wp_def split: sum.splits)
      then have u: "undisturbed s u" "spawned u = []" "armed u = rest"
        using Nil Cons by (auto simp: undisturbed_def)
      show ?thesis
      proof (rule next_step [of u])
        show "expiry_step e s u"
          using expiry_step.fire [of i d x c s e r u] run less.prems(1) Cons timer by (auto simp: overdue_def)
        show "overdue u" using u less.prems(1) Cons by (auto simp: overdue_def undisturbed_def)
      qed (use u Nil Cons in auto)
    qed (use Nil in \<open>auto simp: undisturbed_def\<close>)
  qed
qed

lemma no_timers_no_pins:
  assumes "spawned s = []" "armed s = []" "pins_timed s instanceID inst"
  shows "inst_pins inst = []"
proof (cases "inst_pins inst")
  case (Cons p ps)
  then have "map_of (inst_pins inst) (fst p) \<noteq> None" by simp
  with assms show ?thesis unfolding pins_timed_def timer_for_def by (metis empty_iff empty_set)
qed

lemma expiry_reachable: "(expiry_step e)\<^sup>*\<^sup>* s s' \<Longrightarrow> timed s \<Longrightarrow> timed s'"
  by (induction rule: rtranclp_induct) (auto intro: step_timed expiry_is_step)

text \<open>
  C39: no DNS pin outlives its expiry for ever. From every reachable state of the
  enforcer, once the clock has passed the pending deadlines and \<open>nft\<close> accepts the
  scripts, the pending expiry goroutines end, and then no Instance has a pin left,
  unless its context was cancelled, its failure had been reported, or it has no
  failure callback. Nothing is reported, cancelled or unregistered on the way.
\<close>

theorem pins_eventually_expire:
  assumes "enforcer_start s0" "enforcer_reachable e s0 s" "nft_results s = []"
  shows "\<exists>s'. (expiry_step e)\<^sup>*\<^sup>* s s' \<and> spawned s' = [] \<and> armed s' = [] \<and>
    map fst (instances s') = map fst (instances s) \<and> reported s' = reported s \<and> cancelled s' = cancelled s \<and>
    (\<forall>instanceID inst. map_of (instances s') instanceID = Some inst \<longrightarrow> given_up s' inst \<or> inst_pins inst = [])"
proof -
  let ?late = "Max (insert (enf_clock s) ((\<lambda>(i, d, x). x) ` set (spawned s) \<union> (\<lambda>(i, d, x, c). x) ` set (armed s)))"
  let ?s = "s\<lparr>enf_clock := ?late\<rparr>"
  have tick: "expiry_step e s ?s" by (rule expiry_step.tick) simp
  have "overdue ?s" unfolding overdue_def by (force intro!: Max_ge)
  moreover have "nft_results ?s = []" using assms(3) by simp
  ultimately obtain s' where s': "(expiry_step e)\<^sup>*\<^sup>* ?s s'" "undisturbed ?s s'" "spawned s' = []" "armed s' = []"
    using timers_drain by blast
  have run: "(expiry_step e)\<^sup>*\<^sup>* s s'" using tick s'(1) by (rule converse_rtranclp_into_rtranclp)
  have "timed s'"
    using expiry_reachable [OF run] reachable_timed [OF assms(2)] start_timed [OF assms(1)] by blast
  then have "given_up s' inst \<or> inst_pins inst = []" if "map_of (instances s') instanceID = Some inst" for instanceID inst
    using timed_at [OF _ that] no_timers_no_pins [OF s'(3,4)] by blast
  with run s' show ?thesis by (auto simp: undisturbed_def)
qed
end
