(* ===== verification/Network_Witnesses.thy ===== *)
theory Network_Witnesses
  imports Network_Expiry
begin

text \<open>
  Concrete configurations, policies and histories at which the network
  properties apply: two egress contexts with a gateway each, a policy with a
  gateway rule, a domain rule and a CIDR rule, and an enforcer that installs it,
  observes a DNS answer and lets it expire.
\<close>

definition sample_document :: egressContextConfigDocument where
  "sample_document = \<lparr>SchemaVersion = EgressContextConfigSchemaVersion, GeneratedBy = GeneratedConfigProvenance,
     Contexts = Some
      [\<lparr>doc_Name = ''alpha'', doc_Gateways =
          [\<lparr>doc_LogicalName = ''models.internal'', doc_Address = ''10.0.0.5'', doc_AttributedSocket = []\<rparr>]\<rparr>,
       \<lparr>doc_Name = ''beta'', doc_Gateways =
          [\<lparr>doc_LogicalName = ''models.internal'', doc_Address = ''10.0.0.6'', doc_AttributedSocket = []\<rparr>]\<rparr>]\<rparr>"

definition sample_route :: "int \<Rightarrow> runnerGatewayRoute" where
  "sample_route n = \<lparr>route_address = IPv4 (word_of_int (167772160 + n)), attributedSocket = []\<rparr>"

definition sample_config :: EgressContextConfig where
  "sample_config = \<lparr>contexts = [(''alpha'', [(''models.internal'', sample_route 5)]),
       (''beta'', [(''models.internal'', sample_route 6)])],
     config_protectedAddresses = [IPv4 0x0A000005, IPv4 0x0A000006]\<rparr>"

definition sample_limits :: CompileOptions where
  "sample_limits = \<lparr>MaximumPins = 4, MaximumTTL = 60, RunnerAddresses = [IPv4 0x0A000001], ManagementPrefixes = [],
     ProtectedAddresses = [], RunnerGateways = []\<rparr>"

definition sample_source :: NetworkPolicy where
  "sample_source = \<lparr>SourceMode = 2, SourceDestinations =
     [Some \<lparr>SourceProtocol = 3, SourcePort = 443, Target = NetworkDestination_Domain ''models.internal''\<rparr>,
      Some \<lparr>SourceProtocol = 3, SourcePort = 443, Target = NetworkDestination_Domain ''Example.com.''\<rparr>,
      Some \<lparr>SourceProtocol = 1, SourcePort = 8080, Target = NetworkDestination_Cidr ''93.184.216.0/24''\<rparr>]\<rparr>"

definition sample_policy :: Policy where
  "sample_policy = \<lparr>PolicyMode = ModeAllowList, PolicyDestinations =
     [\<lparr>Protocol = ProtocolHTTPS, Domain = ''models.internal'', DestPrefix = NoPrefix, Port = 443\<rparr>,
      \<lparr>Protocol = ProtocolHTTPS, Domain = ''Example.com.'', DestPrefix = NoPrefix, Port = 443\<rparr>,
      \<lparr>Protocol = ProtocolTCP, Domain = [], DestPrefix = PrefixFrom (IPv4 0x5DB8D800) 24, Port = 8080\<rparr>]\<rparr>"

definition sample_options :: CompileOptions where
  "sample_options = sample_limits\<lparr>ProtectedAddresses := [IPv4 0x0A000005, IPv4 0x0A000006],
     RunnerGateways := [(''models.internal'', IPv4 0x0A000005)]\<rparr>"

definition sample_compiled :: CompiledPolicy where
  "sample_compiled = \<lparr>mode = ModeAllowList, destinations =
     [\<lparr>Protocol = ProtocolHTTPS, Domain = ''models.internal'', DestPrefix = NoPrefix, Port = 443\<rparr>,
      \<lparr>Protocol = ProtocolHTTPS, Domain = ''example.com'', DestPrefix = NoPrefix, Port = 443\<rparr>,
      \<lparr>Protocol = ProtocolTCP, Domain = [], DestPrefix = PrefixFrom (IPv4 0x5DB8D800) 24, Port = 8080\<rparr>],
     maximumPins = 4, maximumTTL = 60, runnerAddresses = [IPv4 0x0A000001], managementPrefixes = [],
     protectedAddresses = [IPv4 0x0A000005, IPv4 0x0A000006],
     runnerGateways = [(''models.internal'', IPv4 0x0A000005)], pins = []\<rparr>"

lemma sample_decodes: "decodeEgressContextConfig sample_document = Inr sample_config"
  by code_simp

lemma sample_compiles: "Compile sample_policy sample_options = Inr sample_compiled"
  by code_simp

lemma sample_assignment:
  "compileAssignmentNetworkPolicy True sample_limits sample_config (Some sample_source) ''alpha'' True = Inr sample_compiled"
  by code_simp

definition sample_calls :: "policy_call list" where
  "sample_calls =
     [PinCall (Some 4) ProtocolHTTPS ''example.com'' 443 [IPv4 0x5DB8D822] 30 100,
      PinCall None ProtocolHTTPS ''example.com'' 443 [IPv4 0x5DB8D822] 30 110,
      PinCall None ProtocolHTTPS ''example.com'' 443 [IPv4 0x0A000005] 30 115,
      PinnedCall ProtocolHTTPS ''example.com'' (IPv4 0x5DB8D822) 443 120,
      PinnedCall ProtocolHTTPS ''example.com'' (IPv4 0x5DB8D822) 443 140,
      DirectCall ProtocolTCP (IPv4 0x5DB8D801) 8080 141]"

theorem gateways_confined_to_context_witness:
  "Allowed (fst (AuthorizePinned (policy_after sample_compiled sample_calls) ProtocolHTTPS ''models.internal''
       (IPv4 0x0A000005) 443 150)) \<and>
   \<not> Allowed (AuthorizeIP (policy_after sample_compiled sample_calls) ProtocolHTTPS (IPv4 0x0A000005) 443) \<and>
   \<not> Allowed (fst (AuthorizePinned (policy_after sample_compiled sample_calls) ProtocolHTTPS ''models.internal''
       (IPv4 0x0A000006) 443 150))"
proof -
  have "(''alpha'', [(''models.internal'', sample_route 5)]) \<in> set (contexts sample_config)"
    "(''beta'', [(''models.internal'', sample_route 6)]) \<in> set (contexts sample_config)"
    by (simp_all add: sample_config_def)
  moreover have "IsValid (route_address (sample_route 5))" "IsValid (route_address (sample_route 6))"
    "normalizeAddress (IPv4 0x0A000005) = route_address (sample_route 5)"
    "normalizeAddress (IPv4 0x0A000006) = route_address (sample_route 6)"
    by code_simp+
  moreover have "map_of (contexts sample_config) ''alpha'' = Some [(''models.internal'', sample_route 5)]"
    "normalizeDomain ''models.internal'' = Inr ''models.internal''"
    "route_address (sample_route 5) \<noteq> route_address (sample_route 6)"
    by code_simp+
  moreover have "Allowed (fst (AuthorizePinned (policy_after sample_compiled sample_calls) ProtocolHTTPS
      ''models.internal'' (IPv4 0x0A000005) 443 150))"
    by code_simp
  ultimately show ?thesis
    using gateways_confined_to_context [OF sample_decodes sample_assignment, of "''alpha''" _ "''models.internal''" "sample_route 5"
        "IPv4 0x0A000005" sample_calls ProtocolHTTPS 443]
      gateways_confined_to_context [OF sample_decodes sample_assignment, of "''beta''" _ "''models.internal''" "sample_route 6"
        "IPv4 0x0A000006" sample_calls ProtocolHTTPS 443 "''models.internal''" 150]
    by fastforce
qed

theorem pin_table_refines_book_witness:
  "policy_trace sample_compiled sample_calls = [True, True, False, True, False, True] \<and>
   policy_trace sample_compiled sample_calls = book_trace sample_compiled Map.empty sample_calls"
proof -
  have "sorted (map call_time sample_calls)" by code_simp
  moreover have "policy_trace sample_compiled sample_calls = [True, True, False, True, False, True]" by code_simp
  ultimately show ?thesis using pin_table_refines_book [OF sample_compiles] by blast
qed

theorem pin_table_invariant_witness:
  "map (key_family \<circ> fst) (pins (policy_after sample_compiled (take 3 sample_calls))) = [4, 0] \<and>
   pins_ok (policy_after sample_compiled (take 3 sample_calls))"
proof -
  have "map (key_family \<circ> fst) (pins (policy_after sample_compiled (take 3 sample_calls))) = [4, 0]" by code_simp
  then show ?thesis using pin_table_invariant [OF sample_compiles] by blast
qed

section \<open>An enforcer\<close>

definition sample_nft :: NFTSettings where
  "sample_nft = \<lparr>nftPath = ''/usr/sbin/nft'', dnsListen = ZeroAddr, dnsUpstream = ZeroAddr, render = None,
     deleteTable = None, nft_sha256 = (\<lambda>_. replicate 32 0)\<rparr>"

definition sample_network :: PolicyNetworkConfig where
  "sample_network = \<lparr>cfg_InstanceID = ''i1'', cfg_TapName = ''tap0'', cfg_GuestIP = ''172.16.0.2'',
     cfg_DNSAddress = IPv4 0xAC100001, cfg_Policy = Some 0, cfg_OnFailure = True\<rparr>"

definition sample_instance :: nftPolicyInstance where
  "sample_instance = \<lparr>inst_table = ''secondbox_i1'', inst_cfg = sample_network, inst_pins = [(1, [IPv4 0x5DB8D822])],
     inst_expiry = [(1, 130)], executionListeners = [], listenersFenced = False, inst_ctx = 0\<rparr>"

theorem firewall_admits_exactly_witness:
  "admits (script_rules (replacementScript sample_nft (Some (policy_after sample_compiled sample_calls)) sample_instance))
     ''tap0'' (IPFrame (IPv4 0xAC100002) (IPv4 0x5DB8D822) ''tcp'' 443) \<and>
   \<not> admits (script_rules (replacementScript sample_nft (Some (policy_after sample_compiled sample_calls)) sample_instance))
     ''tap0'' (IPFrame (IPv4 0xAC100003) (IPv4 0x5DB8D822) ''tcp'' 443)"
proof -
  have "\<forall>d \<in> set (PolicyDestinations sample_policy). wf_prefix (DestPrefix d)"
    "\<forall>a \<in> set (runnerAddresses sample_compiled) \<union> set (protectedAddresses sample_compiled). \<not> hasZone a"
    "IsValid (IPv4 0x5DB8D822)" "\<not> hasZone (IPv4 0x5DB8D822)" "\<not> Is4In6 (IPv4 0x5DB8D822)"
    "render sample_nft = None" "deleteTable sample_nft = None"
    by (code_simp | simp add: sample_nft_def)+
  note exact = firewall_admits_exactly [OF _ this(6,7) sample_compiles this(1-5) refl, of admits sample_calls sample_instance]
  have first: "first_match admits" by (simp add: first_match_def admits_def)
  have tap: "cfg_TapName (inst_cfg sample_instance) = ''tap0''" by code_simp
  have src: "\<not> (Is4 (IPv4 0xAC100003) \<longrightarrow> IPv4_String (IPv4 0xAC100003) = cfg_GuestIP (inst_cfg sample_instance))"
    "Is4 (IPv4 0xAC100002) \<longrightarrow> IPv4_String (IPv4 0xAC100002) = cfg_GuestIP (inst_cfg sample_instance)"
    "\<not> isProtected (policy_after sample_compiled sample_calls) (IPv4 0x5DB8D822) \<and>
      list_ex (\<lambda>(i, d). Domain d \<noteq> [] \<and> Port d = 443 \<and> IPv4 0x5DB8D822 \<in> set (pins_at (inst_pins sample_instance) i))
        (enumerate 0 (destinations (policy_after sample_compiled sample_calls)))"
    by code_simp+
  then show ?thesis
    using exact [OF first, of "IPv4 0xAC100003" 443] exact [OF first, of "IPv4 0xAC100002" 443]
    unfolding tap list_ex_iff by blast
qed

definition sample_start :: Enforcer where
  "sample_start = \<lparr>instances = [], policies = (\<lambda>_. sample_compiled), nft_results = [], proxy_results = [], loaded = [],
     cancelled = [], next_ctx = 0, enf_clock = 100, spawned = [], armed = [], reported = []\<rparr>"

definition sample_installed :: Enforcer where
  "sample_installed = snd (Install sample_nft sample_network sample_start)"

definition sample_observed :: Enforcer where
  "sample_observed = snd (ObserveDNSAnswer sample_nft False ''172.16.0.2'' ''example.com'' [IPv4 0x5DB8D822] 30 sample_installed)"

theorem pins_eventually_expire_witness:
  "map (map fst \<circ> inst_pins \<circ> snd) (instances sample_observed) = [[1]] \<and>
   (\<exists>s'. (expiry_step sample_nft)\<^sup>*\<^sup>* sample_observed s' \<and> map fst (instances s') = [''i1''] \<and> reported s' = [] \<and>
      (\<forall>inst. map_of (instances s') ''i1'' = Some inst \<longrightarrow> given_up s' inst \<or> inst_pins inst = []))"
proof -
  have start: "enforcer_start sample_start"
    using sample_compiles by (auto simp: enforcer_start_def sample_start_def compiled_policy_def)
  have "enforcer_step sample_nft sample_start sample_installed" "enforcer_step sample_nft sample_installed sample_observed"
    unfolding sample_installed_def sample_observed_def
    by (rule enforcer_step.install, rule surjective_pairing) (rule enforcer_step.observe, rule surjective_pairing)
  then have reach: "enforcer_reachable sample_nft sample_start sample_observed"
    by (blast intro: enforcer_reachable.intros)
  have seen: "nft_results sample_observed = []" "map (map fst \<circ> inst_pins \<circ> snd) (instances sample_observed) = [[1]]"
    "map fst (instances sample_observed) = [''i1'']" "reported sample_observed = []"
    by code_simp+
  from pins_eventually_expire [OF start reach seen(1)] obtain s' where
    "(expiry_step sample_nft)\<^sup>*\<^sup>* sample_observed s'" "map fst (instances s') = [''i1'']" "reported s' = []"
    "\<And>inst. map_of (instances s') ''i1'' = Some inst \<Longrightarrow> given_up s' inst \<or> inst_pins inst = []"
    unfolding seen(3,4) by (elim exE conjE) simp
  then show ?thesis by (intro conjI [OF seen(2)] exI [of _ s']) simp
qed

end
