(* ===== verification/Spec2Isabelle.thy ===== *)
theory Spec2Isabelle
  imports Intent_Witnesses Scheduler_Placement Framing Ext4_Safety Workspace_Transfer_Witnesses Network_Witnesses
begin

text \<open>
  SecondBox runs Sandboxes, each with a durable Workspace, on a fleet of Runners.
  The control plane keeps everything it has promised in PostgreSQL: a client
  records an intent, lifecycle workers claim Sandboxes that are due, decide one
  step and commit it, and the scheduler picks a Runner. A Runner keeps Workspaces
  as ext4 images in a store of its own, lets an Instance out to the network only
  as its policy says, and talks to clients over framed connections. This library
  models these parts and proves what each promises the others.

  \<^bold>\<open>Conventions.\<close> \<open>Prelude\<close> holds what all theories share: \<open>int64\<close> values as integers
  brought back into range by \<open>i64\<close>, instants and durations, Go's error values with
  wrapping (\<open>errors_Is\<close>, \<open>errors_As\<close>), a state-and-error type with its weakest
  precondition calculus (\<open>wp\<close>, collection \<open>wp_simps\<close>), and the locale \<open>kept_relation\<close>
  for relations that every step of a computation keeps. A Go map is a list of
  pairs, an enum of the database a string, a port or address a word. Every early
  return is a branch; the text of error messages is not kept. Recursion is
  structural or has a termination proof, so there is no fuel anywhere.

  \<^bold>\<open>Control plane: lifecycle\<close> (\<open>internal/lifecycle\<close>, \<open>internal/store\<close>).
  \<open>Contracts\<close> has the vocabulary of \<open>pkg/contracts\<close>. \<open>Lifecycle_Reconciler\<close> is the
  decision table of \<open>reconciler.go\<close> and the wake-up schedule of \<open>worker.go\<close>;
  \<open>Lifecycle_Worker\<close> the worker, with the effects it starts as a parameter and the
  locale \<open>reconcile_store\<close> for what it relies on in the store. \<open>Database\<close> has the
  tables as lists of records and transactions that roll back; \<open>Row_Locks\<close> is
  \<open>internal/store/rowlock\<close>, \<open>Lifecycle_Store\<close> is \<open>postgres_lifecycle.go\<close> with its
  projections and interprets \<open>reconcile_store\<close>. \<open>Lifecycle_System\<close> lets workers claim
  and commit in any order, between the intents of any clients. Shown: all row locks are taken in one order, so
  transactions cannot wait in a circle; a spent claim never commits again; claims
  of different workers exclude each other; a finished stop advances the
  generation of the Sandbox and its Workspace together and fences the old one; no
  reachable claim starts over a live Instance; waiting keeps every revision; a
  Sandbox is parked only at rest; and wake-ups come exactly when a decision can
  change.

  \<^bold>\<open>Control plane: intents and quotas.\<close> \<open>Quota_Limits\<close> is \<open>pkg/contracts/policy_limit.go\<close>
  and the admission predicates of \<open>postgres_store.go\<close>; ceilings are interpreted as
  a semilattice whose neutral element is the missing ceiling. \<open>Quota_Usage\<close> reads
  ledgers and counts usage, \<open>Lifecycle_Intents\<close> is \<open>SetSandboxDesiredState\<close>.
  \<open>Intent_Admission\<close> shows that an accepted start leaves the counted compute within
  both quotas, that the capacity report is exact, and that intents are idempotent.
  \<open>Intent_Witnesses\<close> also evaluates a run in which two failed Sandboxes are started
  beyond a quota, since an accepted start of a failed Sandbox is not counted.

  \<^bold>\<open>Control plane: placement.\<close> \<open>Scheduler_Placement\<close> is \<open>internal/scheduler/placement.go\<close>
  and \<open>internal/reconcile/policy.go\<close>: the chosen Runner is an eligible one with the
  best rank, whatever the order of the candidates (locale \<open>ranked_choice\<close>), its
  capacity suffices, and recovery ends.

  \<^bold>\<open>Wire formats.\<close> \<open>Framing\<close> is \<open>pkg/portdirect/framing.go\<close>, which the Runner repeats, and
  the helper codec \<open>microsandboxprotocol/codec.go\<close>, over readers and writers that
  may be short or fail. The locales \<open>frame_reader\<close> and \<open>framed_channel\<close> state what a
  framed message is; messages, credentials and verdicts interpret them.

  \<^bold>\<open>Runner: Workspaces\<close> (\<open>runner/internal/workspacestore\<close>). \<open>Workspace_FS\<close> is a file
  system whose every call may fail, as told by a list of faults, so that a crash is
  a run in which all calls fail from some point on. \<open>Workspace_Store\<close> has the paths,
  manifests, receipts and locks of \<open>store.go\<close>, \<open>Workspace_Operations\<close> its commands,
  and \<open>Workspace_Relocation\<close> is \<open>relocation.go\<close>. \<open>Workspace_Frame\<close>, \<open>Workspace_Atomic\<close>
  and \<open>Workspace_Safety\<close> hold the frame rules and the atomic replacement of
  documents. Shown in \<open>Workspace_System\<close> and \<open>Workspace_Fencing\<close>, for every pattern of
  faults: a command touches only its own paths, the current manifest always
  selects an image of its capacity, a command that succeeded is replayed and a
  conflicting one refused, stale generations and open attachments keep commands
  out, and a success has published its generation. \<open>Workspace_Transfer\<close> shows that
  the sparse chunks of an import assemble exactly the image that was sent, and
  that an open export has sealed its source. \<open>Ext4_Reclaim\<close> is \<open>ext4_free_blocks.go\<close>
  and \<open>reclaim.go\<close>; \<open>Ext4_Free_Ranges\<close> and \<open>Ext4_Safety\<close> show that its bitmap scan is the
  bit by bit one, that the ranges it finds are exactly the free blocks, and that
  punching them never changes a byte in use.

  \<^bold>\<open>Runner: network policy.\<close> \<open>Netip\<close> models the part of \<open>net/netip\<close> that is used.
  \<open>Network_Policy\<close> is \<open>runner/internal/networkpolicy\<close>, \<open>Network_Contexts\<close> the egress
  contexts of its configuration, \<open>Network_Enforcer\<close> is
  \<open>runner/internal/firecracker/network_policy.go\<close> with a meaning for the nftables
  rules it renders. Shown: the pin table refines a book of accepted answers that
  never deletes (\<open>Network_Pins\<close>), gateways are confined to their context
  (\<open>Network_Isolation\<close>), the rendered script admits exactly what the policy admits
  (\<open>Network_Firewall\<close>), and pins run out (\<open>Network_Expiry\<close>).

  \<^bold>\<open>Parameters.\<close> SHA-256, the ext4 formatter, \<open>tune2fs\<close>, \<open>e2fsck\<close>, reflink cloning, hole
  punching, running \<open>nft\<close>, the encoder of the helper protocol and the effects of a
  lifecycle decision are arguments; what is assumed of them is stated in each
  theorem that needs it. The meaning of nftables rules is the documented one for
  the few rule forms that are rendered. Names are ASCII.

  \<^bold>\<open>Not modelled.\<close> Advisory locks and isolation levels of PostgreSQL beyond the row
  locks (a transaction runs alone once it holds its rows), foreign keys and check
  constraints, the creation of Sandboxes and the management of Tenants, Profiles
  and Runners, the gRPC control channel and the data plane, the virtual machine
  backends, the guest agent, execution images, the DNS proxy's sockets, the macOS
  storage driver, the HTTP API, the SDKs, the installer and the generated protocol
  code: they are SQL over further tables, live streams, host devices or user
  interfaces, and the parts above see them only through the parameters.
\<close>

end
